(* ===== verification/Go_Prelude.thy ===== *)
theory Go_Prelude
  imports Main "HOL-Library.AList" "HOL-Library.Multiset" "HOL-Library.Word"
begin

text \<open>
  What every component of the model shares: Go errors and the three ways a Go call can end
  (a value, a non-nil error, a run-time panic), the state-passing form \<open>('s, 'a) go\<close> of a
  function with effects, \<open>defer\<close>, \<open>for\<close> loops over slices, Go maps as association lists,
  and the frame and post-condition rules by which the components reason about such functions.
\<close>

named_theorems go_simps \<open>evaluation of the state-passing combinators\<close>
named_theorems keeps_intros \<open>rules that a function keeps a state predicate\<close>
named_theorems go_strings \<open>evaluation of the string functions\<close>

section \<open>Errors\<close>

text \<open>
  The sentinel errors of \<open>pkg/util/err.go\<close> and \<open>pkg/driver/mgo/const.go\<close>; API errors with the
  reason the API server gives; \<open>errors.New\<close> and \<open>fmt.Errorf\<close> texts; and \<open>errors.Wrap\<close>, whose
  cause stays reachable for \<open>errors.Is\<close> and \<open>IsNotFound\<close>.
\<close>

datatype sentinel =
    ErrWaitRequeue | ErrRsInitFailed | ErrRsStatusNotOk | ErrObjSync
  | ErrCmdNotOk | ErrAlreadyExists

datatype api_reason = RNotFound | RAlreadyExists | RConflict | RBadRequest | ROther

datatype gerror =
    Sentinel sentinel
  | ApiError api_reason string
  | NewErr string
  | Wrap gerror string

fun sentinel_text :: "sentinel \<Rightarrow> string" where
  "sentinel_text ErrWaitRequeue = ''wait requeue''"
| "sentinel_text ErrRsInitFailed = ''init_failed''"
| "sentinel_text ErrRsStatusNotOk = ''replSet status not ok''"
| "sentinel_text ErrObjSync = ''sync k8s obj error''"
| "sentinel_text ErrCmdNotOk = ''command exec not ok''"
| "sentinel_text ErrAlreadyExists = ''already exists''"

primrec err_text :: "gerror \<Rightarrow> string" where
  "err_text (Sentinel s) = sentinel_text s"
| "err_text (ApiError r t) = t"
| "err_text (NewErr t) = t"
| "err_text (Wrap e t) = t @ '': '' @ err_text e"

primrec err_root :: "gerror \<Rightarrow> gerror" where
  "err_root (Sentinel s) = Sentinel s"
| "err_root (ApiError r t) = ApiError r t"
| "err_root (NewErr t) = NewErr t"
| "err_root (Wrap e t) = err_root e"

definition is_not_found :: "gerror \<Rightarrow> bool" where
  "is_not_found e \<longleftrightarrow> (case err_root e of ApiError RNotFound _ \<Rightarrow> True | _ \<Rightarrow> False)"

definition err_is :: "gerror \<Rightarrow> sentinel \<Rightarrow> bool" where
  "err_is e s \<longleftrightarrow> err_root e = Sentinel s"

lemma is_not_found_simps [simp]:
  "is_not_found (ApiError r t) \<longleftrightarrow> r = RNotFound"
  "\<not> is_not_found (Sentinel s)"
  "\<not> is_not_found (NewErr t)"
  "is_not_found (Wrap e t) \<longleftrightarrow> is_not_found e"
  by (auto simp: is_not_found_def split: api_reason.splits)

lemma err_is_simps [simp]:
  "err_is (Sentinel a) s \<longleftrightarrow> a = s"
  "\<not> err_is (ApiError r t) s"
  "\<not> err_is (NewErr t) s"
  "err_is (Wrap e t) s \<longleftrightarrow> err_is e s"
  by (auto simp: err_is_def)

section \<open>Outcomes and state passing\<close>

datatype 'a outcome = Ok 'a | Err gerror | Panic string

type_synonym ('s, 'a) go = "'s \<Rightarrow> 'a outcome \<times> 's"

definition ret :: "'a \<Rightarrow> ('s, 'a) go" where
  "ret x = (\<lambda>s. (Ok x, s))"

definition fail :: "gerror \<Rightarrow> ('s, 'a) go" where
  "fail e = (\<lambda>s. (Err e, s))"

definition panic :: "string \<Rightarrow> ('s, 'a) go" where
  "panic p = (\<lambda>s. (Panic p, s))"

definition bindg :: "('s, 'a) go \<Rightarrow> ('a \<Rightarrow> ('s, 'b) go) \<Rightarrow> ('s, 'b) go" where
  "bindg m f = (\<lambda>s. case m s of
     (Ok a, t) \<Rightarrow> f a t
   | (Err e, t) \<Rightarrow> (Err e, t)
   | (Panic p, t) \<Rightarrow> (Panic p, t))"

abbreviation andthen :: "('s, 'a) go \<Rightarrow> ('s, 'b) go \<Rightarrow> ('s, 'b) go" where
  "andthen m k \<equiv> bindg m (\<lambda>_. k)"

text \<open>\<open>x, err := m()\<close> where the caller inspects \<open>err\<close> itself; a panic is not caught.\<close>

definition attempt :: "('s, 'a) go \<Rightarrow> ('s, gerror + 'a) go" where
  "attempt m = (\<lambda>s. case m s of
     (Ok a, t) \<Rightarrow> (Ok (Inr a), t)
   | (Err e, t) \<Rightarrow> (Ok (Inl e), t)
   | (Panic p, t) \<Rightarrow> (Panic p, t))"

text \<open>\<open>defer d()\<close> around \<open>m\<close>: \<open>d\<close> runs however \<open>m\<close> ended, and the result is that of \<open>m\<close>
  unless \<open>d\<close> panics. The deferred closure of this program returns nothing.\<close>

definition with_defer :: "('s, unit) go \<Rightarrow> ('s, 'a) go \<Rightarrow> ('s, 'a) go" where
  "with_defer d m = (\<lambda>s. case m s of (r, t) \<Rightarrow>
     (case d t of (Panic p, u) \<Rightarrow> (Panic p, u) | (_, u) \<Rightarrow> (r, u)))"

definition gets :: "('s \<Rightarrow> 'a) \<Rightarrow> ('s, 'a) go" where
  "gets f = (\<lambda>s. (Ok (f s), s))"

definition modify :: "('s \<Rightarrow> 's) \<Rightarrow> ('s, unit) go" where
  "modify f = (\<lambda>s. (Ok (), f s))"

definition lift_outcome :: "'a outcome \<Rightarrow> ('s, 'a) go" where
  "lift_outcome r = (\<lambda>s. (r, s))"

text \<open>A function over one component of a larger state (\<open>params.Cli\<close> inside \<open>params\<close>).\<close>

definition zoom :: "('s \<Rightarrow> 'w) \<Rightarrow> ('w \<Rightarrow> 's \<Rightarrow> 's) \<Rightarrow> ('w, 'a) go \<Rightarrow> ('s, 'a) go" where
  "zoom get put m = (\<lambda>s. case m (get s) of (r, w) \<Rightarrow> (r, put w s))"

primrec for_each :: "'a list \<Rightarrow> ('a \<Rightarrow> ('s, unit) go) \<Rightarrow> ('s, unit) go" where
  "for_each [] f = ret ()"
| "for_each (x # xs) f = andthen (f x) (for_each xs f)"

lemma bindg_eqs [go_simps]:
  "m s = (Ok a, t) \<Longrightarrow> bindg m f s = f a t"
  "m s = (Err e, t) \<Longrightarrow> bindg m f s = (Err e, t)"
  "m s = (Panic p, t) \<Longrightarrow> bindg m f s = (Panic p, t)"
  by (simp_all add: bindg_def)

lemma attempt_eqs [go_simps]:
  "m s = (Ok a, t) \<Longrightarrow> attempt m s = (Ok (Inr a), t)"
  "m s = (Err e, t) \<Longrightarrow> attempt m s = (Ok (Inl e), t)"
  "m s = (Panic p, t) \<Longrightarrow> attempt m s = (Panic p, t)"
  by (simp_all add: attempt_def)

lemma basic_eqs [go_simps]:
  "ret x s = (Ok x, s)" "fail e s = (Err e, s)" "panic p s = (Panic p, s)"
  "gets f s = (Ok (f s), s)" "modify g s = (Ok (), g s)" "lift_outcome r s = (r, s)"
  by (simp_all add: ret_def fail_def panic_def gets_def modify_def lift_outcome_def)

lemma bindg_ret [simp]: "bindg (ret x) f = f x" "bindg (fail e) f = fail e"
  by (simp_all add: bindg_def ret_def fail_def)

lemma bindg_Ok_iff:
  "bindg m f s = (Ok b, u) \<longleftrightarrow> (\<exists>a t. m s = (Ok a, t) \<and> f a t = (Ok b, u))"
  by (auto simp: bindg_def split: prod.splits outcome.splits)

lemma attempt_iff:
  "attempt m s = (Ok (Inr a), t) \<longleftrightarrow> m s = (Ok a, t)"
  "attempt m s = (Ok (Inl e), t) \<longleftrightarrow> m s = (Err e, t)"
  "attempt m s = (Panic p, t) \<longleftrightarrow> m s = (Panic p, t)"
  "attempt m s \<noteq> (Err e, t)"
  by (auto simp: attempt_def split: prod.splits outcome.splits)

lemma for_each_append: "for_each (xs @ ys) f = andthen (for_each xs f) (for_each ys f)"
  by (induction xs) (auto simp: bindg_def ret_def fun_eq_iff split: prod.splits outcome.splits)

section \<open>Frame and post-condition rules\<close>

text \<open>\<open>keeps I m\<close>: however \<open>m\<close> ends, \<open>I\<close> holds after it if it held before.\<close>

definition keeps :: "('s \<Rightarrow> bool) \<Rightarrow> ('s, 'a) go \<Rightarrow> bool" where
  "keeps I m \<longleftrightarrow> (\<forall>s. I s \<longrightarrow> I (snd (m s)))"

text \<open>\<open>ensures P m Q\<close>: where \<open>P\<close> held and \<open>m\<close> returned a nil error, \<open>Q\<close> holds of the value
  and the state after it.\<close>

definition ensures :: "('s \<Rightarrow> bool) \<Rightarrow> ('s, 'a) go \<Rightarrow> ('a \<Rightarrow> 's \<Rightarrow> bool) \<Rightarrow> bool" where
  "ensures P m Q \<longleftrightarrow> (\<forall>s a t. P s \<longrightarrow> m s = (Ok a, t) \<longrightarrow> Q a t)"

lemma keepsI: "(\<And>s r t. I s \<Longrightarrow> m s = (r, t) \<Longrightarrow> I t) \<Longrightarrow> keeps I m"
  unfolding keeps_def by (metis prod.collapse)

lemma keepsD: "keeps I m \<Longrightarrow> I s \<Longrightarrow> m s = (r, t) \<Longrightarrow> I t"
  by (metis keeps_def snd_conv)

lemma keeps_basic [keeps_intros, intro!]:
  "keeps I (ret x)" "keeps I (fail e)" "keeps I (panic p)" "keeps I (gets f)"
  "keeps I (lift_outcome r)"
  by (simp_all add: keeps_def go_simps)

lemma keeps_bind [keeps_intros]:
  assumes "keeps I m" and "\<And>a. keeps I (f a)"
  shows "keeps I (bindg m f)"
proof (rule keepsI)
  fix s r t assume I: "I s" and run: "bindg m f s = (r, t)"
  obtain q u where q: "m s = (q, u)" by fastforce
  with assms(1) I have "I u" by (blast dest: keepsD)
  with q run assms(2) show "I t"
    by (cases q) (auto simp: bindg_def dest: keepsD)
qed

lemma keeps_attempt [keeps_intros]: "keeps I m \<Longrightarrow> keeps I (attempt m)"
  by (rule keepsI) (auto simp: attempt_def dest: keepsD split: prod.splits outcome.splits)

lemma keeps_defer [keeps_intros]: "keeps I d \<Longrightarrow> keeps I m \<Longrightarrow> keeps I (with_defer d m)"
  by (rule keepsI)
    (auto simp: with_defer_def dest: keepsD split: prod.splits outcome.splits)

lemma keeps_for_each [keeps_intros]:
  "(\<And>x. x \<in> set xs \<Longrightarrow> keeps I (f x)) \<Longrightarrow> keeps I (for_each xs f)"
  by (induction xs) (auto intro!: keeps_bind)

lemma keeps_if [keeps_intros]:
  "(b \<Longrightarrow> keeps I m) \<Longrightarrow> (\<not> b \<Longrightarrow> keeps I n) \<Longrightarrow> keeps I (if b then m else n)"
  by simp

lemma keeps_case_option [keeps_intros]:
  "(x = None \<Longrightarrow> keeps I m) \<Longrightarrow> (\<And>y. x = Some y \<Longrightarrow> keeps I (n y)) \<Longrightarrow>
   keeps I (case x of None \<Rightarrow> m | Some y \<Rightarrow> n y)"
  by (cases x) auto

lemma keeps_case_sum [keeps_intros]:
  "(\<And>a. x = Inl a \<Longrightarrow> keeps I (m a)) \<Longrightarrow> (\<And>b. x = Inr b \<Longrightarrow> keeps I (n b)) \<Longrightarrow>
   keeps I (case x of Inl a \<Rightarrow> m a | Inr b \<Rightarrow> n b)"
  by (cases x) auto

lemma keeps_modify: "(\<And>s. I s \<Longrightarrow> I (g s)) \<Longrightarrow> keeps I (modify g)"
  by (simp add: keeps_def modify_def)

lemma keeps_zoom:
  "(\<And>s r w. I s \<Longrightarrow> m (get s) = (r, w) \<Longrightarrow> I (put w s)) \<Longrightarrow> keeps I (zoom get put m)"
  by (rule keepsI) (auto simp: zoom_def split: prod.splits)

lemma ensuresI: "(\<And>s a t. P s \<Longrightarrow> m s = (Ok a, t) \<Longrightarrow> Q a t) \<Longrightarrow> ensures P m Q"
  by (simp add: ensures_def)

lemma ensuresD: "ensures P m Q \<Longrightarrow> P s \<Longrightarrow> m s = (Ok a, t) \<Longrightarrow> Q a t"
  by (simp add: ensures_def)

lemma ensures_bind:
  assumes "ensures P m Q" and "\<And>a. ensures (Q a) (f a) R"
  shows "ensures P (bindg m f) R"
  using assms unfolding ensures_def bindg_Ok_iff by blast

lemma ensures_for_each:
  assumes "\<And>ys x zs. xs = ys @ x # zs \<Longrightarrow> ensures (J ys) (f x) (\<lambda>_. J (ys @ [x]))"
  shows "ensures (J []) (for_each xs f) (\<lambda>_. J xs)"
proof -
  have "ensures (J ys) (for_each zs f) (\<lambda>_. J xs)" if "xs = ys @ zs" for ys zs
    using that
  proof (induction zs arbitrary: ys)
    case Nil
    then show ?case by (simp add: ensures_def go_simps)
  next
    case (Cons x zs)
    have "ensures (J ys) (f x) (\<lambda>_. J (ys @ [x]))" using assms Cons.prems by simp
    moreover have "ensures (J (ys @ [x])) (for_each zs f) (\<lambda>_. J xs)"
      using Cons.IH[of "ys @ [x]"] Cons.prems by simp
    ultimately show ?case by (auto intro: ensures_bind)
  qed
  from this[of "[]" xs] show ?thesis by simp
qed

section \<open>Go maps\<close>

text \<open>
  A Go map is an association list with distinct keys, updated by \<open>AList.update\<close>; its list order
  carries no meaning. Where the program ranges over a map, the order the run-time system picks is
  an argument of the definition (a function that permutes the entries).
\<close>

type_synonym ('k, 'v) gomap = "('k \<times> 'v) list"

definition gm_get :: "'v \<Rightarrow> ('k, 'v) gomap \<Rightarrow> 'k \<Rightarrow> 'v" where
  "gm_get zero m k = (case map_of m k of None \<Rightarrow> zero | Some v \<Rightarrow> v)"

definition gm_has :: "('k, 'v) gomap \<Rightarrow> 'k \<Rightarrow> bool" where
  "gm_has m k \<longleftrightarrow> map_of m k \<noteq> None"

definition wf_gomap :: "('k, 'v) gomap \<Rightarrow> bool" where
  "wf_gomap m \<longleftrightarrow> distinct (map fst m)"

lemma wf_gomap_simps [simp]:
  "wf_gomap []" "wf_gomap m \<Longrightarrow> wf_gomap (AList.update k v m)"
  by (simp_all add: wf_gomap_def distinct_update)

lemma gm_get_update [simp]:
  "gm_get z (AList.update k v m) j = (if j = k then v else gm_get z m j)"
  by (simp add: gm_get_def update_conv')

lemma gm_has_update [simp]: "gm_has (AList.update k v m) j \<longleftrightarrow> j = k \<or> gm_has m j"
  by (simp add: gm_has_def update_conv')

lemma gm_empty [simp]: "gm_get z [] k = z" "\<not> gm_has [] k"
  by (simp_all add: gm_get_def gm_has_def)

lemma gm_has_iff: "gm_has m k \<longleftrightarrow> k \<in> fst ` set m"
  by (simp add: gm_has_def map_of_eq_None_iff)

text \<open>An order of iteration is any permutation of the entries.\<close>

definition iteration_order :: "('a list \<Rightarrow> 'a list) \<Rightarrow> bool" where
  "iteration_order p \<longleftrightarrow> (\<forall>xs. mset (p xs) = mset xs)"

lemma iteration_order_set: "iteration_order p \<Longrightarrow> set (p xs) = set xs"
  by (metis iteration_order_def set_mset_mset)

lemma iteration_order_length: "iteration_order p \<Longrightarrow> length (p xs) = length xs"
  by (metis iteration_order_def size_mset)

lemma iteration_order_distinct: "iteration_order p \<Longrightarrow> distinct (p xs) = distinct xs"
  by (metis iteration_order_def mset_eq_imp_distinct_iff)

lemma iteration_order_id [simp]: "iteration_order (\<lambda>xs. xs)" "iteration_order rev"
  by (simp_all add: iteration_order_def)

section \<open>Fixed-width arithmetic\<close>

text \<open>Go's \<open>int\<close> is 64 bits wide here: addition wraps around.\<close>

definition add64 :: "int \<Rightarrow> int \<Rightarrow> int" where
  "add64 a b = signed_take_bit 63 (a + b)"

definition in_int64 :: "int \<Rightarrow> bool" where
  "in_int64 x \<longleftrightarrow> - (2 ^ 63) \<le> x \<and> x < 2 ^ 63"

lemma add64_exact: "in_int64 (a + b) \<Longrightarrow> add64 a b = a + b"
  by (simp add: add64_def in_int64_def signed_take_bit_int_eq_self)

lemma add64_range: "in_int64 (add64 a b)"
  using signed_take_bit_int_less_exp[of 63 "a + b"]
    signed_take_bit_int_greater_eq_minus_exp[of 63 "a + b"]
  by (simp add: add64_def in_int64_def)

end
