(* ===== verification/Go_Strings.thy ===== *)
theory Go_Strings
  imports Go_Prelude "HOL-Library.Sublist"
begin

text \<open>
  The parts of Go's \<open>strings\<close>, \<open>strconv\<close> and \<open>net\<close> packages that the program uses, on byte
  strings: \<open>Split\<close> (for a non-empty separator), \<open>Join\<close>, \<open>TrimSuffix\<close>, \<open>HasSuffix\<close>,
  \<open>Contains\<close>, \<open>Itoa\<close>, \<open>Atoi\<close>, \<open>JoinHostPort\<close>; with the laws that relate them (splitting a
  join, parsing a printed number).
\<close>

section \<open>Splitting and joining\<close>

fun go_split :: "string \<Rightarrow> string \<Rightarrow> string list" where
  "go_split sep [] = [[]]"
| "go_split sep (c # cs) =
     (if prefix sep (c # cs) then [] # go_split sep (drop (length sep - 1) cs)
      else (case go_split sep cs of [] \<Rightarrow> [[c]] | p # ps \<Rightarrow> (c # p) # ps))"

fun go_join :: "string \<Rightarrow> string list \<Rightarrow> string" where
  "go_join sep [] = []"
| "go_join sep [x] = x"
| "go_join sep (x # y # xs) = x @ sep @ go_join sep (y # xs)"

definition has_suffix :: "string \<Rightarrow> string \<Rightarrow> bool" where
  "has_suffix s suf \<longleftrightarrow> length suf \<le> length s \<and> drop (length s - length suf) s = suf"

definition trim_suffix :: "string \<Rightarrow> string \<Rightarrow> string" where
  "trim_suffix s suf = (if has_suffix s suf then take (length s - length suf) s else s)"

fun go_contains :: "string \<Rightarrow> string \<Rightarrow> bool" where
  "go_contains [] sub = (sub = [])"
| "go_contains (c # cs) sub = (prefix sub (c # cs) \<or> go_contains cs sub)"

lemma go_split_not_Nil [simp]: "go_split sep s \<noteq> []"
  by (cases s) (auto split: list.splits)

lemma go_split_absent: "\<not> go_contains s sep \<Longrightarrow> go_split sep s = [s]"
  by (induction s) auto

lemma go_contains_append: "go_contains (xs @ sub @ ys) sub"
proof (induction xs)
  case Nil
  then show ?case by (cases sub) (cases ys; auto)+
qed simp

lemma go_contains_Nil [simp]: "go_contains s []"
  by (cases s) auto

lemma go_contains_iff: "go_contains s sub \<longleftrightarrow> (\<exists>xs ys. s = xs @ sub @ ys)"
proof
  show "go_contains s sub \<Longrightarrow> \<exists>xs ys. s = xs @ sub @ ys"
  proof (induction s)
    case (Cons c cs)
    then consider "prefix sub (c # cs)" | "\<exists>xs ys. cs = xs @ sub @ ys" by auto
    then show ?case
    proof cases
      case 1
      then obtain zs where "c # cs = [] @ sub @ zs" by (auto elim: prefixE)
      then show ?thesis by blast
    next
      case 2
      then obtain xs ys where "c # cs = (c # xs) @ sub @ ys" by auto
      then show ?thesis by blast
    qed
  qed simp
qed (auto simp: go_contains_append)

lemma go_contains_char: "go_contains s [c] \<longleftrightarrow> c \<in> set s"
  by (induction s) auto

lemma go_split_char_absent: "c \<notin> set s \<Longrightarrow> go_split [c] s = [s]"
  by (simp add: go_split_absent go_contains_char)

lemma go_split_char_step: "c \<notin> set x \<Longrightarrow> go_split [c] (x @ c # s) = x # go_split [c] s"
  by (induction x) auto

text \<open>Splitting undoes joining where the separator occurs in no part.\<close>

lemma go_split_join:
  "xs \<noteq> [] \<Longrightarrow> \<forall>x \<in> set xs. c \<notin> set x \<Longrightarrow> go_split [c] (go_join [c] xs) = xs"
  by (induction "[c]" xs rule: go_join.induct)
     (auto simp: go_split_char_absent go_split_char_step)

lemma go_split_prefix:
  "sep \<noteq> [] \<Longrightarrow> go_split sep (sep @ s) = [] # go_split sep s"
  by (cases sep) auto

lemma trim_suffix_append [simp]: "trim_suffix (s @ t) t = s"
  by (simp add: trim_suffix_def has_suffix_def)

lemma trim_suffix_no: "\<not> has_suffix s t \<Longrightarrow> trim_suffix s t = s"
  by (simp add: trim_suffix_def)

lemma has_suffix_iff: "has_suffix s t \<longleftrightarrow> (\<exists>u. s = u @ t)"
  by (auto simp: has_suffix_def) (metis append_take_drop_id)

section \<open>Decimal numbers\<close>

definition decimals :: string where "decimals = ''0123456789''"

definition digit_char :: "nat \<Rightarrow> char" where
  "digit_char d = decimals ! d"

text \<open>The position of a digit among the decimals.\<close>

definition digit_val :: "char \<Rightarrow> nat option" where
  "digit_val c = (let i = length (takeWhile (\<lambda>d. d \<noteq> c) decimals)
     in if i < length decimals then Some i else None)"

fun nat_digits :: "nat \<Rightarrow> string" where
  "nat_digits n = (if n < 10 then [digit_char n]
     else nat_digits (n div 10) @ [digit_char (n mod 10)])"

declare nat_digits.simps [simp del]

definition itoa :: "int \<Rightarrow> string" where
  "itoa i = (if i < 0 then CHR ''-'' # nat_digits (nat (- i)) else nat_digits (nat i))"

text \<open>For evaluation the digits are taken from the integer; the natural number of it would be unary.\<close>

function int_digits :: "int \<Rightarrow> string" where
  "int_digits i = (if i < 10 then [digit_char (nat i)] else int_digits (i div 10) @ [digit_char (nat (i mod 10))])"
  by auto
termination by (relation "measure nat") auto

declare int_digits.simps [simp del]

lemma int_digits_eq: "0 \<le> i \<Longrightarrow> int_digits i = nat_digits (nat i)"
proof (induction i rule: int_digits.induct)
  case (1 i)
  show ?case
  proof (cases "i < 10")
    case True
    with 1 show ?thesis by (subst int_digits.simps, subst nat_digits.simps) simp
  next
    case False
    with 1 show ?thesis
      by (subst int_digits.simps, subst nat_digits.simps) (simp add: nat_div_distrib nat_mod_distrib)
  qed
qed

lemma itoa_code [code]: "itoa i = (if i < 0 then CHR ''-'' # int_digits (- i) else int_digits i)"
  by (simp add: itoa_def int_digits_eq)

fun digits_val :: "nat \<Rightarrow> string \<Rightarrow> nat option" where
  "digits_val acc [] = Some acc"
| "digits_val acc (c # cs) =
     (case digit_val c of None \<Rightarrow> None | Some d \<Rightarrow> digits_val (10 * acc + d) cs)"

definition atoi_error :: gerror where
  "atoi_error = NewErr ''strconv.Atoi: invalid syntax or value out of range''"

definition unsigned_val :: "string \<Rightarrow> gerror + int" where
  "unsigned_val s = (if s = [] then Inl atoi_error else
     (case digits_val 0 s of None \<Rightarrow> Inl atoi_error | Some n \<Rightarrow> Inr (int n)))"

definition atoi :: "string \<Rightarrow> gerror + int" where
  "atoi s =
     (let r = (case s of
                 [] \<Rightarrow> Inl atoi_error
               | c # cs \<Rightarrow>
                   (if c = CHR ''-'' then map_sum id uminus (unsigned_val cs)
                    else if c = CHR ''+'' then unsigned_val cs
                    else unsigned_val s))
      in (case r of Inl e \<Rightarrow> Inl e | Inr i \<Rightarrow> if in_int64 i then Inr i else Inl atoi_error))"

definition join_host_port :: "string \<Rightarrow> string \<Rightarrow> string" where
  "join_host_port host port =
     (if CHR '':'' \<in> set host then ''['' @ host @ '']:'' @ port else host @ '':'' @ port)"

lemma digit_table:
  "list_all (\<lambda>d. digit_val (digit_char d) = Some d \<and> digit_char d \<in> set ''0123456789'') [0..<10]"
  by code_simp

lemma digit_val_char: "d < 10 \<Longrightarrow> digit_val (digit_char d) = Some d"
  using digit_table by (simp add: list_all_iff)

lemma digit_char_plain: "d < 10 \<Longrightarrow> digit_char d \<in> set ''0123456789''"
  using digit_table unfolding list_all_iff by simp

lemma digits_val_append:
  "digits_val acc (xs @ ys) = (case digits_val acc xs of None \<Rightarrow> None | Some n \<Rightarrow> digits_val n ys)"
  by (induction xs arbitrary: acc) (auto split: option.splits)

lemma digits_val_nat_digits: "digits_val 0 (nat_digits n) = Some n"
proof (induction n rule: nat_digits.induct)
  case (1 n)
  show ?case
  proof (cases "n < 10")
    case True
    then show ?thesis by (subst nat_digits.simps) (simp add: digit_val_char)
  next
    case False
    with 1 show ?thesis
      by (subst nat_digits.simps) (simp add: digits_val_append digit_val_char)
  qed
qed

lemma nat_digits_inject [simp]: "nat_digits m = nat_digits n \<longleftrightarrow> m = n"
  by (metis digits_val_nat_digits option.inject)

lemma nat_digits_not_Nil [simp]: "nat_digits n \<noteq> []"
  by (subst nat_digits.simps) simp

lemma nat_digits_plain: "set (nat_digits n) \<subseteq> set ''0123456789''"
proof (induction n rule: nat_digits.induct)
  case (1 n)
  then show ?case
    by (subst nat_digits.simps)
      (use digit_char_plain[of n] digit_char_plain[of "n mod 10"] in auto)
qed

lemma unsigned_val_nat_digits: "unsigned_val (nat_digits n) = Inr (int n)"
  by (simp add: unsigned_val_def digits_val_nat_digits)

lemma atoi_nat_digits:
  assumes "in_int64 (int n)"
  shows "atoi (nat_digits n) = Inr (int n)"
proof -
  obtain c cs where c: "nat_digits n = c # cs" by (cases "nat_digits n") auto
  then have "c \<in> set ''0123456789''" using nat_digits_plain[of n] by auto
  then have "c \<noteq> CHR ''-''" "c \<noteq> CHR ''+''" by auto
  then have "atoi (c # cs) = (case unsigned_val (c # cs) of Inl e \<Rightarrow> Inl e
      | Inr i \<Rightarrow> if in_int64 i then Inr i else Inl atoi_error)"
    by (simp add: atoi_def)
  with c assms show ?thesis using unsigned_val_nat_digits[of n] by simp
qed

text \<open>Parsing a printed \<open>int\<close> gives it back.\<close>

lemma atoi_minus:
  "atoi (CHR ''-'' # cs) = (case map_sum id uminus (unsigned_val cs) of Inl e \<Rightarrow> Inl e
     | Inr i \<Rightarrow> if in_int64 i then Inr i else Inl atoi_error)"
  by (simp add: atoi_def)

lemma atoi_itoa: "in_int64 i \<Longrightarrow> atoi (itoa i) = Inr i"
proof (cases "i < 0")
  case True
  then obtain n where n: "i = - int n" "0 < n" by (metis neg_0_less_iff_less of_nat_0_less_iff zero_less_imp_eq_int add.inverse_inverse)
  assume "in_int64 i"
  with n show ?thesis by (simp add: itoa_def atoi_minus unsigned_val_nat_digits)
next
  case False
  assume "in_int64 i"
  with False show ?thesis using atoi_nat_digits[of "nat i"] by (simp add: itoa_def)
qed

lemma itoa_nat: "itoa (int n) = nat_digits n"
  by (simp add: itoa_def)

lemma itoa_plain: "0 \<le> i \<Longrightarrow> set (itoa i) \<subseteq> set ''0123456789''"
  using nat_digits_plain by (simp add: itoa_def)

lemma itoa_chars: "c \<in> set (itoa i) \<Longrightarrow> c = CHR ''-'' \<or> c \<in> set ''0123456789''"
  using subsetD[OF nat_digits_plain[of "nat i"], of c]
    subsetD[OF nat_digits_plain[of "nat (- i)"], of c]
  by (simp only: itoa_def split: if_splits) (auto simp only: list.set insert_iff)

lemma itoa_free [simp]:
  "CHR '':'' \<notin> set (itoa i)" "CHR ''\<newline>'' \<notin> set (itoa i)" "CHR ''h'' \<notin> set (itoa i)"
  "CHR '','' \<notin> set (itoa i)" "CHR 0x27 \<notin> set (itoa i)" "CHR ''%'' \<notin> set (itoa i)"
  by (auto dest: itoa_chars)

text \<open>A formatted name \<open>fmt.Sprintf("%s-%d", s, n)\<close>.\<close>

definition sprintf_sd :: "string \<Rightarrow> int \<Rightarrow> string" where
  "sprintf_sd s n = s @ ''-'' @ itoa n"

lemma sprintf_sd_inject [simp]:
  "sprintf_sd s (int m) = sprintf_sd s (int n) \<longleftrightarrow> m = n"
  by (simp add: sprintf_sd_def itoa_nat)

end
