(* ===== verification/Api_Types.thy ===== *)
theory Api_Types
  imports Go_Strings
begin

text \<open>
  The data of the program: the custom resources of \<open>api/v1alpha1\<close> (MultiCloudMongoDB on the
  control plane, MongoDB on the member clusters), the scheduler result of \<open>pkg/model\<close>, the
  replica-set documents of \<open>pkg/driver/mgo/model.go\<close>, and, of the Kubernetes and Karmada
  objects, the fields the program reads or writes. A Go pointer is an \<open>option\<close>, an \<open>int32\<close> is a
  \<open>32 word\<close> read with \<open>sint\<close>, an \<open>int\<close> is an \<open>int\<close>. String types with a block of constants
  are datatypes with one constructor per constant and one for any other text. A library value the
  program only copies is an opaque text.
\<close>

section \<open>Metadata and resources\<close>

type_synonym labels = "(string, string) gomap"
type_synonym opaque = string
type_synonym quantity = int \<comment> \<open>a resource quantity, in thousandths of its unit\<close>

record object_meta =
  om_name :: string
  om_namespace :: string
  om_labels :: labels
  om_annotations :: labels
  om_finalizers :: "string list"
  om_deleting :: bool \<comment> \<open>DeletionTimestamp is set\<close>
  om_rv :: string \<comment> \<open>ResourceVersion\<close>
  om_owners :: "string list" \<comment> \<open>names in OwnerReferences\<close>

definition meta_of :: "string \<Rightarrow> string \<Rightarrow> labels \<Rightarrow> object_meta" where
  "meta_of name namespace labels =
     \<lparr>om_name = name, om_namespace = namespace, om_labels = labels, om_annotations = [],
      om_finalizers = [], om_deleting = False, om_rv = '''', om_owners = []\<rparr>"

record resource_setting =
  rs_limits :: "(string, quantity) gomap"
  rs_requests :: "(string, quantity) gomap"

definition no_resources :: resource_setting where
  "no_resources = \<lparr>rs_limits = [], rs_requests = []\<rparr>"

section \<open>MultiCloudMongoDB\<close>

datatype health_state = Health | SubHealth | UnHealth | UnKnown | OtherHealth string

datatype mongo_state =
  StateRunning | StatePause | StateReconciling | StateError | StateUnKnown | OtherState string

datatype condition_type =
    ServerInitialized | ServerScheduledResult | ServerWaitingScaleDown | ServerCheck
  | ServerSubHealthy | ServerUnHealthy | ServerReady | OtherCondition string

datatype condition_status = CTrue | CFalse | CUnknown | OtherStatus string

type_synonym time = int \<comment> \<open>0 is the zero \<open>metav1.Time\<close>\<close>

record server_condition =
  sc_type :: condition_type
  sc_status :: condition_status
  sc_transition :: time
  sc_reason :: string
  sc_message :: string

record auth_setting = au_root_passwd :: "string option"
record member_setting = ms_config_ref :: "string option"

record export_setting =
  ex_resource :: resource_setting
  ex_enable :: bool

text \<open>Karmada's \<open>SpreadConstraint\<close>, copied into the propagation policy.\<close>

record karmada_spread =
  ks_field :: string
  ks_label :: string
  ks_max_groups :: int
  ks_min_groups :: int

record spread_setting =
  sp_node_select :: "labels option"
  sp_topology_spread :: labels
  sp_constraints :: "karmada_spread list option"
  sp_allow_dynamic :: bool

record scheduler_setting =
  sch_name :: "string option"
  sch_mode :: "string option"
  sch_affinity :: "opaque option"
  sch_tolerations :: "opaque list"

record image_setting =
  im_image :: string
  im_pull_policy :: string
  im_user :: string
  im_passwd :: string

record storage_setting =
  sg_class :: string
  sg_size :: string

record config_setting =
  cf_set :: "labels option"
  cf_ref :: "string option"
  cf_arbiter :: bool

record mc_spec =
  mcs_resource :: resource_setting
  mcs_replicaset :: "32 word option"
  mcs_auth :: auth_setting
  mcs_member :: member_setting
  mcs_image :: image_setting
  mcs_storage :: storage_setting
  mcs_export :: export_setting
  mcs_config :: config_setting
  mcs_scheduler :: scheduler_setting
  mcs_spread :: spread_setting

record service_topology =
  tp_status :: "int option" \<comment> \<open>ReplicasetStatus\<close>
  tp_spec :: "int option" \<comment> \<open>ReplicasetSpec\<close>
  tp_connect :: "(string, string) gomap" \<comment> \<open>ConnectAddrWithRole\<close>
  tp_cluster :: string
  tp_state :: mongo_state
  tp_revision :: string
  tp_applied :: bool

record mc_status =
  mst_external :: string
  mst_internal :: string
  mst_state :: health_state
  mst_result :: "service_topology list"
  mst_conditions :: "server_condition list"

record multi_cloud =
  mc_meta :: object_meta
  mc_spec :: mc_spec
  mc_status :: mc_status

section \<open>The scheduler result and the host configuration\<close>

record cluster_replicas =
  cw_cluster :: string
  cw_replicaset :: int
  cw_arbiter :: bool

record host_conf =
  hc_arbiters :: "string list"
  hc_members :: "string list"

section \<open>Replica-set documents\<close>

record rs_member =
  rm_tags :: labels
  rm_host :: string
  rm_id :: int
  rm_priority :: int
  rm_slave_delay :: int
  rm_votes :: int
  rm_arbiter_only :: bool
  rm_build_indexes :: bool
  rm_hidden :: bool

record rs_config =
  rc_id :: string
  rc_members :: "rs_member list"
  rc_settings :: opaque
  rc_version :: int
  rc_protocol :: int
  rc_configsvr :: bool
  rc_wcmj_default :: bool

record member_status =
  mb_host :: string
  mb_state_str :: string
  mb_syncing_to :: string
  mb_sync_source :: string
  mb_id :: int
  mb_health :: int
  mb_state :: int

section \<open>MongoDB\<close>

record config_var = cv_name :: string cv_value :: string

record exporter_spec =
  xs_resources :: "resource_setting option"
  xs_enable :: bool

record db_user_spec =
  du_name :: string
  du_user :: string
  du_password :: string
  du_enable :: bool

record persistence_spec =
  ps_storage :: string
  ps_class :: string

record pull_secret_spec =
  pl_username :: string
  pl_password :: string

record pod_spec =
  pd_node_selector :: labels
  pd_security_context :: opaque
  pd_affinity :: opaque
  pd_restart_policy :: string
  pd_tolerations :: "opaque list"
  pd_topology_spread :: "opaque list"

record mongo_spec =
  mgs_pod_spec :: "pod_spec option"
  mgs_exporter :: "exporter_spec option"
  mgs_resources :: "resource_setting option"
  mgs_db_user :: db_user_spec
  mgs_persistence :: persistence_spec
  mgs_pull_secret :: pull_secret_spec
  mgs_pull_policy :: string
  mgs_type :: string
  mgs_root_password :: string
  mgs_image :: string
  mgs_custom_config_ref :: string
  mgs_member_config_ref :: string
  mgs_config :: "config_var list"
  mgs_members :: int
  mgs_arbiter :: bool
  mgs_pause :: bool
  mgs_rs_init :: bool

datatype restart_state =
  RestartNone | RestartNotInProcess | RestartSecondaryDeleted | RestartPrimaryDeleted
  | OtherRestart string \<comment> \<open>\<open>RestartNone\<close> is the empty text\<close>

datatype mongo_condition_type =
    ConditionTypeUserRoot | ConditionTypeUserClusterAdmin | ConditionTypeUserClusterMonitor
  | ConditionTypeUserDB | ConditionTypeRsInit | ConditionTypeRsConfig | OtherMongoCondition string

record mongo_condition =
  mgc_status :: condition_status
  mgc_type :: mongo_condition_type
  mgc_transition :: time
  mgc_reason :: string
  mgc_message :: string

record current_info =
  ci_db_password :: string
  ci_resources :: "resource_setting option"
  ci_custom_config :: string
  ci_members :: int

record mongo_status =
  mgt_state :: mongo_state
  mgt_restart :: restart_state
  mgt_internal :: string
  mgt_external :: string
  mgt_replset :: "member_status list"
  mgt_revision :: string
  mgt_current :: current_info
  mgt_conditions :: "mongo_condition list"

record mongodb =
  mg_meta :: object_meta
  mg_spec :: mongo_spec
  mg_status :: mongo_status

section \<open>Kubernetes and Karmada objects\<close>

record service_port =
  spo_name :: string
  spo_port :: int
  spo_target :: int
  spo_node_port :: "32 word"

record service =
  svc_meta :: object_meta
  svc_ports :: "service_port list"
  svc_selector :: labels
  svc_cluster_ip :: string
  svc_type :: string

record resource_selector =
  rsel_api_version :: string
  rsel_kind :: string
  rsel_name :: string
  rsel_namespace :: string

record static_weight =
  sw_clusters :: "string list"
  sw_weight :: int

record propagation_policy =
  pp_meta :: object_meta
  pp_selectors :: "resource_selector list"
  pp_affinity :: "string list option" \<comment> \<open>ClusterAffinity, with its ClusterNames\<close>
  pp_weights :: "static_weight list option" \<comment> \<open>divided and weighted ReplicaScheduling\<close>
  pp_spread :: "karmada_spread list"

datatype overrider_op = OpAdd | OpReplace | OpRemove | OtherOp string

record plaintext_overrider =
  pt_path :: string
  pt_operator :: overrider_op
  pt_value :: string

record labels_overrider =
  lo_operator :: overrider_op
  lo_value :: labels

record override_rule =
  or_clusters :: "string list"
  or_plaintext :: "plaintext_overrider list"
  or_labels :: "labels_overrider list"

record override_policy =
  op_meta :: object_meta
  op_selectors :: "resource_selector list"
  op_rules :: "override_rule list"

record config_map =
  cm_meta :: object_meta
  cm_data :: "(string, string) gomap"

record container =
  ct_name :: string
  ct_image :: string
  ct_pull_policy :: string
  ct_command :: "string list"
  ct_resources :: resource_setting
  ct_env :: "(string \<times> string) list"
  ct_ports :: "(string \<times> int) list"
  ct_mounts :: "(string \<times> string) list"

datatype volume = SecretVol string string int | ConfigVol string string int

record pvc =
  pvc_meta :: object_meta
  pvc_class :: "string option"
  pvc_storage :: quantity

record stateful_set =
  ss_meta :: object_meta
  ss_match_labels :: labels
  ss_template_labels :: labels
  ss_containers :: "container list"
  ss_pod_spec :: "pod_spec option"
  ss_pull_secrets :: "string list"
  ss_volumes :: "volume list"
  ss_claims :: "pvc list"
  ss_update_strategy :: string

record pod =
  po_meta :: object_meta
  po_phase :: string
  po_conditions :: "(string \<times> string) list" \<comment> \<open>condition type and status\<close>
  po_containers :: "string list"
  po_running :: "(string \<times> bool) list" \<comment> \<open>container status: name, \<open>State.Running\<close> is set\<close>
  po_ip :: string

record secret =
  sec_meta :: object_meta
  sec_data :: "(string, string) gomap"
  sec_type :: string

record aggregated_item =
  ag_cluster :: string
  ag_applied :: bool
  ag_status :: "string option" \<comment> \<open>\<open>Status.Raw\<close>\<close>

record resource_binding =
  rb_meta :: object_meta
  rb_aggregated :: "aggregated_item list"

record karmada_cluster = kc_meta :: object_meta

datatype kind =
  KService | KPP | KOP | KConfigMap | KMongo | KMultiCloud | KSts | KPod | KSecret | KBinding
  | KCluster | KClaim

datatype kobj =
    OService service | OPP propagation_policy | OOP override_policy | OConfigMap config_map
  | OMongo mongodb | OMultiCloud multi_cloud | OSts stateful_set | OPod pod | OSecret secret
  | OBinding resource_binding | OCluster karmada_cluster | OClaim pvc

definition pvc_name :: "pvc \<Rightarrow> string" where "pvc_name c = om_name (pvc_meta c)"

type_synonym okey = "kind \<times> string \<times> string" \<comment> \<open>kind, namespace, name\<close>

fun okind :: "kobj \<Rightarrow> kind" where
  "okind (OService x) = KService" | "okind (OPP x) = KPP" | "okind (OOP x) = KOP"
| "okind (OConfigMap x) = KConfigMap" | "okind (OMongo x) = KMongo"
| "okind (OMultiCloud x) = KMultiCloud" | "okind (OSts x) = KSts" | "okind (OPod x) = KPod"
| "okind (OSecret x) = KSecret" | "okind (OBinding x) = KBinding" | "okind (OCluster x) = KCluster"
| "okind (OClaim x) = KClaim"

fun ometa :: "kobj \<Rightarrow> object_meta" where
  "ometa (OService x) = svc_meta x" | "ometa (OPP x) = pp_meta x" | "ometa (OOP x) = op_meta x"
| "ometa (OConfigMap x) = cm_meta x" | "ometa (OMongo x) = mg_meta x"
| "ometa (OMultiCloud x) = mc_meta x" | "ometa (OSts x) = ss_meta x" | "ometa (OPod x) = po_meta x"
| "ometa (OSecret x) = sec_meta x" | "ometa (OBinding x) = rb_meta x"
| "ometa (OCluster x) = kc_meta x" | "ometa (OClaim x) = pvc_meta x"

fun set_ometa :: "object_meta \<Rightarrow> kobj \<Rightarrow> kobj" where
  "set_ometa m (OService x) = OService (x\<lparr>svc_meta := m\<rparr>)"
| "set_ometa m (OPP x) = OPP (x\<lparr>pp_meta := m\<rparr>)"
| "set_ometa m (OOP x) = OOP (x\<lparr>op_meta := m\<rparr>)"
| "set_ometa m (OConfigMap x) = OConfigMap (x\<lparr>cm_meta := m\<rparr>)"
| "set_ometa m (OMongo x) = OMongo (x\<lparr>mg_meta := m\<rparr>)"
| "set_ometa m (OMultiCloud x) = OMultiCloud (x\<lparr>mc_meta := m\<rparr>)"
| "set_ometa m (OSts x) = OSts (x\<lparr>ss_meta := m\<rparr>)"
| "set_ometa m (OPod x) = OPod (x\<lparr>po_meta := m\<rparr>)"
| "set_ometa m (OSecret x) = OSecret (x\<lparr>sec_meta := m\<rparr>)"
| "set_ometa m (OBinding x) = OBinding (x\<lparr>rb_meta := m\<rparr>)"
| "set_ometa m (OCluster x) = OCluster (x\<lparr>kc_meta := m\<rparr>)"
| "set_ometa m (OClaim x) = OClaim (x\<lparr>pvc_meta := m\<rparr>)"

definition okey_of :: "kobj \<Rightarrow> okey" where
  "okey_of x = (okind x, om_namespace (ometa x), om_name (ometa x))"

lemma ometa_set_ometa [simp]: "ometa (set_ometa m x) = m"
  and okind_set_ometa [simp]: "okind (set_ometa m x) = okind x"
  and set_ometa_same [simp]: "set_ometa (ometa x) x = x"
  and set_ometa_twice [simp]: "set_ometa m (set_ometa n x) = set_ometa m x"
  by (cases x; simp)+

text \<open>Two objects that say the same but for their metadata.\<close>

definition same_body :: "kobj \<Rightarrow> kobj \<Rightarrow> bool" where
  "same_body x y \<longleftrightarrow> set_ometa (ometa y) x = y"

lemma same_body_refl [simp]: "same_body x x"
  by (simp add: same_body_def)

lemma same_body_policy [simp]:
  "same_body (OPP p) (OPP q) \<longleftrightarrow> pp_selectors p = pp_selectors q \<and> pp_affinity p = pp_affinity q
     \<and> pp_weights p = pp_weights q \<and> pp_spread p = pp_spread q"
  "same_body (OOP a) (OOP b) \<longleftrightarrow> op_selectors a = op_selectors b \<and> op_rules a = op_rules b"
  by (cases p; cases q; auto simp: same_body_def) (cases a; cases b; auto simp: same_body_def)

lemma same_body_config_map [simp]:
  "same_body (OConfigMap c) (OConfigMap d) \<longleftrightarrow> cm_data c = cm_data d"
  by (cases c; cases d) (auto simp: same_body_def)

lemma same_body_mongo [simp]:
  "same_body (OMongo m) (OMongo n) \<longleftrightarrow> mg_spec m = mg_spec n \<and> mg_status m = mg_status n"
  by (cases m; cases n) (auto simp: same_body_def)

lemma same_body_kind: "same_body x y \<Longrightarrow> okind x = okind y"
  by (metis okind_set_ometa same_body_def)

end
