(* ===== verification/Labels.thy ===== *)
theory Labels
  imports Api_Types
begin

text \<open>
  The label helpers: \<open>pkg/driver/k8s/label.go\<close> for the objects of the control plane,
  \<open>core/label.go\<close> and \<open>mode/replica/label.go\<close> for those of a member cluster. What matters of a
  label set is which selectors it satisfies, so the section on selectors says for each generated
  label set when the selector that later looks for the object finds it.
\<close>

section \<open>Keys\<close>

definition LabelKeyInstance :: string where
  "LabelKeyInstance = ''app.kubernetes.io/instance''"
definition LabelKeyApp :: string where "LabelKeyApp = ''app''"
definition ServicePP :: string where "ServicePP = ''app.karmada.io/service-pp''"
definition ConfigMapPP :: string where "ConfigMapPP = ''app.karmada.io/configmap-pp''"
definition CustomConfigMapPP :: string where
  "CustomConfigMapPP = ''app.karmada.io/custom-configmap-pp''"
definition MongoKey :: string where "MongoKey = ''app.fedstate.io/mongo''"
definition ArbiterKey :: string where "ArbiterKey = ''app.arbiter.io/instance''"
definition InitKey :: string where "InitKey = ''app.mongoinit.io/instance''"
definition ClusterVip :: string where "ClusterVip = ''app.mongoclustervip.io/instance''"
definition LabelClusterVipInstance :: string where
  "LabelClusterVipInstance = ''app.multicloudmongodb.io/vip''"
definition LabelKeyRole :: string where "LabelKeyRole = ''role''"
definition LabelKeyReplsetName :: string where "LabelKeyReplsetName = ''replSetName''"
definition LabelKeyArbiter :: string where "LabelKeyArbiter = ''arbiter''"
definition LabelKeyData :: string where "LabelKeyData = ''data''"
definition LabelKeyRevisionHash :: string where
  "LabelKeyRevisionHash = ''mongodb.k8s.io/revision-hash''"
definition LabelValTrue :: string where "LabelValTrue = ''true''"
definition LabelValReplset :: string where "LabelValReplset = ''replset''"
definition LabelValExporter :: string where "LabelValExporter = ''exporter''"
definition DefaultLabels :: labels where
  "DefaultLabels = [(''app.kubernetes.io/managed-by'', ''multicloud-mongo-operator'')]"

lemmas label_keys =
  LabelKeyInstance_def LabelKeyApp_def ServicePP_def ConfigMapPP_def CustomConfigMapPP_def
  MongoKey_def ArbiterKey_def InitKey_def ClusterVip_def LabelClusterVipInstance_def
  LabelKeyRole_def LabelKeyReplsetName_def LabelKeyArbiter_def LabelKeyData_def
  LabelKeyRevisionHash_def LabelValTrue_def LabelValReplset_def LabelValExporter_def

section \<open>Merging\<close>

text \<open>\<open>for k, v := range labels { res[k] = v }\<close> over each map in turn.\<close>

definition put_all :: "labels \<Rightarrow> labels \<Rightarrow> labels" where
  "put_all ls res = fold (\<lambda>(k, v) r. AList.update k v r) ls res"

definition MergeLabels :: "labels list \<Rightarrow> labels" where
  "MergeLabels allLabels = fold put_all allLabels []"

text \<open>\<open>super[k] == v\<close> reads the empty text for a missing key.\<close>

definition IsSubLabel :: "labels \<Rightarrow> labels \<Rightarrow> bool" where
  "IsSubLabel super sub = list_all (\<lambda>(k, v). gm_get '''' super k = v) sub"

lemma put_all_lookup: "map_of (put_all ls res) = map_of res ++ map_of (rev ls)"
  by (induction ls arbitrary: res)
    (auto simp: put_all_def update_conv' fun_eq_iff map_add_def split: option.splits)

lemma map_of_rev_distinct: "wf_gomap ls \<Longrightarrow> map_of (rev ls) = map_of ls"
  by (metis distinct_rev map_of_inject_set rev_map set_rev wf_gomap_def)

lemma put_all_wf [simp]: "wf_gomap res \<Longrightarrow> wf_gomap (put_all ls res)"
  by (induction ls arbitrary: res) (auto simp: put_all_def)

lemma MergeLabels_wf [simp]: "wf_gomap (MergeLabels ls)"
proof -
  have "wf_gomap res \<Longrightarrow> wf_gomap (fold put_all ls res)" for res
    by (induction ls arbitrary: res) auto
  then show ?thesis by (simp add: MergeLabels_def)
qed

lemma MergeLabels_two:
  "map_of (MergeLabels [a, b]) = map_of (rev a) ++ map_of (rev b)"
  by (simp add: MergeLabels_def put_all_lookup)

lemma MergeLabels_get:
  "map_of (MergeLabels [a, [(j, v)]]) k = (if k = j then Some v else map_of (rev a) k)"
  by (simp add: MergeLabels_two map_add_def)

section \<open>The control plane's labels\<close>

definition BaseLabel :: "labels \<Rightarrow> string \<Rightarrow> labels" where
  "BaseLabel additional name = MergeLabels [additional, [(LabelKeyInstance, name)]]"

definition GenerateServiceLabel :: "labels \<Rightarrow> string \<Rightarrow> string \<Rightarrow> labels" where
  "GenerateServiceLabel additional name serviceName =
     MergeLabels [BaseLabel additional name, [(LabelKeyApp, serviceName)]]"

definition GenerateConfigMapLabel :: "labels \<Rightarrow> string \<Rightarrow> labels" where
  "GenerateConfigMapLabel additional name =
     MergeLabels [BaseLabel additional name, [(LabelKeyApp, name)]]"

definition GenerateServicePPLabel :: "labels \<Rightarrow> string \<Rightarrow> labels" where
  "GenerateServicePPLabel additional name = MergeLabels [additional, [(ServicePP, name)]]"

definition GenerateArbiterServicePPLabel :: "string \<Rightarrow> labels" where
  "GenerateArbiterServicePPLabel name = [(ArbiterKey, name)]"

definition GenerateConfigMapPPLabel :: "labels \<Rightarrow> string \<Rightarrow> labels" where
  "GenerateConfigMapPPLabel additional name = MergeLabels [additional, [(ConfigMapPP, name)]]"

definition GenerateCustomConfigMapPPLabel :: "labels \<Rightarrow> string \<Rightarrow> labels" where
  "GenerateCustomConfigMapPPLabel additional name =
     MergeLabels [additional, [(CustomConfigMapPP, name)]]"

definition GenerateArbiterLabel :: "labels \<Rightarrow> string \<Rightarrow> labels" where
  "GenerateArbiterLabel additional serviceName =
     MergeLabels [additional, [(LabelKeyApp, serviceName)]]"

definition GenerateInitLabel :: "labels \<Rightarrow> string \<Rightarrow> labels" where
  "GenerateInitLabel additional name = MergeLabels [additional, [(InitKey, name)]]"

definition GenerateClusterVipLabel :: "labels \<Rightarrow> string \<Rightarrow> labels" where
  "GenerateClusterVipLabel additional name = MergeLabels [additional, [(ClusterVip, name)]]"

definition GenerateMongoLabel :: "labels \<Rightarrow> string \<Rightarrow> labels" where
  "GenerateMongoLabel additional name = MergeLabels [additional, [(MongoKey, name)]]"

definition GenerateClusterVIPLabel :: "string \<Rightarrow> labels" where
  "GenerateClusterVIPLabel vip = [(LabelClusterVipInstance, vip)]"

section \<open>The member cluster's labels\<close>

definition baseLabel :: "object_meta \<Rightarrow> labels" where
  "baseLabel cr = MergeLabels
     [MergeLabels [DefaultLabels, om_labels cr], [(LabelKeyInstance, om_name cr)]]"

definition WithBaseLabel :: "object_meta \<Rightarrow> labels list \<Rightarrow> labels" where
  "WithBaseLabel cr ls = fold (\<lambda>m r. MergeLabels [r, m]) ls (baseLabel cr)"

text \<open>\<open>ConvertMapLabelsToString\<close>, which has no caller: the set the selector is made of.\<close>

definition ConvertMapLabelsToString :: "labels list \<Rightarrow> labels" where
  "ConvertMapLabelsToString inLabels = fold (\<lambda>eachLabels sel. put_all eachLabels sel) inLabels []"

lemma ConvertMapLabelsToString_eq: "ConvertMapLabelsToString ls = MergeLabels ls"
  by (simp add: ConvertMapLabelsToString_def MergeLabels_def)

definition AddArbiterLabel :: "labels \<Rightarrow> labels" where
  "AddArbiterLabel ls = MergeLabels [ls, [(LabelKeyArbiter, LabelValTrue)]]"

definition AddDataLabel :: "labels \<Rightarrow> labels" where
  "AddDataLabel ls = MergeLabels [ls, [(LabelKeyData, LabelValTrue)]]"

definition AddNodeIndex :: "labels \<Rightarrow> string \<Rightarrow> labels" where
  "AddNodeIndex ls name = MergeLabels [ls, [(LabelKeyApp, name)]]"

definition AddRevision :: "labels \<Rightarrow> mongodb \<Rightarrow> labels" where
  "AddRevision ls cr =
     MergeLabels [ls, [(LabelKeyRevisionHash, mgt_revision (mg_status cr))]]"

definition AddIndexSuffix :: "string \<Rightarrow> int \<Rightarrow> string" where
  "AddIndexSuffix name index = name @ ''-'' @ itoa index"

definition AddSuffix :: "string \<Rightarrow> string \<Rightarrow> string" where
  "AddSuffix a b = a @ ''-'' @ b"

definition replSetLabel :: "object_meta \<Rightarrow> bool \<Rightarrow> labels" where
  "replSetLabel cr arbiter =
     (let ls = WithBaseLabel cr [[(LabelKeyRole, LabelValReplset),
                                  (LabelKeyReplsetName, AddIndexSuffix LabelValReplset 0)]]
      in if arbiter then AddArbiterLabel ls else ls)"

section \<open>Selectors\<close>

text \<open>\<open>client.MatchingLabels\<close> (an equality selector) against the labels of an object.\<close>

definition selects :: "labels \<Rightarrow> labels \<Rightarrow> bool" where
  "selects sel ls = list_all (\<lambda>(k, v). map_of ls k = Some v) sel"

lemma selects_iff:
  assumes "wf_gomap sel"
  shows "selects sel ls \<longleftrightarrow> (\<forall>k v. map_of sel k = Some v \<longrightarrow> map_of ls k = Some v)"
  using assms by (auto simp: selects_def list_all_iff wf_gomap_def dest: map_of_SomeD)

lemma selects_refl: "wf_gomap sel \<Longrightarrow> selects sel sel"
  by (simp add: selects_iff)

lemma selects_singleton [simp]: "selects [(k, v)] ls \<longleftrightarrow> map_of ls k = Some v"
  by (simp add: selects_def)

lemma selects_IsSubLabel: "selects sub super \<Longrightarrow> IsSubLabel super sub"
  by (auto simp: selects_def IsSubLabel_def list_all_iff gm_get_def)

lemma BaseLabel_lookup:
  "wf_gomap L \<Longrightarrow> map_of (BaseLabel L n) k = (if k = LabelKeyInstance then Some n else map_of L k)"
  by (simp add: BaseLabel_def MergeLabels_get map_of_rev_distinct)

lemma BaseLabel_wf [simp]: "wf_gomap (BaseLabel L n)"
  by (simp add: BaseLabel_def)

lemma GenerateServiceLabel_lookup:
  "wf_gomap L \<Longrightarrow> map_of (GenerateServiceLabel L n s) k =
     (if k = LabelKeyApp then Some s else if k = LabelKeyInstance then Some n else map_of L k)"
  by (simp add: GenerateServiceLabel_def MergeLabels_get map_of_rev_distinct BaseLabel_lookup)

lemma GenerateServiceLabel_wf [simp]: "wf_gomap (GenerateServiceLabel L n s)"
  by (simp add: GenerateServiceLabel_def)

lemma GenerateArbiterLabel_lookup:
  "wf_gomap L \<Longrightarrow> map_of (GenerateArbiterLabel L s) k =
     (if k = LabelKeyApp then Some s else map_of L k)"
  by (simp add: GenerateArbiterLabel_def MergeLabels_get map_of_rev_distinct)

lemma GenerateServicePPLabel_lookup:
  "wf_gomap L \<Longrightarrow> map_of (GenerateServicePPLabel L s) k =
     (if k = ServicePP then Some s else map_of L k)"
  by (simp add: GenerateServicePPLabel_def MergeLabels_get map_of_rev_distinct)

lemma base_selects_extended:
  assumes "wf_gomap L"
    and "\<And>k. map_of ls k =
      (if k = LabelKeyApp then Some s else if k = LabelKeyInstance then Some n else map_of L k)"
  shows "selects (BaseLabel L n) ls \<longleftrightarrow> map_of L LabelKeyApp \<in> {None, Some s}"
proof -
  have "LabelKeyApp \<noteq> LabelKeyInstance" by (simp add: label_keys)
  then show ?thesis using assms
    by (auto simp: selects_iff BaseLabel_lookup split: if_splits) (metis option.exhaust)
qed

end
