(* ===== verification/Kube_Client.thy ===== *)
theory Kube_Client
  imports Labels
begin

text \<open>
  The API server and the helpers of \<open>pkg/driver/k8s/client.go\<close> over it. The server is not part of
  the repository: it is a record of functions over an abstract world \<open>'w\<close>, an argument of every
  definition that talks to it. The locale \<open>kube_api\<close> names the documented behaviour the results
  rest on; it is interpreted on an in-memory server with resource versions, finalizers, node-port
  allocation and injected faults, on which the witnesses are evaluated.
\<close>

section \<open>The client interface\<close>

datatype list_option = MatchingLabels labels | HasLabel string | MatchingName string

fun listed :: "list_option \<Rightarrow> object_meta \<Rightarrow> bool" where
  "listed (MatchingLabels sel) m = selects sel (om_labels m)"
| "listed (HasLabel k) m = gm_has (om_labels m) k"
| "listed (MatchingName n) m = (om_name m = n)"

definition in_scope :: "kind \<Rightarrow> string option \<Rightarrow> list_option \<Rightarrow> kobj \<Rightarrow> bool" where
  "in_scope kd ns opt x \<longleftrightarrow> okind x = kd \<and>
     (case ns of None \<Rightarrow> True | Some n \<Rightarrow> om_namespace (ometa x) = n) \<and> listed opt (ometa x)"

record 'w client =
  c_get :: "okey \<Rightarrow> ('w, kobj) go"
  c_list :: "kind \<Rightarrow> string option \<Rightarrow> list_option \<Rightarrow> ('w, kobj list) go"
  c_create :: "kobj \<Rightarrow> ('w, unit) go"
  c_update :: "kobj \<Rightarrow> ('w, kobj) go"
  c_update_status :: "kobj \<Rightarrow> ('w, kobj) go"
  c_delete :: "okey \<Rightarrow> ('w, unit) go"
  c_delete_all :: "kind \<Rightarrow> string option \<Rightarrow> list_option \<Rightarrow> ('w, unit) go"
  c_set_ref :: "object_meta \<Rightarrow> kobj \<Rightarrow> ('w, kobj) go" \<comment> \<open>SetControllerReference\<close>
  c_now :: "('w, time) go"

text \<open>
  What the server keeps of an object it is sent: it assigns node ports and cluster addresses of
  services itself, Karmada's admission webhooks give the resource selectors of a policy the
  policy's namespace where they name none and may complete its spread constraints, and \<open>Create\<close>
  and \<open>Update\<close> leave the status of the two custom resources (whose CRDs have a status
  subresource) alone.
\<close>

definition selectors_kept :: "string \<Rightarrow> resource_selector list \<Rightarrow> resource_selector list \<Rightarrow> bool" where
  "selectors_kept ns = list_all2 (\<lambda>s t. t = s \<or> rsel_namespace s = '''' \<and> t = s\<lparr>rsel_namespace := ns\<rparr>)"

lemma selectors_kept_refl [simp]: "selectors_kept ns xs xs"
  by (simp add: selectors_kept_def list_all2_refl)

fun persisted :: "kobj \<Rightarrow> kobj \<Rightarrow> bool" where
  "persisted (OService s) (OService t) \<longleftrightarrow> svc_selector t = svc_selector s \<and>
     svc_type t = svc_type s \<and>
     map (\<lambda>p. (spo_name p, spo_port p, spo_target p)) (svc_ports t) =
       map (\<lambda>p. (spo_name p, spo_port p, spo_target p)) (svc_ports s)"
| "persisted (OMongo m) (OMongo n) \<longleftrightarrow> mg_spec n = mg_spec m"
| "persisted (OMultiCloud m) (OMultiCloud n) \<longleftrightarrow> mc_spec n = mc_spec m"
| "persisted (OPP p) (OPP q) \<longleftrightarrow>
     selectors_kept (om_namespace (pp_meta p)) (pp_selectors p) (pp_selectors q) \<and>
     pp_affinity q = pp_affinity p \<and> pp_weights q = pp_weights p"
| "persisted (OOP a) (OOP b) \<longleftrightarrow>
     selectors_kept (om_namespace (op_meta a)) (op_selectors a) (op_selectors b) \<and>
     op_rules b = op_rules a"
| "persisted x y \<longleftrightarrow> same_body x y"

fun same_status :: "kobj \<Rightarrow> kobj \<Rightarrow> bool" where
  "same_status (OMongo m) (OMongo n) \<longleftrightarrow> mg_status n = mg_status m"
| "same_status (OMultiCloud m) (OMultiCloud n) \<longleftrightarrow> mc_status n = mc_status m"
| "same_status x y \<longleftrightarrow> okind x = okind y"

locale kube_api =
  fixes cli :: "'w client"
    and objs :: "'w \<Rightarrow> okey \<Rightarrow> kobj option"
    and inv :: "'w \<Rightarrow> bool"
  assumes stored: "inv w \<Longrightarrow> objs w k = Some x \<Longrightarrow> okey_of x = k \<and> om_rv (ometa x) \<noteq> ''''"
    and get_Ok: "c_get cli k w = (Ok x, w') \<Longrightarrow> objs w k = Some x"
    and get_missing: "c_get cli k w = (Err e, w') \<Longrightarrow> is_not_found e \<Longrightarrow> objs w k = None"
    and list_Ok: "inv w \<Longrightarrow> c_list cli kd ns opt w = (Ok xs, w') \<Longrightarrow>
      distinct (map okey_of xs) \<and> set xs = {x. objs w (okey_of x) = Some x \<and> in_scope kd ns opt x}"
    and create_Ok: "c_create cli x w = (Ok (), w') \<Longrightarrow>
      objs w (okey_of x) = None \<and> om_rv (ometa x) = '''' \<and>
      (\<exists>y. okey_of y = okey_of x \<and> om_labels (ometa y) = om_labels (ometa x) \<and> persisted x y \<and>
        objs w' = (objs w)(okey_of x \<mapsto> y))"
    and update_Ok: "c_update cli x w = (Ok y, w') \<Longrightarrow>
      (\<exists>z. objs w (okey_of x) = Some z \<and> om_deleting (ometa y) = om_deleting (ometa z)) \<and>
      okey_of y = okey_of x \<and> om_labels (ometa y) = om_labels (ometa x) \<and>
      om_finalizers (ometa y) = om_finalizers (ometa x) \<and> persisted x y \<and>
      objs w' = (objs w)(okey_of x :=
        (if om_deleting (ometa y) \<and> om_finalizers (ometa y) = [] then None else Some y))"
    and status_Ok: "c_update_status cli x w = (Ok y, w') \<Longrightarrow>
      (\<exists>z. objs w (okey_of x) = Some z \<and> persisted z y \<and> same_status x y \<and>
        ometa y = (ometa z)\<lparr>om_rv := om_rv (ometa y)\<rparr> \<and>
        objs w' = (objs w)(okey_of x \<mapsto> y))"
    and delete_Ok: "c_delete cli k w = (Ok (), w') \<Longrightarrow>
      (\<exists>z v. objs w k = Some z \<and> objs w' = (objs w)(k := v) \<and>
        (fst k \<noteq> KPod \<and> om_finalizers (ometa z) = [] \<longrightarrow> v = None) \<and>
        (\<forall>y. v = Some y \<longrightarrow> om_deleting (ometa y)))"
    and delete_all_frame: "c_delete_all cli kd ns opt w = (r, w') \<Longrightarrow> inv w \<Longrightarrow>
      objs w' k = objs w k \<or> (\<exists>z. objs w k = Some z \<and> in_scope kd ns opt z) \<and>
        (\<forall>y. objs w' k = Some y \<longrightarrow> om_deleting (ometa y))"
    and delete_all_Ok: "c_delete_all cli kd ns opt w = (Ok (), w') \<Longrightarrow> inv w \<Longrightarrow>
      objs w k = Some z \<Longrightarrow> in_scope kd ns opt z \<Longrightarrow>
      (kd \<noteq> KPod \<and> om_finalizers (ometa z) = [] \<longrightarrow> objs w' k = None) \<and>
      (\<forall>y. objs w' k = Some y \<longrightarrow> om_deleting (ometa y))"
    and set_ref_Ok: "c_set_ref cli m x w = (Ok y, w') \<Longrightarrow>
      \<exists>os. y = set_ometa ((ometa x)\<lparr>om_owners := os\<rparr>) x"
    and reads: "objs (snd (c_get cli k w)) = objs w" "objs (snd (c_list cli kd ns opt w)) = objs w"
      "objs (snd (c_set_ref cli m x w)) = objs w" "objs (snd (c_now cli w)) = objs w"
    and failed_writes: "c_create cli x w = (Err e, w') \<Longrightarrow> objs w' = objs w"
      "c_update cli x w = (Err e, w') \<Longrightarrow> objs w' = objs w"
      "c_update_status cli x w = (Err e, w') \<Longrightarrow> objs w' = objs w"
      "c_delete cli k w = (Err e, w') \<Longrightarrow> objs w' = objs w"
    and no_panic: "c_get cli k w \<noteq> (Panic p, w')" "c_list cli kd ns opt w \<noteq> (Panic p, w')"
      "c_create cli x w \<noteq> (Panic p, w')" "c_update cli x w \<noteq> (Panic p, w')"
      "c_update_status cli x w \<noteq> (Panic p, w')" "c_delete cli k w \<noteq> (Panic p, w')"
      "c_delete_all cli kd ns opt w \<noteq> (Panic p, w')" "c_set_ref cli m x w \<noteq> (Panic p, w')"
      "c_now cli w \<noteq> (Panic p, w')"
    and keeps_inv: "keeps inv (c_get cli k)" "keeps inv (c_list cli kd ns opt)"
      "keeps inv (c_create cli x)" "keeps inv (c_update cli x)" "keeps inv (c_update_status cli x)"
      "keeps inv (c_delete cli k)" "keeps inv (c_delete_all cli kd ns opt)"
      "keeps inv (c_set_ref cli m x)" "keeps inv (c_now cli)"
    and now_Ok: "c_now cli w \<noteq> (Err e, w')"

section \<open>Helpers of client.go\<close>

definition IsExists :: "'w client \<Rightarrow> okey \<Rightarrow> ('w, kobj option) go" where
  "IsExists cli k = bindg (attempt (c_get cli k)) (\<lambda>r. case r of
     Inr found \<Rightarrow> ret (Some found)
   | Inl e \<Rightarrow> if \<not> is_not_found e then fail (Wrap e ''can't get this obj'') else ret None)"

definition IsExistsByName :: "'w client \<Rightarrow> kind \<Rightarrow> string \<Rightarrow> string \<Rightarrow> ('w, kobj option) go" where
  "IsExistsByName cli kd name namespace = bindg (attempt (c_get cli (kd, namespace, name))) (\<lambda>r. case r of
     Inr found \<Rightarrow> ret (Some found)
   | Inl e \<Rightarrow> if \<not> is_not_found e then fail (Wrap e ''can't get this obj'') else ret None)"

definition CreateObject :: "'w client \<Rightarrow> kobj \<Rightarrow> ('w, unit) go" where
  "CreateObject cli obj = c_create cli obj"

definition DeleteObj :: "'w client \<Rightarrow> kobj \<Rightarrow> ('w, unit) go" where
  "DeleteObj cli obj = c_delete cli (okey_of obj)"

definition DeleteObjByLabel :: "'w client \<Rightarrow> kind \<Rightarrow> labels \<Rightarrow> string \<Rightarrow> ('w, unit) go" where
  "DeleteObjByLabel cli kd label namespace =
     c_delete_all cli kd (Some namespace) (MatchingLabels label)"

definition UpdateObject :: "'w client \<Rightarrow> kobj \<Rightarrow> ('w, kobj) go" where
  "UpdateObject cli obj = c_update cli obj"

definition UpdateObjectStatus :: "'w client \<Rightarrow> kobj \<Rightarrow> ('w, kobj) go" where
  "UpdateObjectStatus cli obj = c_update_status cli obj"

definition UpsertObject :: "'w client \<Rightarrow> kobj \<Rightarrow> ('w, unit) go" where
  "UpsertObject cli obj = bindg (c_update cli obj) (\<lambda>_. ret ())"

definition set_rv :: "string \<Rightarrow> kobj \<Rightarrow> kobj" where
  "set_rv rv x = set_ometa ((ometa x)\<lparr>om_rv := rv\<rparr>) x"

lemma okey_of_set_rv [simp]: "okey_of (set_rv rv x) = okey_of x"
  by (simp add: set_rv_def okey_of_def)

lemma set_rv_cases [simp]:
  "set_rv rv (OPP p) = OPP (p\<lparr>pp_meta := (pp_meta p)\<lparr>om_rv := rv\<rparr>\<rparr>)"
  "set_rv rv (OConfigMap c) = OConfigMap (c\<lparr>cm_meta := (cm_meta c)\<lparr>om_rv := rv\<rparr>\<rparr>)"
  "set_rv rv (OOP a) = OOP (a\<lparr>op_meta := (op_meta a)\<lparr>om_rv := rv\<rparr>\<rparr>)"
  by (simp_all add: set_rv_def)

definition EnsureWithoutSetRef :: "'w client \<Rightarrow> kobj \<Rightarrow> ('w, unit) go" where
  "EnsureWithoutSetRef cli obj = bindg (IsExists cli (okey_of obj)) (\<lambda>f. case f of
     Some _ \<Rightarrow> ret ()
   | None \<Rightarrow> CreateObject cli obj)"

text \<open>\<open>reflect.DeepEqual\<close> on maps compares entries, not their order.\<close>

definition gm_eq :: "('k, 'v) gomap \<Rightarrow> ('k, 'v) gomap \<Rightarrow> bool" where
  "gm_eq a b \<longleftrightarrow> list_all (\<lambda>(k, _). map_of a k = map_of b k) (a @ b)"

lemma gm_eq_iff: "gm_eq a b \<longleftrightarrow> map_of a = map_of b"
proof
  assume eq: "gm_eq a b"
  show "map_of a = map_of b"
  proof
    fix k
    show "map_of a k = map_of b k"
    proof (cases "k \<in> fst ` set (a @ b)")
      case True
      with eq show ?thesis by (force simp: gm_eq_def list_all_iff)
    next
      case False
      then have "map_of a k = None" "map_of b k = None"
        by (auto simp: map_of_eq_None_iff image_Un)
      then show ?thesis by simp
    qed
  qed
qed (auto simp: gm_eq_def list_all_iff)

definition resources_eq :: "resource_setting option \<Rightarrow> resource_setting option \<Rightarrow> bool" where
  "resources_eq a b = (case (a, b) of
     (None, None) \<Rightarrow> True
   | (Some x, Some y) \<Rightarrow> gm_eq (rs_limits x) (rs_limits y) \<and> gm_eq (rs_requests x) (rs_requests y)
   | _ \<Rightarrow> False)"

definition EnsureMongoWithoutSetRef :: "'w client \<Rightarrow> mongodb \<Rightarrow> ('w, unit) go" where
  "EnsureMongoWithoutSetRef cli newObj =
     bindg (IsExists cli (okey_of (OMongo newObj))) (\<lambda>f. case f of
       Some (OMongo oldObj) \<Rightarrow>
         (if mgs_members (mg_spec newObj) \<noteq> mgs_members (mg_spec oldObj) \<or>
             \<not> resources_eq (mgs_resources (mg_spec newObj)) (mgs_resources (mg_spec oldObj))
          then UpsertObject cli (set_rv (om_rv (mg_meta oldObj)) (OMongo newObj))
          else ret ())
     | Some _ \<Rightarrow> panic ''interface conversion''
     | None \<Rightarrow> CreateObject cli (OMongo newObj))"

definition Ensure :: "'w client \<Rightarrow> multi_cloud \<Rightarrow> kobj \<Rightarrow> ('w, unit) go" where
  "Ensure cli cr obj = bindg (IsExists cli (okey_of obj)) (\<lambda>f. case f of
     Some _ \<Rightarrow> ret ()
   | None \<Rightarrow> bindg (c_set_ref cli (mc_meta cr) obj) (\<lambda>obj. CreateObject cli obj))"

definition EnsureConfigMapUpdate :: "'w client \<Rightarrow> multi_cloud \<Rightarrow> config_map \<Rightarrow> ('w, unit) go" where
  "EnsureConfigMapUpdate cli cr newObj =
     bindg (IsExists cli (okey_of (OConfigMap newObj))) (\<lambda>f. case f of
       Some (OConfigMap oldObj) \<Rightarrow>
         (if \<not> gm_eq (cm_data newObj) (cm_data oldObj)
          then UpsertObject cli (set_rv (om_rv (cm_meta oldObj)) (OConfigMap newObj))
          else ret ())
     | Some _ \<Rightarrow> panic ''interface conversion''
     | None \<Rightarrow> bindg (c_set_ref cli (mc_meta cr) (OConfigMap newObj)) (CreateObject cli))"

text \<open>\<open>ClusterNames\<close> is read through the pointer \<open>ClusterAffinity\<close>.\<close>

definition UpsertPPEnsure :: "'w client \<Rightarrow> multi_cloud \<Rightarrow> propagation_policy \<Rightarrow> ('w, unit) go" where
  "UpsertPPEnsure cli cr newobj =
     bindg (IsExists cli (okey_of (OPP newobj))) (\<lambda>f. case f of
       Some (OPP oldobj) \<Rightarrow>
         (let write = UpsertObject cli (set_rv (om_rv (pp_meta oldobj)) (OPP newobj))
          in if pp_selectors newobj \<noteq> pp_selectors oldobj then write
             else (case (pp_affinity newobj, pp_affinity oldobj) of
                (Some a, Some b) \<Rightarrow> if a \<noteq> b then write else ret ()
              | _ \<Rightarrow> panic ''nil pointer dereference''))
     | Some _ \<Rightarrow> panic ''interface conversion''
     | None \<Rightarrow> bindg (c_set_ref cli (mc_meta cr) (OPP newobj)) (CreateObject cli))"

text \<open>
  The update branch of \<open>UpsertOpEnsure\<close> walks the new rules and sets \<open>Operator\<close> from add to
  replace, but on \<open>pt\<close>, a copy of the slice element: \<open>local_replace\<close> computes those copies, and
  the rules that are sent are the ones the function was given.
\<close>

definition local_replace :: "override_rule \<Rightarrow> plaintext_overrider list \<times> labels_overrider list" where
  "local_replace r =
     (map (\<lambda>pt. if pt_operator pt = OpAdd then pt\<lparr>pt_operator := OpReplace\<rparr> else pt) (or_plaintext r),
      map (\<lambda>pt. if lo_operator pt = OpAdd then pt\<lparr>lo_operator := OpReplace\<rparr> else pt) (or_labels r))"

definition UpsertOpEnsure :: "'w client \<Rightarrow> multi_cloud \<Rightarrow> override_policy \<Rightarrow> ('w, unit) go" where
  "UpsertOpEnsure cli cr newobj =
     bindg (IsExists cli (okey_of (OOP newobj))) (\<lambda>f. case f of
       Some (OOP oldobj) \<Rightarrow>
         (if op_rules newobj \<noteq> op_rules oldobj
          then (let copies = map local_replace (op_rules newobj)
                in UpsertObject cli (set_rv (om_rv (op_meta oldobj)) (OOP newobj)))
          else ret ())
     | Some _ \<Rightarrow> panic ''interface conversion''
     | None \<Rightarrow> bindg (c_set_ref cli (mc_meta cr) (OOP newobj)) (CreateObject cli))"

definition IsExistAndDeleted :: "'w client \<Rightarrow> kind \<Rightarrow> string \<Rightarrow> string \<Rightarrow> ('w, unit) go" where
  "IsExistAndDeleted cli kd name namespace =
     bindg (IsExistsByName cli kd name namespace) (\<lambda>f. case f of
       Some found \<Rightarrow> DeleteObj cli found
     | None \<Rightarrow> ret ())"

text \<open>Assigning to a nil map panics; a ConfigMap without data has a nil one.\<close>

definition UpsertConfigMapDeleteArbiter :: "'w client \<Rightarrow> string \<Rightarrow> string \<Rightarrow> ('w, unit) go" where
  "UpsertConfigMapDeleteArbiter cli name namespace =
     bindg (IsExistsByName cli KConfigMap name namespace) (\<lambda>f. case f of
       Some (OConfigMap cm) \<Rightarrow>
         (if cm_data cm = [] then panic ''assignment to entry in nil map''
          else UpsertObject cli (OConfigMap (cm\<lparr>cm_data := AList.update ''arbiters'' '''' (cm_data cm)\<rparr>)))
     | Some _ \<Rightarrow> panic ''interface conversion''
     | None \<Rightarrow> ret ())"

section \<open>Typed reads\<close>

definition services_of :: "kobj list \<Rightarrow> service list" where
  "services_of = List.map_filter (\<lambda>x. case x of OService s \<Rightarrow> Some s | _ \<Rightarrow> None)"
definition policies_of :: "kobj list \<Rightarrow> propagation_policy list" where
  "policies_of = List.map_filter (\<lambda>x. case x of OPP p \<Rightarrow> Some p | _ \<Rightarrow> None)"
definition clusters_of :: "kobj list \<Rightarrow> karmada_cluster list" where
  "clusters_of = List.map_filter (\<lambda>x. case x of OCluster c \<Rightarrow> Some c | _ \<Rightarrow> None)"
definition pods_of :: "kobj list \<Rightarrow> pod list" where
  "pods_of = List.map_filter (\<lambda>x. case x of OPod p \<Rightarrow> Some p | _ \<Rightarrow> None)"
definition sts_of :: "kobj list \<Rightarrow> stateful_set list" where
  "sts_of = List.map_filter (\<lambda>x. case x of OSts s \<Rightarrow> Some s | _ \<Rightarrow> None)"

text \<open>\<open>Get\<close> into a typed object; the caller's type always fits the kind of the key.\<close>

definition get_as :: "'w client \<Rightarrow> (kobj \<Rightarrow> 'a option) \<Rightarrow> okey \<Rightarrow> ('w, 'a) go" where
  "get_as cli proj k = bindg (c_get cli k) (\<lambda>x. case proj x of
     Some a \<Rightarrow> ret a
   | None \<Rightarrow> fail (NewErr ''object of another kind''))"

definition GetConfigMap :: "'w client \<Rightarrow> string \<Rightarrow> string \<Rightarrow> ('w, config_map) go" where
  "GetConfigMap cli name namespace =
     bindg (attempt (get_as cli (\<lambda>x. case x of OConfigMap c \<Rightarrow> Some c | _ \<Rightarrow> None)
                       (KConfigMap, namespace, name)))
       (\<lambda>r. case r of
          Inr cm \<Rightarrow> ret cm
        | Inl e \<Rightarrow> fail (Wrap e (''can't get the configMap '' @ name @ '', '' @ namespace)))"

definition GetService :: "'w client \<Rightarrow> string \<Rightarrow> string \<Rightarrow> ('w, service) go" where
  "GetService cli namespace name =
     get_as cli (\<lambda>x. case x of OService s \<Rightarrow> Some s | _ \<Rightarrow> None) (KService, namespace, name)"

definition GetPod :: "'w client \<Rightarrow> string \<Rightarrow> string \<Rightarrow> ('w, pod) go" where
  "GetPod cli namespace name =
     get_as cli (\<lambda>x. case x of OPod s \<Rightarrow> Some s | _ \<Rightarrow> None) (KPod, namespace, name)"

definition GetMongoInstanceByName :: "'w client \<Rightarrow> string \<Rightarrow> string \<Rightarrow> ('w, mongodb) go" where
  "GetMongoInstanceByName cli name namespace =
     get_as cli (\<lambda>x. case x of OMongo s \<Rightarrow> Some s | _ \<Rightarrow> None) (KMongo, namespace, name)"

definition GetSts :: "'w client \<Rightarrow> string \<Rightarrow> string \<Rightarrow> ('w, stateful_set) go" where
  "GetSts cli stsName namespace =
     bindg (attempt (get_as cli (\<lambda>x. case x of OSts s \<Rightarrow> Some s | _ \<Rightarrow> None) (KSts, namespace, stsName)))
       (\<lambda>r. case r of
          Inr sts \<Rightarrow> ret sts
        | Inl e \<Rightarrow> fail (Wrap e (''can't get the sts '' @ stsName @ '', '' @ namespace)))"

definition ListPod :: "'w client \<Rightarrow> string \<Rightarrow> labels \<Rightarrow> ('w, pod list) go" where
  "ListPod cli namespace selector =
     bindg (c_list cli KPod (Some namespace) (MatchingLabels selector)) (\<lambda>xs. ret (pods_of xs))"

definition ListService :: "'w client \<Rightarrow> string \<Rightarrow> labels \<Rightarrow> ('w, service list) go" where
  "ListService cli namespace selector =
     bindg (c_list cli KService (Some namespace) (MatchingLabels selector)) (\<lambda>xs. ret (services_of xs))"

definition ListSts :: "'w client \<Rightarrow> string \<Rightarrow> labels \<Rightarrow> ('w, stateful_set list) go" where
  "ListSts cli namespace selector =
     bindg (attempt (c_list cli KSts (Some namespace) (MatchingLabels selector))) (\<lambda>r. case r of
       Inr xs \<Rightarrow> ret (sts_of xs)
     | Inl e \<Rightarrow> fail (Wrap e ''can't list the sts by selector''))"

definition DeleteStsByLabel :: "'w client \<Rightarrow> string \<Rightarrow> labels \<Rightarrow> ('w, unit) go" where
  "DeleteStsByLabel cli namespace selector =
     bindg (attempt (c_delete_all cli KSts (Some namespace) (MatchingLabels selector))) (\<lambda>r. case r of
       Inr _ \<Rightarrow> ret ()
     | Inl e \<Rightarrow> fail (Wrap e ''can't delete the sts by selector''))"

definition DeleteSts :: "'w client \<Rightarrow> string \<Rightarrow> string \<Rightarrow> ('w, unit) go" where
  "DeleteSts cli namespace name =
     bindg (attempt (c_delete_all cli KSts (Some namespace) (MatchingName name))) (\<lambda>r. case r of
       Inr _ \<Rightarrow> ret ()
     | Inl e \<Rightarrow> fail (Wrap e (''can't delete the sts by name '' @ name)))"

fun GetServiceByNodePort :: "32 word \<Rightarrow> service list \<Rightarrow> gerror + service" where
  "GetServiceByNodePort nodePort [] = Inl (NewErr ''not found service'')"
| "GetServiceByNodePort nodePort (s # ss) =
     (if \<exists>port \<in> set (svc_ports s). spo_node_port port = nodePort then Inr s
      else GetServiceByNodePort nodePort ss)"

text \<open>Reads of \<open>pkg/driver/karmada/obj.go\<close>; policies are listed over all namespaces.\<close>

definition ListSvcPPByLabel :: "'w client \<Rightarrow> labels \<Rightarrow> ('w, propagation_policy list) go" where
  "ListSvcPPByLabel cli label =
     bindg (c_list cli KPP None (MatchingLabels label)) (\<lambda>xs. ret (policies_of xs))"

definition ListClusterByLabel :: "'w client \<Rightarrow> ('w, karmada_cluster list) go" where
  "ListClusterByLabel cli = bindg (c_list cli KCluster None (HasLabel ''vip'')) (\<lambda>xs. ret (clusters_of xs))"

definition GetRBByName :: "'w client \<Rightarrow> string \<Rightarrow> string \<Rightarrow> ('w, resource_binding) go" where
  "GetRBByName cli name namespace =
     get_as cli (\<lambda>x. case x of OBinding b \<Rightarrow> Some b | _ \<Rightarrow> None) (KBinding, namespace, name)"

end
