(* ===== verification/Mem_Server.thy ===== *)
theory Mem_Server
  imports Kube_Client
begin

text \<open>
  An API server in memory, the model of \<open>kube_api\<close>: optimistic concurrency on resource versions,
  status subresources, defaulted policy selectors, finalizers, graceful deletion of pods, node-port allocation, controller
  references within one namespace, and requests that fail (\<open>mem_faults\<close>, one entry per request).
\<close>

section \<open>The server\<close>

record mem =
  mem_objs :: "kobj list"
  mem_rv :: nat
  mem_ports :: nat
  mem_clock :: int
  mem_faults :: "string option list"

definition mem_of :: "kobj list \<Rightarrow> mem" where
  "mem_of xs = \<lparr>mem_objs = xs, mem_rv = 100, mem_ports = 0, mem_clock = 1, mem_faults = []\<rparr>"

definition mem_lookup :: "mem \<Rightarrow> okey \<Rightarrow> kobj option" where
  "mem_lookup w k = List.find (\<lambda>x. okey_of x = k) (mem_objs w)"

definition mem_remove :: "okey \<Rightarrow> mem \<Rightarrow> mem" where
  "mem_remove k w = w\<lparr>mem_objs := filter (\<lambda>x. okey_of x \<noteq> k) (mem_objs w)\<rparr>"

definition mem_store :: "kobj \<Rightarrow> mem \<Rightarrow> mem" where
  "mem_store x w = (mem_remove (okey_of x) w)
     \<lparr>mem_objs := mem_objs (mem_remove (okey_of x) w) @ [x], mem_rv := Suc (mem_rv w)\<rparr>"

definition mem_inv :: "mem \<Rightarrow> bool" where
  "mem_inv w \<longleftrightarrow> distinct (map okey_of (mem_objs w)) \<and>
     list_all (\<lambda>x. om_rv (ometa x) \<noteq> '''') (mem_objs w)"

definition request :: "(mem, 'a) go \<Rightarrow> (mem, 'a) go" where
  "request m = (\<lambda>w. case mem_faults w of
     [] \<Rightarrow> m w
   | None # fs \<Rightarrow> m (w\<lparr>mem_faults := fs\<rparr>)
   | Some t # fs \<Rightarrow> (Err (ApiError ROther t), w\<lparr>mem_faults := fs\<rparr>))"

definition next_rv :: "mem \<Rightarrow> string" where
  "next_rv w = nat_digits (mem_rv w)"

definition mem_get :: "okey \<Rightarrow> (mem, kobj) go" where
  "mem_get k = request (\<lambda>w. case mem_lookup w k of
     None \<Rightarrow> (Err (ApiError RNotFound ''not found''), w)
   | Some x \<Rightarrow> (Ok x, w))"

definition mem_list :: "kind \<Rightarrow> string option \<Rightarrow> list_option \<Rightarrow> (mem, kobj list) go" where
  "mem_list kd ns opt = request (\<lambda>w. (Ok (filter (in_scope kd ns opt) (mem_objs w)), w))"

fun allocate :: "nat \<Rightarrow> kobj \<Rightarrow> kobj" where
  "allocate n (OService s) = OService (s\<lparr>svc_ports := map (\<lambda>(i, p).
       if svc_type s = ''NodePort'' \<and> spo_node_port p = 0
       then p\<lparr>spo_node_port := of_nat (30000 + n + i)\<rparr> else p) (enumerate 0 (svc_ports s))\<rparr>)"
| "allocate n x = x"

fun admit :: "kobj \<Rightarrow> kobj" where
  "admit (OPP p) = OPP (p\<lparr>pp_selectors := map (\<lambda>s. if rsel_namespace s = ''''
     then s\<lparr>rsel_namespace := om_namespace (pp_meta p)\<rparr> else s) (pp_selectors p)\<rparr>)"
| "admit (OOP a) = OOP (a\<lparr>op_selectors := map (\<lambda>s. if rsel_namespace s = ''''
     then s\<lparr>rsel_namespace := om_namespace (op_meta a)\<rparr> else s) (op_selectors a)\<rparr>)"
| "admit x = x"

definition empty_mongo_status :: mongo_status where
  "empty_mongo_status = \<lparr>mgt_state = OtherState '''', mgt_restart = RestartNone, mgt_internal = '''',
     mgt_external = '''', mgt_replset = [], mgt_revision = '''',
     mgt_current = \<lparr>ci_db_password = '''', ci_resources = None, ci_custom_config = '''', ci_members = 0\<rparr>,
     mgt_conditions = []\<rparr>"

definition empty_mc_status :: mc_status where
  "empty_mc_status = \<lparr>mst_external = '''', mst_internal = '''', mst_state = OtherHealth '''',
     mst_result = [], mst_conditions = []\<rparr>"

fun clear_status :: "kobj \<Rightarrow> kobj" where
  "clear_status (OMongo m) = OMongo (m\<lparr>mg_status := empty_mongo_status\<rparr>)"
| "clear_status (OMultiCloud m) = OMultiCloud (m\<lparr>mc_status := empty_mc_status\<rparr>)"
| "clear_status x = x"

text \<open>\<open>keep_status z x\<close> is \<open>x\<close> with the status of the stored \<open>z\<close>.\<close>

fun keep_status :: "kobj \<Rightarrow> kobj \<Rightarrow> kobj" where
  "keep_status (OMongo z) (OMongo m) = OMongo (m\<lparr>mg_status := mg_status z\<rparr>)"
| "keep_status (OMultiCloud z) (OMultiCloud m) = OMultiCloud (m\<lparr>mc_status := mc_status z\<rparr>)"
| "keep_status z x = x"

definition mem_create :: "kobj \<Rightarrow> (mem, unit) go" where
  "mem_create x = request (\<lambda>w.
     if om_rv (ometa x) \<noteq> '''' then
       (Err (ApiError RBadRequest ''resourceVersion should not be set on objects to be created''), w)
     else if mem_lookup w (okey_of x) \<noteq> None then (Err (ApiError RAlreadyExists ''already exists''), w)
     else (Ok (), mem_store (set_rv (next_rv w) (clear_status (allocate (mem_ports w) (admit x))))
                    (w\<lparr>mem_ports := mem_ports w + 10\<rparr>)))"

definition mem_update :: "kobj \<Rightarrow> (mem, kobj) go" where
  "mem_update x = request (\<lambda>w. case mem_lookup w (okey_of x) of
     None \<Rightarrow> (Err (ApiError RNotFound ''not found''), w)
   | Some z \<Rightarrow>
       (if om_rv (ometa x) \<noteq> '''' \<and> om_rv (ometa x) \<noteq> om_rv (ometa z)
        then (Err (ApiError RConflict ''the object has been modified''), w)
        else (let y = set_ometa ((ometa x)\<lparr>om_rv := next_rv w, om_deleting := om_deleting (ometa z)\<rparr>)
                        (keep_status z (admit x))
              in if om_deleting (ometa y) \<and> om_finalizers (ometa y) = []
                 then (Ok y, mem_remove (okey_of x) w) else (Ok y, mem_store y w))))"

definition mem_update_status :: "kobj \<Rightarrow> (mem, kobj) go" where
  "mem_update_status x = request (\<lambda>w. case mem_lookup w (okey_of x) of
     None \<Rightarrow> (Err (ApiError RNotFound ''not found''), w)
   | Some z \<Rightarrow>
       (if om_rv (ometa x) \<noteq> '''' \<and> om_rv (ometa x) \<noteq> om_rv (ometa z)
        then (Err (ApiError RConflict ''the object has been modified''), w)
        else (let y = set_rv (next_rv w) (keep_status x z) in (Ok y, mem_store y w))))"

definition mem_drop :: "kobj \<Rightarrow> mem \<Rightarrow> mem" where
  "mem_drop z w =
     (if okind z = KPod \<or> om_finalizers (ometa z) \<noteq> []
      then mem_store (set_ometa ((ometa z)\<lparr>om_rv := next_rv w, om_deleting := True\<rparr>) z) w
      else mem_remove (okey_of z) w)"

definition mem_delete :: "okey \<Rightarrow> (mem, unit) go" where
  "mem_delete k = request (\<lambda>w. case mem_lookup w k of
     None \<Rightarrow> (Err (ApiError RNotFound ''not found''), w)
   | Some z \<Rightarrow> (Ok (), mem_drop z w))"

definition mem_delete_all :: "kind \<Rightarrow> string option \<Rightarrow> list_option \<Rightarrow> (mem, unit) go" where
  "mem_delete_all kd ns opt =
     request (\<lambda>w. (Ok (), fold mem_drop (filter (in_scope kd ns opt) (mem_objs w)) w))"

definition mem_set_ref :: "object_meta \<Rightarrow> kobj \<Rightarrow> (mem, kobj) go" where
  "mem_set_ref m x = (\<lambda>w.
     if om_namespace m \<noteq> om_namespace (ometa x)
     then (Err (NewErr ''cross-namespace owner references are disallowed''), w)
     else (Ok (set_ometa ((ometa x)\<lparr>om_owners := List.insert (om_name m) (om_owners (ometa x))\<rparr>) x), w))"

definition mem_now :: "(mem, time) go" where
  "mem_now = (\<lambda>w. (Ok (mem_clock w), w\<lparr>mem_clock := mem_clock w + 1\<rparr>))"

definition mem_client :: "mem client" where
  "mem_client = \<lparr>c_get = mem_get, c_list = mem_list, c_create = mem_create, c_update = mem_update,
     c_update_status = mem_update_status, c_delete = mem_delete, c_delete_all = mem_delete_all,
     c_set_ref = mem_set_ref, c_now = mem_now\<rparr>"

lemmas mem_ops =
  mem_get_def mem_list_def mem_create_def mem_update_def mem_update_status_def mem_delete_def
  mem_delete_all_def mem_set_ref_def mem_now_def

lemmas mem_eval =
  mem_client_def mem_ops request_def mem_lookup_def mem_store_def mem_remove_def mem_drop_def
  mem_of_def next_rv_def

section \<open>It keeps the laws\<close>

lemma mem_fields [simp]:
  "mem_lookup (w\<lparr>mem_faults := fs\<rparr>) = mem_lookup w"
  "mem_lookup (w\<lparr>mem_ports := n\<rparr>) = mem_lookup w"
  "mem_lookup (w\<lparr>mem_clock := c\<rparr>) = mem_lookup w"
  "mem_inv (w\<lparr>mem_faults := fs\<rparr>) = mem_inv w"
  "mem_inv (w\<lparr>mem_ports := n\<rparr>) = mem_inv w"
  "mem_inv (w\<lparr>mem_clock := c\<rparr>) = mem_inv w"
  by (simp_all add: mem_lookup_def mem_inv_def fun_eq_iff)

lemma find_filter_neq:
  "List.find (\<lambda>x. f x = k) (filter (\<lambda>x. f x \<noteq> j) xs) =
   (if k = j then None else List.find (\<lambda>x. f x = k) xs)"
  by (induction xs) auto

lemma find_append:
  "List.find P (xs @ ys) = (case List.find P xs of None \<Rightarrow> List.find P ys | Some x \<Rightarrow> Some x)"
  by (induction xs) auto

lemma mem_lookup_remove [simp]: "mem_lookup (mem_remove k w) = (mem_lookup w)(k := None)"
  by (auto simp: mem_lookup_def mem_remove_def find_filter_neq fun_eq_iff)

lemma mem_lookup_store [simp]: "mem_lookup (mem_store x w) = (mem_lookup w)(okey_of x \<mapsto> x)"
  by (auto simp: mem_lookup_def mem_store_def mem_remove_def find_append find_filter_neq fun_eq_iff
      split: option.splits)

lemma mem_lookup_key: "mem_lookup w k = Some x \<Longrightarrow> okey_of x = k \<and> x \<in> set (mem_objs w)"
  by (auto simp: mem_lookup_def find_Some_iff)

lemma mem_lookup_iff:
  assumes "mem_inv w"
  shows "mem_lookup w (okey_of x) = Some x \<longleftrightarrow> x \<in> set (mem_objs w)"
proof
  assume "x \<in> set (mem_objs w)"
  moreover obtain y where "mem_lookup w (okey_of x) = Some y"
    using calculation by (cases "mem_lookup w (okey_of x)") (auto simp: mem_lookup_def find_None_iff)
  moreover from this have "okey_of y = okey_of x" "y \<in> set (mem_objs w)"
    using mem_lookup_key by blast+
  ultimately show "mem_lookup w (okey_of x) = Some x"
    using assms by (auto simp: mem_inv_def distinct_map inj_on_def)
qed (use mem_lookup_key in blast)

lemma mem_inv_remove [simp]: "mem_inv w \<Longrightarrow> mem_inv (mem_remove k w)"
  by (auto simp: mem_inv_def mem_remove_def distinct_map_filter list_all_iff)

lemma mem_inv_store [simp]: "mem_inv w \<Longrightarrow> om_rv (ometa x) \<noteq> '''' \<Longrightarrow> mem_inv (mem_store x w)"
  by (auto simp: mem_inv_def mem_store_def mem_remove_def distinct_map_filter list_all_iff)

lemma next_rv_nonempty [simp]: "next_rv w \<noteq> ''''"
  by (simp add: next_rv_def)

lemma mem_inv_drop [simp]: "mem_inv w \<Longrightarrow> mem_inv (mem_drop z w)"
  by (simp add: mem_drop_def)

lemma mem_inv_fold_drop [simp]: "mem_inv w \<Longrightarrow> mem_inv (fold mem_drop zs w)"
  by (induction zs arbitrary: w) auto

lemma okey_of_allocate [simp]: "okey_of (allocate n x) = okey_of x" "ometa (allocate n x) = ometa x"
  by (cases x; simp add: okey_of_def)+

lemma okey_of_admit [simp]: "okey_of (admit x) = okey_of x" "ometa (admit x) = ometa x"
  by (cases x; simp add: okey_of_def)+

lemma selectors_kept_admit [simp]:
  "selectors_kept ns xs (map (\<lambda>s. if rsel_namespace s = '''' then s\<lparr>rsel_namespace := ns\<rparr> else s) xs)"
  by (simp add: selectors_kept_def list_all2_map2 list_all2_refl)

lemma okey_of_clear [simp]: "okey_of (clear_status x) = okey_of x" "ometa (clear_status x) = ometa x"
  by (cases x; simp add: okey_of_def)+

lemma okey_of_keep [simp]:
  "okey_of (keep_status z x) = okey_of x" "ometa (keep_status z x) = ometa x"
  by (cases x; cases z; simp add: okey_of_def)+

lemma ometa_set_rv [simp]: "ometa (set_rv rv x) = (ometa x)\<lparr>om_rv := rv\<rparr>"
  by (simp add: set_rv_def)

lemma okey_of_set_meta [simp]:
  "om_name m = om_name (ometa x) \<Longrightarrow> om_namespace m = om_namespace (ometa x) \<Longrightarrow>
   okey_of (set_ometa m x) = okey_of x"
  by (simp add: okey_of_def)

lemma enumerate_map_ports:
  "map (g \<circ> (\<lambda>(i, p). if c p then f i p else p)) (enumerate n ps) = map g ps"
  if "\<And>i p. g (f i p) = g p"
  using that by (induction ps arbitrary: n) auto

lemma persisted_create: "persisted x (set_ometa m (clear_status (allocate n (admit x))))"
  by (cases x) (auto simp: enumerate_map_ports same_body_def)

lemma persisted_keep: "persisted x (set_ometa m (keep_status z (admit x)))"
  by (cases x; cases z) (auto simp: same_body_def)

lemma persisted_status: "okind x = okind z \<Longrightarrow> persisted z (set_ometa m (keep_status x z))"
  by (cases x; cases z) (auto simp: same_body_def)

lemma same_status_keep: "okind x = okind z \<Longrightarrow> same_status x (set_ometa m (keep_status x z))"
  by (cases x; cases z) auto

lemma mem_drop_key: "j \<noteq> okey_of z \<Longrightarrow> mem_lookup (mem_drop z w) j = mem_lookup w j"
  by (simp add: mem_drop_def)

lemma mem_drop_same:
  "mem_lookup (mem_drop z w) (okey_of z) =
   (if okind z = KPod \<or> om_finalizers (ometa z) \<noteq> []
    then Some (set_ometa ((ometa z)\<lparr>om_rv := next_rv w, om_deleting := True\<rparr>) z) else None)"
  by (simp add: mem_drop_def)

lemma fold_mem_drop_other:
  "k \<notin> okey_of ` set zs \<Longrightarrow> mem_lookup (fold mem_drop zs w) k = mem_lookup w k"
  by (induction zs arbitrary: w) (auto simp: mem_drop_key)

lemma fold_mem_drop_in:
  assumes "distinct (map okey_of zs)" "z \<in> set zs" "okey_of z = k"
  shows "(okind z \<noteq> KPod \<and> om_finalizers (ometa z) = [] \<longrightarrow> mem_lookup (fold mem_drop zs w) k = None) \<and>
    (\<forall>y. mem_lookup (fold mem_drop zs w) k = Some y \<longrightarrow> om_deleting (ometa y))"
  using assms
proof (induction zs arbitrary: w)
  case (Cons x zs)
  show ?case
  proof (cases "x = z")
    case True
    with Cons.prems have "k \<notin> okey_of ` set zs" by auto
    with True Cons.prems(3) show ?thesis by (auto simp: fold_mem_drop_other mem_drop_same split: if_splits)
  next
    case False
    with Cons.prems have "z \<in> set zs" "distinct (map okey_of zs)" by auto
    with Cons.IH[of "mem_drop x w"] Cons.prems(3) show ?thesis by simp
  qed
qed simp

lemma request_cases:
  assumes "request m w = (r, w')"
  obtains (run) fs where "m (w\<lparr>mem_faults := fs\<rparr>) = (r, w')"
    | (fault) t fs where "r = Err (ApiError ROther t)" "w' = w\<lparr>mem_faults := fs\<rparr>"
proof (cases "mem_faults w")
  case Nil
  then have "w\<lparr>mem_faults := []\<rparr> = w" by simp
  moreover from assms Nil have "m w = (r, w')" by (simp add: request_def)
  ultimately show ?thesis using run[of "[]"] by argo
next
  case (Cons a fs)
  with assms show ?thesis by (cases a) (auto simp: request_def intro: run fault)
qed

lemma keeps_request:
  assumes "\<And>w. mem_inv w \<Longrightarrow> mem_inv (snd (m w))"
  shows "keeps mem_inv (request m)"
proof (rule keepsI)
  fix w r w' assume inv: "mem_inv w" and run: "request m w = (r, w')"
  from run show "mem_inv w'"
  proof (cases rule: request_cases)
    case (run fs)
    with assms[of "w\<lparr>mem_faults := fs\<rparr>"] inv show ?thesis by simp
  qed (simp add: inv)
qed


lemma request_reads:
  assumes "\<And>w. mem_lookup (snd (m w)) = mem_lookup w"
  shows "mem_lookup (snd (request m w)) = mem_lookup w"
proof (cases "request m w" rule: prod.exhaust)
  case (Pair r w')
  from Pair show ?thesis
  proof (cases rule: request_cases)
    case (run fs)
    with assms[of "w\<lparr>mem_faults := fs\<rparr>"] Pair show ?thesis by simp
  qed (simp add: Pair)
qed

lemma request_no_panic:
  assumes "\<And>w p w'. m w \<noteq> (Panic p, w')"
  shows "request m w \<noteq> (Panic p, w')"
  using assms by (metis request_cases outcome.distinct(5))

lemma mem_update_run:
  assumes "mem_update x w = (Ok y, w')"
  obtains z where "mem_lookup w (okey_of x) = Some z"
    "y = set_ometa ((ometa x)\<lparr>om_rv := om_rv (ometa y), om_deleting := om_deleting (ometa z)\<rparr>)
           (keep_status z (admit x))"
    "mem_lookup w' = (mem_lookup w)(okey_of x :=
       (if om_deleting (ometa y) \<and> om_finalizers (ometa y) = [] then None else Some y))"
  using assms unfolding mem_update_def
  by (elim request_cases) (auto simp: Let_def split: option.splits if_splits)

lemma mem_status_run:
  assumes "mem_update_status x w = (Ok y, w')"
  obtains z where "mem_lookup w (okey_of x) = Some z"
    "y = set_ometa ((ometa z)\<lparr>om_rv := om_rv (ometa y)\<rparr>) (keep_status x z)"
    "mem_lookup w' = (mem_lookup w)(okey_of x \<mapsto> y)"
proof -
  from assms obtain fs z where *: "mem_lookup w (okey_of x) = Some z"
      "y = set_rv (next_rv (w\<lparr>mem_faults := fs\<rparr>)) (keep_status x z)"
      "w' = mem_store y (w\<lparr>mem_faults := fs\<rparr>)"
    unfolding mem_update_status_def
    by (elim request_cases) (auto simp: Let_def split: option.splits if_splits)
  then have "okey_of y = okey_of x" by (simp add: mem_lookup_key)
  with * that[of z] show ?thesis by (simp add: set_rv_def)
qed

lemma mem_create_run:
  assumes "mem_create x w = (Ok (), w')"
  obtains n rv where "mem_lookup w (okey_of x) = None" "om_rv (ometa x) = ''''"
    "mem_lookup w' = (mem_lookup w)(okey_of x \<mapsto> set_rv rv (clear_status (allocate n (admit x))))"
  using assms unfolding mem_create_def
  by (elim request_cases) (auto split: if_splits)

lemma mem_delete_run:
  assumes "mem_delete k w = (Ok (), w')"
  obtains z fs where "mem_lookup w k = Some z" "w' = mem_drop z (w\<lparr>mem_faults := fs\<rparr>)"
  using assms unfolding mem_delete_def
  by (elim request_cases) (auto split: option.splits)

lemma mem_delete_all_run:
  assumes "mem_delete_all kd ns opt w = (r, w')"
  obtains fs where "r = Ok ()"
      "w' = fold mem_drop (filter (in_scope kd ns opt) (mem_objs w)) (w\<lparr>mem_faults := fs\<rparr>)"
    | t fs where "r = Err (ApiError ROther t)" "w' = w\<lparr>mem_faults := fs\<rparr>"
  using assms unfolding mem_delete_all_def by (elim request_cases) auto

interpretation mem: kube_api mem_client mem_lookup mem_inv
proof (unfold_locales, goal_cases)
  case (1 w k x)
  then show ?case using mem_lookup_key by (auto simp: mem_inv_def list_all_iff)
next
  case (2 k w x w')
  then show ?case unfolding mem_client_def mem_get_def client.simps
    by (elim request_cases) (auto split: option.splits)
next
  case (3 k w e w')
  then show ?case unfolding mem_client_def mem_get_def client.simps
    by (elim request_cases) (auto split: option.splits)
next
  case (4 w kd ns opt xs w')
  then have xs: "xs = filter (in_scope kd ns opt) (mem_objs w)"
    unfolding mem_client_def mem_list_def client.simps by (elim request_cases) auto
  with 4 show ?case by (auto simp: mem_lookup_iff) (simp add: mem_inv_def distinct_map_filter)
next
  case (5 x w w')
  then have "mem_create x w = (Ok (), w')" by (simp add: mem_client_def)
  then show ?case
  proof (elim mem_create_run, intro conjI)
    fix n rv
    let ?y = "set_rv rv (clear_status (allocate n (admit x)))"
    assume "mem_lookup w' = (mem_lookup w)(okey_of x \<mapsto> ?y)"
    moreover have "persisted x ?y" by (simp add: set_rv_def persisted_create del: ometa_set_rv)
    ultimately show "\<exists>y. okey_of y = okey_of x \<and> om_labels (ometa y) = om_labels (ometa x) \<and>
        persisted x y \<and> mem_lookup w' = (mem_lookup w)(okey_of x \<mapsto> y)"
      by (intro exI[of _ ?y]) simp
  qed
next
  case (6 x w y w')
  then have "mem_update x w = (Ok y, w')" by (simp add: mem_client_def)
  then obtain z where z: "mem_lookup w (okey_of x) = Some z"
    "y = set_ometa ((ometa x)\<lparr>om_rv := om_rv (ometa y), om_deleting := om_deleting (ometa z)\<rparr>)
           (keep_status z (admit x))"
    "mem_lookup w' = (mem_lookup w)(okey_of x :=
       (if om_deleting (ometa y) \<and> om_finalizers (ometa y) = [] then None else Some y))"
    by (rule mem_update_run)
  define m where "m = (ometa x)\<lparr>om_rv := om_rv (ometa y), om_deleting := om_deleting (ometa z)\<rparr>"
  with z have y: "y = set_ometa m (keep_status z (admit x))" by simp
  have "okey_of y = okey_of x" "om_labels (ometa y) = om_labels (ometa x)"
      "om_finalizers (ometa y) = om_finalizers (ometa x)" "persisted x y"
      "om_deleting (ometa y) = om_deleting (ometa z)"
    unfolding y by (simp_all add: m_def persisted_keep)
  with z show ?case by simp
next
  case (7 x w y w')
  then have "mem_update_status x w = (Ok y, w')" by (simp add: mem_client_def)
  then obtain z where z: "mem_lookup w (okey_of x) = Some z"
    "y = set_ometa ((ometa z)\<lparr>om_rv := om_rv (ometa y)\<rparr>) (keep_status x z)"
    "mem_lookup w' = (mem_lookup w)(okey_of x \<mapsto> y)"
    by (rule mem_status_run)
  define m where "m = (ometa z)\<lparr>om_rv := om_rv (ometa y)\<rparr>"
  with z have y: "y = set_ometa m (keep_status x z)" by simp
  have "okind x = okind z" using z(1) mem_lookup_key by (fastforce simp: okey_of_def)
  then have "persisted z y" "same_status x y" "ometa y = m"
    unfolding y by (simp_all add: persisted_status same_status_keep)
  with z(1,3) show ?case unfolding m_def by blast
next
  case (8 k w w')
  then have "mem_delete k w = (Ok (), w')" by (simp add: mem_client_def)
  then obtain z fs where z: "mem_lookup w k = Some z" "w' = mem_drop z (w\<lparr>mem_faults := fs\<rparr>)"
    by (rule mem_delete_run)
  from z(1) have k: "okey_of z = k" by (simp add: mem_lookup_key)
  then have kd: "okind z = fst k" by (cases k) (simp add: okey_of_def)
  have "mem_lookup w' = (mem_lookup w)(k := mem_lookup w' k)"
    unfolding z(2) by (rule ext) (simp add: mem_drop_key k)
  moreover have "fst k \<noteq> KPod \<and> om_finalizers (ometa z) = [] \<longrightarrow> mem_lookup w' k = None"
    using mem_drop_same[of z "w\<lparr>mem_faults := fs\<rparr>"] unfolding z(2) k kd by simp
  moreover have "om_deleting (ometa y)" if "mem_lookup w' k = Some y" for y
    using that mem_drop_same[of z "w\<lparr>mem_faults := fs\<rparr>"] unfolding z(2) k
    by (auto split: if_splits)
  ultimately show ?case using z(1) by blast
next
  case (9 kd ns opt w r w' k)
  then have "mem_delete_all kd ns opt w = (r, w')" by (simp add: mem_client_def)
  then show ?case
  proof (cases rule: mem_delete_all_run)
    case (1 fs)
    show ?thesis
    proof (cases "k \<in> okey_of ` set (filter (in_scope kd ns opt) (mem_objs w))")
      case True
      then obtain z where "z \<in> set (mem_objs w)" "in_scope kd ns opt z" "okey_of z = k" by auto
      moreover have "distinct (map okey_of (filter (in_scope kd ns opt) (mem_objs w)))"
        using 9 by (simp add: mem_inv_def distinct_map_filter)
      ultimately have "\<forall>y. mem_lookup w' k = Some y \<longrightarrow> om_deleting (ometa y)"
        using fold_mem_drop_in[of "filter (in_scope kd ns opt) (mem_objs w)" z k "w\<lparr>mem_faults := fs\<rparr>"] 1
        by simp
      with \<open>z \<in> _\<close> \<open>in_scope _ _ _ _\<close> \<open>okey_of z = k\<close> 9 show ?thesis using mem_lookup_iff by blast
    qed (simp add: 1 fold_mem_drop_other)
  qed simp
next
  case (10 kd ns opt w w' k z)
  then have run: "mem_delete_all kd ns opt w = (Ok (), w')" by (simp add: mem_client_def)
  obtain fs where w': "w' = fold mem_drop (filter (in_scope kd ns opt) (mem_objs w)) (w\<lparr>mem_faults := fs\<rparr>)"
    using run by (cases rule: mem_delete_all_run) auto
  have z: "okey_of z = k" "z \<in> set (mem_objs w)" using 10 mem_lookup_key by blast+
  then have "okind z = kd" using 10 by (simp add: in_scope_def)
  moreover have "distinct (map okey_of (filter (in_scope kd ns opt) (mem_objs w)))"
    using 10 by (simp add: mem_inv_def distinct_map_filter)
  ultimately show ?case
    using fold_mem_drop_in[of "filter (in_scope kd ns opt) (mem_objs w)" z k "w\<lparr>mem_faults := fs\<rparr>"]
      z 10 w' by (auto split: if_splits)
next
  case (11 m x w y w')
  then show ?case by (auto simp: mem_client_def mem_set_ref_def split: if_splits)
next
  case (12 k w)
  then show ?case unfolding mem_client_def client.simps mem_get_def
    by (rule request_reads) (simp split: option.split)
next
  case (13 kd ns opt w)
  then show ?case unfolding mem_client_def client.simps mem_list_def
    by (rule request_reads) simp
next
  case (14 m x w)
  then show ?case by (simp add: mem_client_def mem_set_ref_def)
next
  case (15 w)
  then show ?case by (simp add: mem_client_def mem_now_def)
next
  case (16 x w e w')
  then show ?case unfolding mem_client_def mem_create_def client.simps
    by (elim request_cases) (auto split: if_splits)
next
  case (17 x w e w')
  then show ?case unfolding mem_client_def mem_update_def client.simps
    by (elim request_cases) (auto simp: Let_def split: if_splits option.splits)
next
  case (18 x w e w')
  then show ?case unfolding mem_client_def mem_update_status_def client.simps
    by (elim request_cases) (auto simp: Let_def split: if_splits option.splits)
next
  case (19 k w e w')
  then show ?case unfolding mem_client_def mem_delete_def client.simps
    by (elim request_cases) (auto split: option.splits)
next
  case (20 k w p w')
  then show ?case unfolding mem_client_def mem_get_def client.simps
    by (intro request_no_panic) (auto split: option.splits)
next
  case (21 kd ns opt w p w')
  then show ?case unfolding mem_client_def mem_list_def client.simps
    by (intro request_no_panic) auto
next
  case (22 x w p w')
  then show ?case unfolding mem_client_def mem_create_def client.simps
    by (intro request_no_panic) auto
next
  case (23 x w p w')
  then show ?case unfolding mem_client_def mem_update_def client.simps
    by (intro request_no_panic) (auto simp: Let_def split: option.splits if_splits)
next
  case (24 x w p w')
  then show ?case unfolding mem_client_def mem_update_status_def client.simps
    by (intro request_no_panic) (auto simp: Let_def split: option.splits if_splits)
next
  case (25 k w p w')
  then show ?case unfolding mem_client_def mem_delete_def client.simps
    by (intro request_no_panic) (auto split: option.splits)
next
  case (26 kd ns opt w p w')
  then show ?case unfolding mem_client_def mem_delete_all_def client.simps
    by (intro request_no_panic) auto
next
  case (27 m x w p w')
  then show ?case by (simp add: mem_client_def mem_set_ref_def)
next
  case (28 w p w')
  then show ?case by (simp add: mem_client_def mem_now_def)
next
  case (29 k)
  then show ?case unfolding mem_client_def mem_get_def client.simps
    by (rule keeps_request) (auto split: option.splits)
next
  case (30 kd ns opt)
  then show ?case unfolding mem_client_def mem_list_def client.simps
    by (rule keeps_request) auto
next
  case (31 x)
  then show ?case unfolding mem_client_def mem_create_def client.simps
    by (rule keeps_request) auto
next
  case (32 x)
  then show ?case unfolding mem_client_def mem_update_def client.simps
    by (rule keeps_request) (auto simp: Let_def split: option.splits)
next
  case (33 x)
  then show ?case unfolding mem_client_def mem_update_status_def client.simps
    by (rule keeps_request) (auto simp: Let_def split: option.splits)
next
  case (34 k)
  then show ?case unfolding mem_client_def mem_delete_def client.simps
    by (rule keeps_request) (auto split: option.splits)
next
  case (35 kd ns opt)
  then show ?case unfolding mem_client_def mem_delete_all_def client.simps
    by (rule keeps_request) auto
next
  case (36 m x)
  then show ?case by (auto simp: keeps_def mem_client_def mem_set_ref_def)
next
  case 37
  then show ?case by (auto simp: keeps_def mem_client_def mem_now_def)
next
  case (38 w e w')
  then show ?case by (simp add: mem_client_def mem_now_def)
qed

end
