(* ===== verification/Samples.thy ===== *)
theory Samples
  imports Mem_Server
begin

text \<open>
  Small concrete objects and server states on which the witnesses of the properties are evaluated.
\<close>

definition sample_spec :: mc_spec where
  "sample_spec = \<lparr>mcs_resource = no_resources, mcs_replicaset = Some 3,
     mcs_auth = \<lparr>au_root_passwd = Some ''secret''\<rparr>, mcs_member = \<lparr>ms_config_ref = None\<rparr>,
     mcs_image = \<lparr>im_image = ''mongo'', im_pull_policy = '''', im_user = '''', im_passwd = ''''\<rparr>,
     mcs_storage = \<lparr>sg_class = '''', sg_size = ''1Gi''\<rparr>,
     mcs_export = \<lparr>ex_resource = no_resources, ex_enable = False\<rparr>,
     mcs_config = \<lparr>cf_set = None, cf_ref = None, cf_arbiter = False\<rparr>,
     mcs_scheduler = \<lparr>sch_name = None, sch_mode = None, sch_affinity = None, sch_tolerations = []\<rparr>,
     mcs_spread = \<lparr>sp_node_select = None, sp_topology_spread = [], sp_constraints = None,
       sp_allow_dynamic = False\<rparr>\<rparr>"

definition sample_status :: mc_status where
  "sample_status = \<lparr>mst_external = '''', mst_internal = '''', mst_state = UnKnown, mst_result = [],
     mst_conditions = []\<rparr>"

definition sample_cr :: multi_cloud where
  "sample_cr = \<lparr>mc_meta = meta_of ''m'' ''ns'' [], mc_spec = sample_spec, mc_status = sample_status\<rparr>"

definition sample_policy :: "string list \<Rightarrow> static_weight list \<Rightarrow> propagation_policy" where
  "sample_policy cs ws = \<lparr>pp_meta = meta_of ''p'' ''ns'' [], pp_selectors = [], pp_affinity = Some cs,
     pp_weights = Some ws, pp_spread = []\<rparr>"

definition sample_override :: override_policy where
  "sample_override = \<lparr>op_meta = meta_of ''o'' ''ns'' [], op_selectors = [],
     op_rules = [\<lparr>or_clusters = [''a''], or_plaintext =
       [\<lparr>pt_path = ''/spec/arbiter'', pt_operator = OpAdd, pt_value = ''true''\<rparr>], or_labels = []\<rparr>]\<rparr>"

definition sample_cm :: "labels \<Rightarrow> config_map" where
  "sample_cm d = \<lparr>cm_meta = meta_of ''c'' ''ns'' [], cm_data = d\<rparr>"

definition sample_service :: "string \<Rightarrow> 32 word \<Rightarrow> service" where
  "sample_service n port = \<lparr>svc_meta = (meta_of n ''ns'' [])\<lparr>om_rv := ''5''\<rparr>,
     svc_ports = [\<lparr>spo_name = ''mongo'', spo_port = 27017, spo_target = 27017, spo_node_port = port\<rparr>],
     svc_selector = [], svc_cluster_ip = '''', svc_type = ''NodePort''\<rparr>"

definition sample_topology :: "string \<Rightarrow> labels \<Rightarrow> service_topology" where
  "sample_topology c addrs = \<lparr>tp_status = Some 1, tp_spec = Some 1, tp_connect = addrs, tp_cluster = c,
     tp_state = StateRunning, tp_revision = '''', tp_applied = True\<rparr>"

definition with_result :: "service_topology list \<Rightarrow> multi_cloud \<Rightarrow> multi_cloud" where
  "with_result ts cr = cr\<lparr>mc_status := (mc_status cr)\<lparr>mst_result := ts\<rparr>\<rparr>"

lemma with_result_simps [simp]:
  "mst_result (mc_status (with_result ts cr)) = ts" "mc_meta (with_result ts cr) = mc_meta cr"
  by (simp_all add: with_result_def)

text \<open>A stored object has a resource version.\<close>

definition stored_at :: "string \<Rightarrow> kobj \<Rightarrow> kobj" where
  "stored_at rv x = set_rv rv x"

lemmas samples =
  sample_cr_def sample_policy_def sample_override_def sample_cm_def stored_at_def meta_of_def
  mem_of_def okey_of_def

end
