(* ===== verification/Client_Laws.thy ===== *)
theory Client_Laws
  imports Samples
begin

text \<open>
  What the helpers of \<open>client.go\<close> promise over any server that keeps the laws of \<open>kube_api\<close>:
  their effect on the stored objects when they return nil, that a failed call changed nothing, and
  that calling them again changes nothing.
\<close>

section \<open>Lemmas in the interface\<close>

context kube_api
begin

lemma IsExists_run:
  "IsExists cli k w = (r, w') \<Longrightarrow>
   objs w' = objs w \<and> (\<forall>f. r = Ok f \<longrightarrow> f = objs w k) \<and> (\<forall>p. r \<noteq> Panic p)"
  using reads(1)[of k w] no_panic(1)[of k w]
  by (auto simp: IsExists_def bindg_def attempt_def ret_def fail_def get_Ok
      dest: get_missing[symmetric] split: prod.splits outcome.splits if_splits)

lemma IsExists_inv [keeps_intros]: "keeps inv (IsExists cli k)"
  unfolding IsExists_def
  by (intro keeps_intros keeps_inv)

lemma IsExistsByName_eq: "IsExistsByName cli kd n ns = IsExists cli (kd, ns, n)"
  by (simp add: IsExistsByName_def IsExists_def)

text \<open>A helper that looks the object up first: the three cases of what it can do.\<close>

lemma after_lookup:
  assumes "bindg (IsExists cli k) f w = (r, w')"
  obtains (error) e where "r = Err e" "objs w' = objs w"
    | (found) w1 where "f (objs w k) w1 = (r, w')" "objs w1 = objs w" "IsExists cli k w = (Ok (objs w k), w1)"
proof -
  obtain q w1 where q: "IsExists cli k w = (q, w1)" by fastforce
  note run = IsExists_run[OF q]
  show ?thesis
  proof (cases q)
    case (Ok a)
    with run assms q show ?thesis by (intro found) (auto simp: bindg_def)
  next
    case (Err e)
    with run assms q show ?thesis by (intro error) (auto simp: bindg_def)
  next
    case (Panic p)
    with run show ?thesis by simp
  qed
qed

lemma create_Err: "c_create cli x w = (r, w') \<Longrightarrow> r \<noteq> Ok () \<Longrightarrow> objs w' = objs w"
  using failed_writes(1) no_panic(3) by (cases r) auto

lemma update_Err: "c_update cli x w = (r, w') \<Longrightarrow> (\<And>y. r \<noteq> Ok y) \<Longrightarrow> objs w' = objs w"
  using failed_writes(2) no_panic(4) by (cases r) auto

lemma create_with_ref_run:
  assumes "bindg (c_set_ref cli m x) (CreateObject cli) w = (r, w')"
  shows "(r \<noteq> Ok () \<longrightarrow> objs w' = objs w) \<and>
    (r = Ok () \<longrightarrow> objs w (okey_of x) = None \<and> om_rv (ometa x) = '''' \<and>
       (\<exists>x' y os. x' = set_ometa ((ometa x)\<lparr>om_owners := os\<rparr>) x \<and> okey_of y = okey_of x \<and>
          om_labels (ometa y) = om_labels (ometa x) \<and> persisted x' y \<and>
          objs w' = (objs w)(okey_of x \<mapsto> y))) \<and> (\<forall>p. r \<noteq> Panic p)"
proof -
  obtain q w1 where q: "c_set_ref cli m x w = (q, w1)" by fastforce
  have same: "objs w1 = objs w" using reads(3)[of m x w] q by simp
  show ?thesis
  proof (cases q)
    case (Ok x')
    then obtain os where x': "x' = set_ometa ((ometa x)\<lparr>om_owners := os\<rparr>) x"
      using set_ref_Ok q by blast
    have run: "c_create cli x' w1 = (r, w')" using assms q Ok by (simp add: bindg_def CreateObject_def)
    have keys: "okey_of x' = okey_of x" "om_labels (ometa x') = om_labels (ometa x)"
        "om_rv (ometa x') = om_rv (ometa x)"
      by (simp_all add: x')
    have "r = Ok () \<Longrightarrow> objs w (okey_of x) = None \<and> om_rv (ometa x) = '''' \<and>
      (\<exists>y. okey_of y = okey_of x \<and> om_labels (ometa y) = om_labels (ometa x) \<and> persisted x' y \<and>
          objs w' = (objs w)(okey_of x \<mapsto> y))"
      using create_Ok[of x' w1 w'] run keys same by auto
    moreover have "r \<noteq> Panic p" for p using no_panic(3) run by blast
    ultimately show ?thesis using create_Err[OF run] same x' by metis
  next
    case (Err e)
    with assms q same show ?thesis by (auto simp: bindg_def)
  next
    case (Panic p)
    with q no_panic(8) show ?thesis by blast
  qed
qed

lemma upsert_run:
  assumes "UpsertObject cli x w = (r, w')"
  shows "(r \<noteq> Ok () \<longrightarrow> objs w' = objs w) \<and>
    (r = Ok () \<longrightarrow>
       (\<exists>y z. objs w (okey_of x) = Some z \<and> okey_of y = okey_of x \<and>
          om_labels (ometa y) = om_labels (ometa x) \<and> om_deleting (ometa y) = om_deleting (ometa z) \<and>
          om_finalizers (ometa y) = om_finalizers (ometa x) \<and> persisted x y \<and>
          objs w' = (objs w)(okey_of x :=
            (if om_deleting (ometa y) \<and> om_finalizers (ometa y) = [] then None else Some y)))) \<and>
    (\<forall>p. r \<noteq> Panic p)"
proof -
  obtain q w1 where q: "c_update cli x w = (q, w1)" by fastforce
  show ?thesis
  proof (cases q)
    case (Ok y)
    with assms q have "r = Ok ()" "w' = w1" by (simp_all add: UpsertObject_def bindg_def ret_def)
    from q Ok have "c_update cli x w = (Ok y, w1)" by simp
    from update_Ok[OF this] show ?thesis
      unfolding \<open>r = Ok ()\<close> \<open>w' = w1\<close> by blast
  next
    case (Err e)
    with assms q have "r = Err e" "w' = w1" by (simp_all add: UpsertObject_def bindg_def)
    with update_Err[OF q] Err show ?thesis by simp
  next
    case (Panic p)
    with q no_panic(4) show ?thesis by blast
  qed
qed

lemma Ensure_run:
  assumes "Ensure cli cr x w = (r, w')"
  shows "(r \<noteq> Ok () \<longrightarrow> objs w' = objs w) \<and> (\<forall>p. r \<noteq> Panic p) \<and>
    (r = Ok () \<longrightarrow> objs w (okey_of x) \<noteq> None \<and> objs w' = objs w \<or>
       objs w (okey_of x) = None \<and>
       (\<exists>x' y os. x' = set_ometa ((ometa x)\<lparr>om_owners := os\<rparr>) x \<and> okey_of y = okey_of x \<and>
          om_labels (ometa y) = om_labels (ometa x) \<and> persisted x' y \<and>
          objs w' = (objs w)(okey_of x \<mapsto> y)))"
  using assms unfolding Ensure_def
proof (cases rule: after_lookup)
  case (found w1)
  show ?thesis
  proof (cases "objs w (okey_of x)")
    case None
    with found create_with_ref_run[of "mc_meta cr" x w1 r w'] show ?thesis by auto
  qed (use found in \<open>auto simp: go_simps\<close>)
qed auto

text \<open>
  The helpers that also update: \<open>new\<close> is created with an owner when the key is free, and sent
  with the stored resource version when \<open>upd\<close> sees a difference.
\<close>

lemma ensure_update_post:
  assumes run: "bindg (IsExists cli (okey_of new)) (\<lambda>f. case f of
      Some old \<Rightarrow> upd old | None \<Rightarrow> bindg (c_set_ref cli m new) (CreateObject cli)) w = (Ok (), w')"
    and upd: "\<And>old. upd old = UpsertObject cli (set_rv (om_rv (ometa old)) new) \<or>
      upd old = ret () \<and> same old \<or> (\<exists>p. upd old = panic p)"
    and same: "\<And>m' y. persisted (set_ometa m' new) y \<Longrightarrow> same y"
    and live: "\<And>z. objs w (okey_of new) = Some z \<Longrightarrow> \<not> om_deleting (ometa z)"
  shows "\<exists>y. same y \<and> objs w' = (objs w)(okey_of new \<mapsto> y)"
  using run
proof (cases rule: after_lookup)
  case (found w1)
  show ?thesis
  proof (cases "objs w (okey_of new)")
    case None
    with found create_with_ref_run[of m new w1 "Ok ()" w'] same show ?thesis by fastforce
  next
    case (Some old)
    with found have run': "upd old w1 = (Ok (), w')" by simp
    from upd[of old] consider
        "upd old = UpsertObject cli (set_rv (om_rv (ometa old)) new)" | "upd old = ret ()" "same old"
      | p where "upd old = panic p" by blast
    then show ?thesis
    proof cases
      case 1
      from upsert_run[OF run'[unfolded 1]] obtain y z where
        yz: "objs w1 (okey_of new) = Some z" "om_deleting (ometa y) = om_deleting (ometa z)"
        "persisted (set_rv (om_rv (ometa old)) new) y"
        "objs w' = (objs w1)(okey_of new :=
            (if om_deleting (ometa y) \<and> om_finalizers (ometa y) = [] then None else Some y))"
        by auto
      with live found(2) have "\<not> om_deleting (ometa y)" by simp
      with yz found(2) same show ?thesis unfolding set_rv_def by auto
    next
      case 2
      with run' found Some have "objs w' = (objs w)(okey_of new \<mapsto> old)" by (auto simp: go_simps)
      with 2 show ?thesis by blast
    qed (use run' in \<open>simp add: go_simps\<close>)
  qed
qed simp

end

section \<open>Bodies the server keeps\<close>

lemma persisted_cases:
  "persisted (OPP p) y \<longleftrightarrow> (\<exists>q. y = OPP q \<and> pp_affinity q = pp_affinity p \<and>
     pp_weights q = pp_weights p \<and>
     selectors_kept (om_namespace (pp_meta p)) (pp_selectors p) (pp_selectors q))"
  "persisted (OOP a) y \<longleftrightarrow> (\<exists>b. y = OOP b \<and> op_rules b = op_rules a \<and>
     selectors_kept (om_namespace (op_meta a)) (op_selectors a) (op_selectors b))"
  "same_body (OConfigMap c) y \<longleftrightarrow> (\<exists>d. y = OConfigMap d \<and> cm_data c = cm_data d)"
  by (cases y; auto dest: same_body_kind)+

lemma upsert_policy_post:
  assumes "kube_api cli objs I"
    and "UpsertPPEnsure cli cr p w = (Ok (), w')"
    and "\<And>z. objs w (okey_of (OPP p)) = Some z \<Longrightarrow> \<not> om_deleting (ometa z)"
  shows "\<exists>q. objs w' = (objs w)(okey_of (OPP p) \<mapsto> OPP q) \<and> pp_affinity q = pp_affinity p \<and>
    (pp_weights q = pp_weights p \<or> objs w (okey_of (OPP p)) = Some (OPP q) \<and>
       pp_selectors q = pp_selectors p)"
proof -
  let ?k = "okey_of (OPP p)"
  let ?same = "\<lambda>z. \<exists>q. z = OPP q \<and> pp_affinity q = pp_affinity p \<and>
    (pp_weights q = pp_weights p \<or> objs w ?k = Some (OPP q) \<and> pp_selectors q = pp_selectors p)"
  have "\<exists>y. ?same y \<and> objs w' = (objs w)(?k \<mapsto> y)"
    using assms(2) unfolding UpsertPPEnsure_def
  proof (rule kube_api.after_lookup[OF assms(1)], goal_cases)
    case (2 w1)
    note found = 2(1,2)
    show ?thesis
    proof (cases "objs w ?k")
      case None
      with found have "bindg (c_set_ref cli (mc_meta cr) (OPP p)) (CreateObject cli) w1 = (Ok (), w')"
        by simp
      from kube_api.create_with_ref_run[OF assms(1) this] obtain y os where
        "persisted (set_ometa ((ometa (OPP p))\<lparr>om_owners := os\<rparr>) (OPP p)) y"
        "objs w' = (objs w1)(?k \<mapsto> y)" by blast
      with found show ?thesis by (auto simp: persisted_cases)
    next
      case (Some z)
      with found(1) obtain old where z: "z = OPP old" by (cases z) (auto simp: go_simps)
      show ?thesis
      proof (cases "pp_selectors p = pp_selectors old \<and> pp_affinity p = pp_affinity old")
        case True
        with found Some z have "objs w' = objs w"
          by (auto simp: go_simps Let_def split: option.splits)
        with True Some z show ?thesis by (intro exI[of _ z]) auto
      next
        case False
        with found Some z have
          "UpsertObject cli (set_rv (om_rv (pp_meta old)) (OPP p)) w1 = (Ok (), w')"
          by (auto simp: go_simps Let_def split: option.splits if_splits)
        from kube_api.upsert_run[OF assms(1) this] obtain y z' where
          y: "objs w1 (okey_of (set_rv (om_rv (pp_meta old)) (OPP p))) = Some z'"
          "om_deleting (ometa y) = om_deleting (ometa z')" "persisted (set_rv (om_rv (pp_meta old)) (OPP p)) y"
          "objs w' = (objs w1)(okey_of (set_rv (om_rv (pp_meta old)) (OPP p)) :=
            (if om_deleting (ometa y) \<and> om_finalizers (ometa y) = [] then None else Some y))"
          by blast
        have "\<not> om_deleting (ometa y)" using y(1,2) assms(3) found(2) by (simp del: set_rv_cases)
        with y(3,4) found(2) show ?thesis
          by (auto simp: persisted_cases okey_of_def)
      qed
    qed
  qed simp
  then show ?thesis by blast
qed

section \<open>Properties\<close>

text \<open>
  C27: \<open>Ensure\<close> creates what is missing and never touches what exists: when it returns nil the
  object is there, every object stored before is stored unchanged, and repeating the call, however
  it ends, changes nothing; when it fails nothing was changed.
\<close>

theorem ensure_never_overwrites:
  assumes "kube_api cli objs I"
    and "Ensure cli cr x w = (r, w')"
  shows "(r = Ok () \<longrightarrow> objs w' (okey_of x) \<noteq> None) \<and> (r \<noteq> Ok () \<longrightarrow> objs w' = objs w) \<and>
    (\<forall>k z. objs w k = Some z \<longrightarrow> objs w' k = Some z) \<and>
    (\<forall>k. k \<noteq> okey_of x \<longrightarrow> objs w' k = objs w k) \<and>
    (\<forall>r2 w2. r = Ok () \<longrightarrow> Ensure cli cr x w' = (r2, w2) \<longrightarrow> objs w2 = objs w')"
proof -
  note run = kube_api.Ensure_run[OF assms(1)]
  have again: "objs w2 = objs w'"
    if "Ensure cli cr x w' = (r2, w2)" "objs w' (okey_of x) \<noteq> None" for r2 w2
    using run[OF that(1)] that(2) by blast
  from run[OF assms(2)] consider "objs w' = objs w" "r \<noteq> Ok ()"
    | "objs w' = objs w" "r = Ok ()" "objs w (okey_of x) \<noteq> None"
    | y where "r = Ok ()" "objs w (okey_of x) = None" "objs w' = (objs w)(okey_of x \<mapsto> y)"
    by blast
  then show ?thesis
  proof cases
    case 3
    then have "objs w' (okey_of x) \<noteq> None" by simp
    with 3 again show ?thesis by auto
  qed (use again in auto)
qed

theorem ensure_never_overwrites_witness:
  "\<exists>w'. Ensure mem_client sample_cr (OConfigMap (sample_cm [(''a'', ''1'')])) (mem_of []) = (Ok (), w') \<and>
    mem_lookup w' (KConfigMap, ''ns'', ''c'') \<noteq> None"
proof -
  let ?x = "OConfigMap (sample_cm [(''a'', ''1'')])"
  have "fst (Ensure mem_client sample_cr ?x (mem_of [])) = Ok ()" by code_simp
  then obtain w' where run: "Ensure mem_client sample_cr ?x (mem_of []) = (Ok (), w')"
    by (metis prod.collapse)
  with ensure_never_overwrites[OF mem.kube_api_axioms run] show ?thesis
    by (simp add: samples)
qed

text \<open>
  When \<open>UpsertPPEnsure\<close> returns nil, the stored policy names the clusters of the one it was
  given, whether it was created, rewritten or already so, and nothing else changed. Its weights
  are those of the given policy when a selector or the cluster names differed from the stored
  policy or none was stored; otherwise it is the stored policy: weights are not compared.
\<close>

theorem upsert_policy_converges:
  assumes "kube_api cli objs I"
    and "UpsertPPEnsure cli cr p w = (Ok (), w')"
    and "\<And>z. objs w (okey_of (OPP p)) = Some z \<Longrightarrow> \<not> om_deleting (ometa z)"
  shows "\<exists>q. objs w' = (objs w)(okey_of (OPP p) \<mapsto> OPP q) \<and> pp_affinity q = pp_affinity p \<and>
    (pp_weights q = pp_weights p \<or> objs w (okey_of (OPP p)) = Some (OPP q) \<and>
       pp_selectors q = pp_selectors p)"
  using assms by (rule upsert_policy_post)

theorem upsert_policy_converges_witness:
  "\<exists>w' q. UpsertPPEnsure mem_client sample_cr (sample_policy [''a'', ''b''] [])
      (mem_of [stored_at ''7'' (OPP (sample_policy [''a''] []))]) = (Ok (), w') \<and>
    mem_lookup w' (KPP, ''ns'', ''p'') = Some (OPP q) \<and> pp_affinity q = Some [''a'', ''b'']"
proof -
  let ?p = "sample_policy [''a'', ''b''] []"
  let ?w = "mem_of [stored_at ''7'' (OPP (sample_policy [''a''] []))]"
  have "fst (UpsertPPEnsure mem_client sample_cr ?p ?w) = Ok ()" by code_simp
  then obtain w' where run: "UpsertPPEnsure mem_client sample_cr ?p ?w = (Ok (), w')"
    by (metis prod.collapse)
  have "\<not> om_deleting (ometa z)" if "mem_lookup ?w (okey_of (OPP ?p)) = Some z" for z
    using that by (auto simp: samples mem_lookup_def)
  from upsert_policy_converges[OF mem.kube_api_axioms run this] run show ?thesis
    by (auto simp: samples)
qed

text \<open>
  When \<open>UpsertOpEnsure\<close> returns nil, the stored override policy has exactly the rules it was
  given: an \<open>add\<close> operator stays \<open>add\<close> also when the policy existed, the rewrite to \<open>replace\<close> in
  the source changes copies only.
\<close>

theorem upsert_override_keeps_operators:
  assumes "kube_api cli objs I"
    and "UpsertOpEnsure cli cr p w = (Ok (), w')"
    and "\<And>z. objs w (okey_of (OOP p)) = Some z \<Longrightarrow> \<not> om_deleting (ometa z)"
  shows "\<exists>q. objs w' = (objs w)(okey_of (OOP p) \<mapsto> OOP q) \<and> op_rules q = op_rules p"
proof -
  have "\<exists>y. (\<exists>q. y = OOP q \<and> op_rules q = op_rules p) \<and> objs w' = (objs w)(okey_of (OOP p) \<mapsto> y)"
    using assms(2) unfolding UpsertOpEnsure_def
    by (rule kube_api.ensure_update_post[OF assms(1)])
      (auto simp: assms(3) persisted_cases Let_def split: kobj.splits option.splits)
  then show ?thesis by blast
qed

theorem upsert_override_keeps_operators_witness:
  "\<exists>w' q. UpsertOpEnsure mem_client sample_cr sample_override
      (mem_of [stored_at ''7'' (OOP (sample_override\<lparr>op_rules := []\<rparr>))]) = (Ok (), w') \<and>
    mem_lookup w' (KOP, ''ns'', ''o'') = Some (OOP q) \<and>
    map (\<lambda>r. map pt_operator (or_plaintext r)) (op_rules q) = [[OpAdd]]"
proof -
  let ?w = "mem_of [stored_at ''7'' (OOP (sample_override\<lparr>op_rules := []\<rparr>))]"
  have "fst (UpsertOpEnsure mem_client sample_cr sample_override ?w) = Ok ()" by code_simp
  then obtain w' where run: "UpsertOpEnsure mem_client sample_cr sample_override ?w = (Ok (), w')"
    by (metis prod.collapse)
  have "\<not> om_deleting (ometa z)" if "mem_lookup ?w (okey_of (OOP sample_override)) = Some z" for z
    using that by (auto simp: samples mem_lookup_def)
  from upsert_override_keeps_operators[OF mem.kube_api_axioms run this] run show ?thesis
    by (auto simp: samples)
qed

text \<open>
  When \<open>EnsureConfigMapUpdate\<close> returns nil, the stored ConfigMap has the data it was given.
\<close>

theorem ensure_config_map_data:
  assumes "kube_api cli objs I"
    and "EnsureConfigMapUpdate cli cr c w = (Ok (), w')"
    and "\<And>z. objs w (okey_of (OConfigMap c)) = Some z \<Longrightarrow> \<not> om_deleting (ometa z)"
  shows "\<exists>d. objs w' = (objs w)(okey_of (OConfigMap c) \<mapsto> OConfigMap d) \<and>
    map_of (cm_data d) = map_of (cm_data c)"
proof -
  have "\<exists>y. (\<exists>d. y = OConfigMap d \<and> map_of (cm_data d) = map_of (cm_data c)) \<and>
      objs w' = (objs w)(okey_of (OConfigMap c) \<mapsto> y)"
    using assms(2) unfolding EnsureConfigMapUpdate_def
    by (rule kube_api.ensure_update_post[OF assms(1)])
      (auto simp: assms(3) persisted_cases gm_eq_iff split: kobj.splits)
  then show ?thesis by blast
qed

theorem ensure_config_map_data_witness:
  "\<exists>w' d. EnsureConfigMapUpdate mem_client sample_cr (sample_cm [(''a'', ''2'')])
      (mem_of [stored_at ''7'' (OConfigMap (sample_cm [(''a'', ''1'')]))]) = (Ok (), w') \<and>
    mem_lookup w' (KConfigMap, ''ns'', ''c'') = Some (OConfigMap d) \<and> map_of (cm_data d) ''a'' = Some ''2''"
proof -
  let ?c = "sample_cm [(''a'', ''2'')]"
  let ?w = "mem_of [stored_at ''7'' (OConfigMap (sample_cm [(''a'', ''1'')]))]"
  have "fst (EnsureConfigMapUpdate mem_client sample_cr ?c ?w) = Ok ()" by code_simp
  then obtain w' where run: "EnsureConfigMapUpdate mem_client sample_cr ?c ?w = (Ok (), w')"
    by (metis prod.collapse)
  have "\<not> om_deleting (ometa z)" if "mem_lookup ?w (okey_of (OConfigMap ?c)) = Some z" for z
    using that by (auto simp: samples mem_lookup_def)
  from ensure_config_map_data[OF mem.kube_api_axioms run this] run show ?thesis
    by (auto simp: samples)
qed

end
