(* ===== verification/Generators.thy ===== *)
theory Generators
  imports Client_Laws
begin

text \<open>
  The objects the control plane writes: \<open>pkg/driver/k8s/obj.go\<close> (service, host configuration,
  member MongoDB) and \<open>pkg/driver/karmada/obj.go\<close> (propagation and override policies). What the
  Go run-time leaves open (the order of a map iteration, the order of equal elements after
  \<open>sort.Slice\<close>) and JSON decoding is gathered in \<open>runtime\<close>, an argument of the definitions.
\<close>

section \<open>What the run-time decides\<close>

record runtime =
  rt_sort :: "cluster_replicas list \<Rightarrow> cluster_replicas list"
  rt_range_labels :: "(string \<times> string) list \<Rightarrow> (string \<times> string) list"
  rt_range_scale :: "(string \<times> int) list \<Rightarrow> (string \<times> int) list"
  rt_json_sched :: "string \<Rightarrow> gerror + cluster_replicas list option" \<comment> \<open>\<open>null\<close> gives a nil pointer\<close>
  rt_json_status :: "string \<Rightarrow> gerror + mongo_status option"

text \<open>
  \<open>sort.Slice(xs, xs[i].Replicaset > xs[j].Replicaset)\<close> permutes into descending order, stable or
  not; a range over a map visits each entry once.
\<close>

definition runtime_ok :: "runtime \<Rightarrow> bool" where
  "runtime_ok rt \<longleftrightarrow>
     (\<forall>xs. mset (rt_sort rt xs) = mset xs \<and>
           sorted_wrt (\<lambda>a b. cw_replicaset b \<le> cw_replicaset a) (rt_sort rt xs)) \<and>
     iteration_order (rt_range_labels rt) \<and> iteration_order (rt_range_scale rt)"

text \<open>A run-time: insertion sort, and maps visited in the order of the list.\<close>

definition sort_desc :: "cluster_replicas list \<Rightarrow> cluster_replicas list" where
  "sort_desc = sort_key (\<lambda>c. - cw_replicaset c)"

definition plain_runtime ::
    "(string \<Rightarrow> gerror + cluster_replicas list option) \<Rightarrow> (string \<Rightarrow> gerror + mongo_status option) \<Rightarrow> runtime"
where
  "plain_runtime js jm = \<lparr>rt_sort = sort_desc, rt_range_labels = (\<lambda>xs. xs),
     rt_range_scale = (\<lambda>xs. xs), rt_json_sched = js, rt_json_status = jm\<rparr>"

lemma plain_runtime_ok [simp]: "runtime_ok (plain_runtime js jm)"
proof -
  have "sorted (map (\<lambda>c. - cw_replicaset c) (sort_desc xs))" for xs
    by (simp add: sort_desc_def)
  then have "sorted_wrt (\<lambda>a b. cw_replicaset b \<le> cw_replicaset a) (sort_desc xs)" for xs
    by (simp add: sorted_wrt_map)
  then show ?thesis by (simp add: runtime_ok_def plain_runtime_def) (simp add: sort_desc_def)
qed

lemma plain_runtime_simps [simp]:
  "rt_sort (plain_runtime js jm) = sort_desc"
  "rt_range_labels (plain_runtime js jm) = (\<lambda>xs. xs)"
  "rt_range_scale (plain_runtime js jm) = (\<lambda>xs. xs)"
  "rt_json_sched (plain_runtime js jm) = js"
  "rt_json_status (plain_runtime js jm) = jm"
  by (simp_all add: plain_runtime_def)

section \<open>Objects of k8s/obj.go\<close>

definition DefaultPort :: int where "DefaultPort = 27017"
definition DefaultServiceName :: string where "DefaultServiceName = ''mongo''"

definition SetRefAndCreateObject :: "'w client \<Rightarrow> object_meta \<Rightarrow> kobj \<Rightarrow> ('w, unit) go" where
  "SetRefAndCreateObject cli owner obj = bindg (c_set_ref cli owner obj) (CreateObject cli)"

definition ObjIsExists :: "'w client \<Rightarrow> okey \<Rightarrow> ('w, kobj option) go" where
  "ObjIsExists cli k = bindg (attempt (c_get cli k)) (\<lambda>r. case r of
     Inr found \<Rightarrow> ret (Some found)
   | Inl e \<Rightarrow> if \<not> is_not_found e then fail (Wrap e ''can't get this obj'') else ret None)"

definition GetSvc :: "'w client \<Rightarrow> string \<Rightarrow> string \<Rightarrow> ('w, service) go" where
  "GetSvc cli namespace name =
     get_as cli (\<lambda>x. case x of OService s \<Rightarrow> Some s | _ \<Rightarrow> None) (KService, namespace, name)"

definition GenerateService ::
    "string \<Rightarrow> string \<Rightarrow> labels \<Rightarrow> labels \<Rightarrow> bool \<Rightarrow> service" where
  "GenerateService name namespace ls selector headless =
     \<lparr>svc_meta = meta_of name namespace ls,
      svc_ports = [\<lparr>spo_name = DefaultServiceName, spo_port = DefaultPort,
                    spo_target = DefaultPort, spo_node_port = 0\<rparr>],
      svc_selector = selector,
      svc_cluster_ip = (if headless then ''None'' else ''''),
      svc_type = (if headless then '''' else ''NodePort'')\<rparr>"

definition GenerateArbiterService ::
    "string \<Rightarrow> string \<Rightarrow> labels \<Rightarrow> labels \<Rightarrow> bool \<Rightarrow> service" where
  "GenerateArbiterService name namespace ls selector headless =
     \<lparr>svc_meta = meta_of name namespace ls,
      svc_ports = [\<lparr>spo_name = DefaultServiceName, spo_port = DefaultPort,
                    spo_target = DefaultPort, spo_node_port = 0\<rparr>],
      svc_selector = selector,
      svc_cluster_ip = (if headless then ''None'' else ''''),
      svc_type = (if headless then '''' else ''NodePort'')\<rparr>"

text \<open>
  \<open>fmt.Sprintf(s)\<close> without operands: a percent sign starts a verb, for which there is no operand.
  (Explicit argument indexes and \<open>*\<close> widths are not distinguished from flags.)
\<close>

function sprintf0 :: "string \<Rightarrow> string" where
  "sprintf0 [] = []"
| "sprintf0 (c # cs) =
     (if c \<noteq> CHR ''%'' then c # sprintf0 cs
      else (case dropWhile (\<lambda>d. d \<in> set ''+-# 0123456789.*[]'') cs of
              [] \<Rightarrow> ''%!(NOVERB)''
            | v # rest \<Rightarrow> if v = CHR ''%'' then v # sprintf0 rest
                else ''%!'' @ [v] @ ''(MISSING)'' @ sprintf0 rest))"
  by pat_completeness auto

lemma dropWhile_shorter: "dropWhile P xs = y # ys \<Longrightarrow> length ys < Suc (length xs)"
  by (metis length_dropWhile_le length_Cons Suc_le_lessD less_SucI)

termination sprintf0 by (relation "measure length") (auto dest: dropWhile_shorter)

lemma sprintf0_plain: "CHR ''%'' \<notin> set s \<Longrightarrow> sprintf0 s = s"
  by (induction s) auto

definition GenerateConfigMap :: "string \<Rightarrow> string \<Rightarrow> labels \<Rightarrow> host_conf \<Rightarrow> config_map" where
  "GenerateConfigMap name namespace ls hostConf =
     \<lparr>cm_meta = meta_of name namespace ls,
      cm_data = [(''arbiters'', sprintf0 (go_join ''\<newline>'' (hc_arbiters hostConf))),
                 (''datas'', sprintf0 (go_join ''\<newline>'' (hc_members hostConf)))]\<rparr>"

text \<open>
  \<open>PodSpec\<close> is a nil pointer in the object under construction, so assigning its \<open>NodeSelector\<close>
  panics, as do a nil \<open>Replicaset\<close> or \<open>RootPasswd\<close>.
\<close>

definition GenerateMongo ::
    "runtime \<Rightarrow> string \<Rightarrow> string \<Rightarrow> labels \<Rightarrow> multi_cloud \<Rightarrow> mongodb outcome" where
  "GenerateMongo rt name namespace ls cr =
     (let spec = mc_spec cr in
      case (mcs_replicaset spec, au_root_passwd (mcs_auth spec)) of
        (Some replicaset, Some passwd) \<Rightarrow>
          (let mongo = \<lparr>mg_meta = meta_of name namespace ls,
             mg_spec = \<lparr>mgs_pod_spec = None,
               mgs_exporter = Some \<lparr>xs_resources = Some (ex_resource (mcs_export spec)),
                                    xs_enable = ex_enable (mcs_export spec)\<rparr>,
               mgs_resources = Some (mcs_resource spec),
               mgs_db_user = \<lparr>du_name = '''', du_user = '''', du_password = '''', du_enable = False\<rparr>,
               mgs_persistence = \<lparr>ps_storage = sg_size (mcs_storage spec), ps_class = ''''\<rparr>,
               mgs_pull_secret = \<lparr>pl_username = '''', pl_password = ''''\<rparr>,
               mgs_pull_policy = '''', mgs_type = ''ReplicaSet'', mgs_root_password = passwd,
               mgs_image = im_image (mcs_image spec),
               mgs_custom_config_ref = (case cf_ref (mcs_config spec) of Some r \<Rightarrow> r | None \<Rightarrow> ''''),
               mgs_member_config_ref = '''',
               mgs_config = (case cf_set (mcs_config spec) of
                   Some m \<Rightarrow> map (\<lambda>(k, v). \<lparr>cv_name = k, cv_value = v\<rparr>) (rt_range_labels rt m)
                 | None \<Rightarrow> []),
               mgs_members = sint replicaset, mgs_arbiter = False, mgs_pause = False,
               mgs_rs_init = False\<rparr>,
             mg_status = empty_mongo_status\<rparr>
           in if sp_node_select (mcs_spread spec) \<noteq> None
              then Panic ''nil pointer dereference'' else Ok mongo)
      | _ \<Rightarrow> Panic ''nil pointer dereference'')"

section \<open>Policies of karmada/obj.go\<close>

definition service_selector :: "string \<Rightarrow> resource_selector" where
  "service_selector n = \<lparr>rsel_api_version = ''v1'', rsel_kind = ''Service'', rsel_name = n,
     rsel_namespace = ''''\<rparr>"

definition GenerateServicePP ::
    "string \<Rightarrow> string \<Rightarrow> service \<Rightarrow> labels \<Rightarrow> string list \<Rightarrow> propagation_policy" where
  "GenerateServicePP name namespace service ls cluster =
     \<lparr>pp_meta = meta_of name namespace ls,
      pp_selectors = [service_selector (om_name (svc_meta service))],
      pp_affinity = Some cluster, pp_weights = None, pp_spread = []\<rparr>"

definition GenerateConfigMapPP ::
    "string \<Rightarrow> string \<Rightarrow> config_map \<Rightarrow> labels \<Rightarrow> string list \<Rightarrow> propagation_policy" where
  "GenerateConfigMapPP name namespace configMap ls cluster =
     \<lparr>pp_meta = meta_of name namespace ls,
      pp_selectors = [\<lparr>rsel_api_version = ''v1'', rsel_kind = ''ConfigMap'',
        rsel_name = om_name (cm_meta configMap), rsel_namespace = namespace\<rparr>],
      pp_affinity = Some cluster, pp_weights = None, pp_spread = []\<rparr>"

text \<open>The loop over the scheduler result, which stops at the first cluster with no replica.\<close>

fun static_weights :: "cluster_replicas list \<Rightarrow> static_weight list" where
  "static_weights [] = []"
| "static_weights (c # cs) =
     (if cw_replicaset c = 0 then []
      else \<lparr>sw_clusters = [cw_cluster c], sw_weight = cw_replicaset c\<rparr> # static_weights cs)"

text \<open>The constraints collected by field are overwritten by the same list, when it is not nil.\<close>

definition spread_of :: "multi_cloud \<Rightarrow> karmada_spread list" where
  "spread_of cr =
     (let given = sp_constraints (mcs_spread (mc_spec cr));
          fields = map (\<lambda>c. \<lparr>ks_field = ks_field c, ks_label = '''', ks_max_groups = 0,
                             ks_min_groups = 0\<rparr>) (case given of None \<Rightarrow> [] | Some cs \<Rightarrow> cs)
      in (case given of Some cs \<Rightarrow> cs | None \<Rightarrow> fields))"

definition GenerateMongoPP ::
    "string \<Rightarrow> string \<Rightarrow> labels \<Rightarrow> multi_cloud \<Rightarrow> cluster_replicas list \<Rightarrow> string list \<Rightarrow>
     propagation_policy" where
  "GenerateMongoPP name namespace ls cr clusterWithReplicaset clusters =
     \<lparr>pp_meta = meta_of name namespace ls,
      pp_selectors = [\<lparr>rsel_api_version = ''middleware.fedstate.io/v1alpha1'', rsel_kind = ''MongoDB'',
        rsel_name = om_name (mc_meta cr), rsel_namespace = ''''\<rparr>],
      pp_affinity = Some clusters,
      pp_weights = Some (static_weights clusterWithReplicaset),
      pp_spread = spread_of cr\<rparr>"

definition mongo_selector :: "multi_cloud \<Rightarrow> resource_selector" where
  "mongo_selector cr = \<lparr>rsel_api_version = ''middleware.fedstate.io/v1alpha1'',
     rsel_kind = ''MongoDB'', rsel_name = om_name (mc_meta cr),
     rsel_namespace = om_namespace (mc_meta cr)\<rparr>"

definition GenerateMongoOPWithPath ::
    "string \<Rightarrow> string \<Rightarrow> string \<Rightarrow> labels \<Rightarrow> multi_cloud \<Rightarrow> string \<Rightarrow> override_policy" where
  "GenerateMongoOPWithPath name namespace clusterName ls cr path =
     \<lparr>op_meta = meta_of name namespace ls, op_selectors = [mongo_selector cr],
      op_rules = [\<lparr>or_clusters = [clusterName],
        or_plaintext = [\<lparr>pt_path = path, pt_operator = OpAdd, pt_value = ''true''\<rparr>],
        or_labels = []\<rparr>]\<rparr>"

definition GenerateMongoOPWithLabel ::
    "string \<Rightarrow> string \<Rightarrow> string \<Rightarrow> labels \<Rightarrow> multi_cloud \<Rightarrow> labels \<Rightarrow> override_policy" where
  "GenerateMongoOPWithLabel name namespace clusterName ls cr label =
     \<lparr>op_meta = meta_of name namespace ls, op_selectors = [mongo_selector cr],
      op_rules = [\<lparr>or_clusters = [clusterName], or_plaintext = [],
        or_labels = [\<lparr>lo_operator = OpAdd, lo_value = label\<rparr>]\<rparr>]\<rparr>"

section \<open>Properties\<close>

lemma static_weights_takeWhile:
  "static_weights cs = map (\<lambda>c. \<lparr>sw_clusters = [cw_cluster c], sw_weight = cw_replicaset c\<rparr>)
     (takeWhile (\<lambda>c. cw_replicaset c \<noteq> 0) cs)"
  by (induction cs) auto

lemma takeWhile_desc:
  assumes "sorted_wrt (\<lambda>a b. cw_replicaset b \<le> cw_replicaset a) cs" "\<forall>c \<in> set cs. 0 \<le> cw_replicaset c"
  shows "takeWhile (\<lambda>c. cw_replicaset c \<noteq> 0) cs = filter (\<lambda>c. cw_replicaset c \<noteq> 0) cs"
  using assms
proof (induction cs)
  case (Cons c cs)
  have "filter (\<lambda>c. cw_replicaset c \<noteq> 0) cs = []" if "cw_replicaset c = 0"
    using Cons.prems that by (force simp: filter_empty_conv)
  with Cons show ?case by simp
qed simp

text \<open>
  Over the scheduler result sorted by the handler, the weights of the MongoDB policy give
  every cluster with replicas its number of replicas and name no other, although the loop stops
  at the first zero; and with a non-nil \<open>SpreadConstraints\<close> the policy carries exactly that list.
\<close>

theorem mongo_policy_weights:
  assumes "runtime_ok rt" and "\<forall>c \<in> set cs. 0 \<le> cw_replicaset c"
  shows "\<exists>ws. pp_weights (GenerateMongoPP n ns ls cr (rt_sort rt cs) actives) = Some ws \<and>
    mset ws = {#\<lparr>sw_clusters = [cw_cluster c], sw_weight = cw_replicaset c\<rparr>.
                 c \<in># filter_mset (\<lambda>c. cw_replicaset c \<noteq> 0) (mset cs)#} \<and>
    (\<forall>g. sp_constraints (mcs_spread (mc_spec cr)) = Some g \<longrightarrow>
       pp_spread (GenerateMongoPP n ns ls cr (rt_sort rt cs) actives) = g)"
proof -
  have perm: "mset (rt_sort rt cs) = mset cs" using assms(1) by (simp add: runtime_ok_def)
  then have set: "set (rt_sort rt cs) = set cs" by (metis set_mset_mset)
  have "static_weights (rt_sort rt cs) =
      map (\<lambda>c. \<lparr>sw_clusters = [cw_cluster c], sw_weight = cw_replicaset c\<rparr>)
        (filter (\<lambda>c. cw_replicaset c \<noteq> 0) (rt_sort rt cs))"
    using takeWhile_desc[of "rt_sort rt cs"] assms set
    by (simp add: static_weights_takeWhile runtime_ok_def)
  moreover have "mset (filter (\<lambda>c. cw_replicaset c \<noteq> 0) (rt_sort rt cs)) =
      filter_mset (\<lambda>c. cw_replicaset c \<noteq> 0) (mset cs)"
    by (simp only: mset_filter perm)
  ultimately show ?thesis by (simp add: GenerateMongoPP_def spread_of_def del: mset_filter)
qed

theorem mongo_policy_weights_witness:
  "\<exists>ws. pp_weights (GenerateMongoPP ''m'' ''ns'' [] sample_cr
      (sort_desc [\<lparr>cw_cluster = ''a'', cw_replicaset = 0, cw_arbiter = False\<rparr>,
                  \<lparr>cw_cluster = ''b'', cw_replicaset = 2, cw_arbiter = False\<rparr>]) [''b'']) = Some ws \<and>
    mset ws = {#\<lparr>sw_clusters = [''b''], sw_weight = 2\<rparr>#}"
proof -
  let ?cs = "[\<lparr>cw_cluster = ''a'', cw_replicaset = 0, cw_arbiter = False\<rparr>,
              \<lparr>cw_cluster = ''b'', cw_replicaset = 2, cw_arbiter = False\<rparr>]"
  have "\<forall>c \<in> set ?cs. 0 \<le> cw_replicaset c" by simp
  from mongo_policy_weights[OF plain_runtime_ok this, where n = "''m''" and ns = "''ns''" and
      ls = "[]" and cr = sample_cr and actives = "[''b'']"]
  show ?thesis unfolding plain_runtime_simps by simp
qed



text \<open>
  The number of replicas per cluster always reaches the stored MongoDB policy: the generated
  policy names no namespace in its selector while the stored one does, so \<open>UpsertPPEnsure\<close> sends
  it also when only the weights changed.
\<close>

theorem mongo_policy_weights_propagate:
  assumes "kube_api cli objs I"
    and "UpsertPPEnsure cli cr (GenerateMongoPP n ns ls cr cs actives) w = (Ok (), w')"
    and "\<And>z. objs w (KPP, ns, n) = Some z \<Longrightarrow> \<not> om_deleting (ometa z)"
    and "\<And>old. objs w (KPP, ns, n) = Some (OPP old) \<Longrightarrow>
           \<forall>s \<in> set (pp_selectors old). rsel_namespace s \<noteq> ''''"
  shows "\<exists>q. objs w' = (objs w)((KPP, ns, n) \<mapsto> OPP q) \<and>
    pp_affinity q = Some actives \<and> pp_weights q = Some (static_weights cs)"
proof -
  let ?p = "GenerateMongoPP n ns ls cr cs actives"
  have key: "okey_of (OPP ?p) = (KPP, ns, n)"
    by (simp add: okey_of_def GenerateMongoPP_def meta_of_def)
  from upsert_policy_post[OF assms(1,2)] assms(3) obtain q where
    q: "objs w' = (objs w)((KPP, ns, n) \<mapsto> OPP q)" "pp_affinity q = pp_affinity ?p"
       "pp_weights q = pp_weights ?p \<or> objs w (KPP, ns, n) = Some (OPP q) \<and>
        pp_selectors q = pp_selectors ?p"
    unfolding key by blast
  have "pp_selectors q \<noteq> pp_selectors ?p" if "objs w (KPP, ns, n) = Some (OPP q)"
    using assms(4)[OF that] by (auto simp: GenerateMongoPP_def)
  with q show ?thesis by (auto simp: GenerateMongoPP_def)
qed

theorem mongo_policy_weights_propagate_witness:
  "let new = GenerateMongoPP ''m'' ''ns'' [] sample_cr
               [\<lparr>cw_cluster = ''a'', cw_replicaset = 2, cw_arbiter = False\<rparr>] [''a''];
       old = admit (stored_at ''7'' (OPP (GenerateMongoPP ''m'' ''ns'' [] sample_cr
               [\<lparr>cw_cluster = ''a'', cw_replicaset = 1, cw_arbiter = False\<rparr>] [''a''])))
   in \<exists>w' q. UpsertPPEnsure mem_client sample_cr new (mem_of [old]) = (Ok (), w') \<and>
     mem_lookup w' (KPP, ''ns'', ''m'') = Some (OPP q) \<and>
     pp_weights q = Some [\<lparr>sw_clusters = [''a''], sw_weight = 2\<rparr>]"
proof -
  let ?cs = "[\<lparr>cw_cluster = ''a'', cw_replicaset = 2, cw_arbiter = False\<rparr>]"
  let ?new = "GenerateMongoPP ''m'' ''ns'' [] sample_cr ?cs [''a'']"
  let ?w = "mem_of [admit (stored_at ''7'' (OPP (GenerateMongoPP ''m'' ''ns'' [] sample_cr
               [\<lparr>cw_cluster = ''a'', cw_replicaset = 1, cw_arbiter = False\<rparr>] [''a''])))]"
  have "fst (UpsertPPEnsure mem_client sample_cr ?new ?w) = Ok ()" by code_simp
  then obtain w' where run: "UpsertPPEnsure mem_client sample_cr ?new ?w = (Ok (), w')"
    by (metis prod.collapse)
  note defs = samples mem_lookup_def GenerateMongoPP_def
  have 1: "\<not> om_deleting (ometa z)" if "mem_lookup ?w (KPP, ''ns'', ''m'') = Some z" for z
    using that by (auto simp: defs split: if_splits)
  have 2: "\<forall>s \<in> set (pp_selectors old). rsel_namespace s \<noteq> ''''"
    if "mem_lookup ?w (KPP, ''ns'', ''m'') = Some (OPP old)" for old
    using that by (auto simp: defs split: if_splits)
  from mongo_policy_weights_propagate[OF mem.kube_api_axioms run 1 2] run show ?thesis
    by (auto simp: Let_def)
qed

end
