(* ===== verification/Scale_Plan.thy ===== *)
theory Scale_Plan
  imports Generators
begin

text \<open>
  The decisions of \<open>ClusterScaleHandler.Handle\<close> (core.go): how many members of each cluster the
  host configuration lists, which clusters are to grow or shrink, and which service index each
  growing cluster needs. The lines of the host configuration and their parsing are here too, since
  the control plane reads back what it wrote.
\<close>

section \<open>Lines of the host configuration\<close>

text \<open>The bytes the handler writes to its buffer: \<open>host:'vip:port'\<close>.\<close>

definition quote :: string where "quote = [CHR 0x27]"
definition host_mark :: string where "host_mark = ''host:'' @ quote"

definition host_line :: "string \<Rightarrow> 32 word \<Rightarrow> string" where
  "host_line vip port = ''host'' @ '':'' @ quote @ vip @ '':'' @ itoa (sint port) @ quote"

text \<open>\<open>strings.TrimSuffix(strings.Split(line, "host:'")[1], "'")\<close>\<close>

definition host_of_line :: "string \<Rightarrow> string outcome" where
  "host_of_line line = (case go_split host_mark line of
     _ # x # _ \<Rightarrow> Ok (trim_suffix x quote)
   | _ \<Rightarrow> Panic ''index out of range [1]'')"

definition addr_of_host :: "string \<Rightarrow> string" where
  "addr_of_host host = hd (go_split '':'' host)"

definition vip_like :: "string \<Rightarrow> bool" where
  "vip_like vip \<longleftrightarrow> CHR '':'' \<notin> set vip \<and> CHR 0x27 \<notin> set vip \<and> CHR ''\<newline>'' \<notin> set vip"

lemma host_of_host_line:
  assumes "vip_like vip"
  shows "host_of_line (host_line vip port) = Ok (vip @ '':'' @ itoa (sint port))"
proof -
  let ?x = "vip @ '':'' @ itoa (sint port)"
  have "\<not> go_contains (?x @ quote) host_mark"
  proof
    assume "go_contains (?x @ quote) host_mark"
    then obtain xs ys where eq: "?x @ quote = xs @ host_mark @ ys" by (auto simp: go_contains_iff)
    then have "CHR 0x27 \<in> set (butlast (?x @ quote)) \<or> CHR '':'' = CHR 0x27 \<or> ys = [] \<and>
        butlast (?x @ quote) = xs @ ''host:''"
      by (cases ys rule: rev_cases) (auto simp: host_mark_def quote_def butlast_append)
    moreover have "butlast (?x @ quote) = ?x" by (simp add: quote_def butlast_append)
    moreover have "CHR 0x27 \<notin> set ?x" using assms by (simp add: vip_like_def)
    ultimately have "?x = xs @ ''host:''" by auto
    then have "last ?x = CHR '':''" by simp
    moreover have "last ?x \<in> set (itoa (sint port))"
      using nat_digits_not_Nil by (auto simp: itoa_def)
    ultimately show False using itoa_free(1) by metis
  qed
  then have "go_split host_mark (host_line vip port) = [[], ?x @ quote]"
    using go_split_prefix[of host_mark "?x @ quote"]
    by (simp add: host_line_def host_mark_def quote_def go_split_absent)
  moreover have "trim_suffix (?x @ quote) quote = ?x" by (rule trim_suffix_append)
  ultimately show ?thesis by (simp add: host_of_line_def del: append_assoc)
qed

lemma addr_of_host_line: "vip_like vip \<Longrightarrow> addr_of_host (vip @ '':'' @ itoa i) = vip"
  using go_split_char_step[of "CHR '':''" vip "itoa i"]
  by (simp add: addr_of_host_def vip_like_def)

lemma host_line_no_newline: "vip_like vip \<Longrightarrow> CHR ''\<newline>'' \<notin> set (host_line vip port)"
  by (simp add: host_line_def vip_like_def quote_def)

section \<open>Members per cluster\<close>

definition incr :: "string \<Rightarrow> (string, int) gomap \<Rightarrow> (string, int) gomap" where
  "incr c m = AList.update c (gm_get 0 m c + 1) m"

definition count_addr :: "labels \<Rightarrow> string \<Rightarrow> (string, int) gomap \<Rightarrow> (string, int) gomap" where
  "count_addr vips addr m = fold (\<lambda>(cluster, vip) m. if addr = vip then incr cluster m else m) vips m"

fun host_sizes :: "labels \<Rightarrow> string list \<Rightarrow> (string, int) gomap \<Rightarrow> (string, int) gomap outcome" where
  "host_sizes vips [] m = Ok m"
| "host_sizes vips (line # ls) m =
     (case host_of_line line of
        Ok host \<Rightarrow> host_sizes vips ls (count_addr vips (addr_of_host host) m)
      | Err e \<Rightarrow> Err e
      | Panic p \<Rightarrow> Panic p)"

section \<open>Clusters to scale\<close>

definition scale_up_step ::
    "(string, int) gomap \<Rightarrow> cluster_replicas \<Rightarrow> (string, int) gomap \<Rightarrow> (string, int) gomap" where
  "scale_up_step sizes c up =
     (if \<not> gm_has sizes (cw_cluster c) then
        (if cw_replicaset c > 0 then AList.update (cw_cluster c) (cw_replicaset c) up else up)
      else if cw_replicaset c > gm_get 0 sizes (cw_cluster c)
        then AList.update (cw_cluster c) (cw_replicaset c) up else up)"

definition scale_down_step ::
    "(string, int) gomap \<Rightarrow> cluster_replicas \<Rightarrow> (string, int) gomap \<Rightarrow> (string, int) gomap" where
  "scale_down_step sizes c down =
     (if \<not> gm_has sizes (cw_cluster c) then down
      else if cw_replicaset c < gm_get 0 sizes (cw_cluster c)
        then AList.update (cw_cluster c) (cw_replicaset c) down else down)"

definition clustersToScaleUp :: "(string, int) gomap \<Rightarrow> cluster_replicas list \<Rightarrow> (string, int) gomap" where
  "clustersToScaleUp sizes sched = fold (scale_up_step sizes) sched []"

definition clustersToScaleDown :: "(string, int) gomap \<Rightarrow> cluster_replicas list \<Rightarrow> (string, int) gomap" where
  "clustersToScaleDown sizes sched = fold (scale_down_step sizes) sched []"

text \<open>Without a host configuration every cluster of the result is to grow.\<close>

definition all_scale_up :: "cluster_replicas list \<Rightarrow> (string, int) gomap" where
  "all_scale_up sched = fold (\<lambda>c up. AList.update (cw_cluster c) (cw_replicaset c) up) sched []"

definition active_clusters :: "cluster_replicas list \<Rightarrow> string list" where
  "active_clusters sched = map cw_cluster (filter (\<lambda>c. cw_replicaset c \<noteq> 0) sched)"

text \<open>A nil \<open>ReplicasetStatus\<close> of a shrinking cluster is dereferenced.\<close>

fun scale_down_ok :: "(string, int) gomap \<Rightarrow> service_topology list \<Rightarrow> bool outcome" where
  "scale_down_ok down [] = Ok True"
| "scale_down_ok down (t # ts) =
     (if gm_has down (tp_cluster t) then
        (case tp_status t of
           None \<Rightarrow> Panic ''nil pointer dereference''
         | Some n \<Rightarrow> (case scale_down_ok down ts of
             Ok b \<Rightarrow> Ok (b \<and> n = gm_get 0 down (tp_cluster t)) | r \<Rightarrow> r))
      else scale_down_ok down ts)"

section \<open>Service indexes\<close>

definition mongodb_name :: "string \<Rightarrow> nat \<Rightarrow> string" where
  "mongodb_name name j = sprintf_sd (name @ ''-mongodb'') (int j)"

lemma mongodb_name_inject [simp]: "mongodb_name n i = mongodb_name n j \<longleftrightarrow> i = j"
  by (simp add: mongodb_name_def)

type_synonym service_plan = "(nat, string list) gomap"

definition add_cluster :: "nat \<Rightarrow> string \<Rightarrow> service_plan \<Rightarrow> service_plan" where
  "add_cluster j c m = AList.update j (gm_get [] m j @ [c]) m"

text \<open>
  The inner loop \<open>for existServiceMap[serviceName]\<close>: it skips the indexes whose service exists,
  naming the cluster for each, and ends because the names of different indexes differ.
\<close>

function skip_existing ::
    "string \<Rightarrow> string list \<Rightarrow> string \<Rightarrow> nat \<Rightarrow> service_plan \<Rightarrow> nat \<times> service_plan" where
  "skip_existing name exist c j m =
     (if mongodb_name name j \<in> set exist
      then skip_existing name exist c (Suc j) (add_cluster j c m) else (j, m))"
  by pat_completeness auto

lemma finite_taken: "finite {k. mongodb_name name k \<in> set exist}"
proof -
  have "inj (mongodb_name name)" by (simp add: inj_def)
  then show ?thesis using finite_vimageI[of "set exist" "mongodb_name name"] by (simp add: vimage_def)
qed

termination skip_existing
proof (relation "measure (\<lambda>(name, exist, c, j, m). card {k. j \<le> k \<and> mongodb_name name k \<in> set exist})",
    goal_cases)
  case (2 name exist c j m)
  have "j \<in> {k. j \<le> k \<and> mongodb_name name k \<in> set exist}"
    "j \<notin> {k. Suc j \<le> k \<and> mongodb_name name k \<in> set exist}"
    "{k. Suc j \<le> k \<and> mongodb_name name k \<in> set exist} \<subseteq> {k. j \<le> k \<and> mongodb_name name k \<in> set exist}"
    using 2 by auto
  then have "{k. Suc j \<le> k \<and> mongodb_name name k \<in> set exist} \<subset> {k. j \<le> k \<and> mongodb_name name k \<in> set exist}"
    by blast
  moreover have "finite {k. j \<le> k \<and> mongodb_name name k \<in> set exist}"
    by (rule finite_subset[OF _ finite_taken[of name exist]]) auto
  ultimately show ?case by (simp add: psubset_card_mono)
qed simp

declare skip_existing.simps [simp del]

text \<open>The outer loop, \<open>j\<close> from its current value while \<open>j < needCreateSize\<close>.\<close>

function plan_cluster ::
    "string \<Rightarrow> int \<Rightarrow> string \<Rightarrow> string list \<Rightarrow> nat \<Rightarrow> service_plan \<Rightarrow> service_plan" where
  "plan_cluster name need c exist j m =
     (if int j < need
      then (case skip_existing name exist c j m of (j', m') \<Rightarrow>
              plan_cluster name need c (mongodb_name name j' # exist) (Suc j') (add_cluster j' c m'))
      else m)"
  by pat_completeness auto

lemma skip_existing_ge: "skip_existing name exist c j m = (j', m') \<Longrightarrow> j \<le> j'"
proof (induction name exist c j m rule: skip_existing.induct)
  case (1 name exist c j m)
  then show ?case by (subst (asm) (2) skip_existing.simps) (auto split: if_splits)
qed

termination plan_cluster
proof (relation "measure (\<lambda>(name, need, c, exist, j, m). nat need - j)", goal_cases)
  case (2 name need c exist j m j' m')
  then have "j \<le> j'" using skip_existing_ge by metis
  with 2 show ?case by simp
qed simp

declare plan_cluster.simps [simp del]

definition plan_step ::
    "string \<Rightarrow> (string, string list) gomap \<Rightarrow> string \<times> int \<Rightarrow> service_plan \<Rightarrow> service_plan" where
  "plan_step name svcnames entry m =
     (case entry of (cluster, replicaset) \<Rightarrow>
        (if replicaset = 0 then m
         else (let names = gm_get [] svcnames cluster
               in plan_cluster name (replicaset - int (length names)) cluster names 0 m)))"

definition upsert_plan ::
    "runtime \<Rightarrow> string \<Rightarrow> (string, string list) gomap \<Rightarrow> (string, int) gomap \<Rightarrow> service_plan" where
  "upsert_plan rt name svcnames up = fold (plan_step name svcnames) (rt_range_scale rt up) []"

section \<open>Lemmas\<close>

lemma count_addr_get:
  assumes "wf_gomap vips"
  shows "gm_get 0 (count_addr vips a m) c = gm_get 0 m c + (if map_of vips c = Some a then 1 else 0)"
  using assms unfolding count_addr_def
proof (induction vips arbitrary: m)
  case (Cons e vips)
  obtain k v where e: "e = (k, v)" by fastforce
  have "map_of vips k = None" using Cons.prems e by (simp add: wf_gomap_def map_of_eq_None_iff)
  with Cons e show ?case by (auto simp: wf_gomap_def incr_def)
qed simp

definition lines_at :: "labels \<Rightarrow> string list \<Rightarrow> string \<Rightarrow> nat" where
  "lines_at vips lines c = length (filter
     (\<lambda>l. case host_of_line l of Ok h \<Rightarrow> map_of vips c = Some (addr_of_host h) | _ \<Rightarrow> False) lines)"

lemma host_sizes_get:
  assumes "wf_gomap vips" "host_sizes vips lines m = Ok sizes"
  shows "gm_get 0 sizes c = gm_get 0 m c + int (lines_at vips lines c)"
  using assms
proof (induction vips lines m rule: host_sizes.induct)
  case (2 vips line ls m)
  then show ?case
    by (auto simp: lines_at_def count_addr_get split: outcome.splits)
qed (simp add: lines_at_def)

lemma fold_update_at:
  assumes "distinct (map key xs)" "x \<in> set xs"
  shows "map_of (fold (\<lambda>x m. if P x then AList.update (key x) (val x) m else m) xs m) (key x)
    = (if P x then Some (val x) else map_of m (key x))"
  using assms
proof (induction xs arbitrary: m)
  case (Cons y ys)
  have other: "map_of (fold (\<lambda>x m. if P x then AList.update (key x) (val x) m else m) zs n) k = map_of n k"
    if "k \<notin> key ` set zs" for zs n k
    using that by (induction zs arbitrary: n) (auto simp: update_conv')
  have "key x \<noteq> key y" if "x \<noteq> y" using Cons.prems that by (auto simp: image_iff)
  with Cons show ?case by (cases "x = y") (auto simp: other update_conv')
qed simp

lemma scale_up_step_eq:
  "scale_up_step sizes = (\<lambda>c m. if gm_get 0 sizes (cw_cluster c) < cw_replicaset c
     then AList.update (cw_cluster c) (cw_replicaset c) m else m)"
  by (auto simp: fun_eq_iff scale_up_step_def gm_has_def gm_get_def split: option.splits)

lemma scale_down_step_eq:
  "scale_down_step sizes = (\<lambda>c m. if gm_has sizes (cw_cluster c) \<and>
       cw_replicaset c < gm_get 0 sizes (cw_cluster c)
     then AList.update (cw_cluster c) (cw_replicaset c) m else m)"
  by (auto simp: fun_eq_iff scale_down_step_def)

lemma skip_existing_run:
  "skip_existing name exist c j m = (j', m') \<Longrightarrow>
   mongodb_name name j' \<notin> set exist \<and> (\<forall>k. j \<le> k \<and> k < j' \<longrightarrow> mongodb_name name k \<in> set exist)"
proof (induction name exist c j m rule: skip_existing.induct)
  case (1 name exist c j m)
  show ?case
  proof (cases "mongodb_name name j \<in> set exist")
    case True
    with 1 have "mongodb_name name j' \<notin> set exist"
        "\<forall>k. Suc j \<le> k \<and> k < j' \<longrightarrow> mongodb_name name k \<in> set exist"
      by (simp_all add: skip_existing.simps[of name exist c j m])
    with True show ?thesis by (metis Suc_leI le_eq_less_or_eq)
  next
    case False
    with 1(2) show ?thesis by (auto simp: skip_existing.simps[of name exist c j m])
  qed
qed

lemma plan_cluster_fresh:
  assumes "set exist \<subseteq> mongodb_name name ` {..<j}"
  shows "gm_get [] (plan_cluster name need c exist j m) k =
    gm_get [] m k @ (if j \<le> k \<and> int k < need then [c] else [])"
  using assms
proof (induction name need c exist j m rule: plan_cluster.induct)
  case (1 name need c exist j m)
  have "mongodb_name name j \<notin> set exist" using 1(2) by (auto simp: image_iff)
  then have skip: "skip_existing name exist c j m = (j, m)"
    by (simp add: skip_existing.simps[of name exist c j m])
  show ?case
  proof (cases "int j < need")
    case True
    have "set (mongodb_name name j # exist) \<subseteq> mongodb_name name ` {..<Suc j}"
      using 1(2) by (auto simp: lessThan_Suc)
    from 1(1)[OF True skip[symmetric] this] True skip show ?thesis
      by (subst plan_cluster.simps) (auto simp: add_cluster_def)
  qed (subst plan_cluster.simps, auto)
qed

lemma upsert_plan_get:
  assumes "\<And>c. gm_get [] svcnames c = []"
  shows "gm_get [] (upsert_plan rt name svcnames up) j =
    map fst (filter (\<lambda>(c, r). int j < r) (rt_range_scale rt up))"
proof -
  have step: "gm_get [] (plan_step name svcnames e m) j =
      gm_get [] m j @ map fst (filter (\<lambda>(c, r). int j < r) [e])" for e m
    by (cases e) (simp add: plan_step_def assms plan_cluster_fresh)
  have "gm_get [] (fold (plan_step name svcnames) es m) j =
      gm_get [] m j @ map fst (filter (\<lambda>(c, r). int j < r) es)" for es m
    by (induction es arbitrary: m) (auto simp: step)
  then show ?thesis by (simp add: upsert_plan_def)
qed

section \<open>Properties\<close>

text \<open>
  C1: with distinct clusters in the scheduler result and a host configuration that parses, a
  cluster is planned to grow exactly when it is to have more members than the configuration lists
  at its address, and to shrink exactly when it is to have fewer; either way with its number of
  replicas. No cluster does both.
\<close>

theorem scale_classification:
  assumes "wf_gomap vips" and "distinct (map cw_cluster sched)"
    and "host_sizes vips lines [] = Ok sizes" and "e \<in> set sched" and "0 \<le> cw_replicaset e"
  shows "map_of (clustersToScaleUp sizes sched) (cw_cluster e) =
      (if int (lines_at vips lines (cw_cluster e)) < cw_replicaset e then Some (cw_replicaset e) else None) \<and>
    map_of (clustersToScaleDown sizes sched) (cw_cluster e) =
      (if cw_replicaset e < int (lines_at vips lines (cw_cluster e)) then Some (cw_replicaset e) else None)"
proof -
  have n: "gm_get 0 sizes c = int (lines_at vips lines c)" for c
    using host_sizes_get[OF assms(1,3)] by simp
  then have has: "gm_has sizes (cw_cluster e)" if "cw_replicaset e < int (lines_at vips lines (cw_cluster e))"
    using that assms(5) by (force simp: gm_has_def gm_get_def split: option.splits)
  have up: "map_of (clustersToScaleUp sizes sched) (cw_cluster e) =
      (if int (lines_at vips lines (cw_cluster e)) < cw_replicaset e then Some (cw_replicaset e) else None)"
    unfolding clustersToScaleUp_def scale_up_step_eq n by (subst fold_update_at[OF assms(2,4)]) simp
  have down: "map_of (clustersToScaleDown sizes sched) (cw_cluster e) =
      (if cw_replicaset e < int (lines_at vips lines (cw_cluster e)) then Some (cw_replicaset e) else None)"
    unfolding clustersToScaleDown_def scale_down_step_eq n
    by (subst fold_update_at[OF assms(2,4)]) (use has in auto)
  from up down show ?thesis ..
qed

theorem scale_classification_witness:
  "let vips = [(''a'', ''10.0.0.1''), (''b'', ''10.0.0.2'')];
       lines = [host_line ''10.0.0.1'' 30001, host_line ''10.0.0.2'' 30002, host_line ''10.0.0.2'' 30003];
       sched = [\<lparr>cw_cluster = ''a'', cw_replicaset = 2, cw_arbiter = False\<rparr>,
                \<lparr>cw_cluster = ''b'', cw_replicaset = 1, cw_arbiter = False\<rparr>]
   in \<exists>sizes. host_sizes vips lines [] = Ok sizes \<and>
        map_of (clustersToScaleUp sizes sched) ''a'' = Some 2 \<and>
        map_of (clustersToScaleDown sizes sched) ''b'' = Some 1"
proof -
  let ?vips = "[(''a'', ''10.0.0.1''), (''b'', ''10.0.0.2'')]"
  let ?lines = "[host_line ''10.0.0.1'' 30001, host_line ''10.0.0.2'' 30002, host_line ''10.0.0.2'' 30003]"
  let ?a = "\<lparr>cw_cluster = ''a'', cw_replicaset = 2, cw_arbiter = False\<rparr>"
  let ?b = "\<lparr>cw_cluster = ''b'', cw_replicaset = 1, cw_arbiter = False\<rparr>"
  have parse: "host_of_line (host_line ''10.0.0.1'' p) = Ok (''10.0.0.1'' @ '':'' @ itoa (sint p))"
    "host_of_line (host_line ''10.0.0.2'' p) = Ok (''10.0.0.2'' @ '':'' @ itoa (sint p))"
    "addr_of_host (''10.0.0.1'' @ '':'' @ itoa i) = ''10.0.0.1''"
    "addr_of_host (''10.0.0.2'' @ '':'' @ itoa i) = ''10.0.0.2''" for p i
    by (rule host_of_host_line addr_of_host_line, simp add: vip_like_def)+
  have sizes: "host_sizes ?vips ?lines [] = Ok [(''a'', 1), (''b'', 2)]"
    by (simp add: parse[simplified] count_addr_def incr_def gm_get_def)
  have n: "lines_at ?vips ?lines ''a'' = 1" "lines_at ?vips ?lines ''b'' = 2"
    by (simp_all add: lines_at_def parse[simplified])
  have wf: "wf_gomap ?vips" "distinct (map cw_cluster [?a, ?b])"
    by (simp_all add: wf_gomap_def)
  have "map_of (clustersToScaleUp [(''a'', 1), (''b'', 2)] [?a, ?b]) ''a'' = Some 2"
    using scale_classification[OF wf sizes, of ?a] n by simp
  moreover have "map_of (clustersToScaleDown [(''a'', 1), (''b'', 2)] [?a, ?b]) ''b'' = Some 1"
    using scale_classification[OF wf sizes, of ?b] n by simp
  ultimately show ?thesis using sizes by (simp add: Let_def)
qed

text \<open>
  C2: on the handler's first pass (no service named yet), the plan creates service \<open>i\<close> for exactly
  the growing clusters that are to have more than \<open>i\<close> members, each once, whatever the order in
  which the map is visited: a cluster that is to have \<open>r\<close> members appears under the indexes
  \<open>0, ..., r - 1\<close> and no other.
\<close>

theorem upsert_plan_exact:
  assumes "runtime_ok rt" and "wf_gomap up" and "\<And>c. gm_get [] svcnames c = []"
  shows "mset (gm_get [] (upsert_plan rt name svcnames up) i) =
      mset (map fst (filter (\<lambda>(c, r). int i < r) up)) \<and>
    distinct (gm_get [] (upsert_plan rt name svcnames up) i) \<and>
    (\<forall>c r. map_of up c = Some r \<longrightarrow>
       (c \<in> set (gm_get [] (upsert_plan rt name svcnames up) i) \<longleftrightarrow> int i < r))"
proof -
  let ?L = "gm_get [] (upsert_plan rt name svcnames up) i"
  have "mset (rt_range_scale rt up) = mset up"
    using assms(1) by (simp add: runtime_ok_def iteration_order_def)
  then have ms: "mset ?L = mset (map fst (filter (\<lambda>(c, r). int i < r) up))"
    unfolding upsert_plan_get[OF assms(3)] by (metis mset_filter mset_map)
  have "distinct (map fst (filter (\<lambda>(c, r). int i < r) up))"
    using assms(2) by (simp add: wf_gomap_def distinct_map_filter)
  then have dist: "distinct ?L" using ms by (metis mset_eq_imp_distinct_iff)
  have "c \<in> set ?L \<longleftrightarrow> int i < r" if "map_of up c = Some r" for c r
  proof -
    have "set ?L = fst ` set (filter (\<lambda>(c, r). int i < r) up)"
      using ms by (metis list.set_map set_mset_mset)
    moreover have "(c, r') \<in> set up \<longleftrightarrow> r' = r" for r'
      using that assms(2) map_of_eq_Some_iff[of up c r'] by (auto simp: wf_gomap_def)
    ultimately show ?thesis by (force simp: image_iff)
  qed
  with ms dist show ?thesis by blast
qed

theorem upsert_plan_exact_witness:
  "let up = [(''a'', 2), (''b'', 1)]; plan = upsert_plan (plain_runtime undefined undefined) ''m'' [] up
   in mset (gm_get [] plan 0) = {#''a'', ''b''#} \<and> mset (gm_get [] plan 1) = {#''a''#}"
proof -
  have wf: "wf_gomap [(''a'', 2 :: int), (''b'', 1)]" by (simp add: wf_gomap_def)
  show ?thesis
    using upsert_plan_exact[OF plain_runtime_ok wf, of "[]" _ _ "''m''" 0]
      upsert_plan_exact[OF plain_runtime_ok wf, of "[]" _ _ "''m''" 1]
    by (simp add: Let_def)
qed

text \<open>
  The inner loop that looks for a free service name ends, at the first index from where it
  starts whose service does not exist.
\<close>

theorem skip_existing_first_free:
  "\<exists>j' m'. skip_existing name exist c j m = (j', m') \<and> j \<le> j' \<and>
     mongodb_name name j' \<notin> set exist \<and> (\<forall>k. j \<le> k \<and> k < j' \<longrightarrow> mongodb_name name k \<in> set exist)"
  using skip_existing_run[of name exist c j m] skip_existing_ge[of name exist c j m]
  by (cases "skip_existing name exist c j m") auto

theorem skip_existing_first_free_witness:
  "fst (skip_existing ''m'' [mongodb_name ''m'' 0] ''a'' 0 []) = 1"
proof -
  obtain j' m' where run: "skip_existing ''m'' [mongodb_name ''m'' 0] ''a'' 0 [] = (j', m')"
      "mongodb_name ''m'' j' \<notin> set [mongodb_name ''m'' 0]"
      "\<forall>k. 0 \<le> k \<and> k < j' \<longrightarrow> mongodb_name ''m'' k \<in> set [mongodb_name ''m'' 0]"
    using skip_existing_first_free[of "''m''" "[mongodb_name ''m'' 0]" "''a''" 0 "[]"] by blast
  from run(2) have "j' \<noteq> 0" by auto
  moreover have "\<not> 1 < j'" using run(3) by (metis less_eq_nat.simps(1) list.set(1,2) mongodb_name_inject singletonD zero_neq_one)
  ultimately show ?thesis using run(1) by simp
qed

text \<open>Host lines of plain addresses survive formatting, joining and splitting.\<close>

lemma written_lines_back:
  assumes "ps \<noteq> []" and "\<forall>(vip, port) \<in> set ps. vip_like vip \<and> CHR ''%'' \<notin> set vip"
  shows "go_split ''\<newline>'' (sprintf0 (go_join ''\<newline>'' (map (\<lambda>(vip, port). host_line vip port) ps))) =
    map (\<lambda>(vip, port). host_line vip port) ps"
proof -
  let ?lines = "map (\<lambda>(vip, port). host_line vip port) ps"
  have "CHR ''%'' \<notin> set (go_join ''\<newline>'' xs)" if "\<forall>x \<in> set xs. CHR ''%'' \<notin> set x" for xs
    using that by (induction "''\<newline>''" xs rule: go_join.induct) auto
  moreover have "\<forall>x \<in> set ?lines. CHR ''%'' \<notin> set x"
    using assms(2) by (auto simp: host_line_def quote_def)
  ultimately have "sprintf0 (go_join ''\<newline>'' ?lines) = go_join ''\<newline>'' ?lines"
    by (intro sprintf0_plain) blast
  moreover have "go_split ''\<newline>'' (go_join ''\<newline>'' ?lines) = ?lines"
    by (rule go_split_join) (use assms host_line_no_newline in auto)
  ultimately show ?thesis by simp
qed

text \<open>
  C4: the configuration the control plane writes is the one it reads back: for addresses without
  quote, colon, percent sign or line break, the lines of \<open>datas\<close> parse to the given host and port
  pairs, in order.
\<close>

theorem host_conf_roundtrip:
  assumes "ps \<noteq> []" and "\<forall>(vip, port) \<in> set ps. vip_like vip \<and> CHR ''%'' \<notin> set vip"
    and "hc_members conf = map (\<lambda>(vip, port). host_line vip port) ps"
  shows "map host_of_line (go_split ''\<newline>''
      (gm_get '''' (cm_data (GenerateConfigMap n ns ls conf)) ''datas'')) =
    map (\<lambda>(vip, port). Ok (vip @ '':'' @ itoa (sint port))) ps"
  using assms host_of_host_line written_lines_back[of ps]
  by (auto simp: GenerateConfigMap_def gm_get_def)

theorem host_conf_roundtrip_witness:
  "map host_of_line (go_split ''\<newline>'' (gm_get '''' (cm_data (GenerateConfigMap ''c'' ''ns'' []
      \<lparr>hc_arbiters = [], hc_members = [host_line ''10.0.0.1'' 30001, host_line ''10.0.0.2'' 30002]\<rparr>)) ''datas''))
   = [Ok (''10.0.0.1:'' @ itoa (sint (30001 :: 32 word))), Ok (''10.0.0.2:'' @ itoa (sint (30002 :: 32 word)))]"
  using host_conf_roundtrip[of "[(''10.0.0.1'', 30001), (''10.0.0.2'', 30002)]"
      "\<lparr>hc_arbiters = [], hc_members = [host_line ''10.0.0.1'' 30001, host_line ''10.0.0.2'' 30002]\<rparr>"
      "''c''" "''ns''" "[]"]
  by (simp add: vip_like_def)

text \<open>
  A host configuration whose \<open>datas\<close> has a line without the mark \<open>host:'\<close>, the empty text of a
  configuration with no member included, makes the handler's parse panic.
\<close>

theorem host_sizes_panics:
  assumes "\<exists>l \<in> set lines. \<not> go_contains l host_mark"
  shows "\<exists>p. host_sizes vips lines m = Panic p"
  using assms
proof (induction vips lines m rule: host_sizes.induct)
  case (2 vips line ls m)
  show ?case
  proof (cases "go_contains line host_mark")
    case True
    with 2 show ?thesis by (auto simp: host_of_line_def split: list.splits outcome.splits)
  next
    case False
    then show ?thesis by (simp add: host_of_line_def go_split_absent)
  qed
qed simp

theorem host_sizes_panics_witness:
  "\<exists>p. host_sizes [(''a'', ''10.0.0.1'')] (go_split ''\<newline>'' '''') [] = Panic p"
  using host_sizes_panics[of "go_split ''\<newline>'' ''''"] by (simp add: host_mark_def quote_def)

end
