(* ===== verification/Replset_Members.thy ===== *)
theory Replset_Members
  imports Scale_Plan
begin

text \<open>
  The member lists of a replica set on the data plane: \<open>pkg/driver/mgo/member.go\<close> (merging and
  removing members), \<open>core/replset_member.go\<close> and \<open>core/configmap.go\<close> (members and addresses read
  from the host configuration the control plane distributes).
\<close>

section \<open>member.go\<close>

definition MembersAddrs :: "rs_member list \<Rightarrow> string list" where
  "MembersAddrs rsMembers = map rm_host rsMembers"

definition by_host :: "rs_member list \<Rightarrow> (string, rs_member) gomap" where
  "by_host src = fold (\<lambda>m known. AList.update (rm_host m) m known) src []"

definition maxMemberId :: "rs_member list \<Rightarrow> int" where
  "maxMemberId src = fold (\<lambda>m mx. if rm_id m > mx then rm_id m else mx) src 0"

text \<open>The loop over the members to add, with the counter \<open>i\<close>.\<close>

fun add_loop ::
    "int \<Rightarrow> int \<Rightarrow> rs_member list \<Rightarrow> (string, rs_member) gomap \<Rightarrow> bool \<Rightarrow>
     (string, rs_member) gomap \<times> bool" where
  "add_loop mx i [] known changed = (known, changed)"
| "add_loop mx i (m # ms) known changed =
     (if gm_has known (rm_host m) then add_loop mx i ms known changed
      else add_loop mx (i + 1) ms (AList.update (rm_host m) (m\<lparr>rm_id := mx + i\<rparr>) known) True)"

text \<open>\<open>order\<close> is the order in which the run-time ranges over the map.\<close>

definition AddMembers ::
    "((string \<times> rs_member) list \<Rightarrow> (string \<times> rs_member) list) \<Rightarrow> rs_member list \<Rightarrow> rs_member list \<Rightarrow>
     rs_member list \<times> bool" where
  "AddMembers order src add =
     (case add_loop (maxMemberId src) 1 add (by_host src) False of (known, changed) \<Rightarrow>
        if changed then (map snd (order known), True) else (src, False))"

fun exist_loop :: "int \<Rightarrow> int \<Rightarrow> rs_member list \<Rightarrow> string list \<Rightarrow> rs_member list" where
  "exist_loop mx i [] hosts = []"
| "exist_loop mx i (m # ms) hosts =
     (if rm_host m \<in> set hosts then exist_loop mx i ms hosts
      else m\<lparr>rm_id := mx + i\<rparr> # exist_loop mx (i + 1) ms hosts)"

definition MemberExist :: "rs_member list \<Rightarrow> rs_member list \<Rightarrow> bool \<times> rs_member list" where
  "MemberExist src add =
     (if add = [] then (True, [])
      else (let addMember = exist_loop (maxMemberId src) 1 add (map rm_host src)
            in if addMember \<noteq> [] then (False, addMember) else (True, addMember)))"

fun remove_loop ::
    "rs_member list \<Rightarrow> (string, rs_member) gomap \<Rightarrow> bool \<Rightarrow> (string, rs_member) gomap \<times> bool" where
  "remove_loop [] known changed = (known, changed)"
| "remove_loop (m # ms) known changed =
     (if gm_has known (rm_host m) then remove_loop ms (AList.delete (rm_host m) known) True
      else remove_loop ms known changed)"

definition RemoveMembers ::
    "((string \<times> rs_member) list \<Rightarrow> (string \<times> rs_member) list) \<Rightarrow> rs_member list \<Rightarrow> rs_member list \<Rightarrow>
     rs_member list \<times> bool" where
  "RemoveMembers order src del =
     (case remove_loop del (by_host src) False of (known, changed) \<Rightarrow>
        if changed then (map snd (order known), True) else (src, False))"

section \<open>replset_member.go\<close>

definition MaxMembers :: nat where "MaxMembers = 50"

definition RsConfig :: "string \<Rightarrow> string list \<Rightarrow> string" where
  "RsConfig rsName hosts = rsName @ ''/'' @ go_join '','' hosts"

definition new_member :: "int \<Rightarrow> string \<Rightarrow> nat \<Rightarrow> bool \<Rightarrow> rs_member" where
  "new_member number host i arbiter =
     \<lparr>rm_tags = [], rm_host = host, rm_id = number, rm_priority = (if i < 7 then 1 else 0),
      rm_slave_delay = 0, rm_votes = (if i < 7 then 1 else 0), rm_arbiter_only = arbiter,
      rm_build_indexes = True, rm_hidden = False\<rparr>"

definition parseMember :: "string \<Rightarrow> (int \<times> string) outcome" where
  "parseMember member = (case host_of_line member of
     Ok host \<Rightarrow> Ok (0, host) | Err e \<Rightarrow> Err e | Panic p \<Rightarrow> Panic p)"

text \<open>The loop over the lines of \<open>datas\<close>, at index \<open>i\<close>.\<close>

fun data_members :: "nat \<Rightarrow> string list \<Rightarrow> rs_member list outcome" where
  "data_members i [] = Ok []"
| "data_members i (line # ls) =
     (if line = '''' then data_members (Suc i) ls
      else if i > MaxMembers - 1 then Ok []
      else (case parseMember line of
          Ok (_, host) \<Rightarrow> (case data_members (Suc i) ls of
              Ok ms \<Rightarrow> Ok (new_member (int i) host i False # ms) | r \<Rightarrow> r)
        | Err e \<Rightarrow> Err e
        | Panic p \<Rightarrow> Panic p))"

text \<open>The loop over the lines of \<open>arbiters\<close>; the identifier is the number of members so far.\<close>

fun arbiter_members :: "nat \<Rightarrow> string list \<Rightarrow> rs_member list \<Rightarrow> rs_member list outcome" where
  "arbiter_members i [] members = Ok members"
| "arbiter_members i (line # ls) members =
     (if line = '''' then arbiter_members (Suc i) ls members
      else if i > MaxMembers - 1 then Ok members
      else (case parseMember line of
          Ok (_, host) \<Rightarrow> arbiter_members (Suc i) ls
            (members @ [new_member (int (length members)) host i True])
        | Err e \<Rightarrow> Err e
        | Panic p \<Rightarrow> Panic p))"

definition ConfigMapToMembers :: "config_map \<Rightarrow> rs_member list outcome" where
  "ConfigMapToMembers cm =
     (case data_members 0 (go_split ''\<newline>'' (gm_get '''' (cm_data cm) ''datas'')) of
        Ok members \<Rightarrow>
          (let arbiters = gm_get '''' (cm_data cm) ''arbiters''
           in if arbiters = '''' then Ok members
              else arbiter_members 0 (go_split ''\<newline>'' arbiters) members)
      | r \<Rightarrow> r)"

text \<open>The first line whose host is \<open>myHost\<close>, if any.\<close>

fun find_member :: "nat \<Rightarrow> string \<Rightarrow> bool \<Rightarrow> string list \<Rightarrow> rs_member list outcome" where
  "find_member i myHost arbiter [] = Ok []"
| "find_member i myHost arbiter (line # ls) =
     (if line = '''' then find_member (Suc i) myHost arbiter ls
      else if i > MaxMembers - 1 then Ok []
      else (case parseMember line of
          Ok (_, host) \<Rightarrow> if host = myHost then Ok [new_member 0 host i arbiter]
            else find_member (Suc i) myHost arbiter ls
        | Err e \<Rightarrow> Err e
        | Panic p \<Rightarrow> Panic p))"

definition LabelKeyClusterVIP :: string where
  "LabelKeyClusterVIP = ''app.multicloudmongodb.io/vip''"

definition ConfigMapToMembersByNodePort :: "mongodb \<Rightarrow> config_map \<Rightarrow> int \<Rightarrow> rs_member list outcome" where
  "ConfigMapToMembersByNodePort cr cm nodePort =
     (let myHost = gm_get '''' (om_labels (mg_meta cr)) LabelKeyClusterVIP @ '':'' @ itoa nodePort
      in (case find_member 0 myHost False (go_split ''\<newline>'' (gm_get '''' (cm_data cm) ''datas'')) of
            Ok members \<Rightarrow>
              (let arbiters = gm_get '''' (cm_data cm) ''arbiters''
               in if \<not> mgs_arbiter (mg_spec cr) \<or> arbiters = '''' then Ok members
                  else (case find_member 0 myHost True (go_split ''\<newline>'' arbiters) of
                      Ok found \<Rightarrow> Ok (members @ found) | r \<Rightarrow> r))
          | r \<Rightarrow> r))"

fun first_member :: "nat \<Rightarrow> string list \<Rightarrow> (int \<times> string) outcome" where
  "first_member i [] = Ok (0, '''')"
| "first_member i (line # ls) =
     (if line = '''' then first_member (Suc i) ls
      else if i > MaxMembers - 1 then Ok (0, '''')
      else parseMember line)"

definition ConfigMapToArbiterMember :: "config_map \<Rightarrow> (int \<times> string) outcome" where
  "ConfigMapToArbiterMember cm =
     first_member 0 (go_split ''\<newline>'' (gm_get '''' (cm_data cm) ''arbiters''))"

section \<open>configmap.go\<close>

fun addresses :: "string list \<Rightarrow> string list outcome" where
  "addresses [] = Ok []"
| "addresses (line # ls) =
     (if line = '''' then addresses ls
      else (case host_of_line line of
          Ok host \<Rightarrow> (case addresses ls of Ok hs \<Rightarrow> Ok (host # hs) | r \<Rightarrow> r)
        | Err e \<Rightarrow> Err e
        | Panic p \<Rightarrow> Panic p))"

definition ConfigMapToAddress :: "config_map \<Rightarrow> string list outcome" where
  "ConfigMapToAddress cm = addresses (go_split ''\<newline>'' (gm_get '''' (cm_data cm) ''datas''))"

definition GetMongoAddrs :: "'w client \<Rightarrow> string \<Rightarrow> string \<Rightarrow> ('w, string list) go" where
  "GetMongoAddrs cli name namespace =
     bindg (GetConfigMap cli name namespace) (\<lambda>cm. lift_outcome (ConfigMapToAddress cm))"

section \<open>Lemmas\<close>

lemma by_host_wf [simp]: "wf_gomap (by_host src)"
proof -
  have "wf_gomap s \<Longrightarrow> wf_gomap (fold (\<lambda>m known. AList.update (rm_host m) m known) src s)" for s
    by (induction src arbitrary: s) auto
  then show ?thesis by (simp add: by_host_def)
qed

lemma by_host_has: "gm_has (by_host src) h \<longleftrightarrow> h \<in> rm_host ` set src"
proof -
  have "gm_has (fold (\<lambda>m known. AList.update (rm_host m) m known) src s) h \<longleftrightarrow> h \<in> rm_host ` set src \<or> gm_has s h" for s
    by (induction src arbitrary: s) auto
  then show ?thesis by (simp add: by_host_def)
qed

text \<open>Entries are keyed by their own host.\<close>

definition host_keyed :: "(string, rs_member) gomap \<Rightarrow> bool" where
  "host_keyed s \<longleftrightarrow> wf_gomap s \<and> (\<forall>(h, m) \<in> set s. rm_host m = h)"

lemma host_keyed_update [simp]:
  assumes "host_keyed s" "rm_host m = h"
  shows "host_keyed (AList.update h m s)"
proof -
  have "rm_host y = k" if "(k, y) \<in> set (AList.update h m s)" for k y
  proof -
    have "map_of (AList.update h m s) k = Some y"
      using that assms(1) by (simp add: host_keyed_def wf_gomap_def distinct_update)
    then show ?thesis
      using assms by (auto simp: update_conv' host_keyed_def dest!: map_of_SomeD split: if_splits)
  qed
  then show ?thesis using assms(1) by (auto simp: host_keyed_def)
qed

lemma by_host_keyed [simp]: "host_keyed (by_host src)"
proof -
  have "host_keyed s \<Longrightarrow> host_keyed (fold (\<lambda>m known. AList.update (rm_host m) m known) src s)" for s
    by (induction src arbitrary: s) auto
  moreover have "host_keyed []" by (simp add: host_keyed_def)
  ultimately show ?thesis by (simp add: by_host_def)
qed

lemma host_keyed_hosts: "host_keyed s \<Longrightarrow> map rm_host (map snd s) = map fst s"
  by (auto simp: host_keyed_def)

lemma by_host_lookup: "map_of (by_host src) h = Some m \<Longrightarrow> m \<in> set src \<and> rm_host m = h"
proof -
  have "map_of (fold (\<lambda>m known. AList.update (rm_host m) m known) src s) h = Some m \<Longrightarrow>
      m \<in> set src \<and> rm_host m = h \<or> map_of s h = Some m" for s
    by (induction src arbitrary: s) (fastforce simp: update_conv' split: if_splits)+
  from this[of "[]"] show "map_of (by_host src) h = Some m \<Longrightarrow> m \<in> set src \<and> rm_host m = h"
    by (simp add: by_host_def)
qed

lemma by_host_keys: "fst ` set (by_host src) = rm_host ` set src"
  using by_host_has[of src] by (auto simp: gm_has_iff)

lemma maxMemberId_ge: "m \<in> set src \<Longrightarrow> rm_id m \<le> maxMemberId src"
proof -
  have le: "mx \<le> fold (\<lambda>m mx. if rm_id m > mx then rm_id m else mx) src mx" for mx
    by (induction src arbitrary: mx) (auto, smt (verit, best) order.trans)
  have "m \<in> set src \<Longrightarrow> rm_id m \<le> fold (\<lambda>m mx. if rm_id m > mx then rm_id m else mx) src mx" for mx
  proof (induction src arbitrary: mx)
    case (Cons a src)
    let ?f = "\<lambda>m mx. if rm_id m > mx then rm_id m else mx"
    have "mx \<le> fold ?f xs mx" for xs mx by (induction xs arbitrary: mx) (auto, smt (verit, best))
    from this[of "?f a mx" src] Cons show ?case by (auto split: if_splits)
  qed simp
  then show "m \<in> set src \<Longrightarrow> rm_id m \<le> maxMemberId src" by (simp add: maxMemberId_def)
qed

text \<open>The identifiers of the entries are below a bound and differ from host to host.\<close>

definition ids_below :: "int \<Rightarrow> (string, rs_member) gomap \<Rightarrow> bool" where
  "ids_below b s \<longleftrightarrow> (\<forall>h m. map_of s h = Some m \<longrightarrow> rm_id m < b) \<and>
     (\<forall>h h' m m'. map_of s h = Some m \<longrightarrow> map_of s h' = Some m' \<longrightarrow> rm_id m = rm_id m' \<longrightarrow> h = h')"

lemma ids_below_update:
  "ids_below b s \<Longrightarrow> ids_below (b + 1) (AList.update h (m\<lparr>rm_id := b\<rparr>) s)"
  by (fastforce simp: ids_below_def update_conv')

lemma add_loop_keyed:
  "add_loop mx i add known changed = (known', changed') \<Longrightarrow> host_keyed known \<Longrightarrow> host_keyed known'"
  by (induction mx i add known changed rule: add_loop.induct) (auto split: if_splits)

lemma add_loop_changed:
  "add_loop mx i add known changed = (known', changed') \<Longrightarrow>
   changed' \<longleftrightarrow> changed \<or> (\<exists>m \<in> set add. \<not> gm_has known (rm_host m))"
  by (induction mx i add known changed rule: add_loop.induct) (auto split: if_splits)

lemma add_loop_keys:
  "add_loop mx i add known changed = (known', changed') \<Longrightarrow>
   gm_has known' h \<longleftrightarrow> gm_has known h \<or> h \<in> rm_host ` set add"
  by (induction mx i add known changed rule: add_loop.induct) (auto split: if_splits)

lemma add_loop_ids:
  "add_loop mx i add known changed = (known', changed') \<Longrightarrow> ids_below (mx + i) known \<Longrightarrow>
   \<exists>b. ids_below b known'"
proof (induction mx i add known changed rule: add_loop.induct)
  case (2 mx i m ms known changed)
  then show ?case
    using ids_below_update[of "mx + i" known "rm_host m" m]
    by (auto simp: ac_simps split: if_splits)
qed auto

lemma add_loop_old:
  "add_loop mx i add known changed = (known', changed') \<Longrightarrow> map_of known h = Some m \<Longrightarrow>
   map_of known' h = Some m"
proof (induction mx i add known changed rule: add_loop.induct)
  case (2 mx i a ms known changed)
  then show ?case by (cases "h = rm_host a") (auto simp: gm_has_def update_conv' split: if_splits)
qed auto

lemma add_loop_new:
  "add_loop mx i add known changed = (known', changed') \<Longrightarrow> map_of known h = None \<Longrightarrow>
   map_of known' h = Some m \<Longrightarrow> mx + i \<le> rm_id m \<and> (\<exists>a \<in> set add. m = a\<lparr>rm_id := rm_id m\<rparr>)"
proof (induction mx i add known changed rule: add_loop.induct)
  case (2 mx i a ms known changed)
  show ?case
  proof (cases "gm_has known (rm_host a)")
    case True
    with "2.IH"(1) "2.prems" show ?thesis by auto
  next
    case False
    let ?a = "a\<lparr>rm_id := mx + i\<rparr>" and ?s = "AList.update (rm_host a) (a\<lparr>rm_id := mx + i\<rparr>) known"
    from False "2.prems"(1) have run: "add_loop mx (i + 1) ms ?s True = (known', changed')" by simp
    show ?thesis
    proof (cases "h = rm_host a")
      case True
      then have "map_of known' h = Some ?a" using add_loop_old[OF run] by (simp add: update_conv')
      then have "m = ?a" using "2.prems"(3) by simp
      then show ?thesis by simp
    next
      case other: False
      have "mx + (i + 1) \<le> rm_id m \<and> (\<exists>b \<in> set ms. m = b\<lparr>rm_id := rm_id m\<rparr>)"
        by (rule "2.IH"(2)[OF False run]) (use "2.prems" other in \<open>simp_all add: update_conv'\<close>)
      then show ?thesis by auto
    qed
  qed
qed auto

lemma ids_below_by_host:
  assumes "\<forall>m \<in> set src. \<forall>m' \<in> set src. rm_id m = rm_id m' \<longrightarrow> rm_host m = rm_host m'"
  shows "ids_below (maxMemberId src + 1) (by_host src)"
  unfolding ids_below_def
proof (intro conjI allI impI)
  fix h m assume "map_of (by_host src) h = Some m"
  then have "m \<in> set src" by (blast dest: by_host_lookup)
  then show "rm_id m < maxMemberId src + 1" using maxMemberId_ge by fastforce
next
  fix h h' m m'
  assume "map_of (by_host src) h = Some m" "map_of (by_host src) h' = Some m'" "rm_id m = rm_id m'"
  then show "h = h'" using assms by (metis by_host_lookup)
qed

lemma ids_below_distinct:
  assumes "wf_gomap s" "ids_below b s"
  shows "distinct (map (rm_id \<circ> snd) s)"
  unfolding distinct_map
proof
  show "distinct s" using assms(1) by (simp add: wf_gomap_def distinct_map)
  show "inj_on (rm_id \<circ> snd) (set s)"
  proof (rule inj_onI)
    fix x y assume xy: "x \<in> set s" "y \<in> set s" "(rm_id \<circ> snd) x = (rm_id \<circ> snd) y"
    then have *: "map_of s (fst x) = Some (snd x)" "map_of s (fst y) = Some (snd y)"
      using assms(1) by (simp_all add: wf_gomap_def)
    then have "fst x = fst y" using xy(3) assms(2) by (auto simp: ids_below_def)
    with * show "x = y" by (metis option.inject prod.collapse)
  qed
qed

lemma iteration_order_map: "iteration_order p \<Longrightarrow> mset (map f (p xs)) = mset (map f xs)"
  by (metis iteration_order_def mset_map)

lemma iteration_order_distinct_map:
  "iteration_order p \<Longrightarrow> distinct (map f (p xs)) \<longleftrightarrow> distinct (map f xs)"
  by (metis iteration_order_map mset_eq_imp_distinct_iff)

lemma host_keyed_order:
  assumes "host_keyed s" "iteration_order order"
  shows "set (map rm_host (map snd (order s))) = fst ` set s"
    and "distinct (map rm_host (map snd (order s)))"
proof -
  have eq: "map (rm_host \<circ> snd) s = map fst s"
    using assms(1) by (auto simp: host_keyed_def)
  show "set (map rm_host (map snd (order s))) = fst ` set s"
    using assms eq iteration_order_set[OF assms(2), of s]
    by (metis (no_types, lifting) image_set list.map_comp)
  show "distinct (map rm_host (map snd (order s)))"
    using assms(1) iteration_order_distinct_map[OF assms(2), of "rm_host \<circ> snd" s]
    unfolding eq by (simp add: host_keyed_def wf_gomap_def)
qed

lemma AddMembers_run:
  assumes "iteration_order order" and "AddMembers order src add = (r, True)"
  obtains s where "add_loop (maxMemberId src) 1 add (by_host src) False = (s, True)"
    and "r = map snd (order s)" and "host_keyed s" and "set r = snd ` set s"
proof -
  from assms(2) obtain s where run: "add_loop (maxMemberId src) 1 add (by_host src) False = (s, True)"
    and r: "r = map snd (order s)"
    by (auto simp: AddMembers_def split: prod.splits if_splits)
  moreover have "host_keyed s" by (rule add_loop_keyed[OF run]) simp
  moreover have "set r = snd ` set s" using r iteration_order_set[OF assms(1)] by simp
  ultimately show ?thesis by (rule that)
qed

lemma AddMembers_changed:
  "snd (AddMembers order src add) \<longleftrightarrow> (\<exists>m \<in> set add. rm_host m \<notin> rm_host ` set src)"
  using add_loop_changed[of "maxMemberId src" 1 add "by_host src" False]
  by (auto simp: AddMembers_def by_host_has split: prod.splits)

lemma AddMembers_hosts:
  assumes "iteration_order order"
  shows "rm_host ` set (fst (AddMembers order src add)) = rm_host ` set src \<union> rm_host ` set add"
proof (cases "snd (AddMembers order src add)")
  case True
  then obtain r where eq: "AddMembers order src add = (r, True)" by (metis prod.collapse)
  obtain s where
    s: "add_loop (maxMemberId src) 1 add (by_host src) False = (s, True)" "r = map snd (order s)" "host_keyed s"
       "set r = snd ` set s"
    by (rule AddMembers_run[OF assms eq])
  have "rm_host ` set r = fst ` set s" using host_keyed_order(1)[OF s(3) assms] s(2) by (simp add: image_image)
  also have "\<dots> = rm_host ` set src \<union> rm_host ` set add"
    using add_loop_keys[OF s(1)] unfolding gm_has_iff by_host_keys by blast
  finally show ?thesis using eq by simp
next
  case False
  then have "fst (AddMembers order src add) = src" by (auto simp: AddMembers_def split: prod.splits if_splits)
  moreover have "rm_host ` set add \<subseteq> rm_host ` set src"
    using False unfolding AddMembers_changed by (meson image_subsetI)
  ultimately show ?thesis by (simp add: Un_absorb2)
qed

lemma remove_loop_spec:
  "remove_loop del known changed = (known', changed') \<Longrightarrow> host_keyed known \<Longrightarrow>
   host_keyed known' \<and> (changed' \<longleftrightarrow> changed \<or> (\<exists>m \<in> set del. gm_has known (rm_host m))) \<and>
   (\<forall>h. map_of known' h = (if h \<in> rm_host ` set del then None else map_of known h))"
proof (induction del known changed rule: remove_loop.induct)
  case (2 m ms known changed)
  have "host_keyed (AList.delete (rm_host m) known)"
    using "2.prems"(2)
    by (auto simp: host_keyed_def wf_gomap_def AList.delete_eq intro: distinct_map_filter)
  with 2 show ?case
    by (auto simp: gm_has_def delete_conv' split: if_splits)
qed auto


section \<open>Merging and removing members\<close>

text \<open>
  C23: whatever order the run-time ranges over the map, \<open>AddMembers\<close> reports a change exactly when a
  host is new, the result has the hosts of both lists once each, members already configured stay as
  they are, a new member is the given one with an identifier above all those in use, and identifiers
  stay distinct.
\<close>

theorem add_members_spec:
  assumes "iteration_order order" and "AddMembers order src add = (r, changed)"
  shows "(changed \<longleftrightarrow> (\<exists>m \<in> set add. rm_host m \<notin> rm_host ` set src)) \<and>
    rm_host ` set r = rm_host ` set src \<union> rm_host ` set add \<and>
    (distinct (map rm_host src) \<longrightarrow> distinct (map rm_host r) \<and> set src \<subseteq> set r) \<and>
    (\<forall>m \<in> set r. m \<in> set src \<or> rm_host m \<notin> rm_host ` set src \<and>
       (\<forall>s \<in> set src. rm_id s < rm_id m) \<and> (\<exists>a \<in> set add. m = a\<lparr>rm_id := rm_id m\<rparr>)) \<and>
    (distinct (map rm_id src) \<longrightarrow> distinct (map rm_id r))"
proof (cases changed)
  case False
  then have "r = src" using assms(2) by (auto simp: AddMembers_def split: prod.splits if_splits)
  with False show ?thesis
    using AddMembers_changed[of order src add] AddMembers_hosts[OF assms(1), of src add] assms(2)
    by simp
next
  case True
  with assms(2) have eq: "AddMembers order src add = (r, True)" by simp
  obtain s where s: "add_loop (maxMemberId src) 1 add (by_host src) False = (s, True)"
    "r = map snd (order s)" "host_keyed s" "set r = snd ` set s"
    by (rule AddMembers_run[OF assms(1) eq])
  have wf: "wf_gomap s" using s(3) by (simp add: host_keyed_def)
  have entry: "map_of s (rm_host m) = Some m" if "m \<in> set r" for m
    using that s(3,4) wf by (auto simp: host_keyed_def wf_gomap_def)
  have kept: "m \<in> set r" if "map_of (by_host src) h = Some m" for h m
    using add_loop_old[OF s(1) that] s(4) by (force dest: map_of_SomeD)
  have origin: "m \<in> set src \<or> rm_host m \<notin> rm_host ` set src \<and>
      (\<forall>s \<in> set src. rm_id s < rm_id m) \<and> (\<exists>a \<in> set add. m = a\<lparr>rm_id := rm_id m\<rparr>)"
    if "m \<in> set r" for m
  proof (cases "map_of (by_host src) (rm_host m)")
    case (Some m')
    with add_loop_old[OF s(1)] entry[OF that] have "m' = m" by fastforce
    with Some show ?thesis by (blast dest: by_host_lookup)
  next
    case None
    then have "rm_host m \<notin> rm_host ` set src" using by_host_has[of src "rm_host m"] by (simp add: gm_has_def)
    moreover have "maxMemberId src + 1 \<le> rm_id m" "\<exists>a \<in> set add. m = a\<lparr>rm_id := rm_id m\<rparr>"
      using add_loop_new[OF s(1) None entry[OF that]] by simp_all
    ultimately show ?thesis using maxMemberId_ge by fastforce
  qed
  have whole: "set src \<subseteq> set r" if "distinct (map rm_host src)"
  proof
    fix m assume m: "m \<in> set src"
    then obtain m' where m': "map_of (by_host src) (rm_host m) = Some m'"
      using by_host_has[of src "rm_host m"] by (auto simp: gm_has_def)
    then have "m' = m" using that m by (auto dest!: by_host_lookup simp: distinct_map inj_on_def)
    with m' kept show "m \<in> set r" by blast
  qed
  have ids: "distinct (map rm_id r)" if "distinct (map rm_id src)"
  proof -
    have "ids_below (maxMemberId src + 1) (by_host src)"
      by (rule ids_below_by_host) (use that in \<open>auto simp: distinct_map inj_on_def\<close>)
    then obtain b where "ids_below b s" using add_loop_ids[OF s(1)] by blast
    then have "distinct (map (rm_id \<circ> snd) s)" by (rule ids_below_distinct[OF wf])
    then show ?thesis using iteration_order_distinct_map[OF assms(1), of "rm_id \<circ> snd" s] s(2) by simp
  qed
  show ?thesis
    using AddMembers_changed[of order src add] AddMembers_hosts[OF assms(1), of src add] eq True
      whole origin ids host_keyed_order(2)[OF s(3) assms(1)] s(2) by auto
qed

definition plain_member :: "int \<Rightarrow> string \<Rightarrow> rs_member" where
  "plain_member number host = new_member number host 0 False"

theorem add_members_spec_witness:
  "rm_host ` set (fst (AddMembers rev [plain_member 3 ''a'', plain_member 0 ''b''] [plain_member 0 ''b'', plain_member 0 ''c'']))
     = {''a'', ''b'', ''c''} \<and>
   distinct (map rm_id (fst (AddMembers rev [plain_member 3 ''a'', plain_member 0 ''b'']
     [plain_member 0 ''b'', plain_member 0 ''c''])))"
  using add_members_spec[OF iteration_order_id(2) surjective_pairing,
      of "[plain_member 3 ''a'', plain_member 0 ''b'']" "[plain_member 0 ''b'', plain_member 0 ''c'']"]
  by (auto simp: plain_member_def new_member_def)

lemma RemoveMembers_run:
  assumes "iteration_order order" and "RemoveMembers order src del = (r, changed)"
  shows "(changed \<longleftrightarrow> rm_host ` set src \<inter> rm_host ` set del \<noteq> {}) \<and>
    rm_host ` set r = rm_host ` set src - rm_host ` set del \<and> set r \<subseteq> set src \<and>
    (distinct (map rm_host src) \<longrightarrow> distinct (map rm_host r))"
proof -
  obtain s c where run: "remove_loop del (by_host src) False = (s, c)" by fastforce
  have spec: "host_keyed s" "c \<longleftrightarrow> (\<exists>m \<in> set del. rm_host m \<in> rm_host ` set src)"
    "\<And>h. map_of s h = (if h \<in> rm_host ` set del then None else map_of (by_host src) h)"
    using remove_loop_spec[OF run] by (auto simp: by_host_has)
  have c: "changed = c" "r = (if c then map snd (order s) else src)"
    using assms(2) run by (auto simp: RemoveMembers_def split: if_splits)
  have "gm_has s h \<longleftrightarrow> h \<in> rm_host ` set src - rm_host ` set del" for h
    using by_host_has[of src h] spec(3)[of h] by (simp add: gm_has_def)
  then have keys: "fst ` set s = rm_host ` set src - rm_host ` set del" by (auto simp: gm_has_iff)
  have wf: "wf_gomap s" using spec(1) by (simp add: host_keyed_def)
  have sub: "snd ` set s \<subseteq> set src"
  proof
    fix m assume "m \<in> snd ` set s"
    then obtain h where "map_of s h = Some m" using wf by (auto simp: wf_gomap_def)
    then show "m \<in> set src" using spec(3) by (auto dest: by_host_lookup split: if_splits)
  qed
  show ?thesis
  proof (cases c)
    case True
    then show ?thesis
      using c spec(2) host_keyed_order[OF spec(1) assms(1)] keys sub iteration_order_set[OF assms(1), of s]
      by (auto simp: image_image)
  next
    case False
    with spec(2) have none: "\<not> (\<exists>m \<in> set del. rm_host m \<in> rm_host ` set src)" by simp
    have "rm_host ` set src \<inter> rm_host ` set del = {}"
    proof (rule equals0I)
      fix h assume "h \<in> rm_host ` set src \<inter> rm_host ` set del"
      then have hs: "h \<in> rm_host ` set src" and "h \<in> rm_host ` set del" by simp_all
      then obtain m where "m \<in> set del" "h = rm_host m" by (elim imageE)
      with hs none show False by simp
    qed
    with False c show ?thesis by (simp add: Diff_triv)
  qed
qed

text \<open>
  C24: \<open>RemoveMembers\<close> reports a change exactly when a given host is configured; the result has the
  configured hosts less the given ones, and only members configured before.
\<close>

theorem remove_members_spec:
  assumes "iteration_order order" and "RemoveMembers order src del = (r, changed)"
  shows "(changed \<longleftrightarrow> rm_host ` set src \<inter> rm_host ` set del \<noteq> {}) \<and>
    rm_host ` set r = rm_host ` set src - rm_host ` set del \<and> set r \<subseteq> set src \<and>
    (distinct (map rm_host src) \<longrightarrow> distinct (map rm_host r))"
  using RemoveMembers_run[OF assms] .

theorem remove_members_spec_witness:
  "rm_host ` set (fst (RemoveMembers rev [plain_member 3 ''a'', plain_member 0 ''b''] [plain_member 0 ''b'']))
     = {''a''}"
  using remove_members_spec[OF iteration_order_id(2) surjective_pairing,
      of "[plain_member 3 ''a'', plain_member 0 ''b'']" "[plain_member 0 ''b'']"]
  by (simp add: plain_member_def new_member_def insert_Diff_if)


section \<open>Members from the distributed host configuration\<close>

definition host_addr :: "string \<times> 32 word \<Rightarrow> string" where
  "host_addr = (\<lambda>(vip, port). vip @ '':'' @ itoa (sint port))"

definition line_of :: "string \<times> 32 word \<Rightarrow> string" where
  "line_of = (\<lambda>(vip, port). host_line vip port)"

definition plain_addr :: "string \<times> 32 word \<Rightarrow> bool" where
  "plain_addr = (\<lambda>(vip, port). vip_like vip \<and> CHR ''%'' \<notin> set vip)"

lemma parse_line_of [simp]:
  "plain_addr p \<Longrightarrow> host_of_line (line_of p) = Ok (host_addr p)"
  "plain_addr p \<Longrightarrow> parseMember (line_of p) = Ok (0, host_addr p)"
  by (cases p; simp add: plain_addr_def line_of_def host_addr_def host_of_host_line parseMember_def)+

lemma line_of_not_Nil [simp]: "line_of p \<noteq> []" "[] \<noteq> line_of p"
  by (cases p; simp add: line_of_def host_line_def)+

lemma written_back:
  "ps \<noteq> [] \<Longrightarrow> list_all plain_addr ps \<Longrightarrow>
   go_split ''\<newline>'' (sprintf0 (go_join ''\<newline>'' (map line_of ps))) = map line_of ps"
  using written_lines_back[of ps] by (simp add: line_of_def plain_addr_def list_all_iff)

text \<open>The members one list of addresses gives, numbered from \<open>first\<close>.\<close>

definition members_at :: "nat \<Rightarrow> bool \<Rightarrow> (string \<times> 32 word) list \<Rightarrow> rs_member list" where
  "members_at first arbiter ps =
     map (\<lambda>(i, p). new_member (int (first + i)) (host_addr p) i arbiter) (enumerate 0 ps)"

lemma data_members_run:
  "list_all plain_addr ps \<Longrightarrow> k + length ps \<le> MaxMembers \<Longrightarrow>
   data_members k (map line_of ps) =
     Ok (map (\<lambda>(i, p). new_member (int i) (host_addr p) i False) (enumerate k ps))"
  by (induction ps arbitrary: k) (auto simp: MaxMembers_def)

lemma arbiter_members_run:
  "list_all plain_addr ps \<Longrightarrow> k + length ps \<le> MaxMembers \<Longrightarrow>
   arbiter_members k (map line_of ps) ms =
     Ok (ms @ map (\<lambda>(i, p). new_member (int (length ms + i - k)) (host_addr p) i True) (enumerate k ps))"
proof (induction ps arbitrary: k ms)
  case (Cons p ps)
  have "\<not> MaxMembers - 1 < k" using Cons.prems by simp
  moreover have "length ms + 1 + i - Suc k = length ms + i - k" for i by simp
  ultimately show ?case
    using Cons.IH[of "Suc k" "ms @ [new_member (int (length ms)) (host_addr p) k True]"] Cons.prems
    by simp
qed simp

lemma members_at_zero: "members_at 0 b ps = map (\<lambda>(i, p). new_member (int i) (host_addr p) i b) (enumerate 0 ps)"
  by (simp add: members_at_def)

lemma config_members_run:
  assumes "ps \<noteq> []" "list_all plain_addr ps" "list_all plain_addr arbs"
    and "length ps \<le> MaxMembers" "length arbs \<le> MaxMembers"
    and "hc_members conf = map line_of ps" "hc_arbiters conf = map line_of arbs"
  shows "ConfigMapToMembers (GenerateConfigMap n ns ls conf) =
    Ok (members_at 0 False ps @ members_at (length ps) True arbs)"
proof -
  let ?cm = "GenerateConfigMap n ns ls conf"
  have data: "data_members 0 (go_split ''\<newline>'' (gm_get '''' (cm_data ?cm) ''datas'')) = Ok (members_at 0 False ps)"
    using assms written_back[of ps] data_members_run[of ps 0]
    by (simp add: GenerateConfigMap_def gm_get_def members_at_zero)
  show ?thesis
  proof (cases "arbs = []")
    case True
    then show ?thesis
      using data assms(7) by (simp add: ConfigMapToMembers_def GenerateConfigMap_def gm_get_def members_at_def)
  next
    case False
    have split: "go_split ''\<newline>'' (gm_get '''' (cm_data ?cm) ''arbiters'') = map line_of arbs"
      using assms written_back[of arbs] False by (simp add: GenerateConfigMap_def gm_get_def)
    then have "gm_get '''' (cm_data ?cm) ''arbiters'' \<noteq> ''''"
      using False by (cases arbs) (auto split: list.splits)
    then show ?thesis
      using data split assms(3,5) arbiter_members_run[of arbs 0 "members_at 0 False ps"]
      by (simp add: ConfigMapToMembers_def Let_def members_at_def)
  qed
qed

lemma enumerate_upt: "enumerate k xs = map (\<lambda>i. (k + i, xs ! i)) [0..<length xs]"
  by (rule nth_equalityI) (auto simp: nth_enumerate_eq)

lemma members_at_maps:
  "map rm_id (members_at k b ps) = map (\<lambda>i. int (k + i)) [0..<length ps]"
  "map rm_host (members_at k b ps) = map host_addr ps"
  "map rm_arbiter_only (members_at k b ps) = replicate (length ps) b"
  "length (members_at k b ps) = length ps"
  by (auto simp: members_at_def enumerate_upt new_member_def comp_def split_def intro!: nth_equalityI)

definition voters :: "rs_member list \<Rightarrow> nat" where
  "voters ms = length (filter (\<lambda>m. rm_votes m = 1) ms)"

lemma voters_at: "voters (members_at k b ps) = min 7 (length ps)"
proof -
  have "voters (members_at k b ps) = length (filter (\<lambda>i. i < 7) [0..<length ps])"
    by (simp add: voters_def members_at_def enumerate_upt filter_map comp_def new_member_def)
  also have "\<dots> = card {i. i < length ps \<and> i < 7}"
    by (simp add: length_filter_conv_card cong: conj_cong)
  also have "{i. i < length ps \<and> i < 7} = {..<min 7 (length ps)}" by auto
  finally show ?thesis by simp
qed

lemma addresses_run: "list_all plain_addr ps \<Longrightarrow> addresses (map line_of ps) = Ok (map host_addr ps)"
  by (induction ps) auto

text \<open>
  C21: what the control plane writes into the host ConfigMap is what the data plane configures: for
  at most 50 data members and 50 arbiters the member list has exactly the written addresses in
  order, identified by their position, the arbiters last and alone marked as such, the connection
  addresses are those of the data members; the number of voting members is at most seven of each
  kind, so it can exceed seven.
\<close>

theorem config_members_spec:
  assumes "ps \<noteq> []" "list_all plain_addr ps" "list_all plain_addr arbs"
    and "length ps \<le> MaxMembers" "length arbs \<le> MaxMembers"
    and "hc_members conf = map line_of ps" "hc_arbiters conf = map line_of arbs"
  shows "\<exists>ms. ConfigMapToMembers (GenerateConfigMap n ns ls conf) = Ok ms \<and>
    map rm_host ms = map host_addr (ps @ arbs) \<and>
    map rm_id ms = map int [0..<length ps + length arbs] \<and>
    map rm_arbiter_only ms = replicate (length ps) False @ replicate (length arbs) True \<and>
    voters ms = min 7 (length ps) + min 7 (length arbs) \<and>
    ConfigMapToAddress (GenerateConfigMap n ns ls conf) = Ok (map host_addr ps)"
proof -
  have "map int [0..<length ps + length arbs] =
      map int [0..<length ps] @ map (\<lambda>i. int (length ps + i)) [0..<length arbs]"
    by (rule nth_equalityI) (auto simp: nth_append)
  moreover have "ConfigMapToAddress (GenerateConfigMap n ns ls conf) = Ok (map host_addr ps)"
    using assms written_back[of ps] addresses_run[of ps]
    by (simp add: ConfigMapToAddress_def GenerateConfigMap_def gm_get_def)
  moreover have "voters (xs @ ys) = voters xs + voters ys" for xs ys by (simp add: voters_def)
  ultimately show ?thesis
    using config_members_run[OF assms, of n ns ls] by (simp add: members_at_maps voters_at)
qed

definition sample_addrs :: "(string \<times> 32 word) list" where
  "sample_addrs = [(''10.0.0.1'', 7), (''10.0.0.2'', 8), (''10.0.0.3'', 7), (''10.0.0.4'', 7),
     (''10.0.0.5'', 7), (''10.0.0.6'', 7), (''10.0.0.7'', 7)]"

theorem config_members_spec_witness:
  "\<exists>ms. ConfigMapToMembers (GenerateConfigMap ''c'' ''ns'' []
      \<lparr>hc_arbiters = map line_of [(''10.0.0.8'', 9)], hc_members = map line_of sample_addrs\<rparr>) = Ok ms \<and>
    voters ms = 8"
proof -
  have "list_all plain_addr sample_addrs" "list_all plain_addr [(''10.0.0.8'', 9)]"
    by (simp_all add: sample_addrs_def plain_addr_def vip_like_def)
  moreover have "sample_addrs \<noteq> []" "length sample_addrs = 7" by (simp_all add: sample_addrs_def)
  ultimately show ?thesis
    using config_members_spec[of sample_addrs "[(''10.0.0.8'', 9)]"
        "\<lparr>hc_arbiters = map line_of [(''10.0.0.8'', 9)], hc_members = map line_of sample_addrs\<rparr>"
        "''c''" "''ns''" "[]"]
    by (auto simp: MaxMembers_def)
qed

end
