(* ===== verification/Pod_Util.thy ===== *)
theory Pod_Util
  imports Generators
begin

text \<open>
  Pods on a member cluster: \<open>core/pod_util.go\<close> (ordinals, phases, filters, the classification into
  buckets), \<open>core/mongo_info.go\<close> (what the labels of a pod say) and the pure parts of
  \<open>core/pod.go\<close> (readiness, dropping pods of deleted stateful sets). A pod pointer that may be nil is
  an option. \<open>sort.Slice\<close> on pods is an argument, \<open>sort_pods\<close>.
\<close>

section \<open>mongo_info.go\<close>

definition ContainerName :: string where "ContainerName = ''mongo''"
definition LabelValStandalone :: string where "LabelValStandalone = ''standalone''"
definition LabelValConfigsvr :: string where "LabelValConfigsvr = ''configsvr''"
definition LabelValShardsvr :: string where "LabelValShardsvr = ''shardsvr''"
definition LabelValMongos :: string where "LabelValMongos = ''mongos''"

definition pod_label :: "pod \<Rightarrow> string \<Rightarrow> string" where
  "pod_label p k = gm_get '''' (om_labels (po_meta p)) k"

definition GetRole :: "pod option \<Rightarrow> string" where
  "GetRole pod = (case pod of None \<Rightarrow> '''' | Some p \<Rightarrow> pod_label p LabelKeyRole)"

definition GetRsName :: "pod option \<Rightarrow> string" where
  "GetRsName pod = (case pod of None \<Rightarrow> '''' | Some p \<Rightarrow> pod_label p LabelKeyReplsetName)"

definition GetRevisionHash :: "pod option \<Rightarrow> string" where
  "GetRevisionHash pod = (case pod of None \<Rightarrow> '''' | Some p \<Rightarrow> pod_label p LabelKeyRevisionHash)"

definition IsArbiter :: "pod option \<Rightarrow> bool" where
  "IsArbiter pod = (case pod of None \<Rightarrow> False | Some p \<Rightarrow> pod_label p LabelKeyArbiter = LabelValTrue)"

definition IsExporter :: "pod option \<Rightarrow> bool" where
  "IsExporter pod = (case pod of None \<Rightarrow> False | Some p \<Rightarrow> pod_label p LabelKeyRole = LabelValExporter)"

definition IsNotNeedReConfig :: "pod option \<Rightarrow> bool" where
  "IsNotNeedReConfig pod = (case pod of None \<Rightarrow> False | Some p \<Rightarrow>
     pod_label p LabelKeyRole = LabelValStandalone \<or> pod_label p LabelKeyRole = LabelValMongos \<or>
     pod_label p LabelKeyRole = LabelValConfigsvr \<or> pod_label p LabelKeyRole = LabelValShardsvr)"

definition IsExportPort :: "pod option \<Rightarrow> bool" where
  "IsExportPort pod = (case pod of None \<Rightarrow> False | Some p \<Rightarrow>
     if IsExporter (Some p) then False
     else pod_label p LabelKeyRole = LabelValStandalone \<or>
       pod_label p LabelKeyRole = LabelValReplset \<or> pod_label p LabelKeyRole = LabelValMongos)"

section \<open>States of a pod\<close>

fun isPodReady_conds :: "(string \<times> string) list \<Rightarrow> bool" where
  "isPodReady_conds [] = False"
| "isPodReady_conds ((typ, status) # cs) =
     (if status \<noteq> ''True'' then isPodReady_conds cs
      else if typ = ''Ready'' then True else isPodReady_conds cs)"

definition isPodReady :: "pod \<Rightarrow> bool" where
  "isPodReady p = isPodReady_conds (po_conditions p)"

definition isRunningAndReady :: "pod \<Rightarrow> bool" where
  "isRunningAndReady p = (po_phase p = ''Running'' \<and> isPodReady p)"

definition isCreated :: "pod \<Rightarrow> bool" where "isCreated p = (po_phase p \<noteq> '''')"
definition isFailed :: "pod \<Rightarrow> bool" where "isFailed p = (po_phase p = ''Failed'')"
definition isTerminating :: "pod \<Rightarrow> bool" where "isTerminating p = om_deleting (po_meta p)"

definition isHealthy :: "pod \<Rightarrow> bool" where
  "isHealthy p = (isRunningAndReady p \<and> \<not> isTerminating p)"

definition podFilterOk :: "pod \<Rightarrow> bool" where "podFilterOk p = isHealthy p"

definition podFilterTerminatingOrPending :: "pod \<Rightarrow> bool" where
  "podFilterTerminatingOrPending p =
     (if isTerminating p \<or> po_phase p = ''Pending'' then True else False)"

definition podFilterFailed :: "pod \<Rightarrow> bool" where
  "podFilterFailed p =
     (if \<not> isTerminating p \<and> \<not> (po_phase p = ''Running'' \<or> po_phase p = ''Pending'') then True
      else False)"

definition podFilterNotArbiter :: "pod \<Rightarrow> bool" where
  "podFilterNotArbiter p = (\<not> IsArbiter (Some p))"

definition podFilterNotExporter :: "pod \<Rightarrow> bool" where
  "podFilterNotExporter p = (\<not> IsExporter (Some p))"

definition getPodContainer :: "pod \<Rightarrow> string \<Rightarrow> string option" where
  "getPodContainer p containerName = List.find (\<lambda>c. c = containerName) (po_containers p)"

definition isMongodPod :: "pod \<Rightarrow> bool" where
  "isMongodPod p = (getPodContainer p ContainerName \<noteq> None)"

fun container_running :: "(string \<times> bool) list \<Rightarrow> bool" where
  "container_running [] = False"
| "container_running ((name, running) # cs) =
     (if name = ContainerName \<and> running then True else container_running cs)"

definition isContainerAndPodRunning :: "pod \<Rightarrow> bool" where
  "isContainerAndPodRunning p =
     (if po_phase p \<noteq> ''Running'' then False else container_running (po_running p))"

section \<open>Lists of pods\<close>

definition pod_name :: "pod \<Rightarrow> string" where "pod_name p = om_name (po_meta p)"

text \<open>The inner loop stops at the first filter that refuses the pod.\<close>

fun passes :: "(pod \<Rightarrow> bool) list \<Rightarrow> pod \<Rightarrow> bool" where
  "passes [] p = True"
| "passes (f # fs) p = (if \<not> f p then False else passes fs p)"

fun PodFilter :: "pod list \<Rightarrow> (pod \<Rightarrow> bool) list \<Rightarrow> pod list" where
  "PodFilter [] fs = []"
| "PodFilter (p # ps) fs = (if passes fs p then p # PodFilter ps fs else PodFilter ps fs)"

definition pods_by_name :: "pod list \<Rightarrow> (string, pod) gomap" where
  "pods_by_name ps = fold (\<lambda>p m. AList.update (pod_name p) p m) ps []"

definition PodMerge ::
    "((string \<times> pod) list \<Rightarrow> (string \<times> pod) list) \<Rightarrow> pod list \<Rightarrow> pod list \<Rightarrow> pod list" where
  "PodMerge order pods1 pods2 =
     map snd (order (fold (\<lambda>p m. if \<not> gm_has m (pod_name p) then AList.update (pod_name p) p m else m)
       pods2 (pods_by_name pods1)))"

fun rest_loop :: "(string, pod) gomap \<Rightarrow> pod list \<Rightarrow> pod list" where
  "rest_loop m [] = []"
| "rest_loop m (p # ps) =
     (if \<not> gm_has m (pod_name p) then p # rest_loop m ps else rest_loop m ps)"

definition PodRest :: "pod list \<Rightarrow> pod list \<Rightarrow> pod list" where
  "PodRest pods podsSub = rest_loop (pods_by_name podsSub) pods"

fun PodNameList :: "pod list \<Rightarrow> string list" where
  "PodNameList [] = []"
| "PodNameList (p # ps) = pod_name p # PodNameList ps"

fun GetAvailablePod :: "pod list \<Rightarrow> pod option" where
  "GetAvailablePod [] = None"
| "GetAvailablePod (p # ps) =
     (if IsArbiter (Some p) then GetAvailablePod ps
      else if IsExporter (Some p) then GetAvailablePod ps else Some p)"

definition IsNeedMetricsService :: "pod \<Rightarrow> bool \<Rightarrow> bool" where
  "IsNeedMetricsService p enable = enable"

section \<open>Ordinals\<close>

text \<open>
  \<open>(.*)-([0-9]+)$\<close>: the digits at the end of the name, after its last dash (a pod name is a DNS
  label, without line breaks). \<open>strconv.ParseInt(_, 10, 32)\<close> fails beyond 31 bits.
\<close>

definition is_digit :: "char \<Rightarrow> bool" where
  "is_digit c = (digit_val c \<noteq> None)"

definition stateful_match :: "string \<Rightarrow> (string \<times> string) option" where
  "stateful_match name =
     (let digits = rev (takeWhile is_digit (rev name)); rest = rev (dropWhile is_digit (rev name))
      in if digits \<noteq> [] \<and> rest \<noteq> [] \<and> last rest = CHR ''-'' then Some (butlast rest, digits) else None)"

definition parse_int32 :: "string \<Rightarrow> int option" where
  "parse_int32 s = (case unsigned_val s of
     Inr i \<Rightarrow> if i < 2 ^ 31 then Some i else None | Inl _ \<Rightarrow> None)"

definition getParentNameAndOrdinal :: "pod \<Rightarrow> string \<times> int" where
  "getParentNameAndOrdinal p = (case stateful_match (pod_name p) of
     None \<Rightarrow> ('''', -1)
   | Some (parent, digits) \<Rightarrow>
       (parent, case parse_int32 digits of Some i \<Rightarrow> i | None \<Rightarrow> -1))"

definition GetParentName :: "pod \<Rightarrow> string" where
  "GetParentName p = fst (getParentNameAndOrdinal p)"

definition GetOrdinal :: "pod \<Rightarrow> int" where
  "GetOrdinal p = snd (getParentNameAndOrdinal p)"

definition PodSorterById :: "pod \<Rightarrow> pod \<Rightarrow> bool" where
  "PodSorterById i j = (GetOrdinal i < GetOrdinal j)"

text \<open>\<open>sort.Slice\<close> with \<open>PodSorterById\<close>: a permutation in which no later pod is less.\<close>

definition sorts_pods :: "(pod list \<Rightarrow> pod list) \<Rightarrow> bool" where
  "sorts_pods sort_pods \<longleftrightarrow> (\<forall>ps. mset (sort_pods ps) = mset ps \<and>
     sorted_wrt (\<lambda>i j. \<not> PodSorterById j i) (sort_pods ps))"

section \<open>Buckets\<close>

record pod_bucket =
  bk_miss :: "int list"
  bk_ok :: "pod list"
  bk_pending :: "pod list"
  bk_failed :: "pod list"
  bk_redundant :: "pod list"

text \<open>The first loop: pods go to their slot or to the redundant ones; a negative index panics.\<close>

fun place_pods :: "pod list \<Rightarrow> pod option list \<Rightarrow> pod list \<Rightarrow> (pod option list \<times> pod list) outcome" where
  "place_pods [] slots redundant = Ok (slots, redundant)"
| "place_pods (p # ps) slots redundant =
     (let i = GetOrdinal p
      in if i \<ge> int (length slots) then place_pods ps slots (redundant @ [p])
         else if i < 0 then Panic ''index out of range''
         else place_pods ps (slots[nat i := Some p]) redundant)"

fun split_slots :: "nat \<Rightarrow> pod option list \<Rightarrow> int list \<times> pod list" where
  "split_slots i [] = ([], [])"
| "split_slots i (v # vs) = (case split_slots (Suc i) vs of (miss, exist) \<Rightarrow>
     (case v of None \<Rightarrow> (int i # miss, exist) | Some p \<Rightarrow> (miss, p # exist)))"

definition PodClassify :: "(pod list \<Rightarrow> pod list) \<Rightarrow> pod list \<Rightarrow> int \<Rightarrow> pod_bucket outcome" where
  "PodClassify sort_pods pods expectedCount =
     (if expectedCount < 0 then Panic ''makeslice: len out of range''
      else (case place_pods (sort_pods pods) (replicate (nat expectedCount) None) [] of
          Ok (slots, redundant) \<Rightarrow>
            (case split_slots 0 slots of (miss, existList) \<Rightarrow> Ok
               \<lparr>bk_miss = miss,
                bk_ok = PodRest (PodFilter existList [podFilterOk]) redundant,
                bk_pending = PodFilter existList [podFilterTerminatingOrPending],
                bk_failed = PodFilter existList [podFilterFailed],
                bk_redundant = redundant\<rparr>)
        | Err e \<Rightarrow> Err e
        | Panic q \<Rightarrow> Panic q))"

section \<open>pod.go\<close>

definition CheckPodsReady :: "int \<Rightarrow> pod list \<Rightarrow> unit outcome" where
  "CheckPodsReady expectedCount pods =
     (if int (length (PodFilter pods [isMongodPod, isContainerAndPodRunning, isPodReady])) < expectedCount
      then Err (Wrap (Sentinel ErrWaitRequeue) ''pod not ready'') else Ok ())"

definition sts_alive :: "stateful_set list \<Rightarrow> (string, bool) gomap" where
  "sts_alive stsList = fold (\<lambda>s m. AList.update (om_name (ss_meta s)) (\<not> om_deleting (ss_meta s)) m) stsList []"

text \<open>
  The loop removes the element at \<open>podInx\<close> in place and steps back, so that the index stays; a pod
  without an owner panics.
\<close>

function drop_deleted :: "(string, bool) gomap \<Rightarrow> nat \<Rightarrow> pod list \<Rightarrow> pod list outcome" where
  "drop_deleted alive podInx allPods =
     (if podInx < length allPods then
        (case om_owners (po_meta (allPods ! podInx)) of
           [] \<Rightarrow> Panic ''index out of range [0]''
         | own # _ \<Rightarrow>
             if \<not> gm_get False alive own
             then drop_deleted alive podInx (take podInx allPods @ drop (podInx + 1) allPods)
             else drop_deleted alive (podInx + 1) allPods)
      else Ok allPods)"
  by pat_completeness auto

termination drop_deleted
  by (relation "measure (\<lambda>(_, i, ps). length ps - i)") auto

declare drop_deleted.simps [simp del]

definition FilterPodsIsDeleted :: "pod list \<Rightarrow> stateful_set list \<Rightarrow> pod list outcome" where
  "FilterPodsIsDeleted allPods stsList = drop_deleted (sts_alive stsList) 0 allPods"

text \<open>\<open>ListPod\<close> of \<open>base\<close>: the live pods with the label that pass the filters, by ordinal.\<close>

definition base_ListPod ::
    "'w client \<Rightarrow> (pod list \<Rightarrow> pod list) \<Rightarrow> string \<Rightarrow> labels \<Rightarrow> (pod \<Rightarrow> bool) list \<Rightarrow> ('w, pod list) go" where
  "base_ListPod cli sort_pods namespace label fs =
     bindg (ListPod cli namespace label) (\<lambda>pods.
       ret (sort_pods (PodFilter (filter (\<lambda>p. \<not> om_deleting (po_meta p)) pods) fs)))"

section \<open>Lemmas\<close>

lemma passes_iff: "passes fs p \<longleftrightarrow> (\<forall>f \<in> set fs. f p)"
  by (induction fs) auto

lemma PodFilter_eq: "PodFilter ps fs = filter (passes fs) ps"
  by (induction ps) auto

lemma pods_by_name_has: "gm_has (pods_by_name ps) n \<longleftrightarrow> n \<in> pod_name ` set ps"
proof -
  have "gm_has (fold (\<lambda>p m. AList.update (pod_name p) p m) ps s) n \<longleftrightarrow> n \<in> pod_name ` set ps \<or> gm_has s n" for s
    by (induction ps arbitrary: s) auto
  then show ?thesis by (simp add: pods_by_name_def)
qed

lemma PodRest_eq: "PodRest ps qs = filter (\<lambda>p. pod_name p \<notin> pod_name ` set qs) ps"
proof -
  have "rest_loop m ps = filter (\<lambda>p. \<not> gm_has m (pod_name p)) ps" for m
    by (induction ps) auto
  then show ?thesis by (simp add: PodRest_def pods_by_name_has)
qed

lemma isPodReady_iff: "isPodReady p \<longleftrightarrow> (''Ready'', ''True'') \<in> set (po_conditions p)"
proof -
  have "isPodReady_conds cs \<longleftrightarrow> (''Ready'', ''True'') \<in> set cs" for cs
    by (induction cs rule: isPodReady_conds.induct) auto
  then show ?thesis by (simp add: isPodReady_def)
qed

lemma split_slots_spec:
  "split_slots k vs = (map (\<lambda>j. int (k + j)) (filter (\<lambda>j. vs ! j = None) [0..<length vs]),
     List.map_filter (\<lambda>v. v) vs)"
proof (induction vs arbitrary: k)
  case (Cons v vs)
  have "[0..<length (v # vs)] = 0 # map Suc [0..<length vs]"
    by (simp add: map_Suc_upt upt_conv_Cons del: upt_Suc)
  then show ?case
    by (simp add: Cons filter_map comp_def map_filter_simps split: option.splits)
qed (simp add: map_filter_simps)

lemma is_digit_nat_digits: "c \<in> set (nat_digits n) \<Longrightarrow> is_digit c"
proof -
  have "is_digit d" if "d \<in> set ''0123456789''" for d
    using that by (auto simp: is_digit_def digit_val_def decimals_def Let_def)
  then show "c \<in> set (nat_digits n) \<Longrightarrow> is_digit c" using nat_digits_plain[of n] by blast
qed

lemma stateful_match_ordinal: "stateful_match (parent @ ''-'' @ nat_digits n) = Some (parent, nat_digits n)"
proof -
  have dash: "\<not> is_digit (CHR ''-'')" by (simp add: is_digit_def digit_val_def decimals_def)
  have "takeWhile is_digit (rev (nat_digits n) @ CHR ''-'' # rev parent) = rev (nat_digits n)"
    "dropWhile is_digit (rev (nat_digits n) @ CHR ''-'' # rev parent) = CHR ''-'' # rev parent"
    using dash by (simp_all add: takeWhile_append dropWhile_append is_digit_nat_digits)
  then show ?thesis by (simp add: stateful_match_def Let_def)
qed

lemma place_pods_run:
  assumes "\<forall>p \<in> set ps. 0 \<le> GetOrdinal p"
  shows "\<exists>slots'. place_pods ps slots red =
      Ok (slots', red @ filter (\<lambda>p. int (length slots) \<le> GetOrdinal p) ps) \<and>
    length slots' = length slots \<and>
    (\<forall>j < length slots. slots' ! j =
      (case filter (\<lambda>p. GetOrdinal p = int j) (rev ps) of p # _ \<Rightarrow> Some p | [] \<Rightarrow> slots ! j))"
  using assms
proof (induction ps arbitrary: slots red)
  case (Cons p ps)
  show ?case
  proof (cases "int (length slots) \<le> GetOrdinal p")
    case True
    then have "GetOrdinal p \<noteq> int j" if "j < length slots" for j using that by simp
    then show ?thesis
      using True Cons.IH[of slots "red @ [p]"] Cons.prems by (auto simp: Let_def split: list.splits)
  next
    case False
    let ?s = "slots[nat (GetOrdinal p) := Some p]"
    obtain s' where s': "place_pods ps ?s red = Ok (s', red @ filter (\<lambda>p. int (length ?s) \<le> GetOrdinal p) ps)"
      "length s' = length ?s"
      "\<forall>j < length ?s. s' ! j = (case filter (\<lambda>p. GetOrdinal p = int j) (rev ps) of p # _ \<Rightarrow> Some p | [] \<Rightarrow> ?s ! j)"
      using Cons.IH[of ?s red] Cons.prems by auto
    have "s' ! j = (case filter (\<lambda>p. GetOrdinal p = int j) (rev (p # ps)) of q # _ \<Rightarrow> Some q | [] \<Rightarrow> slots ! j)"
      if "j < length slots" for j
      using s'(3) that Cons.prems by (auto simp: nth_list_update split: list.splits)
    with s' False Cons.prems show ?thesis by (auto simp: Let_def)
  qed
qed simp

lemma place_pods_panics:
  "\<exists>p \<in> set ps. GetOrdinal p < 0 \<Longrightarrow> \<exists>q. place_pods ps slots red = Panic q"
proof (induction ps arbitrary: slots red)
  case (Cons p ps)
  then show ?case by (cases "GetOrdinal p < 0") (auto simp: Let_def)
qed simp

lemma set_map_filter_id: "set (List.map_filter (\<lambda>v. v) vs) = {p. Some p \<in> set vs}"
  by (induction vs) (auto simp: map_filter_simps split: option.splits)

text \<open>The pods in slots and the missing ordinals.\<close>

lemma placed_slots:
  assumes "\<forall>p \<in> set ps. 0 \<le> GetOrdinal p" and "distinct (map GetOrdinal ps)"
  obtains slots where "place_pods ps (replicate n None) [] = Ok (slots, filter (\<lambda>p. int n \<le> GetOrdinal p) ps)"
    and "length slots = n" and "{p. Some p \<in> set slots} = {p \<in> set ps. GetOrdinal p < int n}"
    and "\<forall>j < n. slots ! j = None \<longleftrightarrow> int j \<notin> GetOrdinal ` set ps"
proof -
  obtain slots where s: "place_pods ps (replicate n None) [] = Ok (slots, filter (\<lambda>p. int n \<le> GetOrdinal p) ps)"
    "length slots = n" "\<forall>j < n. slots ! j =
      (case filter (\<lambda>p. GetOrdinal p = int j) (rev ps) of p # _ \<Rightarrow> Some p | [] \<Rightarrow> None)"
    using place_pods_run[OF assms(1), of "replicate n None" "[]"] by (force split: list.splits)
  have slot: "slots ! j = Some p \<longleftrightarrow> p \<in> set ps \<and> GetOrdinal p = int j" if "j < n" for j p
  proof
    assume "slots ! j = Some p"
    with s(3) that obtain qs where "filter (\<lambda>p. GetOrdinal p = int j) (rev ps) = p # qs"
      by (auto split: list.splits)
    then have "p \<in> set (filter (\<lambda>p. GetOrdinal p = int j) (rev ps))" by (metis list.set_intros(1))
    then show "p \<in> set ps \<and> GetOrdinal p = int j" by simp
  next
    assume p: "p \<in> set ps \<and> GetOrdinal p = int j"
    then have "p \<in> set (filter (\<lambda>p. GetOrdinal p = int j) (rev ps))" by simp
    then obtain q qs where q: "filter (\<lambda>p. GetOrdinal p = int j) (rev ps) = q # qs" by (cases "filter (\<lambda>p. GetOrdinal p = int j) (rev ps)") auto
    then have "q \<in> set (filter (\<lambda>p. GetOrdinal p = int j) (rev ps))" by (metis list.set_intros(1))
    then have "q = p" using p assms(2) by (auto simp: distinct_map inj_on_def)
    with q s(3) that show "slots ! j = Some p" by simp
  qed
  have "{p. Some p \<in> set slots} = {p \<in> set ps. GetOrdinal p < int n}"
  proof (intro equalityI subsetI)
    fix p assume "p \<in> {p. Some p \<in> set slots}"
    then obtain j where "j < n" "slots ! j = Some p" using s(2) by (auto simp: in_set_conv_nth)
    with slot show "p \<in> {p \<in> set ps. GetOrdinal p < int n}" by auto
  next
    fix p assume p: "p \<in> {p \<in> set ps. GetOrdinal p < int n}"
    then have "nat (GetOrdinal p) < n" "slots ! nat (GetOrdinal p) = Some p"
      using assms(1) slot[of "nat (GetOrdinal p)" p] by auto
    then show "p \<in> {p. Some p \<in> set slots}" using s(2) by (auto simp: in_set_conv_nth)
  qed
  moreover have "slots ! j = None \<longleftrightarrow> int j \<notin> GetOrdinal ` set ps" if "j < n" for j
    using slot[OF that] by (cases "slots ! j") force+
  ultimately show ?thesis using that s(1,2) by blast
qed

lemma drop_deleted_filter:
  assumes "\<forall>p \<in> set ps. om_owners (po_meta p) \<noteq> []" and "i \<le> length ps"
  shows "drop_deleted alive i ps =
    Ok (take i ps @ filter (\<lambda>p. gm_get False alive (hd (om_owners (po_meta p)))) (drop i ps))"
  using assms
proof (induction alive i ps rule: drop_deleted.induct)
  case (1 alive i ps)
  show ?case
  proof (cases "i < length ps")
    case False
    with "1.prems" show ?thesis by (simp add: drop_deleted.simps)
  next
    case True
    then have d: "drop i ps = ps ! i # drop (Suc i) ps" "take (Suc i) ps = take i ps @ [ps ! i]"
      by (simp_all add: Cons_nth_drop_Suc take_Suc_conv_app_nth)
    from True "1.prems"(1) have "om_owners (po_meta (ps ! i)) \<noteq> []" by simp
    then obtain own rest where own: "om_owners (po_meta (ps ! i)) = own # rest"
      by (auto simp: neq_Nil_conv)
    show ?thesis
    proof (cases "gm_get False alive own")
      case alive: False
      have set: "\<forall>p \<in> set (take i ps @ drop (i + 1) ps). om_owners (po_meta p) \<noteq> []"
        using "1.prems"(1) by (auto dest: in_set_takeD in_set_dropD)
      have "drop_deleted alive i ps = drop_deleted alive i (take i ps @ drop (i + 1) ps)"
        using True own alive by (simp add: drop_deleted.simps[of alive i ps])
      also have "\<dots> = Ok (take i (take i ps @ drop (i + 1) ps) @
          filter (\<lambda>p. gm_get False alive (hd (om_owners (po_meta p)))) (drop i (take i ps @ drop (i + 1) ps)))"
        using "1.IH"(1)[OF True own _ set] alive True by simp
      finally show ?thesis using True own alive d(1) by simp
    next
      case alive: True
      have "drop_deleted alive i ps = drop_deleted alive (i + 1) ps"
        using True own alive by (simp add: drop_deleted.simps[of alive i ps])
      also have "\<dots> = Ok (take (i + 1) ps @
          filter (\<lambda>p. gm_get False alive (hd (om_owners (po_meta p)))) (drop (i + 1) ps))"
        using "1.IH"(2)[OF True own _ "1.prems"(1)] alive True by simp
      finally show ?thesis using own alive d by simp
    qed
  qed
qed

lemma sts_alive_get:
  "distinct (map (om_name \<circ> ss_meta) ss) \<Longrightarrow>
   gm_get False (sts_alive ss) n \<longleftrightarrow> (\<exists>s \<in> set ss. om_name (ss_meta s) = n \<and> \<not> om_deleting (ss_meta s))"
proof -
  have "distinct (map (om_name \<circ> ss_meta) ss) \<Longrightarrow>
     gm_get False (fold (\<lambda>s m. AList.update (om_name (ss_meta s)) (\<not> om_deleting (ss_meta s)) m) ss m) n \<longleftrightarrow>
     (\<exists>s \<in> set ss. om_name (ss_meta s) = n \<and> \<not> om_deleting (ss_meta s)) \<or>
     n \<notin> (om_name \<circ> ss_meta) ` set ss \<and> gm_get False m n" for m
    by (induction ss arbitrary: m) (auto simp: image_iff)
  from this[of "[]"] show "distinct (map (om_name \<circ> ss_meta) ss) \<Longrightarrow> ?thesis"
    by (simp add: sts_alive_def)
qed

section \<open>Properties\<close>

text \<open>
  Pod names and ordinals: a pod named like a stateful set's gives back the set's name and its
  ordinal, as long as the ordinal fits 31 bits.
\<close>

theorem ordinal_roundtrip:
  assumes "pod_name p = parent @ ''-'' @ nat_digits n" and "n < 2 ^ 31"
  shows "GetParentName p = parent \<and> GetOrdinal p = int n"
  using assms stateful_match_ordinal[of parent n]
  by (simp add: GetParentName_def GetOrdinal_def getParentNameAndOrdinal_def parse_int32_def
      unsigned_val_nat_digits)

definition sample_pod :: "string \<Rightarrow> string list \<Rightarrow> pod" where
  "sample_pod n owners = \<lparr>po_meta = (meta_of n ''ns'' [])\<lparr>om_owners := owners\<rparr>, po_phase = ''Running'',
     po_conditions = [(''Ready'', ''True'')], po_containers = [''mongo''], po_running = [(''mongo'', True)],
     po_ip = ''10.1.0.1''\<rparr>"

theorem ordinal_roundtrip_witness:
  "GetParentName (sample_pod (''m-0'' @ ''-'' @ nat_digits 12) []) = ''m-0'' \<and>
   GetOrdinal (sample_pod (''m-0'' @ ''-'' @ nat_digits 12) []) = 12"
  using ordinal_roundtrip[of "sample_pod (''m-0'' @ ''-'' @ nat_digits 12) []" "''m-0''" 12]
  by (simp add: sample_pod_def pod_name_def meta_of_def)

text \<open>
  The classification of pods with distinct ordinals: it panics exactly when the expected count
  or an ordinal is negative (a name that is not a stateful set's), and otherwise reports the ordinals
  below the count that no pod has as missing, the pods from the count on as redundant and the others
  by their state; a running pod that is not ready is in no bucket.
\<close>

theorem pod_classify_spec:
  assumes "sorts_pods sort_pods" and "distinct (map GetOrdinal pods)"
  shows "case PodClassify sort_pods pods n of
      Ok b \<Rightarrow> 0 \<le> n \<and> (\<forall>p \<in> set pods. 0 \<le> GetOrdinal p) \<and>
        set (bk_miss b) = {0..<n} - GetOrdinal ` set pods \<and>
        set (bk_redundant b) = {p \<in> set pods. n \<le> GetOrdinal p} \<and>
        set (bk_ok b) = {p \<in> set pods. GetOrdinal p < n \<and> isHealthy p} \<and>
        set (bk_pending b) = {p \<in> set pods. GetOrdinal p < n \<and> (isTerminating p \<or> po_phase p = ''Pending'')} \<and>
        set (bk_failed b) = {p \<in> set pods. GetOrdinal p < n \<and> \<not> isTerminating p \<and>
          po_phase p \<noteq> ''Running'' \<and> po_phase p \<noteq> ''Pending''}
    | Err e \<Rightarrow> False
    | Panic q \<Rightarrow> n < 0 \<or> (\<exists>p \<in> set pods. GetOrdinal p < 0)"
proof -
  let ?ps = "sort_pods pods"
  have m: "mset ?ps = mset pods" using assms(1) by (simp add: sorts_pods_def)
  then have set: "set ?ps = set pods" by (rule mset_eq_setD)
  have dist: "distinct (map GetOrdinal ?ps)" using m assms(2) by (metis mset_eq_imp_distinct_iff mset_map)
  consider (neg) "n < 0" | (bad) "0 \<le> n" "\<exists>p \<in> set ?ps. GetOrdinal p < 0"
    | (good) "0 \<le> n" "\<forall>p \<in> set ?ps. 0 \<le> GetOrdinal p" by force
  then show ?thesis
  proof cases
    case neg
    then show ?thesis by (simp add: PodClassify_def)
  next
    case bad
    then obtain q where "place_pods ?ps (replicate (nat n) None) [] = Panic q" using place_pods_panics by blast
    with bad set show ?thesis by (simp add: PodClassify_def)
  next
    case good
    obtain slots where s: "place_pods ?ps (replicate (nat n) None) [] = Ok (slots, filter (\<lambda>p. int (nat n) \<le> GetOrdinal p) ?ps)"
      "length slots = nat n" "{p. Some p \<in> set slots} = {p \<in> set ?ps. GetOrdinal p < int (nat n)}"
      "\<forall>j < nat n. slots ! j = None \<longleftrightarrow> int j \<notin> GetOrdinal ` set ?ps"
      by (rule placed_slots[OF good(2) dist, of "nat n"])
    have exist: "set (List.map_filter (\<lambda>v. v) slots) = {p \<in> set pods. GetOrdinal p < n}"
      using s(3) good(1) set by (simp add: set_map_filter_id)
    have miss: "int ` set (filter (\<lambda>j. slots ! j = None) [0..<length slots]) = {0..<n} - GetOrdinal ` set pods"
      (is "int ` ?L = ?R")
    proof (intro equalityI subsetI)
      fix x assume "x \<in> int ` ?L"
      with s(2,4) set show "x \<in> ?R" by auto
    next
      fix x assume x: "x \<in> ?R"
      then have "nat x \<in> ?L" using s(2) s(4) set by auto
      with x show "x \<in> int ` ?L" by (auto intro!: image_eqI[of _ _ "nat x"])
    qed
    have apart: "pod_name p \<noteq> pod_name q" if "GetOrdinal p < n" "n \<le> GetOrdinal q" for p q
      using that by (auto simp: GetOrdinal_def getParentNameAndOrdinal_def)
    show ?thesis
      using s(1) good set exist miss apart
      by (auto simp: PodClassify_def split_slots_spec PodRest_eq PodFilter_eq passes_iff podFilterOk_def
          podFilterFailed_def podFilterTerminatingOrPending_def)
  qed
qed

lemma sorts_pods_id: "sorts_pods (sort_key GetOrdinal)"
proof -
  have "sorted_wrt (\<lambda>i j. GetOrdinal i \<le> GetOrdinal j) (sort_key GetOrdinal ps)" for ps
    using sorted_sort_key[of GetOrdinal ps] by (simp add: sorted_wrt_map)
  then show ?thesis by (simp add: sorts_pods_def PodSorterById_def not_less)
qed

theorem pod_classify_spec_witness:
  "\<exists>b. PodClassify (sort_key GetOrdinal) [sample_pod (''m'' @ ''-'' @ nat_digits 4) [], sample_pod (''m'' @ ''-'' @ nat_digits 1) []] 3 = Ok b \<and>
    set (bk_miss b) = {0, 2}"
proof -
  let ?a = "sample_pod (''m'' @ ''-'' @ nat_digits 4) []" and ?b = "sample_pod (''m'' @ ''-'' @ nat_digits 1) []"
  have ord: "GetOrdinal ?a = 4" "GetOrdinal ?b = 1"
    using stateful_match_ordinal[of "''m''" 4] stateful_match_ordinal[of "''m''" 1]
    by (simp_all add: GetOrdinal_def getParentNameAndOrdinal_def parse_int32_def unsigned_val_nat_digits
        sample_pod_def pod_name_def meta_of_def)
  have "{0..<3} - {4, 1} = {0, 2 :: int}" by (auto simp: atLeastLessThan_def)
  then show ?thesis
    using pod_classify_spec[OF sorts_pods_id, of "[?a, ?b]" 3] ord by (auto split: outcome.splits)
qed

text \<open>
  The loop that removes pods in place while it walks the list is the library's filter: it ends,
  skips no pod after a removal and keeps, in order, the pods whose owner is a listed stateful set
  that is not being deleted.
\<close>

theorem filter_deleted_is_filter:
  assumes "\<forall>p \<in> set pods. om_owners (po_meta p) \<noteq> []" and "distinct (map (om_name \<circ> ss_meta) stsList)"
  shows "FilterPodsIsDeleted pods stsList =
    Ok (filter (\<lambda>p. \<exists>s \<in> set stsList. om_name (ss_meta s) = hd (om_owners (po_meta p)) \<and>
      \<not> om_deleting (ss_meta s)) pods)"
  using drop_deleted_filter[OF assms(1), of 0 "sts_alive stsList"] sts_alive_get[OF assms(2)]
  by (simp add: FilterPodsIsDeleted_def)

definition sample_sts :: "string \<Rightarrow> bool \<Rightarrow> stateful_set" where
  "sample_sts n deleting = \<lparr>ss_meta = (meta_of n ''ns'' [])\<lparr>om_deleting := deleting\<rparr>, ss_match_labels = [],
     ss_template_labels = [], ss_containers = [], ss_pod_spec = None, ss_pull_secrets = [], ss_volumes = [],
     ss_claims = [], ss_update_strategy = ''OnDelete''\<rparr>"

theorem filter_deleted_is_filter_witness:
  "FilterPodsIsDeleted [sample_pod ''a-0'' [''a''], sample_pod ''b-0'' [''b''], sample_pod ''c-0'' [''c'']]
      [sample_sts ''a'' True, sample_sts ''c'' False] = Ok [sample_pod ''c-0'' [''c'']]"
  using filter_deleted_is_filter[of "[sample_pod ''a-0'' [''a''], sample_pod ''b-0'' [''b''], sample_pod ''c-0'' [''c'']]"
      "[sample_sts ''a'' True, sample_sts ''c'' False]"]
  by (simp add: sample_pod_def sample_sts_def meta_of_def)

end
