(* ===== verification/Mongo_Driver.thy ===== *)
theory Mongo_Driver
  imports Replset_Members Pod_Util
begin

text \<open>
  The MongoDB client, \<open>pkg/driver/mgo/mongo.go\<close>. The driver library and the database behind it are
  not part of the repository: they are a record of functions over an abstract world \<open>'m\<close>, an argument
  of every definition that talks to them, as is the exec stream into a pod (\<open>k8s.ExecCmd\<close>). The locale
  \<open>replica_set\<close> names the documented behaviour of the replica-set commands the results rest on; it is
  interpreted on a database in memory.
\<close>

section \<open>The database\<close>

datatype mongo_command =
    CreateUser string string "(string \<times> string) list" \<comment> \<open>user, password, roles with their database\<close>
  | UpdateUser string string
  | ReplSetGetConfig
  | ReplSetReconfig rs_config bool
  | ReplSetGetStatus
  | ServerStatus
  | ReplSetStepDown int

record server_repl =
  sr_primary :: string
  sr_me :: string
  sr_is_master :: bool
  sr_secondary :: bool
  sr_arbiter_only :: bool

text \<open>The decoded answer to a command: \<open>ok\<close> and the document of the command, if it has one.\<close>

record reply =
  rp_ok :: int
  rp_config :: "rs_config option"
  rp_members :: "member_status list"
  rp_repl :: server_repl

record connection =
  cn_addrs :: "string list"
  cn_user :: string
  cn_password :: string
  cn_direct :: bool

record 'm mongo =
  md_connect :: "connection \<Rightarrow> ('m, unit) go"
  md_run :: "connection \<Rightarrow> mongo_command \<Rightarrow> ('m, reply) go"
  md_disconnect :: "connection \<Rightarrow> ('m, unit) go"
  md_network_error :: "gerror \<Rightarrow> bool" \<comment> \<open>a command error with the label NetworkError, or EOF\<close>
  md_exec :: "pod \<Rightarrow> string \<Rightarrow> string \<Rightarrow> ('m, string \<times> gerror option) go"
    \<comment> \<open>pod, container, command; the output comes back with an error too\<close>

definition DbAdmin :: string where "DbAdmin = ''admin''"
definition DbLocal :: string where "DbLocal = ''local''"
definition CmdOk :: int where "CmdOk = 1"
definition MongoRoot :: string where "MongoRoot = ''root''"
definition MongoClusterAdmin :: string where "MongoClusterAdmin = ''clusterAdmin''"
definition MongoClusterMonitor :: string where "MongoClusterMonitor = ''clusterMonitor''"
definition MongoReadWrite :: string where "MongoReadWrite = ''readWrite''"
definition MongoUser :: string where "MongoUser = ''MONGO_USER''"
definition MongoPassword :: string where "MongoPassword = ''MONGO_PASSWORD''"
definition MongoRole :: string where "MongoRole = ''MONGO_ROLE''"
definition MongoDB :: string where "MongoDB = ''MONGO_DB''"
definition Primary :: string where "Primary = ''PRIMARY''"
definition Secondary :: string where "Secondary = ''SECONDARY''"
definition ArbiterStr :: string where "ArbiterStr = ''ARBITER''"

section \<open>Commands\<close>

definition Dial :: "'m mongo \<Rightarrow> string list \<Rightarrow> string \<Rightarrow> string \<Rightarrow> bool \<Rightarrow> ('m, connection) go" where
  "Dial md addrs user password direct =
     (let c = \<lparr>cn_addrs = addrs, cn_user = user, cn_password = password, cn_direct = direct\<rparr>
      in bindg (attempt (md_connect md c)) (\<lambda>r. case r of
           Inr _ \<Rightarrow> ret c
         | Inl e \<Rightarrow> fail (Wrap e ''mongo connect'')))"

definition RunCommand :: "'m mongo \<Rightarrow> connection \<Rightarrow> mongo_command \<Rightarrow> ('m, reply) go" where
  "RunCommand md c cmd = md_run md c cmd"

text \<open>\<open>if resp.OK != CmdOk { return ErrCmdNotOk }\<close>\<close>

definition check_ok :: "reply \<Rightarrow> 'a \<Rightarrow> ('m, 'a) go" where
  "check_ok resp x = (if rp_ok resp \<noteq> CmdOk then fail (Sentinel ErrCmdNotOk) else ret x)"

text \<open>The end of both \<open>createUser\<close> commands: a user that exists already is no error.\<close>

definition create_user :: "'m mongo \<Rightarrow> connection \<Rightarrow> mongo_command \<Rightarrow> ('m, unit) go" where
  "create_user md c cmd = bindg (attempt (RunCommand md c cmd)) (\<lambda>r. case r of
     Inl err \<Rightarrow> if go_contains (err_text err) (sentinel_text ErrAlreadyExists) then ret () else fail err
   | Inr resp \<Rightarrow> check_ok resp ())"

definition CreateUserBySecret :: "'m mongo \<Rightarrow> connection \<Rightarrow> secret \<Rightarrow> ('m, unit) go" where
  "CreateUserBySecret md c usersSecret =
     (let field = gm_get '''' (sec_data usersSecret);
          roles = [(field MongoRole, field MongoDB)];
          roles = (if field MongoUser = MongoClusterMonitor then roles @ [(''read'', DbLocal)] else roles)
      in create_user md c (CreateUser (field MongoUser) (field MongoPassword) roles))"

definition CreateUserBySpec ::
    "'m mongo \<Rightarrow> connection \<Rightarrow> string \<Rightarrow> string \<Rightarrow> (string \<times> string) list \<Rightarrow> ('m, unit) go" where
  "CreateUserBySpec md c user pw roles = create_user md c (CreateUser user pw roles)"

definition ChangeUserPassword :: "'m mongo \<Rightarrow> connection \<Rightarrow> string \<Rightarrow> string \<Rightarrow> ('m, unit) go" where
  "ChangeUserPassword md c name pw =
     bindg (RunCommand md c (UpdateUser name pw)) (\<lambda>resp. check_ok resp ())"

text \<open>The configuration is a pointer, nil when the answer has none.\<close>

definition ReadConfig :: "'m mongo \<Rightarrow> connection \<Rightarrow> ('m, rs_config option) go" where
  "ReadConfig md c = bindg (RunCommand md c ReplSetGetConfig) (\<lambda>resp. check_ok resp (rp_config resp))"

definition WriteConfig :: "'m mongo \<Rightarrow> connection \<Rightarrow> rs_config \<Rightarrow> ('m, unit) go" where
  "WriteConfig md c cfg =
     bindg (RunCommand md c (ReplSetReconfig cfg True)) (\<lambda>resp. check_ok resp ())"

definition WriteConfigWithForce :: "'m mongo \<Rightarrow> connection \<Rightarrow> rs_config \<Rightarrow> ('m, unit) go" where
  "WriteConfigWithForce md c cfg =
     bindg (RunCommand md c (ReplSetReconfig cfg True)) (\<lambda>resp. check_ok resp ())"

definition CheckReplSetInit :: "'m mongo \<Rightarrow> connection \<Rightarrow> ('m, unit) go" where
  "CheckReplSetInit md c = bindg (RunCommand md c ReplSetGetStatus) (\<lambda>resp. check_ok resp ())"

text \<open>The loop of \<open>CheckMemberStatus\<close>: hosts in an unexpected state, and hosts with a role.\<close>

fun member_check :: "member_status list \<Rightarrow> string list \<Rightarrow> string list \<Rightarrow> string list \<times> string list" where
  "member_check [] unKnowNode okNodeAddr = (unKnowNode, okNodeAddr)"
| "member_check (m # ms) unKnowNode okNodeAddr =
     (if mb_state_str m = Primary then
        member_check ms (if mb_state m \<noteq> 1 then unKnowNode @ [mb_host m] else unKnowNode) (okNodeAddr @ [mb_host m])
      else if mb_state_str m = Secondary then
        member_check ms (if mb_state m \<noteq> 2 then unKnowNode @ [mb_host m] else unKnowNode) (okNodeAddr @ [mb_host m])
      else if mb_state_str m = ArbiterStr then
        member_check ms (if mb_state m \<noteq> 7 then unKnowNode @ [mb_host m] else unKnowNode) (okNodeAddr @ [mb_host m])
      else member_check ms (unKnowNode @ [mb_host m]) okNodeAddr)"

text \<open>It returns its error beside the two lists.\<close>

definition CheckMemberStatus ::
    "'m mongo \<Rightarrow> connection \<Rightarrow> ('m, gerror option \<times> string list \<times> string list) go" where
  "CheckMemberStatus md c = bindg (attempt (RunCommand md c ReplSetGetStatus)) (\<lambda>r. case r of
     Inl err \<Rightarrow> ret (Some err, [], [])
   | Inr resp \<Rightarrow>
       (if rp_ok resp \<noteq> CmdOk then ret (Some (Sentinel ErrCmdNotOk), [], [])
        else ret (None, member_check (rp_members resp) [] [])))"

definition ReplMemberStatus :: "'m mongo \<Rightarrow> connection \<Rightarrow> ('m, member_status list) go" where
  "ReplMemberStatus md c = bindg (RunCommand md c ReplSetGetStatus) (\<lambda>resp. check_ok resp (rp_members resp))"

definition GetMgoNodeInfo :: "'m mongo \<Rightarrow> connection \<Rightarrow> ('m, server_repl) go" where
  "GetMgoNodeInfo md c = bindg (RunCommand md c ServerStatus) (\<lambda>resp. check_ok resp (rp_repl resp))"

definition need_config :: "rs_config option \<Rightarrow> ('m, rs_config) go" where
  "need_config p = (case p of Some x \<Rightarrow> ret x | None \<Rightarrow> panic ''nil pointer dereference'')"

type_synonym member_order = "(string \<times> rs_member) list \<Rightarrow> (string \<times> rs_member) list"

definition Client_AddMembers :: "'m mongo \<Rightarrow> member_order \<Rightarrow> connection \<Rightarrow> rs_member list \<Rightarrow> ('m, unit) go" where
  "Client_AddMembers md order c members =
     bindg (ReadConfig md c) (\<lambda>p. bindg (need_config p) (\<lambda>rsConfig.
       case AddMembers order (rc_members rsConfig) members of (newMembers, changed) \<Rightarrow>
         if \<not> changed then ret ()
         else WriteConfig md c (rsConfig\<lparr>rc_members := newMembers,
                rc_version := add64 (rc_version rsConfig) 1\<rparr>)))"

definition Client_RemoveMembers :: "'m mongo \<Rightarrow> member_order \<Rightarrow> connection \<Rightarrow> rs_member list \<Rightarrow> ('m, unit) go" where
  "Client_RemoveMembers md order c members =
     bindg (ReadConfig md c) (\<lambda>p. bindg (need_config p) (\<lambda>rsConfig.
       case RemoveMembers order (rc_members rsConfig) members of (left, exist) \<Rightarrow>
         if exist then WriteConfig md c (rsConfig\<lparr>rc_members := left,
                rc_version := add64 (rc_version rsConfig) 1\<rparr>)
         else ret ()))"

definition Client_StepDown :: "'m mongo \<Rightarrow> connection \<Rightarrow> ('m, unit) go" where
  "Client_StepDown md c = bindg (attempt (RunCommand md c (ReplSetStepDown 60))) (\<lambda>r. case r of
     Inl err \<Rightarrow> if md_network_error md err then ret () else fail err
   | Inr resp \<Rightarrow> check_ok resp ())"

section \<open>The replica-set contract\<close>

text \<open>
  What the server's manual says of the commands, in one sequential session: \<open>replSetGetConfig\<close>
  answers the configuration in effect, an acknowledged \<open>replSetReconfig\<close> puts the given members in
  effect (a forced one may raise the version further), and no other command changes it.
\<close>

definition conf_hosts :: "rs_config option \<Rightarrow> string set" where
  "conf_hosts p = (case p of None \<Rightarrow> {} | Some cfg \<Rightarrow> rm_host ` set (rc_members cfg))"

locale replica_set =
  fixes md :: "'m mongo"
    and conf :: "'m \<Rightarrow> rs_config option"
  assumes get_config: "md_run md c ReplSetGetConfig w = (Ok r, w') \<Longrightarrow> rp_ok r = 1 \<Longrightarrow> rp_config r = conf w"
    and reconfig: "md_run md c (ReplSetReconfig cfg f) w = (Ok r, w') \<Longrightarrow> rp_ok r = 1 \<Longrightarrow>
      \<exists>v. conf w' = Some (cfg\<lparr>rc_version := v\<rparr>)"
    and other_commands: "(\<forall>cfg f. cmd \<noteq> ReplSetReconfig cfg f) \<Longrightarrow> conf (snd (md_run md c cmd w)) = conf w"
    and connections: "conf (snd (md_connect md c w)) = conf w" "conf (snd (md_disconnect md c w)) = conf w"
begin

lemma ReadConfig_run:
  assumes "ReadConfig md c w = (Ok p, w')"
  shows "p = conf w \<and> conf w' = conf w"
proof -
  from assms obtain r where run: "md_run md c ReplSetGetConfig w = (Ok r, w')" "rp_ok r = 1" "p = rp_config r"
    by (auto simp: ReadConfig_def RunCommand_def bindg_Ok_iff check_ok_def CmdOk_def go_simps fail_def ret_def
        split: if_splits)
  moreover have "conf w' = conf w" using other_commands[of ReplSetGetConfig c w] run(1) by simp
  ultimately show ?thesis using get_config by blast
qed

lemma WriteConfig_run:
  "WriteConfig md c cfg w = (Ok (), w') \<Longrightarrow> \<exists>v. conf w' = Some (cfg\<lparr>rc_version := v\<rparr>)"
  by (auto simp: WriteConfig_def RunCommand_def bindg_Ok_iff check_ok_def CmdOk_def fail_def ret_def
      split: if_splits dest!: reconfig)

lemma config_run:
  assumes "bindg (ReadConfig md c) (\<lambda>p. bindg (need_config p) K) w = (Ok x, w')"
  obtains cfg u where "conf w = Some cfg" "conf u = conf w" "K cfg u = (Ok x, w')"
proof -
  from assms obtain p u where read: "ReadConfig md c w = (Ok p, u)" and rest: "bindg (need_config p) K u = (Ok x, w')"
    by (auto simp: bindg_Ok_iff)
  from ReadConfig_run[OF read] have p: "p = conf w" "conf u = conf w" by simp_all
  from rest obtain cfg where "p = Some cfg" "K cfg u = (Ok x, w')"
    by (cases p) (auto simp: need_config_def panic_def bindg_def ret_def)
  with p that show ?thesis by metis
qed

lemma AddMembers_effect:
  assumes "iteration_order order" "Client_AddMembers md order c members w = (Ok (), w')"
  shows "conf w \<noteq> None \<and> conf_hosts (conf w') = conf_hosts (conf w) \<union> rm_host ` set members \<and>
    (rm_host ` set members \<subseteq> conf_hosts (conf w) \<longrightarrow> conf w' = conf w)"
proof -
  obtain cfg u where cfg: "conf w = Some cfg" "conf u = conf w"
    and rest: "(case AddMembers order (rc_members cfg) members of (newMembers, changed) \<Rightarrow>
      if \<not> changed then ret () else WriteConfig md c (cfg\<lparr>rc_members := newMembers,
        rc_version := add64 (rc_version cfg) 1\<rparr>)) u = (Ok (), w')"
    by (rule config_run[OF assms(2)[unfolded Client_AddMembers_def]])
  obtain new changed where add: "AddMembers order (rc_members cfg) members = (new, changed)" by fastforce
  have new: "rm_host ` set new = conf_hosts (conf w) \<union> rm_host ` set members"
    "changed \<longleftrightarrow> \<not> rm_host ` set members \<subseteq> conf_hosts (conf w)"
    using AddMembers_hosts[OF assms(1), of "rc_members cfg" members]
      AddMembers_changed[of order "rc_members cfg" members] add cfg
    by (auto simp: conf_hosts_def)
  show ?thesis
  proof (cases changed)
    case True
    with rest add obtain v where "conf w' = Some (cfg\<lparr>rc_members := new, rc_version := v\<rparr>)"
      by (auto dest!: WriteConfig_run)
    with new True cfg show ?thesis by (auto simp: conf_hosts_def)
  next
    case False
    with rest cfg add have "conf w' = conf w" by (auto simp: ret_def)
    with new False cfg show ?thesis by (auto simp: conf_hosts_def)
  qed
qed

lemma RemoveMembers_effect:
  assumes "iteration_order order" "Client_RemoveMembers md order c members w = (Ok (), w')"
  shows "conf w \<noteq> None \<and> conf_hosts (conf w') = conf_hosts (conf w) - rm_host ` set members \<and>
    (rm_host ` set members \<inter> conf_hosts (conf w) = {} \<longrightarrow> conf w' = conf w)"
proof -
  obtain cfg u where cfg: "conf w = Some cfg" "conf u = conf w"
    and rest: "(case RemoveMembers order (rc_members cfg) members of (left, exist) \<Rightarrow>
      if exist then WriteConfig md c (cfg\<lparr>rc_members := left,
        rc_version := add64 (rc_version cfg) 1\<rparr>) else ret ()) u = (Ok (), w')"
    by (rule config_run[OF assms(2)[unfolded Client_RemoveMembers_def]])
  obtain new changed where rem: "RemoveMembers order (rc_members cfg) members = (new, changed)" by fastforce
  have new: "rm_host ` set new = conf_hosts (conf w) - rm_host ` set members"
    "changed \<longleftrightarrow> conf_hosts (conf w) \<inter> rm_host ` set members \<noteq> {}"
    using RemoveMembers_run[OF assms(1) rem] cfg by (simp_all add: conf_hosts_def)
  show ?thesis
  proof (cases changed)
    case True
    with rest rem obtain v where "conf w' = Some (cfg\<lparr>rc_members := new, rc_version := v\<rparr>)"
      by (auto dest!: WriteConfig_run)
    with new True cfg show ?thesis by (auto simp: conf_hosts_def)
  next
    case False
    with rest cfg rem have "conf w' = conf w" by (auto simp: ret_def)
    with new False cfg show ?thesis by (auto simp: conf_hosts_def)
  qed
qed

end

section \<open>A database in memory\<close>

text \<open>
  One replica set with its configuration, its users and the states its members report; a command with
  an entry in \<open>mo_faults\<close> fails with that text, and a repeated \<open>createUser\<close> is refused.
\<close>

record mongod =
  mo_conf :: "rs_config option"
  mo_users :: "(string \<times> string \<times> (string \<times> string) list) list"
  mo_status :: "member_status list"
  mo_repl :: server_repl
  mo_output :: string \<comment> \<open>what the shell prints\<close>
  mo_faults :: "string option list"

definition no_repl :: server_repl where
  "no_repl = \<lparr>sr_primary = '''', sr_me = '''', sr_is_master = False, sr_secondary = False, sr_arbiter_only = False\<rparr>"

definition reply_ok :: reply where
  "reply_ok = \<lparr>rp_ok = 1, rp_config = None, rp_members = [], rp_repl = no_repl\<rparr>"

fun answer :: "mongo_command \<Rightarrow> (mongod, reply) go" where
  "answer (CreateUser u pw roles) w =
     (if u \<in> fst ` set (mo_users w) then (Err (NewErr (''User '' @ u @ '' already exists'')), w)
      else (Ok reply_ok, w\<lparr>mo_users := (u, pw, roles) # mo_users w\<rparr>))"
| "answer (UpdateUser u pw) w =
     (if u \<notin> fst ` set (mo_users w) then (Err (NewErr ''User not found''), w)
      else (Ok reply_ok, w\<lparr>mo_users := map (\<lambda>(v, p, roles). (v, if v = u then pw else p, roles)) (mo_users w)\<rparr>))"
| "answer ReplSetGetConfig w = (Ok (reply_ok\<lparr>rp_config := mo_conf w\<rparr>), w)"
| "answer (ReplSetReconfig cfg f) w = (Ok reply_ok, w\<lparr>mo_conf := Some cfg\<rparr>)"
| "answer ReplSetGetStatus w = (Ok (reply_ok\<lparr>rp_members := mo_status w\<rparr>), w)"
| "answer ServerStatus w = (Ok (reply_ok\<lparr>rp_repl := mo_repl w\<rparr>), w)"
| "answer (ReplSetStepDown s) w = (Ok reply_ok, w)"

definition mongod_run :: "connection \<Rightarrow> mongo_command \<Rightarrow> (mongod, reply) go" where
  "mongod_run c cmd w = (case mo_faults w of
     [] \<Rightarrow> answer cmd w
   | None # fs \<Rightarrow> answer cmd (w\<lparr>mo_faults := fs\<rparr>)
   | Some t # fs \<Rightarrow> (Err (NewErr t), w\<lparr>mo_faults := fs\<rparr>))"

definition mongod_client :: "mongod mongo" where
  "mongod_client = \<lparr>md_connect = (\<lambda>c. ret ()), md_run = mongod_run, md_disconnect = (\<lambda>c. ret ()),
     md_network_error = (\<lambda>e. err_text e = ''EOF''), md_exec = (\<lambda>p ct cmd. gets (\<lambda>w. (mo_output w, None)))\<rparr>"

lemma answer_conf:
  "(\<forall>cfg f. cmd \<noteq> ReplSetReconfig cfg f) \<Longrightarrow> mo_conf (snd (answer cmd w)) = mo_conf w"
  by (cases cmd) auto

interpretation mongod: replica_set mongod_client mo_conf
proof
  fix c w r w' assume "md_run mongod_client c ReplSetGetConfig w = (Ok r, w')"
  then show "rp_config r = mo_conf w"
    by (auto simp: mongod_client_def mongod_run_def split: list.splits option.splits)
next
  fix c cfg f w r w' assume "md_run mongod_client c (ReplSetReconfig cfg f) w = (Ok r, w')"
  then have "mo_conf w' = Some cfg"
    by (auto simp: mongod_client_def mongod_run_def split: list.splits option.splits)
  then show "\<exists>v. mo_conf w' = Some (cfg\<lparr>rc_version := v\<rparr>)" by (intro exI[of _ "rc_version cfg"]) simp
next
  fix cmd c w assume "\<forall>cfg f. cmd \<noteq> ReplSetReconfig cfg f"
  then show "mo_conf (snd (md_run mongod_client c cmd w)) = mo_conf w"
    by (auto simp: mongod_client_def mongod_run_def answer_conf split: list.splits option.splits)
qed (simp_all add: mongod_client_def go_simps)

section \<open>Properties\<close>

text \<open>
  C5: on the replica set, merging and removing members are union and difference on the set of
  configured hosts, whatever order the run-time ranges over maps; a call that changes nothing leaves
  the configuration as it is. With no configuration in effect neither returns a nil error.
\<close>

theorem membership_refines_sets:
  assumes "replica_set md conf" and "iteration_order order"
    and "Client_AddMembers md order c added w = (Ok (), w1)"
    and "Client_RemoveMembers md order c removed w1 = (Ok (), w2)"
  shows "conf w \<noteq> None \<and>
    conf_hosts (conf w1) = conf_hosts (conf w) \<union> rm_host ` set added \<and>
    conf_hosts (conf w2) = conf_hosts (conf w1) - rm_host ` set removed \<and>
    (rm_host ` set added \<subseteq> conf_hosts (conf w) \<longrightarrow> conf w1 = conf w) \<and>
    (rm_host ` set removed \<inter> conf_hosts (conf w1) = {} \<longrightarrow> conf w2 = conf w1)"
  using replica_set.AddMembers_effect[OF assms(1-3)] replica_set.RemoveMembers_effect[OF assms(1,2,4)]
  by simp

definition sample_config :: "rs_member list \<Rightarrow> rs_config" where
  "sample_config ms = \<lparr>rc_id = ''rs0'', rc_members = ms, rc_settings = '''', rc_version = 1, rc_protocol = 1,
     rc_configsvr = False, rc_wcmj_default = True\<rparr>"

definition sample_mongod :: "rs_member list \<Rightarrow> member_status list \<Rightarrow> mongod" where
  "sample_mongod ms st = \<lparr>mo_conf = Some (sample_config ms), mo_users = [], mo_status = st, mo_repl = no_repl,
     mo_output = '''', mo_faults = []\<rparr>"

definition sample_connection :: connection where
  "sample_connection = \<lparr>cn_addrs = [''a''], cn_user = ''u'', cn_password = ''p'', cn_direct = False\<rparr>"

theorem membership_refines_sets_witness:
  "\<exists>w1 w2. Client_AddMembers mongod_client rev sample_connection [plain_member 0 ''b'']
      (sample_mongod [plain_member 0 ''a''] []) = (Ok (), w1) \<and>
    Client_RemoveMembers mongod_client rev sample_connection [plain_member 0 ''a''] w1 = (Ok (), w2) \<and>
    conf_hosts (mo_conf w2) = {''b''}"
proof -
  let ?w = "sample_mongod [plain_member 0 ''a''] []"
  have "fst (Client_AddMembers mongod_client rev sample_connection [plain_member 0 ''b''] ?w) = Ok ()" by code_simp
  then obtain w1 where 1: "Client_AddMembers mongod_client rev sample_connection [plain_member 0 ''b''] ?w = (Ok (), w1)"
    by (metis prod.collapse)
  have "fst (Client_RemoveMembers mongod_client rev sample_connection [plain_member 0 ''a'']
      (snd (Client_AddMembers mongod_client rev sample_connection [plain_member 0 ''b''] ?w))) = Ok ()" by code_simp
  with 1 obtain w2 where 2: "Client_RemoveMembers mongod_client rev sample_connection [plain_member 0 ''a''] w1 = (Ok (), w2)"
    by (metis prod.collapse snd_conv)
  from membership_refines_sets[OF mongod.replica_set_axioms iteration_order_id(2) 1 2] 1 2 show ?thesis
    by (auto simp: conf_hosts_def sample_mongod_def sample_config_def plain_member_def new_member_def)
qed

end
