(* ===== verification/Webhooks.thy ===== *)
theory Webhooks
  imports Samples
begin

text \<open>
  The admission webhooks of both custom resources: \<open>api/v1alpha1/mongodb_webhook.go\<close> and
  \<open>api/v1alpha1/multicloudmongodb_webhook.go\<close>. \<open>resource.MustParse\<close> panics on a text that is not a
  quantity; the parser is an argument, \<open>parse\<close>. The configured image and a generated password are
  arguments too. \<open>ValidateCreate\<close> and \<open>ValidateDelete\<close> accept everything.
\<close>

section \<open>Defaults of MongoDB\<close>

definition PullIfNotPresent :: string where "PullIfNotPresent = ''IfNotPresent''"
definition TypeReplicaSet :: string where "TypeReplicaSet = ''ReplicaSet''"
definition MembersConfigMapName :: string where "MembersConfigMapName = ''hostconf''"
definition DefaultStorage :: string where "DefaultStorage = ''1Gi''"
definition DefaultMongoRootPassword :: string where "DefaultMongoRootPassword = ''123456''"

text \<open>Quantities in thousandths of the unit: \<open>1000m\<close>, \<open>1024Mi\<close>, \<open>50m\<close>, \<open>100Mi\<close>.\<close>

definition DefaultCpu :: quantity where "DefaultCpu = 1000"
definition DefaultMemory :: quantity where "DefaultMemory = 1024 * 1024 * 1024 * 1000"
definition DefaultExporterCpu :: quantity where "DefaultExporterCpu = 50"
definition DefaultExporterMemory :: quantity where "DefaultExporterMemory = 100 * 1024 * 1024 * 1000"

definition cpu_memory :: "quantity \<Rightarrow> quantity \<Rightarrow> (string, quantity) gomap" where
  "cpu_memory cpu memory = [(''cpu'', cpu), (''memory'', memory)]"

definition or_default :: "string \<Rightarrow> string \<Rightarrow> string" where
  "or_default s d = (if s = '''' then d else s)"

definition default_resources :: resource_setting where
  "default_resources = \<lparr>rs_limits = cpu_memory DefaultCpu DefaultMemory,
     rs_requests = cpu_memory DefaultExporterCpu DefaultExporterMemory\<rparr>"

definition default_exporter :: "exporter_spec \<Rightarrow> exporter_spec" where
  "default_exporter x =
     (if xs_enable x \<and> xs_resources x = None
      then x\<lparr>xs_resources := Some \<lparr>rs_limits = cpu_memory DefaultExporterCpu DefaultExporterMemory,
             rs_requests = cpu_memory DefaultExporterCpu DefaultExporterMemory\<rparr>\<rparr>
      else x)"

text \<open>The last step reads \<open>Enable\<close> through the pointer \<open>MetricsExporterSpec\<close>.\<close>

definition MongoDB_Default :: "string \<Rightarrow> mongodb \<Rightarrow> mongodb outcome" where
  "MongoDB_Default mongoImage r =
     (let sp = mg_spec r;
          sp = sp\<lparr>mgs_image := or_default (mgs_image sp) mongoImage,
                  mgs_pull_policy := or_default (mgs_pull_policy sp) PullIfNotPresent,
                  mgs_type := or_default (mgs_type sp) TypeReplicaSet,
                  mgs_member_config_ref := or_default (mgs_member_config_ref sp)
                    (om_name (mg_meta r) @ ''-'' @ MembersConfigMapName),
                  mgs_persistence := (mgs_persistence sp)
                    \<lparr>ps_storage := or_default (ps_storage (mgs_persistence sp)) DefaultStorage\<rparr>,
                  mgs_root_password := or_default (mgs_root_password sp) DefaultMongoRootPassword,
                  mgs_resources := (case mgs_resources sp of None \<Rightarrow> Some default_resources | x \<Rightarrow> x)\<rparr>
      in (case mgs_exporter sp of
            None \<Rightarrow> Panic ''nil pointer dereference''
          | Some x \<Rightarrow> Ok (r\<lparr>mg_spec := sp\<lparr>mgs_exporter := Some (default_exporter x)\<rparr>\<rparr>)))"

definition MongoDB_ValidateCreate :: "mongodb \<Rightarrow> unit outcome" where
  "MongoDB_ValidateCreate r = Ok ()"

definition MongoDB_ValidateDelete :: "mongodb \<Rightarrow> unit outcome" where
  "MongoDB_ValidateDelete r = Ok ()"

definition forbidden :: "string \<Rightarrow> gerror" where
  "forbidden field = NewErr (field @ '' is forbidden to change while updating'')"

definition MongoDB_ValidateUpdate :: "mongodb \<Rightarrow> mongodb \<Rightarrow> unit outcome" where
  "MongoDB_ValidateUpdate old r =
     (let n = mg_spec r; o' = mg_spec old; nu = mgs_db_user n; ou = mgs_db_user o' in
      if mgs_type o' \<noteq> '''' \<and> mgs_type n \<noteq> mgs_type o' then Err (forbidden ''spec.type'')
      else if mgs_member_config_ref o' \<noteq> '''' \<and> mgs_member_config_ref n \<noteq> mgs_member_config_ref o'
      then Err (forbidden ''spec.memberConfigRef'')
      else if mgs_root_password o' \<noteq> '''' \<and> mgs_root_password n \<noteq> mgs_root_password o'
      then Err (forbidden ''spec.rootPassword'')
      else if du_enable nu \<noteq> du_enable ou then Err (forbidden ''spec.DBUserSpec.Enable'')
      else if du_enable nu \<and> (du_name nu \<noteq> du_name ou \<or> du_user nu \<noteq> du_user ou)
      then Err (forbidden ''spec.DBUserSpec.{Name,User}'')
      else if mgs_custom_config_ref n \<noteq> mgs_custom_config_ref o' then Err (forbidden ''spec.CustomConfigRef'')
      else if ps_storage (mgs_persistence n) \<noteq> ps_storage (mgs_persistence o')
      then Err (forbidden ''spec.Persistence.Storage'')
      else if ps_class (mgs_persistence n) \<noteq> ps_class (mgs_persistence o')
      then Err (forbidden ''spec.Persistence.StorageClassName'')
      else (case mgs_exporter n of
          None \<Rightarrow> Panic ''nil pointer dereference''
        | Some nx \<Rightarrow>
            if xs_enable nx then Ok ()
            else (case mgs_exporter o' of
                None \<Rightarrow> Panic ''nil pointer dereference''
              | Some ox \<Rightarrow> if xs_enable ox
                  then Err (NewErr ''spec.MetricsExporterSpec.Enable is forbidden to change to disable while updating'')
                  else Ok ())))"

section \<open>MultiCloudMongoDB\<close>

definition defaultMongoImage :: string where "defaultMongoImage = ''mongo:3.6''"
definition UniformScheduling :: string where "UniformScheduling = ''Uniform''"

text \<open>\<open>MustParse\<close> of each literal in turn.\<close>

definition must_parse :: "(string \<Rightarrow> quantity option) \<Rightarrow> string \<Rightarrow> quantity outcome" where
  "must_parse parse s = (case parse s of Some q \<Rightarrow> Ok q
     | None \<Rightarrow> Panic (''cannot parse '' @ s))"

fun parse_all :: "(string \<Rightarrow> quantity option) \<Rightarrow> string list \<Rightarrow> quantity list outcome" where
  "parse_all parse [] = Ok []"
| "parse_all parse (s # ss) = (case must_parse parse s of
     Ok q \<Rightarrow> (case parse_all parse ss of Ok qs \<Rightarrow> Ok (q # qs) | r \<Rightarrow> r)
   | Err e \<Rightarrow> Err e
   | Panic p \<Rightarrow> Panic p)"

definition default_mc_resource :: "(string \<Rightarrow> quantity option) \<Rightarrow> resource_setting \<Rightarrow> resource_setting outcome" where
  "default_mc_resource parse r =
     (if r = no_resources then
        (case parse_all parse [''500m'', ''500mi'', ''1000m'', ''1gi''] of
           Ok [rc, rm, lc, lm] \<Rightarrow> Ok \<lparr>rs_limits = cpu_memory lc lm, rs_requests = cpu_memory rc rm\<rparr>
         | Ok _ \<Rightarrow> Ok r
         | Err e \<Rightarrow> Err e
         | Panic p \<Rightarrow> Panic p)
      else Ok r)"

definition or_some :: "'a option \<Rightarrow> 'a \<Rightarrow> 'a option" where
  "or_some p d = (case p of None \<Rightarrow> Some d | _ \<Rightarrow> p)"

definition MultiCloud_Default ::
    "(string \<Rightarrow> quantity option) \<Rightarrow> string \<Rightarrow> multi_cloud \<Rightarrow> multi_cloud outcome" where
  "MultiCloud_Default parse key r =
     (let sp = mc_spec r;
          sp = sp\<lparr>mcs_scheduler := (mcs_scheduler sp)
                    \<lparr>sch_name := or_some (sch_name (mcs_scheduler sp)) ''multicloud-middleware-scheduler'',
                     sch_mode := or_some (sch_mode (mcs_scheduler sp)) UniformScheduling\<rparr>,
                  mcs_auth := \<lparr>au_root_passwd = or_some (au_root_passwd (mcs_auth sp)) key\<rparr>\<rparr>
      in (case default_mc_resource parse (mcs_resource sp) of
            Ok res \<Rightarrow> Ok (r\<lparr>mc_spec := sp\<lparr>mcs_resource := res,
              mcs_image := (mcs_image sp)\<lparr>im_image := or_default (im_image (mcs_image sp)) defaultMongoImage\<rparr>\<rparr>\<rparr>)
          | Err e \<Rightarrow> Err e
          | Panic p \<Rightarrow> Panic p))"

definition MultiCloud_ValidateCreate :: "multi_cloud \<Rightarrow> unit outcome" where
  "MultiCloud_ValidateCreate r = Ok ()"

definition MultiCloud_ValidateDelete :: "multi_cloud \<Rightarrow> unit outcome" where
  "MultiCloud_ValidateDelete r = Ok ()"

definition MultiCloud_ValidateUpdate :: "multi_cloud \<Rightarrow> multi_cloud \<Rightarrow> unit outcome" where
  "MultiCloud_ValidateUpdate old r =
     (case mcs_replicaset (mc_spec r) of
        None \<Rightarrow> Panic ''nil pointer dereference''
      | Some n \<Rightarrow>
          if sint n < 1 then Err (NewErr (''number of replicas cannot be less than 1, name: '' @ om_name (mc_meta r)))
          else if gm_get '''' (om_annotations (mc_meta r)) ''schedulerResult'' = ''''
          then Err (NewErr (''not schedulerResult, name: '' @ om_name (mc_meta r)))
          else Ok ())"

section \<open>Accepted histories\<close>

text \<open>
  A stored MongoDB and the one that replaces it: the update is defaulted and then validated against
  the stored one. The metadata's name stays.
\<close>

inductive admitted :: "string \<Rightarrow> mongodb \<Rightarrow> mongodb \<Rightarrow> bool" for img where
  admitted: "MongoDB_Default img sent = Ok new \<Longrightarrow> om_name (mg_meta sent) = om_name (mg_meta old) \<Longrightarrow>
    MongoDB_ValidateUpdate old new = Ok () \<Longrightarrow> admitted img old new"

inductive_cases admittedE: "admitted img old new"

inductive history :: "string \<Rightarrow> mongodb \<Rightarrow> mongodb \<Rightarrow> bool" for img where
  unchanged: "history img m m"
| updated: "history img m old \<Longrightarrow> admitted img old new \<Longrightarrow> history img m new"

text \<open>What identifies a database: it may not change once it is set.\<close>

definition identity :: "mongo_spec \<Rightarrow> string \<times> string \<times> string \<times> bool \<times> string \<times> string \<times> string" where
  "identity sp = (mgs_type sp, mgs_member_config_ref sp, mgs_root_password sp, du_enable (mgs_db_user sp),
     mgs_custom_config_ref sp, ps_storage (mgs_persistence sp), ps_class (mgs_persistence sp))"

definition complete :: "mongo_spec \<Rightarrow> bool" where
  "complete sp \<longleftrightarrow> mgs_type sp \<noteq> '''' \<and> mgs_member_config_ref sp \<noteq> '''' \<and> mgs_root_password sp \<noteq> '''' \<and>
     mgs_pull_policy sp \<noteq> '''' \<and> ps_storage (mgs_persistence sp) \<noteq> '''' \<and> mgs_resources sp \<noteq> None \<and>
     (\<exists>x. mgs_exporter sp = Some x \<and> (xs_enable x \<longrightarrow> xs_resources x \<noteq> None))"

lemma or_default_simps [simp]:
  "or_default (or_default s d) d = or_default s d" "d \<noteq> '''' \<Longrightarrow> or_default s d \<noteq> ''''"
  "s \<noteq> '''' \<Longrightarrow> or_default s d = s"
  by (simp_all add: or_default_def)

lemmas default_texts = PullIfNotPresent_def TypeReplicaSet_def MembersConfigMapName_def DefaultStorage_def
  DefaultMongoRootPassword_def

lemma default_exporter_idem [simp]: "default_exporter (default_exporter x) = default_exporter x"
  by (simp add: default_exporter_def)

lemma default_complete: "MongoDB_Default img r = Ok r' \<Longrightarrow> complete (mg_spec r')"
  by (auto simp: MongoDB_Default_def Let_def complete_def default_texts default_exporter_def
      split: option.splits)

lemma default_idem: "MongoDB_Default img r = Ok r' \<Longrightarrow> MongoDB_Default img r' = Ok r'"
  by (auto simp: MongoDB_Default_def Let_def default_texts split: option.splits)

lemma validate_identity:
  "MongoDB_ValidateUpdate old new = Ok () \<Longrightarrow> complete (mg_spec old) \<Longrightarrow>
   identity (mg_spec new) = identity (mg_spec old) \<and>
   (\<forall>ox nx. mgs_exporter (mg_spec old) = Some ox \<longrightarrow> mgs_exporter (mg_spec new) = Some nx \<longrightarrow>
      xs_enable ox \<longrightarrow> xs_enable nx) \<and>
   (du_enable (mgs_db_user (mg_spec old)) \<longrightarrow>
      du_name (mgs_db_user (mg_spec new)) = du_name (mgs_db_user (mg_spec old)) \<and>
      du_user (mgs_db_user (mg_spec new)) = du_user (mgs_db_user (mg_spec old)))"
  by (auto simp: MongoDB_ValidateUpdate_def Let_def complete_def identity_def split: if_splits option.splits)

lemma history_keeps:
  assumes "history img m n" and "complete (mg_spec m)"
  shows "identity (mg_spec n) = identity (mg_spec m) \<and> complete (mg_spec n) \<and>
    (\<forall>x. mgs_exporter (mg_spec m) = Some x \<and> xs_enable x \<longrightarrow>
       (\<exists>y. mgs_exporter (mg_spec n) = Some y \<and> xs_enable y)) \<and>
    (du_enable (mgs_db_user (mg_spec m)) \<longrightarrow>
       du_name (mgs_db_user (mg_spec n)) = du_name (mgs_db_user (mg_spec m)) \<and>
       du_user (mgs_db_user (mg_spec n)) = du_user (mgs_db_user (mg_spec m)))"
  using assms
proof (induction rule: history.induct)
  case (unchanged m)
  then show ?case by blast
next
  case (updated m old new)
  from updated.hyps(2) obtain sent where "MongoDB_Default img sent = Ok new"
    and valid: "MongoDB_ValidateUpdate old new = Ok ()" by (rule admittedE)
  then have new: "complete (mg_spec new)" by (blast intro: default_complete)
  from updated have old: "complete (mg_spec old)" by blast
  from new obtain y where y: "mgs_exporter (mg_spec new) = Some y" by (auto simp: complete_def)
  have "du_enable (mgs_db_user (mg_spec old)) = du_enable (mgs_db_user (mg_spec m))"
    using updated by (simp add: identity_def)
  with validate_identity[OF valid old] updated.IH[OF updated.prems] new y show ?case by auto
qed

section \<open>Properties\<close>

text \<open>
  Defaulting a MongoDB panics exactly when the exporter section is missing; otherwise it fills
  every field the controllers dereference or rely on, leaves what is set, and is idempotent.
\<close>

theorem mongo_default_spec:
  "case MongoDB_Default img r of
     Ok r' \<Rightarrow> mgs_exporter (mg_spec r) \<noteq> None \<and> complete (mg_spec r') \<and> MongoDB_Default img r' = Ok r' \<and>
       mg_meta r' = mg_meta r \<and> mg_status r' = mg_status r \<and>
       (complete (mg_spec r) \<and> mgs_image (mg_spec r) \<noteq> '''' \<longrightarrow> r' = r)
   | Err e \<Rightarrow> False
   | Panic p \<Rightarrow> mgs_exporter (mg_spec r) = None"
proof (cases "mgs_exporter (mg_spec r)")
  case None
  then show ?thesis by (simp add: MongoDB_Default_def Let_def)
next
  case (Some x)
  then obtain r' where r': "MongoDB_Default img r = Ok r'" by (simp add: MongoDB_Default_def Let_def)
  have "r' = r" if "complete (mg_spec r)" "mgs_image (mg_spec r) \<noteq> ''''"
    using r' that Some
    by (cases r; cases "mg_spec r") (auto simp: MongoDB_Default_def Let_def complete_def default_exporter_def)
  moreover have "mg_meta r' = mg_meta r" "mg_status r' = mg_status r"
    using r' Some by (auto simp: MongoDB_Default_def Let_def)
  ultimately show ?thesis
    using r' Some default_complete[OF r'] default_idem[OF r'] by simp
qed

definition sample_mongo_spec :: "exporter_spec option \<Rightarrow> mongo_spec" where
  "sample_mongo_spec x = \<lparr>mgs_pod_spec = None, mgs_exporter = x, mgs_resources = None,
     mgs_db_user = \<lparr>du_name = '''', du_user = '''', du_password = '''', du_enable = False\<rparr>,
     mgs_persistence = \<lparr>ps_storage = '''', ps_class = ''''\<rparr>,
     mgs_pull_secret = \<lparr>pl_username = '''', pl_password = ''''\<rparr>, mgs_pull_policy = '''', mgs_type = '''',
     mgs_root_password = '''', mgs_image = '''', mgs_custom_config_ref = '''', mgs_member_config_ref = '''',
     mgs_config = [], mgs_members = 3, mgs_arbiter = False, mgs_pause = False, mgs_rs_init = True\<rparr>"

definition sample_mongo :: "exporter_spec option \<Rightarrow> mongodb" where
  "sample_mongo x = \<lparr>mg_meta = meta_of ''m'' ''ns'' [], mg_spec = sample_mongo_spec x,
     mg_status = empty_mongo_status\<rparr>"

definition no_exporter :: "exporter_spec option" where
  "no_exporter = Some \<lparr>xs_resources = None, xs_enable = False\<rparr>"

theorem mongo_default_spec_witness:
  "(\<exists>r'. MongoDB_Default ''mongo'' (sample_mongo no_exporter) = Ok r' \<and> complete (mg_spec r')) \<and>
   (\<exists>p. MongoDB_Default ''mongo'' (sample_mongo None) = Panic p)"
proof -
  obtain r' where "MongoDB_Default ''mongo'' (sample_mongo no_exporter) = Ok r'"
    by (simp add: MongoDB_Default_def Let_def sample_mongo_def sample_mongo_spec_def no_exporter_def)
  with mongo_default_spec[where img = "''mongo''" and r = "sample_mongo no_exporter"]
  have "complete (mg_spec r')" by simp
  with \<open>MongoDB_Default _ _ = Ok r'\<close> show ?thesis
    by (simp add: MongoDB_Default_def Let_def sample_mongo_def sample_mongo_spec_def)
qed

text \<open>
  C34: along every history of admitted updates of a defaulted MongoDB, the type, the host configuration
  it refers to, the root password, whether it has a database user, the custom configuration and the
  storage stay what they were, the exporter is never switched off, and the resource stays complete.
\<close>

theorem admitted_history_keeps_identity:
  assumes "history img m n" and "complete (mg_spec m)"
  shows "identity (mg_spec n) = identity (mg_spec m) \<and> complete (mg_spec n) \<and>
    (\<forall>x. mgs_exporter (mg_spec m) = Some x \<and> xs_enable x \<longrightarrow>
       (\<exists>y. mgs_exporter (mg_spec n) = Some y \<and> xs_enable y)) \<and>
    (du_enable (mgs_db_user (mg_spec m)) \<longrightarrow>
       du_name (mgs_db_user (mg_spec n)) = du_name (mgs_db_user (mg_spec m)) \<and>
       du_user (mgs_db_user (mg_spec n)) = du_user (mgs_db_user (mg_spec m)))"
  using assms by (rule history_keeps)

theorem admitted_history_keeps_identity_witness:
  "\<exists>m n. history ''mongo'' m n \<and> m \<noteq> n \<and> identity (mg_spec n) = identity (mg_spec m)"
proof -
  let ?sent = "sample_mongo no_exporter"
  obtain m where m: "MongoDB_Default ''mongo'' ?sent = Ok m"
    by (simp add: MongoDB_Default_def Let_def sample_mongo_def sample_mongo_spec_def no_exporter_def)
  let ?n = "m\<lparr>mg_spec := (mg_spec m)\<lparr>mgs_members := 5\<rparr>\<rparr>"
  have c: "complete (mg_spec m)" using m by (rule default_complete)
  have valid: "MongoDB_ValidateUpdate m ?n = Ok ()"
    using m by (auto simp: MongoDB_ValidateUpdate_def Let_def MongoDB_Default_def sample_mongo_def
        sample_mongo_spec_def no_exporter_def default_exporter_def)
  have dflt: "MongoDB_Default ''mongo'' ?n = Ok ?n"
    using m by (auto simp: MongoDB_Default_def Let_def sample_mongo_def sample_mongo_spec_def
        no_exporter_def default_exporter_def default_texts or_default_def)
  have "history ''mongo'' m ?n"
    using history.updated[OF history.unchanged admitted.admitted[OF dflt _ valid]] by simp
  moreover from this c have "identity (mg_spec ?n) = identity (mg_spec m)"
    using admitted_history_keeps_identity by blast
  moreover have "m \<noteq> ?n"
    using m by (auto simp: MongoDB_Default_def Let_def sample_mongo_def sample_mongo_spec_def no_exporter_def)
  ultimately show ?thesis by blast
qed

text \<open>
  C0: a MultiCloudMongoDB without resources cannot be defaulted: where quantities are written as the
  Kubernetes manual says (only the listed suffixes), the literals \<open>500mi\<close> and \<open>1gi\<close> make the webhook
  panic; with resources given it always succeeds and sets every pointer the handlers dereference
  but the number of replicas.
\<close>

definition quantity_suffixes :: "string list" where
  "quantity_suffixes = [''Ki'', ''Mi'', ''Gi'', ''Ti'', ''Pi'', ''Ei'', ''n'', ''u'', ''m'', '''', ''k'',
     ''M'', ''G'', ''T'', ''P'', ''E'']"

text \<open>The text after the leading digits; it may also be a decimal exponent.\<close>

definition quantity_suffix :: "string \<Rightarrow> string" where
  "quantity_suffix s = dropWhile (\<lambda>c. c \<in> set ''0123456789.+-'') s"

definition is_quantity :: "string \<Rightarrow> bool" where
  "is_quantity s = (case quantity_suffix s of
     [] \<Rightarrow> True
   | c # cs \<Rightarrow> c # cs \<in> set quantity_suffixes \<or>
       c \<in> set ''eE'' \<and> cs \<noteq> [] \<and> set cs \<subseteq> set ''0123456789+-'')"

theorem multi_cloud_default_spec:
  assumes "\<forall>s. \<not> is_quantity s \<longrightarrow> parse s = None"
  shows "if mcs_resource (mc_spec r) = no_resources then \<exists>p. MultiCloud_Default parse key r = Panic p
    else \<exists>r'. MultiCloud_Default parse key r = Ok r' \<and> sch_name (mcs_scheduler (mc_spec r')) \<noteq> None \<and>
      sch_mode (mcs_scheduler (mc_spec r')) \<noteq> None \<and> au_root_passwd (mcs_auth (mc_spec r')) \<noteq> None \<and>
      im_image (mcs_image (mc_spec r')) \<noteq> '''' \<and>
      mcs_replicaset (mc_spec r') = mcs_replicaset (mc_spec r) \<and> mc_meta r' = mc_meta r"
proof -
  have "parse ''500mi'' = None"
    using assms by (simp add: is_quantity_def quantity_suffix_def quantity_suffixes_def)
  then have "\<exists>p. parse_all parse [''500m'', ''500mi'', ''1000m'', ''1gi''] = Panic p"
    by (cases "parse ''500m''") (simp_all add: must_parse_def)
  then show ?thesis
    by (auto simp: MultiCloud_Default_def Let_def default_mc_resource_def or_some_def defaultMongoImage_def
        split: option.splits)
qed

definition sample_parse :: "string \<Rightarrow> quantity option" where
  "sample_parse s = (if is_quantity s then Some 1000 else None)"

theorem multi_cloud_default_spec_witness:
  "\<exists>p. MultiCloud_Default sample_parse ''key'' sample_cr = Panic p"
  using multi_cloud_default_spec[where parse = sample_parse and r = sample_cr and key = "''key''"]
  by (simp add: sample_parse_def sample_cr_def sample_spec_def)

end
