(* ===== verification/Resource_Builder.thy ===== *)
theory Resource_Builder
  imports Mongo_Driver Webhooks
begin

text \<open>
  The objects the data plane writes: \<open>core/resource_builder.go\<close> (stateful set, exporter container,
  secrets, services, claims), \<open>core/command.go\<close>, \<open>core/secret.go\<close> and the metric service of
  \<open>core/service.go\<close>. Arguments: \<open>parse\<close> (the quantity parser behind \<open>MustParse\<close>), \<open>img\<close> (the configured
  exporter image), \<open>key\<close> (a generated key) and \<open>docker_json\<close> (the JSON of the registry credentials).
  A label map is shared by the Go objects built from it; none of them changes it.
\<close>

section \<open>Constants\<close>

definition DefaultPortStr :: string where "DefaultPortStr = ''27017''"
definition DefaultDBPath :: string where "DefaultDBPath = ''/data/db''"
definition SuffixSecretName :: string where "SuffixSecretName = ''-keyfile-secret''"
definition SuffixKeyfileVolume :: string where "SuffixKeyfileVolume = ''-keyfile-secret-volume''"
definition KeyfileMountPath :: string where "KeyfileMountPath = ''/etc/keyfile-secret''"
definition KeyfileSecretKey :: string where "KeyfileSecretKey = ''mongo-keyfile''"
definition SuffixConfigVolume :: string where "SuffixConfigVolume = ''-config-volume''"
definition ConfigMountPath :: string where "ConfigMountPath = ''/etc/mongo-config''"
definition ConfigMongodKey :: string where "ConfigMongodKey = ''mongod.yaml''"
definition DefaultMetricsPort :: int where "DefaultMetricsPort = 9216"
definition DefaultMetricsPortName :: string where "DefaultMetricsPortName = ''metrics''"
definition ExporterContainerName :: string where "ExporterContainerName = ''metrics-exporter''"

text \<open>\<open>filepath.Join\<close> of the two constant, clean paths.\<close>

definition keyfilePath :: string where "keyfilePath = KeyfileMountPath @ ''/'' @ KeyfileSecretKey"
definition mongodConfigPath :: string where "mongodConfigPath = ConfigMountPath @ ''/'' @ ConfigMongodKey"

definition cr_name' :: "mongodb \<Rightarrow> string" where "cr_name' cr = om_name (mg_meta cr)"
definition cr_ns' :: "mongodb \<Rightarrow> string" where "cr_ns' cr = om_namespace (mg_meta cr)"

section \<open>Commands and credentials\<close>

definition CommandReplSet :: "string \<Rightarrow> string \<Rightarrow> string list" where
  "CommandReplSet replSet config =
     (let command = [''mongod'', ''--port'', DefaultPortStr, ''--bind_ip'', ''0.0.0.0'', ''--replSet'',
        replSet, ''--auth'', ''--keyFile'', keyfilePath]
      in if config \<noteq> '''' then command @ [''--config'', mongodConfigPath] else command)"

definition GetAuthInfo :: "secret option \<Rightarrow> string \<times> string" where
  "GetAuthInfo s = (case s of None \<Rightarrow> ('''', '''')
     | Some s \<Rightarrow> (gm_get '''' (sec_data s) MongoUser, gm_get '''' (sec_data s) MongoPassword))"

definition NewDockerRegistrySecret ::
    "(string \<Rightarrow> string \<Rightarrow> string \<Rightarrow> gerror + string) \<Rightarrow>
     string \<Rightarrow> string \<Rightarrow> string \<Rightarrow> string \<Rightarrow> string \<Rightarrow> secret outcome" where
  "NewDockerRegistrySecret docker_json namespace secretName server username password =
     (case docker_json server username password of
        Inl e \<Rightarrow> Err e
      | Inr content \<Rightarrow> Ok \<lparr>sec_meta = meta_of secretName namespace [],
          sec_data = [(''.dockerconfigjson'', content)], sec_type = ''kubernetes.io/dockerconfigjson''\<rparr>)"

definition lower_char :: "char \<Rightarrow> char" where
  "lower_char c = (let n = (of_char c :: nat) in if 65 \<le> n \<and> n \<le> 90 then char_of (n + 32) else c)"

text \<open>\<open>strings.ToLower\<close> on ASCII text; the users are the constants of the program.\<close>

definition to_lower :: "string \<Rightarrow> string" where "to_lower s = map lower_char s"

definition UserSecretMetaOnly :: "mongodb \<Rightarrow> string \<Rightarrow> object_meta" where
  "UserSecretMetaOnly cr user = meta_of (cr_name' cr @ ''-'' @ to_lower user) (cr_ns' cr) []"

definition KeyFileSecret :: "mongodb \<Rightarrow> secret" where
  "KeyFileSecret cr = \<lparr>sec_meta = meta_of (cr_name' cr @ SuffixSecretName) (cr_ns' cr) [],
     sec_data = [(KeyfileSecretKey, mgs_root_password (mg_spec cr))], sec_type = ''''\<rparr>"

definition AdminSecret :: "string \<Rightarrow> mongodb \<Rightarrow> string \<Rightarrow> secret" where
  "AdminSecret key cr user =
     (let rootPassword = (if mgs_root_password (mg_spec cr) \<noteq> '''' then mgs_root_password (mg_spec cr) else key)
      in \<lparr>sec_meta = UserSecretMetaOnly cr user,
          sec_data = [(MongoUser, user), (MongoPassword, rootPassword), (MongoRole, user), (MongoDB, DbAdmin)],
          sec_type = ''''\<rparr>)"

section \<open>Volumes, claims and services\<close>

definition SecretVolume :: "mongodb \<Rightarrow> volume" where
  "SecretVolume cr = SecretVol (cr_name' cr @ SuffixKeyfileVolume) (cr_name' cr @ SuffixSecretName) 256"

definition ConfigVolume :: "mongodb \<Rightarrow> volume" where
  "ConfigVolume cr = ConfigVol (cr_name' cr @ SuffixConfigVolume) (mgs_custom_config_ref (mg_spec cr)) 256"

fun volume_name :: "volume \<Rightarrow> string" where
  "volume_name (SecretVol n s m) = n"
| "volume_name (ConfigVol n s m) = n"

definition PVC :: "(string \<Rightarrow> quantity option) \<Rightarrow> mongodb \<Rightarrow> string \<Rightarrow> string \<Rightarrow> pvc outcome" where
  "PVC parse cr name storage =
     (let sc = ps_class (mgs_persistence (mg_spec cr))
      in (case must_parse parse storage of
            Ok q \<Rightarrow> Ok \<lparr>pvc_meta = meta_of name (cr_ns' cr) [],
              pvc_class = (if sc \<noteq> '''' then Some sc else None), pvc_storage = q\<rparr>
          | Err e \<Rightarrow> Err e
          | Panic p \<Rightarrow> Panic p))"

definition builder_Service :: "mongodb \<Rightarrow> string \<Rightarrow> labels \<Rightarrow> labels \<Rightarrow> bool \<Rightarrow> service" where
  "builder_Service cr name ls selector headless =
     \<lparr>svc_meta = meta_of name (cr_ns' cr) ls,
      svc_ports = [\<lparr>spo_name = '''', spo_port = DefaultPort, spo_target = DefaultPort, spo_node_port = 0\<rparr>],
      svc_selector = selector,
      svc_cluster_ip = (if headless then ''None'' else ''''),
      svc_type = (if headless then '''' else ''NodePort'')\<rparr>"

definition MetricService :: "mongodb \<Rightarrow> string \<Rightarrow> labels \<Rightarrow> labels \<Rightarrow> service" where
  "MetricService cr name label selector =
     \<lparr>svc_meta = meta_of name (cr_ns' cr) label,
      svc_ports = [\<lparr>spo_name = DefaultMetricsPortName, spo_port = DefaultMetricsPort,
        spo_target = DefaultMetricsPort, spo_node_port = 0\<rparr>],
      svc_selector = selector, svc_cluster_ip = '''', svc_type = ''ClusterIP''\<rparr>"

definition BuildMetricService :: "mongodb \<Rightarrow> string \<Rightarrow> service" where
  "BuildMetricService cr stsName =
     MetricService cr (stsName @ ''-exporter'')
       (WithBaseLabel (mg_meta cr) [[(LabelKeyRole, LabelValExporter)]]) [(LabelKeyApp, stsName)]"

section \<open>The stateful set\<close>

definition exporter_uri :: "mongodb \<Rightarrow> string \<Rightarrow> string" where
  "exporter_uri cr arbiter =
     (if arbiter = '''' then
        ''mongodb://'' @ MongoClusterMonitor @ '':'' @ mgs_root_password (mg_spec cr) @ ''@127.0.0.1:'' @
        itoa DefaultPort @ ''/?authSource=admin&connect=direct''
      else if arbiter = ''true'' then ''mongodb://127.0.0.1:'' @ itoa DefaultPort @ ''/?connect=direct''
      else '''')"

definition exporterContainer :: "string \<Rightarrow> mongodb \<Rightarrow> string \<Rightarrow> container outcome" where
  "exporterContainer img cr arbiter =
     (case mgs_exporter (mg_spec cr) of
        None \<Rightarrow> Panic ''nil pointer dereference''
      | Some x \<Rightarrow> (case xs_resources x of
          None \<Rightarrow> Panic ''nil pointer dereference''
        | Some r \<Rightarrow> Ok
          \<lparr>ct_name = ExporterContainerName, ct_image = img, ct_pull_policy = '''', ct_command = [],
           ct_resources = r, ct_env = [(''MONGODB_URI'', exporter_uri cr arbiter)],
           ct_ports = [(DefaultMetricsPortName, DefaultMetricsPort)], ct_mounts = []\<rparr>))"

text \<open>The mounts go to the first container named like the database.\<close>

fun mount_first :: "(string \<times> string) list \<Rightarrow> container list \<Rightarrow> container list" where
  "mount_first mounts [] = []"
| "mount_first mounts (c # cs) =
     (if ct_name c = ContainerName then c\<lparr>ct_mounts := mounts\<rparr> # cs else c # mount_first mounts cs)"

definition replset_claim :: "mongodb \<Rightarrow> string" where
  "replset_claim cr = cr_name' cr @ ''-replset''"

definition sts_volumes :: "mongodb \<Rightarrow> volume list" where
  "sts_volumes cr = SecretVolume cr #
     (if mgs_custom_config_ref (mg_spec cr) \<noteq> '''' then [ConfigVolume cr] else [])"

definition sts_mounts :: "mongodb \<Rightarrow> bool \<Rightarrow> (string \<times> string) list" where
  "sts_mounts cr arbiter = (volume_name (SecretVolume cr), KeyfileMountPath) #
     (if mgs_custom_config_ref (mg_spec cr) \<noteq> '''' then [(volume_name (ConfigVolume cr), ConfigMountPath)] else []) @
     (if arbiter then [] else [(replset_claim cr, DefaultDBPath)])"

text \<open>The claims of a data member; an arbiter has none.\<close>

definition sts_claims :: "(string \<Rightarrow> quantity option) \<Rightarrow> mongodb \<Rightarrow> bool \<Rightarrow> pvc list outcome" where
  "sts_claims parse cr arbiter =
     (if arbiter then Ok []
      else (case PVC parse cr (replset_claim cr) (ps_storage (mgs_persistence (mg_spec cr))) of
          Ok c \<Rightarrow> Ok [c] | Err e \<Rightarrow> Err e | Panic p \<Rightarrow> Panic p))"

definition pull_secrets :: "mongodb \<Rightarrow> string list" where
  "pull_secrets cr = (let ps = mgs_pull_secret (mg_spec cr) in
     if pl_username ps \<noteq> '''' \<and> pl_password ps \<noteq> '''' then [cr_name' cr @ ''-image-pull-secret''] else [])"

text \<open>The containers before the mounts; both \<open>Resources\<close> and the exporter are read through pointers.\<close>

definition sts_containers ::
    "string \<Rightarrow> mongodb \<Rightarrow> string \<Rightarrow> string list \<Rightarrow> container list outcome" where
  "sts_containers img cr arbiter command =
     (case (mgs_resources (mg_spec cr), mgs_exporter (mg_spec cr)) of
        (Some r, Some x) \<Rightarrow>
          (let main = \<lparr>ct_name = ContainerName, ct_image = mgs_image (mg_spec cr),
                 ct_pull_policy = mgs_pull_policy (mg_spec cr), ct_command = command,
                 ct_resources = r, ct_env = [], ct_ports = [], ct_mounts = []\<rparr>
           in if xs_enable x
              then (case exporterContainer img cr arbiter of
                  Ok e \<Rightarrow> Ok [main, e] | Err e \<Rightarrow> Err e | Panic p \<Rightarrow> Panic p)
              else Ok [main])
      | _ \<Rightarrow> Panic ''nil pointer dereference'')"

definition MongoSts ::
    "(string \<Rightarrow> quantity option) \<Rightarrow> string \<Rightarrow> mongodb \<Rightarrow> string \<Rightarrow> labels \<Rightarrow> string list \<Rightarrow> stateful_set outcome" where
  "MongoSts parse img cr name ls command =
     (let ls = AddRevision ls cr;
          ls = AddNodeIndex ls name;
          arb = gm_get '''' ls LabelKeyArbiter;
          isArb = (arb = LabelValTrue)
      in (case sts_containers img cr arb command of
            Ok containers \<Rightarrow>
              (case sts_claims parse cr isArb of
                 Ok claims \<Rightarrow> Ok
                   \<lparr>ss_meta = meta_of name (cr_ns' cr) ls, ss_match_labels = ls, ss_template_labels = ls,
                    ss_containers = mount_first (sts_mounts cr isArb) containers,
                    ss_pod_spec = mgs_pod_spec (mg_spec cr), ss_pull_secrets = pull_secrets cr,
                    ss_volumes = sts_volumes cr, ss_claims = claims, ss_update_strategy = ''OnDelete''\<rparr>
               | Err e \<Rightarrow> Err e | Panic p \<Rightarrow> Panic p)
          | Err e \<Rightarrow> Err e | Panic p \<Rightarrow> Panic p))"

section \<open>Lemmas\<close>

text \<open>A container mounts only volumes and claims of its stateful set.\<close>

definition mounts_bound :: "stateful_set \<Rightarrow> bool" where
  "mounts_bound s \<longleftrightarrow> (\<forall>c \<in> set (ss_containers s). \<forall>(n, path) \<in> set (ct_mounts c).
     n \<in> volume_name ` set (ss_volumes s) \<union> pvc_name ` set (ss_claims s))"

lemma sts_labels_lookup:
  "map_of (AddNodeIndex (AddRevision ls cr) name) k =
     (if k = LabelKeyApp then Some name
      else if k = LabelKeyRevisionHash then Some (mgt_revision (mg_status cr)) else map_of (rev ls) k)"
proof -
  have "map_of (rev (AddRevision ls cr)) = map_of (AddRevision ls cr)"
    by (rule map_of_rev_distinct) (simp add: AddRevision_def)
  then show ?thesis by (simp add: AddNodeIndex_def AddRevision_def MergeLabels_get)
qed

lemma sts_labels_wf [simp]: "wf_gomap (AddNodeIndex ls name)"
  by (simp add: AddNodeIndex_def)

lemma sts_containers_ok:
  "sts_containers img cr arb command = Ok cs \<Longrightarrow>
   (\<exists>c rest. cs = c # rest \<and> ct_name c = ContainerName \<and> ct_mounts c = [] \<and> ct_command c = command \<and>
     Some (ct_resources c) = mgs_resources (mg_spec cr) \<and> (\<forall>e \<in> set rest. ct_mounts e = []))"
  by (auto simp: sts_containers_def exporterContainer_def Let_def
      split: option.splits if_splits outcome.splits)

lemma sts_containers_fail:
  "(\<exists>cs. sts_containers img cr arb command = Ok cs) \<longleftrightarrow>
   mgs_resources (mg_spec cr) \<noteq> None \<and>
   (\<exists>x. mgs_exporter (mg_spec cr) = Some x \<and> (xs_enable x \<longrightarrow> xs_resources x \<noteq> None))"
  by (auto simp: sts_containers_def exporterContainer_def Let_def
      split: option.splits if_splits outcome.splits)

lemma sts_claims_cases:
  "sts_claims parse cr a = Ok cs \<Longrightarrow> if a then cs = [] else map pvc_name cs = [replset_claim cr]"
  "sts_claims parse cr a \<noteq> Err e"
  "sts_claims parse cr a = Panic p \<Longrightarrow> \<not> a \<and> parse (ps_storage (mgs_persistence (mg_spec cr))) = None"
  by (auto simp: sts_claims_def PVC_def pvc_name_def meta_of_def must_parse_def Let_def split: if_splits option.splits outcome.splits)

lemma sts_containers_not_Err: "sts_containers img cr arb command \<noteq> Err e"
  by (auto simp: sts_containers_def exporterContainer_def Let_def split: option.splits if_splits outcome.splits)

lemma sts_mounts_names:
  "fst ` set (sts_mounts cr a) = volume_name ` set (sts_volumes cr) \<union> (if a then {} else {replset_claim cr})"
  by (auto simp: sts_mounts_def sts_volumes_def)

lemma MongoSts_cases:
  assumes "wf_gomap ls" and "arb = gm_get '''' ls LabelKeyArbiter"
  shows "case MongoSts parse img cr name ls command of
      Ok s \<Rightarrow> okey_of (OSts s) = (KSts, cr_ns' cr, name) \<and> mounts_bound s \<and>
        selects (ss_match_labels s) (ss_template_labels s) \<and>
        selects [(LabelKeyApp, name)] (ss_template_labels s) \<and>
        (\<forall>k v. map_of ls k = Some v \<and> k \<noteq> LabelKeyApp \<and> k \<noteq> LabelKeyRevisionHash \<longrightarrow>
           map_of (om_labels (ss_meta s)) k = Some v) \<and>
        (ss_claims s = [] \<longleftrightarrow> arb = LabelValTrue) \<and>
        (\<exists>c \<in> set (ss_containers s). ct_name c = ContainerName \<and> ct_command c = command \<and>
           Some (ct_resources c) = mgs_resources (mg_spec cr))
    | Err e \<Rightarrow> False
    | Panic p \<Rightarrow> mgs_resources (mg_spec cr) = None \<or> mgs_exporter (mg_spec cr) = None \<or>
        (\<exists>x. mgs_exporter (mg_spec cr) = Some x \<and> xs_enable x \<and> xs_resources x = None) \<or>
        arb \<noteq> LabelValTrue \<and> parse (ps_storage (mgs_persistence (mg_spec cr))) = None"
proof -
  let ?ls = "AddNodeIndex (AddRevision ls cr) name"
  have keys: "LabelKeyArbiter \<noteq> LabelKeyApp" "LabelKeyArbiter \<noteq> LabelKeyRevisionHash" by (simp_all add: label_keys)
  have arb: "gm_get '''' ?ls LabelKeyArbiter = arb"
    using assms keys by (simp add: gm_get_def sts_labels_lookup map_of_rev_distinct)
  show ?thesis
  proof (cases "sts_containers img cr arb command")
    case (Ok cs)
    then obtain c rest where c: "cs = c # rest" "ct_name c = ContainerName" "ct_command c = command"
      "Some (ct_resources c) = mgs_resources (mg_spec cr)" "\<forall>e \<in> set rest. ct_mounts e = []"
      using sts_containers_ok by blast
    show ?thesis
    proof (cases "sts_claims parse cr (arb = LabelValTrue)")
      case claims: (Ok pvcs)
      let ?s = "\<lparr>ss_meta = meta_of name (cr_ns' cr) ?ls, ss_match_labels = ?ls, ss_template_labels = ?ls,
        ss_containers = mount_first (sts_mounts cr (arb = LabelValTrue)) cs,
        ss_pod_spec = mgs_pod_spec (mg_spec cr), ss_pull_secrets = pull_secrets cr,
        ss_volumes = sts_volumes cr, ss_claims = pvcs, ss_update_strategy = ''OnDelete''\<rparr>"
      have run: "MongoSts parse img cr name ls command = Ok ?s"
        using Ok claims arb by (simp add: MongoSts_def Let_def)
      have names: "fst ` set (sts_mounts cr (arb = LabelValTrue)) \<subseteq>
          volume_name ` set (sts_volumes cr) \<union> pvc_name ` set pvcs"
        using sts_claims_cases(1)[OF claims] sts_mounts_names[of cr "arb = LabelValTrue"]
        by (auto split: if_splits)
      have "mounts_bound ?s"
        using names c by (auto simp: mounts_bound_def subset_iff)
      moreover have "pvcs = [] \<longleftrightarrow> arb = LabelValTrue"
        using sts_claims_cases(1)[OF claims] by (auto split: if_splits)
      ultimately show ?thesis
        using run c assms(1) by (simp add: sts_labels_lookup selects_refl okey_of_def meta_of_def map_of_rev_distinct)
    next
      case (Err e)
      then show ?thesis using sts_claims_cases(2) by blast
    next
      case (Panic p)
      with Ok arb have "MongoSts parse img cr name ls command = Panic p" by (simp add: MongoSts_def Let_def)
      with sts_claims_cases(3)[OF Panic] show ?thesis by simp
    qed
  next
    case (Err e)
    then show ?thesis using sts_containers_not_Err by blast
  next
    case (Panic p)
    with arb have "MongoSts parse img cr name ls command = Panic p" by (simp add: MongoSts_def Let_def)
    moreover have "\<not> (\<exists>cs. sts_containers img cr arb command = Ok cs)" using Panic by simp
    ultimately show ?thesis unfolding sts_containers_fail by auto
  qed
qed

section \<open>Properties\<close>

text \<open>
  C32: the stateful set of a member: its selector matches its own pods, which carry the name of the
  member as \<open>app\<close> label (so the member's service finds them) and every label it was given but that one
  and the revision; its database container runs the given command with the resources of the spec; every
  mount names a declared volume or claim; only an arbiter has no claim. It panics only where a
  required section of the spec is missing or the storage size does not parse.
\<close>

theorem mongo_sts_spec:
  assumes "wf_gomap ls" and "arb = gm_get '''' ls LabelKeyArbiter"
  shows "case MongoSts parse img cr name ls command of
      Ok s \<Rightarrow> okey_of (OSts s) = (KSts, cr_ns' cr, name) \<and> mounts_bound s \<and>
        selects (ss_match_labels s) (ss_template_labels s) \<and>
        selects [(LabelKeyApp, name)] (ss_template_labels s) \<and>
        (\<forall>k v. map_of ls k = Some v \<and> k \<noteq> LabelKeyApp \<and> k \<noteq> LabelKeyRevisionHash \<longrightarrow>
           map_of (om_labels (ss_meta s)) k = Some v) \<and>
        (ss_claims s = [] \<longleftrightarrow> arb = LabelValTrue) \<and>
        (\<exists>c \<in> set (ss_containers s). ct_name c = ContainerName \<and> ct_command c = command \<and>
           Some (ct_resources c) = mgs_resources (mg_spec cr))
    | Err e \<Rightarrow> False
    | Panic p \<Rightarrow> mgs_resources (mg_spec cr) = None \<or> mgs_exporter (mg_spec cr) = None \<or>
        (\<exists>x. mgs_exporter (mg_spec cr) = Some x \<and> xs_enable x \<and> xs_resources x = None) \<or>
        arb \<noteq> LabelValTrue \<and> parse (ps_storage (mgs_persistence (mg_spec cr))) = None"
  using assms by (rule MongoSts_cases)

definition ready_mongo :: mongodb where
  "ready_mongo = (sample_mongo no_exporter)\<lparr>mg_spec := (sample_mongo_spec no_exporter)
     \<lparr>mgs_resources := Some default_resources, mgs_persistence := \<lparr>ps_storage = ''1Gi'', ps_class = ''''\<rparr>,
      mgs_root_password := ''pw'', mgs_member_config_ref := ''m-hostconf'', mgs_members := 1\<rparr>\<rparr>"

theorem mongo_sts_spec_witness:
  "\<exists>s. MongoSts sample_parse ''exp'' ready_mongo ''m-mongodb-0'' [(LabelKeyData, LabelValTrue)] [''mongod''] = Ok s \<and>
    mounts_bound s"
proof -
  let ?sp = "mg_spec ready_mongo"
  have fields: "mgs_resources ?sp = Some default_resources" "mgs_exporter ?sp = no_exporter"
    "sample_parse (ps_storage (mgs_persistence ?sp)) \<noteq> None"
    by (simp_all add: ready_mongo_def sample_mongo_def sample_mongo_spec_def sample_parse_def is_quantity_def
        quantity_suffix_def quantity_suffixes_def)
  have "wf_gomap [(LabelKeyData, LabelValTrue)]" by (simp add: wf_gomap_def)
  from mongo_sts_spec[where parse = sample_parse and img = "''exp''" and cr = ready_mongo and
      name = "''m-mongodb-0''" and command = "[''mongod'']", OF this refl] fields
  show ?thesis by (auto simp: no_exporter_def split: outcome.splits)
qed

end
