(* ===== verification/Conditions.thy ===== *)
theory Conditions
  imports Api_Types
begin

text \<open>
  The two condition lists of the program: \<open>api/v1alpha1/condition.go\<close> for MultiCloudMongoDB
  (keyed by type) and \<open>core/status.go\<close> for MongoDB (keyed by type and message). Both look for
  the first entry of a key and change it in place, or append. The locale \<open>condition_store\<close> states
  that contract and proves what callers rely on once; both lists interpret it. A pointer into the
  slice is the index it points at.
\<close>

section \<open>Conditions of MultiCloudMongoDB\<close>

fun FindStatusCondition :: "server_condition list \<Rightarrow> condition_type \<Rightarrow> nat option" where
  "FindStatusCondition [] t = None"
| "FindStatusCondition (c # cs) t =
     (if sc_type c = t then Some 0 else map_option Suc (FindStatusCondition cs t))"

text \<open>\<open>now\<close> is what \<open>time.Now()\<close> would return.\<close>

definition merge_existing :: "time \<Rightarrow> server_condition \<Rightarrow> server_condition \<Rightarrow> server_condition" where
  "merge_existing now new existing =
     (if sc_status existing \<noteq> sc_status new
      then existing\<lparr>sc_status := sc_status new,
             sc_transition := (if sc_transition new \<noteq> 0 then sc_transition new else now)\<rparr>
      else existing)\<lparr>sc_reason := sc_reason new, sc_message := sc_message new\<rparr>"

definition SetStatusCondition ::
    "time \<Rightarrow> server_condition \<Rightarrow> server_condition list \<Rightarrow> server_condition list" where
  "SetStatusCondition now new conditions =
     (case FindStatusCondition conditions (sc_type new) of
        None \<Rightarrow>
          conditions @ [if sc_transition new = 0 then new\<lparr>sc_transition := now\<rparr> else new]
      | Some i \<Rightarrow> conditions[i := merge_existing now new (conditions ! i)])"

lemma merge_existing_simps [simp]:
  "sc_type (merge_existing now new old) = sc_type old"
  "sc_status (merge_existing now new old) = sc_status new"
  "sc_reason (merge_existing now new old) = sc_reason new"
  "sc_message (merge_existing now new old) = sc_message new"
  "sc_transition (merge_existing now new old) =
     (if sc_status old = sc_status new then sc_transition old
      else if sc_transition new \<noteq> 0 then sc_transition new else now)"
  by (simp_all add: merge_existing_def)

definition SetTypeCondition ::
    "time \<Rightarrow> condition_type \<Rightarrow> condition_status \<Rightarrow> string \<Rightarrow> string \<Rightarrow> mc_status \<Rightarrow> mc_status" where
  "SetTypeCondition now conditionType conditionStatus reason message m =
     (let newCondition = \<lparr>sc_type = conditionType, sc_status = conditionStatus,
            sc_transition = now, sc_reason = reason, sc_message = message\<rparr>
      in m\<lparr>mst_conditions := SetStatusCondition now newCondition (mst_conditions m)\<rparr>)"

section \<open>Conditions of MongoDB\<close>

fun GetCondition ::
    "mongo_condition list \<Rightarrow> mongo_condition_type \<Rightarrow> string \<Rightarrow> nat option" where
  "GetCondition [] t message = None"
| "GetCondition (v # vs) t message =
     (if mgc_type v = t \<and> mgc_message v = message then Some 0
      else map_option Suc (GetCondition vs t message))"

definition ConditionCheckerExistAndTrue :: "mongo_condition option \<Rightarrow> bool" where
  "ConditionCheckerExistAndTrue c = (case c of None \<Rightarrow> False | Some x \<Rightarrow> mgc_status x = CTrue)"

definition ConditionCheckerExistAndFalse :: "mongo_condition option \<Rightarrow> bool" where
  "ConditionCheckerExistAndFalse c = (case c of None \<Rightarrow> False | Some x \<Rightarrow> mgc_status x = CFalse)"

definition CheckCondition ::
    "mongo_condition list \<Rightarrow> mongo_condition_type \<Rightarrow> string \<Rightarrow> (mongo_condition option \<Rightarrow> bool) \<Rightarrow> bool"
where
  "CheckCondition conds t message checker =
     checker (map_option (\<lambda>i. conds ! i) (GetCondition conds t message))"

definition UpdateCondition ::
    "time \<Rightarrow> mongo_condition \<Rightarrow> mongo_condition list \<Rightarrow> mongo_condition list" where
  "UpdateCondition now condition conds =
     (let condition = condition\<lparr>mgc_transition := now\<rparr>
      in (case GetCondition conds (mgc_type condition) (mgc_message condition) of
            None \<Rightarrow> conds @ [condition]
          | Some i \<Rightarrow> conds[i := condition]))"

section \<open>The contract of a condition list\<close>

locale condition_store =
  fixes key :: "'c \<Rightarrow> 'k"
    and payload :: "'c \<Rightarrow> 'p"
    and find :: "'c list \<Rightarrow> 'k \<Rightarrow> nat option"
    and upsert :: "'c \<Rightarrow> 'c list \<Rightarrow> 'c list"
  assumes find_Some:
      "find cs k = Some i \<Longrightarrow> i < length cs \<and> key (cs ! i) = k \<and> (\<forall>j < i. key (cs ! j) \<noteq> k)"
    and find_None: "find cs k = None \<Longrightarrow> k \<notin> key ` set cs"
    and upsert_absent: "find cs (key c) = None \<Longrightarrow>
      \<exists>c'. key c' = key c \<and> payload c' = payload c \<and> upsert c cs = cs @ [c']"
    and upsert_present: "find cs (key c) = Some i \<Longrightarrow>
      \<exists>c'. key c' = key c \<and> payload c' = payload c \<and> upsert c cs = cs[i := c']"
begin

lemma find_None_iff: "find cs k = None \<longleftrightarrow> k \<notin> key ` set cs"
  by (metis find_None find_Some image_eqI nth_mem option.exhaust)

lemma find_eqI:
  assumes "i < length cs" "key (cs ! i) = k" "\<And>j. j < i \<Longrightarrow> key (cs ! j) \<noteq> k"
  shows "find cs k = Some i"
proof -
  have "find cs k \<noteq> None" using assms by (auto simp: find_None_iff)
  then obtain j where j: "find cs k = Some j" by auto
  with find_Some have "j < length cs" "key (cs ! j) = k" "\<forall>l < j. key (cs ! l) \<noteq> k" by blast+
  with assms j show ?thesis by (metis linorder_neqE_nat)
qed

lemma upsert_keys: "key ` set (upsert c cs) = insert (key c) (key ` set cs)"
proof (cases "find cs (key c)")
  case None
  then obtain c' where "key c' = key c" "upsert c cs = cs @ [c']" using upsert_absent by blast
  then show ?thesis by simp
next
  case (Some i)
  then obtain c' where c': "key c' = key c" "upsert c cs = cs[i := c']"
    using upsert_present by blast
  from Some find_Some have i: "i < length cs" "key (cs ! i) = key c" by blast+
  have "map key (cs[i := c']) = map key cs" using c' i by (metis list_update_id map_update)
  then have "key ` set (cs[i := c']) = key ` set cs" by (metis list.set_map)
  moreover have "key c \<in> key ` set cs" using i by (metis image_eqI nth_mem)
  ultimately show ?thesis using c' by auto
qed

text \<open>Distinct keys stay distinct: at most one condition of each key.\<close>

lemma upsert_distinct:
  assumes "distinct (map key cs)"
  shows "distinct (map key (upsert c cs))"
proof (cases "find cs (key c)")
  case None
  then obtain c' where "key c' = key c" "upsert c cs = cs @ [c']" using upsert_absent by blast
  with None assms show ?thesis by (auto simp: find_None_iff)
next
  case (Some i)
  then obtain c' where "key c' = key c" "upsert c cs = cs[i := c']" using upsert_present by blast
  moreover from Some find_Some have "key (cs ! i) = key c" by blast
  ultimately have "map key (upsert c cs) = map key cs" by (metis list_update_id map_update)
  with assms show ?thesis by simp
qed

lemma find_upsert_same:
  "\<exists>i. find (upsert c cs) (key c) = Some i \<and> payload (upsert c cs ! i) = payload c"
proof (cases "find cs (key c)")
  case None
  then obtain c' where c': "key c' = key c" "payload c' = payload c" "upsert c cs = cs @ [c']"
    using upsert_absent by blast
  have "key (cs ! j) \<noteq> key c" if "j < length cs" for j
    using None find_None that by (metis image_eqI nth_mem)
  with c' have "find (upsert c cs) (key c) = Some (length cs)"
    by (intro find_eqI) (auto simp: nth_append)
  with c' show ?thesis by (auto simp: nth_append)
next
  case (Some i)
  then obtain c' where c': "key c' = key c" "payload c' = payload c" "upsert c cs = cs[i := c']"
    using upsert_present by blast
  have "i < length cs" "\<forall>j < i. key (cs ! j) \<noteq> key c" using Some find_Some by blast+
  with c' have "find (upsert c cs) (key c) = Some i" by (intro find_eqI) auto
  with c' \<open>i < length cs\<close> show ?thesis by auto
qed

text \<open>Conditions of other keys are untouched, at the same places.\<close>

lemma find_upsert_other:
  assumes "k \<noteq> key c"
  shows "map_option (\<lambda>i. upsert c cs ! i) (find (upsert c cs) k) = map_option (\<lambda>i. cs ! i) (find cs k)"
proof (cases "find cs k")
  case None
  with assms have "find (upsert c cs) k = None" by (auto simp: find_None_iff upsert_keys)
  with None show ?thesis by simp
next
  case (Some i)
  then have i: "i < length cs" "key (cs ! i) = k" "\<forall>j < i. key (cs ! j) \<noteq> k"
    using find_Some by blast+
  have eq: "find (upsert c cs) k = Some i \<and> upsert c cs ! i = cs ! i"
  proof (cases "find cs (key c)")
    case None
    then obtain c' where "upsert c cs = cs @ [c']" using upsert_absent by blast
    with i show ?thesis by (auto simp: nth_append intro!: find_eqI)
  next
    case (Some l)
    then obtain c' where c': "key c' = key c" "upsert c cs = cs[l := c']"
      using upsert_present by blast
    have l: "key (cs ! l) = key c" "l < length cs" using Some find_Some by blast+
    then have "key (cs[l := c'] ! j) \<noteq> k" if "j < i" for j
      using that i assms c' by (cases "j = l") auto
    moreover have "i \<noteq> l" using i l assms by auto
    ultimately show ?thesis using i c' by (auto intro!: find_eqI)
  qed
  with Some show ?thesis by simp
qed

end

section \<open>Both lists keep the contract\<close>

lemma FindStatusCondition_Some:
  "FindStatusCondition cs t = Some i \<Longrightarrow>
   i < length cs \<and> sc_type (cs ! i) = t \<and> (\<forall>j < i. sc_type (cs ! j) \<noteq> t)"
  by (induction cs t arbitrary: i rule: FindStatusCondition.induct)
    (fastforce simp: less_Suc_eq_0_disj split: if_splits)+

lemma FindStatusCondition_None:
  "FindStatusCondition cs t = None \<Longrightarrow> t \<notin> sc_type ` set cs"
  by (induction cs t rule: FindStatusCondition.induct) (auto split: if_splits)

definition server_payload :: "server_condition \<Rightarrow> condition_status \<times> string \<times> string" where
  "server_payload c = (sc_status c, sc_reason c, sc_message c)"

interpretation srv: condition_store sc_type server_payload FindStatusCondition
  "SetStatusCondition now" for now
proof unfold_locales
  fix cs and c :: server_condition and i
  assume "FindStatusCondition cs (sc_type c) = Some i"
  moreover from this have "sc_type (cs ! i) = sc_type c" by (simp add: FindStatusCondition_Some)
  ultimately show "\<exists>c'. sc_type c' = sc_type c \<and> server_payload c' = server_payload c \<and>
      SetStatusCondition now c cs = cs[i := c']"
    by (intro exI[of _ "merge_existing now c (cs ! i)"])
      (simp add: SetStatusCondition_def server_payload_def)
qed (auto simp: FindStatusCondition_Some FindStatusCondition_None SetStatusCondition_def
    server_payload_def)

lemma GetCondition_Some:
  "GetCondition cs t m = Some i \<Longrightarrow>
   i < length cs \<and> (mgc_type (cs ! i), mgc_message (cs ! i)) = (t, m) \<and>
   (\<forall>j < i. (mgc_type (cs ! j), mgc_message (cs ! j)) \<noteq> (t, m))"
  by (induction cs t m arbitrary: i rule: GetCondition.induct)
    (fastforce simp: less_Suc_eq_0_disj split: if_splits)+

lemma GetCondition_None:
  "GetCondition cs t m = None \<Longrightarrow> (t, m) \<notin> (\<lambda>c. (mgc_type c, mgc_message c)) ` set cs"
  by (induction cs t m rule: GetCondition.induct) (auto split: if_splits)

interpretation mgo: condition_store "\<lambda>c. (mgc_type c, mgc_message c)"
  "\<lambda>c. (mgc_status c, mgc_reason c)" "\<lambda>cs (t, m). GetCondition cs t m" "UpdateCondition now"
  for now
proof unfold_locales
  fix cs :: "mongo_condition list" and k :: "mongo_condition_type \<times> string" and i
  assume "(case k of (t, m) \<Rightarrow> GetCondition cs t m) = Some i"
  then show "i < length cs \<and> (mgc_type (cs ! i), mgc_message (cs ! i)) = k \<and>
      (\<forall>j < i. (mgc_type (cs ! j), mgc_message (cs ! j)) \<noteq> k)"
    by (cases k) (use GetCondition_Some in auto)
next
  fix cs :: "mongo_condition list" and k :: "mongo_condition_type \<times> string"
  assume "(case k of (t, m) \<Rightarrow> GetCondition cs t m) = None"
  then show "k \<notin> (\<lambda>c. (mgc_type c, mgc_message c)) ` set cs"
    by (cases k) (use GetCondition_None in auto)
next
  fix cs and c :: mongo_condition and i
  assume "(case (mgc_type c, mgc_message c) of (t, m) \<Rightarrow> GetCondition cs t m) = Some i"
  then show "\<exists>c'. (mgc_type c', mgc_message c') = (mgc_type c, mgc_message c) \<and>
      (mgc_status c', mgc_reason c') = (mgc_status c, mgc_reason c) \<and>
      UpdateCondition now c cs = cs[i := c']"
    by (intro exI[of _ "c\<lparr>mgc_transition := now\<rparr>"]) (simp add: UpdateCondition_def)
qed (auto simp: UpdateCondition_def Let_def)

section \<open>Properties\<close>

text \<open>
  C30: recording a condition of MultiCloudMongoDB leaves at most one condition per type, makes the
  recorded status, reason and message the ones read back for that type, and leaves the conditions
  of every other type as they were.
\<close>

theorem set_condition_functional:
  assumes "distinct (map sc_type (mst_conditions m))"
  shows "let m' = SetTypeCondition now t st reason msg m in
    distinct (map sc_type (mst_conditions m')) \<and>
    (\<exists>i. FindStatusCondition (mst_conditions m') t = Some i \<and>
         server_payload (mst_conditions m' ! i) = (st, reason, msg)) \<and>
    (\<forall>u. u \<noteq> t \<longrightarrow>
       map_option ((!) (mst_conditions m')) (FindStatusCondition (mst_conditions m') u) =
       map_option ((!) (mst_conditions m)) (FindStatusCondition (mst_conditions m) u))"
proof -
  let ?c = "\<lparr>sc_type = t, sc_status = st, sc_transition = now, sc_reason = reason, sc_message = msg\<rparr>"
  have m': "mst_conditions (SetTypeCondition now t st reason msg m)
      = SetStatusCondition now ?c (mst_conditions m)"
    by (simp add: SetTypeCondition_def)
  show ?thesis
    using srv.upsert_distinct[OF assms(1), of now ?c] srv.find_upsert_same[of now ?c "mst_conditions m"]
      srv.find_upsert_other[of _ ?c now "mst_conditions m"]
    by (simp add: m' server_payload_def Let_def)
qed

theorem set_condition_functional_witness:
  "let m = \<lparr>mst_external = '''', mst_internal = '''', mst_state = UnKnown, mst_result = [],
             mst_conditions = [\<lparr>sc_type = ServerCheck, sc_status = CTrue, sc_transition = 3,
               sc_reason = ''CheckSuccess'', sc_message = ''''\<rparr>]\<rparr>
   in distinct (map sc_type (mst_conditions (SetTypeCondition 7 ServerReady CFalse ''r'' ''x'' m)))"
  unfolding Let_def
  by (rule set_condition_functional[unfolded Let_def, THEN conjunct1]) simp

text \<open>
  The transition time of a MultiCloudMongoDB condition says when its status last changed: a
  call that records the status a type already has keeps its time, and one that changes the status,
  or records a type for the first time, stamps the time of the call.
\<close>

theorem set_condition_transition:
  assumes "now \<noteq> 0"
  shows "let m' = SetTypeCondition now t st reason msg m in
   \<exists>i. FindStatusCondition (mst_conditions m') t = Some i \<and>
    sc_transition (mst_conditions m' ! i) =
      (case FindStatusCondition (mst_conditions m) t of
         None \<Rightarrow> now
       | Some j \<Rightarrow> if sc_status (mst_conditions m ! j) = st
                   then sc_transition (mst_conditions m ! j) else now)"
proof -
  let ?cs = "mst_conditions m"
  let ?c = "\<lparr>sc_type = t, sc_status = st, sc_transition = now, sc_reason = reason, sc_message = msg\<rparr>"
  have m': "mst_conditions (SetTypeCondition now t st reason msg m) = SetStatusCondition now ?c ?cs"
    by (simp add: SetTypeCondition_def)
  show ?thesis
  proof (cases "FindStatusCondition ?cs t")
    case None
    then have cs': "SetStatusCondition now ?c ?cs = ?cs @ [?c]"
      using assms by (simp add: SetStatusCondition_def)
    have "sc_type (?cs ! j) \<noteq> t" if "j < length ?cs" for j
      using None FindStatusCondition_None that by (metis image_eqI nth_mem)
    then have "FindStatusCondition (?cs @ [?c]) t = Some (length ?cs)"
      by (intro srv.find_eqI) (auto simp: nth_append)
    with None m' cs' show ?thesis by (simp add: Let_def)
  next
    case (Some j)
    note j = FindStatusCondition_Some[OF Some]
    have cs': "SetStatusCondition now ?c ?cs = ?cs[j := merge_existing now ?c (?cs ! j)]"
      using Some by (simp add: SetStatusCondition_def)
    have "FindStatusCondition (?cs[j := merge_existing now ?c (?cs ! j)]) t = Some j"
      using j by (intro srv.find_eqI) auto
    with Some j assms m' cs' show ?thesis by (simp add: Let_def)
  qed
qed

theorem set_condition_transition_witness:
  "let m = \<lparr>mst_external = '''', mst_internal = '''', mst_state = UnKnown, mst_result = [],
             mst_conditions = [\<lparr>sc_type = ServerReady, sc_status = CTrue, sc_transition = 3,
               sc_reason = ''ServerReady'', sc_message = ''''\<rparr>]\<rparr>
   in \<exists>i. FindStatusCondition (mst_conditions (SetTypeCondition 7 ServerReady CTrue ''r'' ''x'' m))
            ServerReady = Some i \<and>
          sc_transition (mst_conditions (SetTypeCondition 7 ServerReady CTrue ''r'' ''x'' m) ! i) = 3"
  unfolding Let_def
  using set_condition_transition[of 7 ServerReady CTrue "''r''" "''x''"
      "\<lparr>mst_external = '''', mst_internal = '''', mst_state = UnKnown, mst_result = [],
         mst_conditions = [\<lparr>sc_type = ServerReady, sc_status = CTrue, sc_transition = 3,
           sc_reason = ''ServerReady'', sc_message = ''''\<rparr>]\<rparr>"]
  by (simp add: Let_def)

text \<open>
  After a MongoDB condition is recorded as true, the check that guards the step it stands for
  (replica-set initialisation or a user, for one replica set) succeeds, and the checks of every
  other type or replica set answer as before.
\<close>

theorem update_condition_checked:
  "mgc_status c = CTrue \<Longrightarrow>
   CheckCondition (UpdateCondition now c cs) (mgc_type c) (mgc_message c) ConditionCheckerExistAndTrue
   \<and> (\<forall>t msg checker. (t, msg) \<noteq> (mgc_type c, mgc_message c) \<longrightarrow>
        CheckCondition (UpdateCondition now c cs) t msg checker = CheckCondition cs t msg checker)"
  using mgo.find_upsert_same[of now c cs] mgo.find_upsert_other[of _ c now cs]
  by (fastforce simp: CheckCondition_def ConditionCheckerExistAndTrue_def)

theorem update_condition_checked_witness:
  "CheckCondition (UpdateCondition 5 \<lparr>mgc_status = CTrue, mgc_type = ConditionTypeRsInit,
      mgc_transition = 0, mgc_reason = '''', mgc_message = ''replset-0''\<rparr> [])
     ConditionTypeRsInit ''replset-0'' ConditionCheckerExistAndTrue"
  using update_condition_checked[of "\<lparr>mgc_status = CTrue, mgc_type = ConditionTypeRsInit,
      mgc_transition = 0, mgc_reason = '''', mgc_message = ''replset-0''\<rparr>" 5 "[]"]
  by simp

end
