(* ===== verification/Mongo_Base.thy ===== *)
theory Mongo_Base
  imports Resource_Builder Conditions
begin

text \<open>
  The state the MongoDB controller works on and its elementary operations: \<open>core/status.go\<close>,
  \<open>core/ensure.go\<close>, \<open>core/revision.go\<close>, \<open>core/restart.go\<close>, \<open>core/service.go\<close> and \<open>ListPod\<close>.

  \<open>b_cr\<close> is the object \<open>s.cr\<close> points to. \<open>refreshCR\<close> lets \<open>s.cr\<close> point to a new object while the
  reconciler and the resource builder keep the old one: \<open>b_held\<close> is that old object, once there is
  one. The API server and the database are two worlds, so an answer of the one depends on what
  happened in the other only through the sequence of calls; since both are arbitrary functions of
  their world, any sequence of answers is covered. Sleeping and logging are left out.
\<close>

section \<open>State and environment\<close>

record ('w, 'm) bstate =
  b_cr :: mongodb
  b_held :: "mongodb option"
  b_api :: 'w
  b_db :: 'm

text \<open>
  What the operations are run in: the API client, the database, and what the Go run-time and
  libraries decide (the order of equal pods after sorting, the order of map iteration, hashing,
  encoding, quantity parsing, a generated key, how often \<open>wait.Poll\<close> calls its condition).
\<close>

record ('w, 'm) benv =
  e_cli :: "'w client"
  e_md :: "'m mongo"
  e_sort_pods :: "pod list \<Rightarrow> pod list"
  e_order :: member_order
  e_revision :: "mongo_spec \<Rightarrow> string" \<comment> \<open>\<open>SafeEncodeString\<close> of the hash of the JSON\<close>
  e_json :: "rs_member list \<Rightarrow> gerror + string"
  e_parse :: "string \<Rightarrow> quantity option"
  e_img :: string
  e_key :: "string \<Rightarrow> string" \<comment> \<open>the key generated for the secret of a user\<close>
  e_docker_json :: "string \<Rightarrow> string \<Rightarrow> string \<Rightarrow> gerror + string"
  e_polls :: nat

definition api :: "('w, 'a) go \<Rightarrow> (('w, 'm) bstate, 'a) go" where
  "api m = zoom b_api (\<lambda>w s. s\<lparr>b_api := w\<rparr>) m"

definition db :: "('m, 'a) go \<Rightarrow> (('w, 'm) bstate, 'a) go" where
  "db m = zoom b_db (\<lambda>w s. s\<lparr>b_db := w\<rparr>) m"

definition held :: "('w, 'm) bstate \<Rightarrow> mongodb" where
  "held s = (case b_held s of None \<Rightarrow> b_cr s | Some x \<Rightarrow> x)"

definition change_status :: "(mongo_status \<Rightarrow> mongo_status) \<Rightarrow> (('w, 'm) bstate, unit) go" where
  "change_status f = modify (\<lambda>s. s\<lparr>b_cr := (b_cr s)\<lparr>mg_status := f (mg_status (b_cr s))\<rparr>\<rparr>)"

definition status_of :: "('w, 'm) bstate \<Rightarrow> mongo_status" where
  "status_of s = mg_status (b_cr s)"

text \<open>A decoded answer overwrites the object; its kind is that of the request.\<close>

definition decode_cr :: "kobj \<Rightarrow> (('w, 'm) bstate, unit) go" where
  "decode_cr y = (case y of OMongo c \<Rightarrow> modify (\<lambda>s. s\<lparr>b_cr := c\<rparr>)
     | _ \<Rightarrow> panic ''interface conversion'')"

section \<open>status.go\<close>

text \<open>\<open>s.cr = cr\<close> for a freshly read object; the first time, the others keep the old one.\<close>

definition repoint :: "mongodb \<Rightarrow> ('w, 'm) bstate \<Rightarrow> ('w, 'm) bstate" where
  "repoint c s = s\<lparr>b_cr := c, b_held := Some (held s)\<rparr>"

definition refreshCR :: "('w, 'm) benv \<Rightarrow> (('w, 'm) bstate, unit) go" where
  "refreshCR E = bindg (gets b_cr) (\<lambda>cr.
     bindg (attempt (api (GetMongoInstanceByName (e_cli E) (cr_name' cr) (cr_ns' cr)))) (\<lambda>r. case r of
       Inl e \<Rightarrow> ret ()
     | Inr c \<Rightarrow> modify (repoint c)))"

definition WriteStatus :: "('w, 'm) benv \<Rightarrow> (('w, 'm) bstate, unit) go" where
  "WriteStatus E = bindg (gets b_cr) (\<lambda>cr.
     bindg (attempt (api (c_update_status (e_cli E) (OMongo cr)))) (\<lambda>r. case r of
       Inr y \<Rightarrow> decode_cr y
     | Inl _ \<Rightarrow>
         andthen (refreshCR E) (andthen (change_status (\<lambda>_. mg_status cr))
           (bindg (gets b_cr) (\<lambda>cr2. bindg (attempt (api (c_update (e_cli E) (OMongo cr2)))) (\<lambda>r2. case r2 of
             Inr y \<Rightarrow> decode_cr y
           | Inl err \<Rightarrow> fail (Wrap err ''update cr status'')))))))"

text \<open>\<open>UpdateCondition\<close> takes the time itself.\<close>

definition UpdateConds :: "('w, 'm) benv \<Rightarrow> mongo_condition list \<Rightarrow> (('w, 'm) bstate, unit) go" where
  "UpdateConds E conds = andthen
     (for_each conds (\<lambda>c. bindg (api (c_now (e_cli E))) (\<lambda>now.
        change_status (\<lambda>st. st\<lparr>mgt_conditions := UpdateCondition now c (mgt_conditions st)\<rparr>))))
     (WriteStatus E)"

definition UpdateState :: "('w, 'm) benv \<Rightarrow> mongo_state \<Rightarrow> (('w, 'm) bstate, unit) go" where
  "UpdateState E st = andthen (change_status (\<lambda>t. t\<lparr>mgt_state := st\<rparr>)) (WriteStatus E)"

definition UpdateRestartState :: "('w, 'm) benv \<Rightarrow> restart_state \<Rightarrow> (('w, 'm) bstate, unit) go" where
  "UpdateRestartState E st = andthen (change_status (\<lambda>t. t\<lparr>mgt_restart := st\<rparr>)) (WriteStatus E)"

definition UpdateInternalAddress :: "('w, 'm) benv \<Rightarrow> string \<Rightarrow> (('w, 'm) bstate, unit) go" where
  "UpdateInternalAddress E a = andthen (change_status (\<lambda>t. t\<lparr>mgt_internal := a\<rparr>)) (WriteStatus E)"

definition UpdateExternalAddress :: "('w, 'm) benv \<Rightarrow> string \<Rightarrow> (('w, 'm) bstate, unit) go" where
  "UpdateExternalAddress E a = andthen (change_status (\<lambda>t. t\<lparr>mgt_external := a\<rparr>)) (WriteStatus E)"

definition change_current :: "(current_info \<Rightarrow> current_info) \<Rightarrow> (('w, 'm) bstate, unit) go" where
  "change_current f = change_status (\<lambda>t. t\<lparr>mgt_current := f (mgt_current t)\<rparr>)"

definition UpdateCurrentDBUserPW :: "('w, 'm) benv \<Rightarrow> string \<Rightarrow> (('w, 'm) bstate, unit) go" where
  "UpdateCurrentDBUserPW E pw =
     (if pw = '''' then ret ()
      else andthen (change_current (\<lambda>c. c\<lparr>ci_db_password := pw\<rparr>)) (WriteStatus E))"

definition UpdateCurrentCustomConfig :: "('w, 'm) benv \<Rightarrow> string \<Rightarrow> (('w, 'm) bstate, unit) go" where
  "UpdateCurrentCustomConfig E cfg =
     andthen (change_current (\<lambda>c. c\<lparr>ci_custom_config := cfg\<rparr>)) (WriteStatus E)"

definition UpdateCurrentResources :: "('w, 'm) benv \<Rightarrow> resource_setting option \<Rightarrow> (('w, 'm) bstate, unit) go" where
  "UpdateCurrentResources E r = andthen (change_current (\<lambda>c. c\<lparr>ci_resources := r\<rparr>)) (WriteStatus E)"

definition UpdateCurrentMembers :: "('w, 'm) benv \<Rightarrow> int \<Rightarrow> (('w, 'm) bstate, unit) go" where
  "UpdateCurrentMembers E m = andthen (change_current (\<lambda>c. c\<lparr>ci_members := m\<rparr>)) (WriteStatus E)"

text \<open>The loop of \<open>CheckMemberRole\<close> over the reported members.\<close>

fun check_roles :: "member_status list \<Rightarrow> gerror option" where
  "check_roles [] = None"
| "check_roles (m # ms) =
     (if mb_state_str m = Primary then
        (if mb_state m \<noteq> 1 then Some (NewErr ''PRIMARY node status error'') else check_roles ms)
      else if mb_state_str m = Secondary then
        (if mb_state m \<noteq> 2 then Some (NewErr ''SECONDARY node status error'') else check_roles ms)
      else if mb_state_str m = ArbiterStr then
        (if mb_state m \<noteq> 7 then Some (NewErr ''ARBITER node status error'') else check_roles ms)
      else Some (NewErr ''no role node''))"

section \<open>ensure.go\<close>

text \<open>
  \<open>Ensure\<close> of \<open>base\<close>: of the types of \<open>found\<close> only a claim is looked at again. \<open>EnsurePVC\<close> and
  \<open>EnsurePVCWithoutSetRef\<close> have no caller; a nil claim is \<open>None\<close>.
\<close>

definition base_SetRefAndCreateObject :: "('w, 'm) benv \<Rightarrow> kobj \<Rightarrow> (('w, 'm) bstate, unit) go" where
  "base_SetRefAndCreateObject E obj = bindg (gets b_cr) (\<lambda>cr.
     bindg (api (c_set_ref (e_cli E) (mg_meta cr) obj)) (\<lambda>x. api (CreateObject (e_cli E) x)))"

definition check_found :: "kobj \<Rightarrow> kobj \<Rightarrow> ('s, unit) go" where
  "check_found obj found =
     (if okind obj = KClaim \<and> om_deleting (ometa found)
      then fail (Wrap (Sentinel ErrWaitRequeue) ''pvc is terminating, wait recreate'') else ret ())"

lemma check_found_simps [simp]:
  "okind x \<noteq> KClaim \<Longrightarrow> check_found x z = ret ()" "keeps J (check_found x z)"
  by (simp_all add: check_found_def keeps_basic)

definition base_Ensure :: "('w, 'm) benv \<Rightarrow> kobj \<Rightarrow> (('w, 'm) bstate, unit) go" where
  "base_Ensure E obj = bindg (api (IsExists (e_cli E) (okey_of obj))) (\<lambda>f. case f of
     Some found \<Rightarrow> check_found obj found
   | None \<Rightarrow> base_SetRefAndCreateObject E obj)"

definition EnsureSecret :: "('w, 'm) benv \<Rightarrow> secret \<Rightarrow> (('w, 'm) bstate, unit) go" where
  "EnsureSecret E x = base_Ensure E (OSecret x)"

definition EnsureService :: "('w, 'm) benv \<Rightarrow> service \<Rightarrow> (('w, 'm) bstate, unit) go" where
  "EnsureService E x = base_Ensure E (OService x)"

definition EnsurePVC :: "('w, 'm) benv \<Rightarrow> pvc option \<Rightarrow> (('w, 'm) bstate, unit) go" where
  "EnsurePVC E obj = (case obj of None \<Rightarrow> ret () | Some x \<Rightarrow> base_Ensure E (OClaim x))"

definition EnsurePVCWithoutSetRef :: "('w, 'm) benv \<Rightarrow> pvc option \<Rightarrow> (('w, 'm) bstate, unit) go" where
  "EnsurePVCWithoutSetRef E obj = (case obj of
     None \<Rightarrow> ret () | Some x \<Rightarrow> api (EnsureWithoutSetRef (e_cli E) (OClaim x)))"

definition EnsurePod :: "('w, 'm) benv \<Rightarrow> pod \<Rightarrow> (('w, 'm) bstate, unit) go" where
  "EnsurePod E x = base_Ensure E (OPod x)"

definition EnsureSts :: "('w, 'm) benv \<Rightarrow> stateful_set \<Rightarrow> (('w, 'm) bstate, unit) go" where
  "EnsureSts E x = base_Ensure E (OSts x)"

definition EnsureImagePullSecret ::
    "('w, 'm) benv \<Rightarrow> string \<Rightarrow> string \<Rightarrow> string \<Rightarrow> string \<Rightarrow> string \<Rightarrow> (('w, 'm) bstate, unit) go" where
  "EnsureImagePullSecret E server username password namespace secretName =
     bindg (lift_outcome (NewDockerRegistrySecret (e_docker_json E) namespace secretName server username password))
       (EnsureSecret E)"

text \<open>The secrets of \<open>MongoBase.EnsureSecret\<close> (\<open>core/base.go\<close>).\<close>

definition base_secrets :: "(string \<Rightarrow> string) \<Rightarrow> mongodb \<Rightarrow> secret list" where
  "base_secrets key cr = [KeyFileSecret cr, AdminSecret (key MongoRoot) cr MongoRoot,
     AdminSecret (key MongoClusterAdmin) cr MongoClusterAdmin,
     AdminSecret (key MongoClusterMonitor) cr MongoClusterMonitor]"

definition MongoBase_EnsureSecret :: "('w, 'm) benv \<Rightarrow> (('w, 'm) bstate, unit) go" where
  "MongoBase_EnsureSecret E =
     andthen (bindg (gets held) (\<lambda>cr. EnsureSecret E (KeyFileSecret cr)))
    (andthen (bindg (gets held) (\<lambda>cr. EnsureSecret E (AdminSecret (e_key E MongoRoot) cr MongoRoot)))
    (andthen (bindg (gets held) (\<lambda>cr. EnsureSecret E (AdminSecret (e_key E MongoClusterAdmin) cr MongoClusterAdmin)))
             (bindg (gets held) (\<lambda>cr. EnsureSecret E (AdminSecret (e_key E MongoClusterMonitor) cr MongoClusterMonitor)))))"

section \<open>Revision, restart, services, pods\<close>

definition calculateRevision :: "('w, 'm) benv \<Rightarrow> mongodb \<Rightarrow> string" where
  "calculateRevision E cr = cr_name' cr @ ''-'' @ e_revision E (mg_spec cr)"

definition UpdateRevision :: "('w, 'm) benv \<Rightarrow> (('w, 'm) bstate, unit) go" where
  "UpdateRevision E = bindg (gets b_cr) (\<lambda>cr.
     let revision = calculateRevision E cr
     in if mgt_revision (mg_status cr) = revision then ret ()
        else andthen (change_status (\<lambda>t. t\<lparr>mgt_revision := revision\<rparr>)) (WriteStatus E))"

definition DeletePodInRestart :: "('w, 'm) benv \<Rightarrow> string \<Rightarrow> pod \<Rightarrow> (('w, 'm) bstate, unit) go" where
  "DeletePodInRestart E updateRevision p =
     (if pod_label p ''controller-revision-hash'' = updateRevision then ret ()
      else bindg (attempt (api (c_delete (e_cli E) (okey_of (OPod p))))) (\<lambda>r. case r of
          Inr _ \<Rightarrow> ret ()
        | Inl err \<Rightarrow> fail (NewErr (''failed to delete pod: '' @ err_text err))))"

text \<open>\<open>pod.OwnerReferences[0].Name\<close>\<close>

definition owner_of :: "pod \<Rightarrow> ('s, string) go" where
  "owner_of p = (case om_owners (po_meta p) of
     n # _ \<Rightarrow> ret n | [] \<Rightarrow> panic ''index out of range [0]'')"

definition GetServiceNodePort :: "('w, 'm) benv \<Rightarrow> pod \<Rightarrow> (('w, 'm) bstate, 32 word) go" where
  "GetServiceNodePort E p = bindg (gets b_cr) (\<lambda>cr. bindg (owner_of p) (\<lambda>n.
     bindg (api (GetService (e_cli E) (cr_ns' cr) n)) (\<lambda>svc. case svc_ports svc of
       port # _ \<Rightarrow> ret (spo_node_port port)
     | [] \<Rightarrow> panic ''index out of range [0]'')))"

definition list_pods ::
    "('w, 'm) benv \<Rightarrow> labels \<Rightarrow> (pod \<Rightarrow> bool) list \<Rightarrow> (('w, 'm) bstate, pod list) go" where
  "list_pods E label fs = bindg (gets b_cr) (\<lambda>cr.
     api (base_ListPod (e_cli E) (e_sort_pods E) (cr_ns' cr) label fs))"

section \<open>Rules\<close>

lemma api_run: "api m s = (r, s') \<longleftrightarrow> (\<exists>w. m (b_api s) = (r, w) \<and> s' = s\<lparr>b_api := w\<rparr>)"
  by (auto simp: api_def zoom_def split: prod.splits)

lemma db_run: "db m s = (r, s') \<longleftrightarrow> (\<exists>w. m (b_db s) = (r, w) \<and> s' = s\<lparr>b_db := w\<rparr>)"
  by (auto simp: db_def zoom_def split: prod.splits)

lemma keeps_api [keeps_intros]:
  "keeps I m \<Longrightarrow> keeps (\<lambda>s. I (b_api s)) (api m)"
  by (rule keepsI) (auto simp: api_run dest: keepsD)

lemma keeps_db [keeps_intros]: "keeps (\<lambda>s. I (b_api s)) (db m)"
  by (rule keepsI) (auto simp: db_run)

section \<open>Writing the status\<close>

text \<open>A MongoDB has a status subresource: a plain update leaves the stored status alone.\<close>

locale kube_status = kube_api +
  assumes update_keeps_status: "c_update cli x w = (Ok y, w') \<Longrightarrow> objs w (okey_of x) = Some z \<Longrightarrow> same_status z y"
begin

lemma refreshCR_run:
  assumes "e_cli E = cli" "inv (b_api s)" "refreshCR E s = (r, s')"
  shows "r = Ok () \<and> objs (b_api s') = objs (b_api s) \<and> inv (b_api s') \<and>
    okey_of (OMongo (b_cr s')) = okey_of (OMongo (b_cr s))"
proof -
  let ?k = "(KMongo, cr_ns' (b_cr s), cr_name' (b_cr s))"
  obtain q w where get: "c_get cli ?k (b_api s) = (q, w)" by fastforce
  have same: "objs w = objs (b_api s)" using reads(1)[of ?k "b_api s"] get by simp
  have w: "inv w" using keeps_inv(1) assms(2) get by (blast dest: keepsD)
  show ?thesis
  proof (cases q)
    case (Ok x)
    with get have "objs (b_api s) ?k = Some x" by (auto dest: get_Ok)
    with stored assms(2) have x: "okey_of x = ?k" by blast
    then obtain c where "x = OMongo c" by (cases x) (auto simp: okey_of_def)
    with x Ok get same w assms(1,3) show ?thesis
      by (auto simp: refreshCR_def GetMongoInstanceByName_def get_as_def bindg_def attempt_def gets_def api_def
          zoom_def modify_def repoint_def okey_of_def cr_name'_def cr_ns'_def ret_def)
  next
    case (Err e)
    with get same w assms(1,3) show ?thesis
      by (auto simp: refreshCR_def GetMongoInstanceByName_def get_as_def bindg_def attempt_def gets_def api_def
          zoom_def ret_def)
  next
    case (Panic p)
    with get no_panic(1) show ?thesis by blast
  qed
qed

text \<open>The fallback of \<open>WriteStatus\<close>, when it succeeds, ends with the status that was stored before.\<close>

lemma WriteStatus_fallback:
  assumes "e_cli E = cli" "inv (b_api s)"
    and failed: "c_update_status cli (OMongo (b_cr s)) (b_api s) = (Err e, w1)"
    and run: "WriteStatus E s = (Ok (), s')"
    and old: "objs (b_api s) (okey_of (OMongo (b_cr s))) = Some (OMongo z)"
  shows "mg_status (b_cr s') = mg_status z \<and>
    (\<forall>y. objs (b_api s') (okey_of (OMongo (b_cr s))) = Some y \<longrightarrow> y = OMongo (b_cr s'))"
proof -
  let ?k = "okey_of (OMongo (b_cr s))" and ?s1 = "s\<lparr>b_api := w1\<rparr>"
  have w1: "objs w1 = objs (b_api s)" "inv w1"
    using failed_writes(3)[OF failed] keeps_inv(5) assms(2) failed by (auto dest: keepsD)
  obtain r s2 where ref: "refreshCR E ?s1 = (r, s2)" by fastforce
  from refreshCR_run[OF assms(1) _ ref] w1 have s2: "r = Ok ()" "objs (b_api s2) = objs (b_api s)"
    "okey_of (OMongo (b_cr s2)) = ?k" by simp_all
  let ?c = "(b_cr s2)\<lparr>mg_status := mg_status (b_cr s)\<rparr>"
  have c: "okey_of (OMongo ?c) = ?k" using s2(3) by (simp add: okey_of_def)
  obtain q w3 where upd: "c_update cli (OMongo ?c) (b_api s2) = (q, w3)" by fastforce
  have fin: "(case q of Ok y \<Rightarrow> decode_cr y (s2\<lparr>b_cr := ?c, b_api := w3\<rparr>)
      | Err err \<Rightarrow> (Err (Wrap err ''update cr status''), s2\<lparr>b_cr := ?c, b_api := w3\<rparr>)
      | Panic p \<Rightarrow> (Panic p, s2\<lparr>b_cr := ?c, b_api := w3\<rparr>)) = (Ok (), s')"
    using run failed ref s2(1) upd assms(1)
    by (auto simp: WriteStatus_def bindg_def attempt_def gets_def api_def zoom_def change_status_def modify_def
        fail_def split: outcome.splits)
  then obtain y where y: "q = Ok y" "decode_cr y (s2\<lparr>b_cr := ?c, b_api := w3\<rparr>) = (Ok (), s')"
    by (cases q) auto
  then obtain m where m: "y = OMongo m" "s' = s2\<lparr>b_cr := m, b_api := w3\<rparr>"
    by (cases y) (auto simp: decode_cr_def modify_def panic_def)
  from upd y(1) have upd': "c_update cli (OMongo ?c) (b_api s2) = (Ok y, w3)" by simp
  from update_keeps_status[OF upd'] old s2(2) c have "same_status (OMongo z) y" by simp
  with m have st: "mg_status m = mg_status z" by simp
  from update_Ok[OF upd'] c have "objs w3 = (objs (b_api s2))(?k :=
      (if om_deleting (ometa y) \<and> om_finalizers (ometa y) = [] then None else Some y))" by simp
  with m st show ?thesis by (auto split: if_splits)
qed

end

lemma mem_update_status_kept:
  assumes "mem_update x w = (Ok y, w')" "mem_lookup w (okey_of x) = Some z"
  shows "same_status z y"
proof -
  from assms have "okind z = okind x" using mem_lookup_key by (fastforce simp: okey_of_def)
  with assms show ?thesis
    by (cases z; cases x) (auto simp: mem_update_def request_def Let_def split: list.splits option.splits if_splits)
qed

interpretation mem: kube_status mem_client mem_lookup mem_inv
  by unfold_locales (auto simp: mem_client_def dest: mem_update_status_kept)


section \<open>Properties\<close>

text \<open>
  C33: a status write that falls back to a plain update is lost: the custom resource has a status
  subresource, so when the status update is refused and \<open>WriteStatus\<close> still returns nil, the stored
  status is the one from before, and so is the status of the object in memory from then on.
\<close>

theorem write_status_fallback:
  assumes "kube_status cli objs I" and "e_cli E = cli" and "I (b_api s)"
    and "c_update_status cli (OMongo (b_cr s)) (b_api s) = (Err e, w1)"
    and "WriteStatus E s = (Ok (), s')"
    and "objs (b_api s) (okey_of (OMongo (b_cr s))) = Some (OMongo z)"
  shows "mg_status (b_cr s') = mg_status z \<and>
    (\<forall>y. objs (b_api s') (okey_of (OMongo (b_cr s))) = Some y \<longrightarrow> y = OMongo (b_cr s'))"
  using kube_status.WriteStatus_fallback[OF assms] .

definition sample_env :: "(mem, mongod) benv" where
  "sample_env = \<lparr>e_cli = mem_client, e_md = mongod_client, e_sort_pods = sort_key GetOrdinal, e_order = rev,
     e_revision = (\<lambda>sp. ''h''), e_json = (\<lambda>ms. Inr ''[]''), e_parse = sample_parse, e_img = ''exporter'',
     e_key = (\<lambda>_. ''key''), e_docker_json = (\<lambda>s u p. Inr ''{}''), e_polls = 2\<rparr>"

definition sample_bstate :: "mongodb \<Rightarrow> mem \<Rightarrow> mongod \<Rightarrow> (mem, mongod) bstate" where
  "sample_bstate cr w d = \<lparr>b_cr = cr, b_held = None, b_api = w, b_db = d\<rparr>"

definition running_mongo :: mongodb where
  "running_mongo = ready_mongo\<lparr>mg_status := empty_mongo_status\<lparr>mgt_state := StateRunning\<rparr>\<rparr>"

definition faulty_state :: "(mem, mongod) bstate" where
  "faulty_state = sample_bstate running_mongo
     ((mem_of [stored_at ''7'' (OMongo ready_mongo)])\<lparr>mem_faults := [Some ''timeout'']\<rparr>) (sample_mongod [] [])"

theorem write_status_fallback_witness:
  "\<exists>s'. WriteStatus sample_env faulty_state = (Ok (), s') \<and>
    mgt_state (mg_status (b_cr s')) \<noteq> mgt_state (mg_status (b_cr faulty_state))"
proof -
  let ?z = "ready_mongo\<lparr>mg_meta := (mg_meta ready_mongo)\<lparr>om_rv := ''7''\<rparr>\<rparr>"
  have "fst (WriteStatus sample_env faulty_state) = Ok ()" by code_simp
  then obtain s' where run: "WriteStatus sample_env faulty_state = (Ok (), s')" by (metis prod.collapse)
  have env: "e_cli sample_env = mem_client" by (simp add: sample_env_def)
  have inv: "mem_inv (b_api faulty_state)"
    by (simp add: mem_inv_def mem_of_def faulty_state_def sample_bstate_def stored_at_def)
  have look: "mem_lookup (b_api faulty_state) (okey_of (OMongo (b_cr faulty_state))) = Some (OMongo ?z)"
    by (simp add: mem_lookup_def faulty_state_def sample_bstate_def samples running_mongo_def ready_mongo_def
        sample_mongo_def set_rv_def)
  obtain e w1 where "c_update_status mem_client (OMongo (b_cr faulty_state)) (b_api faulty_state) = (Err e, w1)"
    by (simp add: mem_client_def mem_update_status_def request_def faulty_state_def sample_bstate_def)
  from write_status_fallback[OF mem.kube_status_axioms env inv this run look] run show ?thesis
    by (simp add: faulty_state_def sample_bstate_def running_mongo_def ready_mongo_def sample_mongo_def
        empty_mongo_status_def)
qed

end
