(* ===== verification/Mongo_Config.thy ===== *)
theory Mongo_Config
  imports Mongo_Base
begin

text \<open>
  The replica set seen from the MongoDB controller: \<open>core/mongo_config.go\<close> (initiation, members,
  repair), the parts of \<open>core/status.go\<close> that ask the database, and the scripts of
  \<open>pkg/driver/mgo/script.go\<close>. A deferred disconnect only logs its error. Reads of map entries of the
  label map of a nil pod panic.
\<close>

section \<open>script.go\<close>

definition nl :: string where "nl = [CHR ''\<newline>'']"
definition dquote :: string where "dquote = [CHR 0x22]"

definition MongoShellEvalWithAuth :: "string \<Rightarrow> string \<Rightarrow> string" where
  "MongoShellEvalWithAuth pw js = ''mongo -u root -p '' @ quote @ pw @ quote @ '' --eval '' @ quote @ js @ quote"

definition MongoShellEvalNoAuth :: "string \<Rightarrow> string" where
  "MongoShellEvalNoAuth js = ''mongo --eval '' @ quote @ js @ quote"

definition RSIntitate :: "string \<Rightarrow> string \<Rightarrow> string" where
  "RSIntitate rs members = ''rs.initiate({_id: '' @ dquote @ rs @ dquote @ '', members: '' @ members @ ''});''"

definition RSReconfig :: "string \<Rightarrow> string \<Rightarrow> string" where
  "RSReconfig rs members =
     ''rs.reconfig({_id: '' @ dquote @ rs @ dquote @ '', members: '' @ members @ '', force: true });''"

definition DBServerStatusReplMe :: string where "DBServerStatusReplMe = ''db.serverStatus().repl.me;''"
definition RSStatus :: string where "RSStatus = ''rs.status();''"
definition RSAlreadyInitialized :: string where "RSAlreadyInitialized = ''AlreadyInitialized''"
definition RSConfigIncompatible :: string where
  "RSConfigIncompatible = ''NewReplicaSetConfigurationIncompatible''"
definition OKText :: string where "OKText = dquote @ ''ok'' @ dquote @ '' : 1''"

definition CreateUserScript :: "string \<Rightarrow> string \<Rightarrow> string" where
  "CreateUserScript user pw = nl @ ''db.getSiblingDB('' @ dquote @ ''admin'' @ dquote @ '').createUser({'' @ nl @
     ''    user: '' @ dquote @ user @ dquote @ '','' @ nl @ ''    pwd: '' @ dquote @ pw @ dquote @ '','' @ nl @
     ''    roles: [{role: '' @ dquote @ ''root'' @ dquote @ '', db: '' @ dquote @ ''admin'' @ dquote @ ''}]'' @ nl @
     ''});'' @ nl"

definition CreateUserSuccess :: string where "CreateUserSuccess = ''Successfully added user''"
definition CreateUserUnauthorized :: string where "CreateUserUnauthorized = ''no users authenticated''"
definition ReconfigUnauthorized :: string where
  "ReconfigUnauthorized = ''not authorized on admin to execute command''"
definition CreateUserNotMaster :: string where "CreateUserNotMaster = ''not master''"

section \<open>Connections\<close>

text \<open>\<open>k8s.ExecCmd\<close> in the database container.\<close>

definition exec_in :: "('w, 'm) benv \<Rightarrow> pod \<Rightarrow> string \<Rightarrow> (('w, 'm) bstate, string \<times> gerror option) go" where
  "exec_in E p cmd = db (md_exec (e_md E) p ContainerName cmd)"

text \<open>The secret with the credentials of a user; \<open>missing\<close> when there is none.\<close>

definition user_secret :: "('w, 'm) benv \<Rightarrow> string \<Rightarrow> (('w, 'm) bstate, secret) go" where
  "user_secret E user = bindg (gets held) (\<lambda>cr.
     bindg (api (IsExists (e_cli E) (KSecret, om_namespace (UserSecretMetaOnly cr user), om_name (UserSecretMetaOnly cr user))))
       (\<lambda>f. case f of
          Some (OSecret x) \<Rightarrow> ret x
        | Some _ \<Rightarrow> panic ''interface conversion''
        | None \<Rightarrow> fail (NewErr ''secret missing'')))"

definition dial_as :: "('w, 'm) benv \<Rightarrow> secret \<Rightarrow> string list \<Rightarrow> bool \<Rightarrow> (('w, 'm) bstate, connection) go" where
  "dial_as E x addrs direct = (case GetAuthInfo (Some x) of (user, password) \<Rightarrow>
     db (Dial (e_md E) addrs user password direct))"

definition MongoClient :: "('w, 'm) benv \<Rightarrow> string list \<Rightarrow> (('w, 'm) bstate, connection) go" where
  "MongoClient E addrs = bindg (user_secret E MongoClusterAdmin) (\<lambda>x. dial_as E x addrs False)"

definition MongoClientWithOneNode :: "('w, 'm) benv \<Rightarrow> string list \<Rightarrow> (('w, 'm) bstate, connection) go" where
  "MongoClientWithOneNode E addrs = bindg (user_secret E MongoClusterAdmin) (\<lambda>x. dial_as E x addrs True)"

text \<open>\<open>defer client.Disconnect(...)\<close>, whose error is logged.\<close>

definition disconnect :: "('w, 'm) benv \<Rightarrow> connection \<Rightarrow> (('w, 'm) bstate, unit) go" where
  "disconnect E c = bindg (attempt (db (md_disconnect (e_md E) c))) (\<lambda>_. ret ())"

definition with_client ::
    "('w, 'm) benv \<Rightarrow> (('w, 'm) bstate, connection) go \<Rightarrow> (connection \<Rightarrow> (('w, 'm) bstate, 'a) go) \<Rightarrow>
     (('w, 'm) bstate, 'a) go" where
  "with_client E open' body = bindg open' (\<lambda>c. with_defer (disconnect E c) (body c))"

definition member_addrs :: "('w, 'm) benv \<Rightarrow> (('w, 'm) bstate, string list) go" where
  "member_addrs E = bindg (gets b_cr) (\<lambda>cr.
     api (GetMongoAddrs (e_cli E) (mgs_member_config_ref (mg_spec cr)) (cr_ns' cr)))"

definition member_config :: "('w, 'm) benv \<Rightarrow> (('w, 'm) bstate, config_map) go" where
  "member_config E = bindg (gets b_cr) (\<lambda>cr.
     api (GetConfigMap (e_cli E) (mgs_member_config_ref (mg_spec cr)) (cr_ns' cr)))"

definition condition_true :: "mongo_condition_type \<Rightarrow> string \<Rightarrow> ('w, 'm) bstate \<Rightarrow> bool" where
  "condition_true t message s =
     CheckCondition (mgt_conditions (status_of s)) t message ConditionCheckerExistAndTrue"

definition true_condition :: "mongo_condition_type \<Rightarrow> string \<Rightarrow> mongo_condition" where
  "true_condition t message = \<lparr>mgc_status = CTrue, mgc_type = t, mgc_transition = 0, mgc_reason = '''',
     mgc_message = message\<rparr>"

section \<open>Initiation\<close>

definition CmdCheckReplSetInit :: "('w, 'm) benv \<Rightarrow> pod \<Rightarrow> (('w, 'm) bstate, unit) go" where
  "CmdCheckReplSetInit E p =
     bindg (exec_in E p (MongoShellEvalNoAuth RSStatus)) (\<lambda>(stdout, err). case err of
       Some e \<Rightarrow> fail e
     | None \<Rightarrow>
         bindg (if go_contains stdout CreateUserUnauthorized
                then bindg (gets b_cr) (\<lambda>cr. exec_in E p
                       (MongoShellEvalWithAuth (mgs_root_password (mg_spec cr)) RSStatus))
                else ret (stdout, None)) (\<lambda>(stdout, err). case err of
           Some e \<Rightarrow> fail e
         | None \<Rightarrow>
             if \<not> go_contains stdout OKText then fail (Sentinel ErrRsStatusNotOk)
             else UpdateConds E [true_condition ConditionTypeRsInit (pod_label p LabelKeyReplsetName)]))"

text \<open>
  The branch that reconfigures: the error of the authenticated retry is nil when it works, and that
  is what is returned; without an error the initiation still counts as failed.
\<close>

definition reconfigure :: "('w, 'm) benv \<Rightarrow> pod \<Rightarrow> string \<Rightarrow> string \<Rightarrow> (('w, 'm) bstate, unit) go" where
  "reconfigure E p rsName membersJson =
     (let js = RSReconfig rsName membersJson
      in bindg (exec_in E p (MongoShellEvalNoAuth js)) (\<lambda>(stdout, err). case err of
           Some e \<Rightarrow>
             if go_contains stdout ReconfigUnauthorized
             then bindg (gets b_cr) (\<lambda>cr. bindg (exec_in E p
                    (MongoShellEvalWithAuth (mgs_root_password (mg_spec cr)) js)) (\<lambda>(stdout, err). case err of
                      Some e \<Rightarrow> fail e
                    | None \<Rightarrow> ret ()))
             else fail e
         | None \<Rightarrow> fail (Sentinel ErrRsInitFailed)))"

definition initiate_output :: "('w, 'm) benv \<Rightarrow> pod \<Rightarrow> string \<Rightarrow> (('w, 'm) bstate, string) go" where
  "initiate_output E p js =
     bindg (exec_in E p (MongoShellEvalNoAuth js)) (\<lambda>(stdout, err). case err of
       Some e \<Rightarrow> fail e
     | None \<Rightarrow>
         if go_contains stdout CreateUserUnauthorized
         then bindg (gets b_cr) (\<lambda>cr. bindg (exec_in E p
                (MongoShellEvalWithAuth (mgs_root_password (mg_spec cr)) js)) (\<lambda>(stdout, err). case err of
                  Some e \<Rightarrow> fail e
                | None \<Rightarrow> ret stdout))
         else ret stdout)"

definition ReplSetInit :: "('w, 'm) benv \<Rightarrow> pod list \<Rightarrow> config_map \<Rightarrow> (('w, 'm) bstate, unit) go" where
  "ReplSetInit E pods cm = bindg (gets b_cr) (\<lambda>cr. case GetAvailablePod pods of
       None \<Rightarrow> panic ''nil pointer dereference''
     | Some p \<Rightarrow>
         (let rsName = pod_label p LabelKeyReplsetName
          in bindg (gets (condition_true ConditionTypeRsInit rsName)) (\<lambda>initialized.
               if initialized then ret ()
               else if \<not> mgs_rs_init (mg_spec cr) then ret ()
               else bindg (lift_outcome (ConfigMapToMembers cm)) (\<lambda>members. case e_json E members of
                   Inl e \<Rightarrow> fail (Wrap e ''json marshal err'')
                 | Inr membersJson \<Rightarrow>
                     bindg (initiate_output E p (RSIntitate rsName membersJson)) (\<lambda>stdout.
                       if \<not> go_contains stdout OKText \<and> \<not> go_contains stdout RSAlreadyInitialized \<and>
                          \<not> go_contains stdout RSConfigIncompatible
                       then reconfigure E p rsName membersJson
                       else CmdCheckReplSetInit E p)))))"

section \<open>Asking the database\<close>

definition GetMgoReplSetStatus :: "('w, 'm) benv \<Rightarrow> (('w, 'm) bstate, member_status list) go" where
  "GetMgoReplSetStatus E = bindg (member_addrs E) (\<lambda>addrs.
     with_client E (MongoClient E addrs) (\<lambda>c. db (ReplMemberStatus (e_md E) c)))"

definition GetMgoDataNodeInfo :: "('w, 'm) benv \<Rightarrow> pod \<Rightarrow> (('w, 'm) bstate, server_repl) go" where
  "GetMgoDataNodeInfo E p =
     with_client E (MongoClientWithOneNode E [po_ip p @ '':'' @ DefaultPortStr]) (\<lambda>c.
       db (GetMgoNodeInfo (e_md E) c))"

text \<open>The fifth line of the output; fewer lines panic.\<close>

definition GetMgoArbiterNodeInfo :: "('w, 'm) benv \<Rightarrow> pod \<Rightarrow> (('w, 'm) bstate, string) go" where
  "GetMgoArbiterNodeInfo E p =
     bindg (exec_in E p (MongoShellEvalNoAuth DBServerStatusReplMe)) (\<lambda>(stdout, err). case err of
       Some e \<Rightarrow> fail e
     | None \<Rightarrow> (let ls = go_split nl stdout
         in if length ls < 5 then panic ''index out of range [4]'' else ret (ls ! 4)))"

fun first_primary :: "member_status list \<Rightarrow> string" where
  "first_primary [] = ''''"
| "first_primary (m # ms) = (if mb_state_str m = Primary then mb_host m else first_primary ms)"

definition GetPrimaryPod :: "('w, 'm) benv \<Rightarrow> (('w, 'm) bstate, string) go" where
  "GetPrimaryPod E = bindg (GetMgoReplSetStatus E) (\<lambda>members. ret (first_primary members))"

definition StepDown :: "('w, 'm) benv \<Rightarrow> pod \<Rightarrow> (('w, 'm) bstate, unit) go" where
  "StepDown E p = with_client E (MongoClient E [po_ip p]) (\<lambda>c. db (Client_StepDown (e_md E) c))"

definition UpdateRSStatus :: "('w, 'm) benv \<Rightarrow> (('w, 'm) bstate, unit) go" where
  "UpdateRSStatus E = bindg (GetMgoReplSetStatus E) (\<lambda>members.
     andthen (change_status (\<lambda>t. t\<lparr>mgt_replset := members\<rparr>)) (WriteStatus E))"

text \<open>The first address that answers gives the status; the clients are not disconnected.\<close>

fun first_status :: "('w, 'm) benv \<Rightarrow> string list \<Rightarrow> (('w, 'm) bstate, unit) go" where
  "first_status E [] = ret ()"
| "first_status E (addr # addrs) =
     bindg (attempt (MongoClientWithOneNode E [addr])) (\<lambda>r. case r of
       Inl e \<Rightarrow> first_status E addrs
     | Inr c \<Rightarrow> bindg (attempt (db (ReplMemberStatus (e_md E) c))) (\<lambda>q. case q of
         Inl e \<Rightarrow> first_status E addrs
       | Inr members \<Rightarrow> change_status (\<lambda>t. t\<lparr>mgt_replset := members\<rparr>)))"

definition UpdateErrRSStatus :: "('w, 'm) benv \<Rightarrow> pod list \<Rightarrow> (('w, 'm) bstate, unit) go" where
  "UpdateErrRSStatus E pods = bindg (member_addrs E) (\<lambda>addrs.
     andthen (first_status E addrs) (WriteStatus E))"

definition CheckMemberRole :: "('w, 'm) benv \<Rightarrow> (('w, 'm) bstate, unit) go" where
  "CheckMemberRole E = bindg (GetMgoReplSetStatus E) (\<lambda>members. case check_roles members of
     None \<Rightarrow> ret () | Some e \<Rightarrow> fail e)"

section \<open>Members\<close>

definition MongoEnsureMemberConfig :: "('w, 'm) benv \<Rightarrow> pod \<Rightarrow> (('w, 'm) bstate, unit) go" where
  "MongoEnsureMemberConfig E p =
     (if IsNotNeedReConfig (Some p) then ret ()
      else bindg (gets (condition_true ConditionTypeUserClusterAdmin (pod_label p LabelKeyReplsetName))) (\<lambda>admin.
        if \<not> admin then ret ()
        else bindg (member_addrs E) (\<lambda>addrs. with_client E (MongoClient E addrs) (\<lambda>c.
          bindg (member_config E) (\<lambda>cm. bindg (GetServiceNodePort E p) (\<lambda>nodePort.
          bindg (gets b_cr) (\<lambda>cr.
          bindg (lift_outcome (ConfigMapToMembersByNodePort cr cm (sint nodePort))) (\<lambda>member.
          bindg (db (ReadConfig (e_md E) c)) (\<lambda>r. bindg (need_config r) (\<lambda>rsConfig.
            case MemberExist (rc_members rsConfig) member of (exist, addMember) \<Rightarrow>
              if \<not> exist then db (Client_AddMembers (e_md E) (e_order E) c addMember) else ret ())))))))))) "

text \<open>A member of which only the host is set.\<close>

definition host_member :: "string \<Rightarrow> rs_member" where
  "host_member host = \<lparr>rm_tags = [], rm_host = host, rm_id = 0, rm_priority = 0, rm_slave_delay = 0, rm_votes = 0,
     rm_arbiter_only = False, rm_build_indexes = False, rm_hidden = False\<rparr>"

definition MongoRemoveMember :: "('w, 'm) benv \<Rightarrow> pod \<Rightarrow> string \<Rightarrow> (('w, 'm) bstate, unit) go" where
  "MongoRemoveMember E p host =
     (if IsNotNeedReConfig (Some p) then ret ()
      else bindg (member_addrs E) (\<lambda>addrs. with_client E (MongoClient E addrs) (\<lambda>c.
        db (Client_RemoveMembers (e_md E) (e_order E) c [host_member host]))))"

text \<open>\<open>errors.Wrap(util.ErrObjSync, err.Error())\<close>\<close>

definition obj_sync :: "gerror \<Rightarrow> gerror" where
  "obj_sync err = Wrap (Sentinel ErrObjSync) (err_text err)"

definition as_sync :: "(('w, 'm) bstate, 'a) go \<Rightarrow> (('w, 'm) bstate, 'a) go" where
  "as_sync m = bindg (attempt m) (\<lambda>r. case r of Inr x \<Rightarrow> ret x | Inl err \<Rightarrow> fail (obj_sync err))"

definition removeService :: "('w, 'm) benv \<Rightarrow> pod \<Rightarrow> (('w, 'm) bstate, unit) go" where
  "removeService E p = bindg (owner_of p) (\<lambda>n. bindg (gets held) (\<lambda>cr.
     api (DeleteObj (e_cli E) (OService (BuildMetricService cr n)))))"

definition MongoRemoveMemberAndDeleteSts ::
    "('w, 'm) benv \<Rightarrow> pod \<Rightarrow> string \<Rightarrow> bool \<Rightarrow> (('w, 'm) bstate, unit) go" where
  "MongoRemoveMemberAndDeleteSts E p host exporterEnable =
     andthen (as_sync (MongoRemoveMember E p host))
    (andthen (as_sync (bindg (gets b_cr) (\<lambda>cr. bindg (owner_of p) (\<lambda>n. api (DeleteSts (e_cli E) (cr_ns' cr) n)))))
       (if exporterEnable then as_sync (removeService E p) else ret ()))"

section \<open>Repair\<close>

text \<open>It removes every member of the host configuration, not only the one of the pod.\<close>

fun RemoveNodeToMember :: "('w, 'm) benv \<Rightarrow> string list \<Rightarrow> (('w, 'm) bstate, unit) go" where
  "RemoveNodeToMember E [] = ret ()"
| "RemoveNodeToMember E (addr # addrs) =
     with_client E (MongoClientWithOneNode E [addr]) (\<lambda>c.
       bindg (member_config E) (\<lambda>cm. bindg (lift_outcome (ConfigMapToMembers cm)) (\<lambda>members.
         andthen (db (Client_RemoveMembers (e_md E) (e_order E) c members)) (RemoveNodeToMember E addrs))))"

text \<open>
  The loop of \<open>AddNodeToMember\<close>: \<open>cfg\<close> is \<open>rsConfig\<close>, \<open>latest\<close> is \<open>okNodeClient\<close> and \<open>n\<close> counts the
  deferred closures, all of which disconnect the client that variable holds in the end.
\<close>

fun add_node_loop ::
    "('w, 'm) benv \<Rightarrow> rs_member list \<Rightarrow> string list \<Rightarrow> rs_config option \<Rightarrow> connection option \<Rightarrow> nat \<Rightarrow>
     (('w, 'm) bstate, gerror option \<times> rs_config option \<times> connection option \<times> nat) go" where
  "add_node_loop E members [] cfg latest n = ret (None, cfg, latest, n)"
| "add_node_loop E members (addr # addrs) cfg latest n =
     bindg (attempt (MongoClientWithOneNode E [addr])) (\<lambda>r. case r of
       Inl e \<Rightarrow> add_node_loop E members addrs cfg None n
     | Inr c \<Rightarrow> bindg (attempt (db (ReadConfig (e_md E) c))) (\<lambda>q. case q of
         Inl e \<Rightarrow> add_node_loop E members addrs None (Some c) (Suc n)
       | Inr None \<Rightarrow> panic ''nil pointer dereference''
       | Inr (Some rsConfig) \<Rightarrow>
           (case AddMembers (e_order E) (rc_members rsConfig) members of (newMembers, changed) \<Rightarrow>
              if \<not> changed then add_node_loop E members addrs (Some rsConfig) (Some c) (Suc n)
              else (let new = rsConfig\<lparr>rc_members := newMembers, rc_version := add64 (rc_version rsConfig) 1\<rparr>
                in bindg (attempt (db (WriteConfig (e_md E) c new))) (\<lambda>w. case w of
                     Inl e \<Rightarrow> ret (Some e, Some new, Some c, Suc n)
                   | Inr _ \<Rightarrow> add_node_loop E members addrs (Some new) (Some c) (Suc n))))))"

fun disconnect_times :: "('w, 'm) benv \<Rightarrow> connection option \<Rightarrow> nat \<Rightarrow> (('w, 'm) bstate, unit) go" where
  "disconnect_times E p 0 = ret ()"
| "disconnect_times E p (Suc n) = (case p of
     None \<Rightarrow> panic ''nil pointer dereference''
   | Some c \<Rightarrow> andthen (disconnect E c) (disconnect_times E p n))"

definition AddNodeToMember :: "('w, 'm) benv \<Rightarrow> string list \<Rightarrow> (('w, 'm) bstate, unit) go" where
  "AddNodeToMember E okNodeAddr = bindg (member_addrs E) (\<lambda>addr.
     with_client E (MongoClientWithOneNode E addr) (\<lambda>needWriteclient.
       bindg (member_config E) (\<lambda>cm. bindg (lift_outcome (ConfigMapToMembers cm)) (\<lambda>members.
         bindg (add_node_loop E members okNodeAddr None None 0) (\<lambda>(err, cfg, latest, n).
           with_defer (disconnect_times E latest n)
             (case err of
                Some e \<Rightarrow> fail e
              | None \<Rightarrow> (case cfg of
                  None \<Rightarrow> panic ''nil pointer dereference''
                | Some rsConfig \<Rightarrow> (case AddMembers (e_order E) (rc_members rsConfig) members of (newMembers, _) \<Rightarrow>
                    db (WriteConfig (e_md E) needWriteclient
                      (rsConfig\<lparr>rc_members := newMembers, rc_version := add64 (rc_version rsConfig) 1\<rparr>))))))))))"

text \<open>The loop over the addresses: the first client whose check works ends it and stays open.\<close>

fun find_unknown ::
    "('w, 'm) benv \<Rightarrow> string list \<Rightarrow> string list \<Rightarrow> string list \<Rightarrow> connection list \<Rightarrow>
     (('w, 'm) bstate, string list \<times> string list \<times> connection list) go" where
  "find_unknown E [] unKnowNode okNodeAddr opened = ret (unKnowNode, okNodeAddr, opened)"
| "find_unknown E (addr # addrs) unKnowNode okNodeAddr opened =
     bindg (attempt (MongoClientWithOneNode E [addr])) (\<lambda>r. case r of
       Inl e \<Rightarrow> find_unknown E addrs unKnowNode okNodeAddr opened
     | Inr c \<Rightarrow> bindg (db (CheckMemberStatus (e_md E) c)) (\<lambda>(err, unKnowNode, okNodeAddr). case err of
         None \<Rightarrow> ret (unKnowNode, okNodeAddr, opened)
       | Some e \<Rightarrow> find_unknown E addrs unKnowNode okNodeAddr (c # opened)))"

fun remove_unknown ::
    "('w, 'm) benv \<Rightarrow> string list \<Rightarrow> pod list \<Rightarrow> string \<Rightarrow> (('w, 'm) bstate, pod list) go" where
  "remove_unknown E okNodeAddr [] podName = ret []"
| "remove_unknown E okNodeAddr (p # ps) podName =
     (if pod_name p = podName
      then andthen (RemoveNodeToMember E okNodeAddr)
             (bindg (remove_unknown E okNodeAddr ps podName) (\<lambda>qs. ret (p # qs)))
      else remove_unknown E okNodeAddr ps podName)"

fun remove_all_unknown ::
    "('w, 'm) benv \<Rightarrow> string list \<Rightarrow> pod list \<Rightarrow> string list \<Rightarrow> (('w, 'm) bstate, pod list) go" where
  "remove_all_unknown E okNodeAddr pods [] = ret []"
| "remove_all_unknown E okNodeAddr pods (u # us) =
     bindg (remove_unknown E okNodeAddr pods u) (\<lambda>ps.
       bindg (remove_all_unknown E okNodeAddr pods us) (\<lambda>qs. ret (ps @ qs)))"

definition RestoreReplSet :: "('w, 'm) benv \<Rightarrow> pod list \<Rightarrow> (('w, 'm) bstate, unit) go" where
  "RestoreReplSet E pods = (case GetAvailablePod pods of
       None \<Rightarrow> fail (Sentinel ErrWaitRequeue)
     | Some _ \<Rightarrow> bindg (member_addrs E) (\<lambda>addrs.
         bindg (find_unknown E addrs [] [] []) (\<lambda>(unKnowNode, okNodeAddr, opened).
           with_defer (for_each opened (disconnect E))
             (if unKnowNode \<noteq> []
              then bindg (remove_all_unknown E okNodeAddr pods unKnowNode) (\<lambda>needAddNode.
                     for_each needAddNode (\<lambda>p. AddNodeToMember E okNodeAddr))
              else ret ()))))"


section \<open>Users (mongo\_user.go)\<close>

text \<open>The first pod's replica-set label; \<open>pods[0]\<close> panics on an empty list.\<close>

definition rs_name_of :: "pod list \<Rightarrow> (('w, 'm) bstate, string) go" where
  "rs_name_of pods = (case pods of p # _ \<Rightarrow> ret (pod_label p LabelKeyReplsetName)
     | [] \<Rightarrow> panic ''index out of range [0]'')"

text \<open>
  The loop of \<open>CreateRootUser\<close> with \<open>userCreateErr\<close>: \<open>Inl\<close> ends the function with that result (the
  condition was recorded on the way if it is nil), \<open>Inr\<close> leaves the loop.
\<close>

fun create_root_loop ::
    "('w, 'm) benv \<Rightarrow> string \<Rightarrow> string \<Rightarrow> pod list \<Rightarrow> gerror option \<Rightarrow>
     (('w, 'm) bstate, unit + gerror option) go" where
  "create_root_loop E rsName cmd [] userCreateErr = ret (Inr userCreateErr)"
| "create_root_loop E rsName cmd (p # ps) userCreateErr =
     bindg (exec_in E p cmd) (\<lambda>(stdout, err). case err of
       Some e \<Rightarrow>
         if go_contains stdout CreateUserUnauthorized
         then bindg (UpdateConds E [true_condition ConditionTypeUserRoot rsName]) (\<lambda>_. ret (Inl ()))
         else if go_contains stdout CreateUserNotMaster then create_root_loop E rsName cmd ps userCreateErr
         else fail e
     | None \<Rightarrow>
         if go_contains stdout CreateUserSuccess then ret (Inr None)
         else create_root_loop E rsName cmd ps (Some (NewErr (''create root user fail, stdout: '' @ stdout))))"

definition CreateRootUser :: "('w, 'm) benv \<Rightarrow> pod list \<Rightarrow> (('w, 'm) bstate, unit) go" where
  "CreateRootUser E pods = bindg (rs_name_of pods) (\<lambda>rsName.
     bindg (gets (condition_true ConditionTypeUserRoot rsName)) (\<lambda>created.
       if created then ret ()
       else bindg (user_secret E MongoRoot) (\<lambda>rootSecret.
         let field = gm_get '''' (sec_data rootSecret);
             cmd = MongoShellEvalNoAuth (CreateUserScript (field MongoUser) (field MongoPassword))
         in bindg (create_root_loop E rsName cmd (PodFilter pods [podFilterNotArbiter, podFilterNotExporter])
              (Some (NewErr ''root user create failed''))) (\<lambda>r. case r of
              Inl _ \<Rightarrow> ret ()
            | Inr (Some e) \<Rightarrow> fail e
            | Inr None \<Rightarrow> UpdateConds E [true_condition ConditionTypeUserRoot rsName]))))"

definition root_client :: "('w, 'm) benv \<Rightarrow> config_map \<Rightarrow> secret \<Rightarrow> (('w, 'm) bstate, connection) go" where
  "root_client E cm rootSecret = bindg (lift_outcome (ConfigMapToAddress cm)) (\<lambda>addrs.
     dial_as E rootSecret addrs False)"

text \<open>
  Only the two cluster users are ever passed; for another name the condition type would be the empty
  text. Without the monitoring exporter the monitor user is not needed.
\<close>

definition CreateClusterUser ::
    "('w, 'm) benv \<Rightarrow> pod list \<Rightarrow> config_map \<Rightarrow> string \<Rightarrow> (('w, 'm) bstate, unit) go" where
  "CreateClusterUser E pods cm user = bindg (gets b_cr) (\<lambda>cr. bindg (rs_name_of pods) (\<lambda>rsName.
     bindg (if user = MongoClusterAdmin then ret (Some ConditionTypeUserClusterAdmin)
            else if user = MongoClusterMonitor then
              (case mgs_exporter (mg_spec cr) of
                 None \<Rightarrow> panic ''nil pointer dereference''
               | Some x \<Rightarrow> ret (if \<not> xs_enable x then None else Some ConditionTypeUserClusterMonitor))
            else ret (Some (OtherMongoCondition ''''))) (\<lambda>t. case t of
       None \<Rightarrow> ret ()
     | Some conditionType \<Rightarrow>
         bindg (gets (condition_true conditionType rsName)) (\<lambda>created.
           if created then ret ()
           else bindg (user_secret E MongoRoot) (\<lambda>rootSecret. bindg (user_secret E user) (\<lambda>userSecret.
             with_client E (root_client E cm rootSecret) (\<lambda>c.
               andthen (db (CreateUserBySecret (e_md E) c userSecret))
                 (UpdateConds E [true_condition conditionType rsName]))))))))"

definition CreateOrUpdateDBUser ::
    "('w, 'm) benv \<Rightarrow> pod list \<Rightarrow> config_map \<Rightarrow> bool \<Rightarrow> string \<Rightarrow> (('w, 'm) bstate, unit) go" where
  "CreateOrUpdateDBUser E pods cm needUpdate pw = bindg (gets b_cr) (\<lambda>cr.
     let u = mgs_db_user (mg_spec cr) in
     if \<not> du_enable u then ret ()
     else bindg (rs_name_of pods) (\<lambda>rsName. bindg (user_secret E MongoRoot) (\<lambda>rootSecret.
       with_client E (root_client E cm rootSecret) (\<lambda>c.
         bindg (gets (condition_true ConditionTypeUserDB rsName)) (\<lambda>created.
           if created
           then (if needUpdate then db (ChangeUserPassword (e_md E) c (du_user u) pw) else ret ())
           else andthen (db (CreateUserBySpec (e_md E) c (du_user u) (du_password u)
                  [(MongoReadWrite, du_name u)]))
                (UpdateConds E [true_condition ConditionTypeUserDB rsName]))))))"

definition CreateMongoUser ::
    "('w, 'm) benv \<Rightarrow> pod list \<Rightarrow> config_map \<Rightarrow> bool \<Rightarrow> string \<Rightarrow> (('w, 'm) bstate, unit) go" where
  "CreateMongoUser E pods cm needUpdate pw =
     andthen (CreateRootUser E pods)
    (andthen (CreateClusterUser E pods cm MongoClusterAdmin)
    (andthen (CreateClusterUser E pods cm MongoClusterMonitor)
             (CreateOrUpdateDBUser E pods cm needUpdate pw)))"

end
