(* ===== verification/Mongo_Sync.thy ===== *)
theory Mongo_Sync
  imports Mongo_Config
begin

text \<open>
  Bringing the stateful sets and the replica set of a member cluster to the specification:
  \<open>core/sync.go\<close>. The three seconds left for a primary to step down are no step of the model.
\<close>

section \<open>Services and pods\<close>

definition ensureService :: "('w, 'm) benv \<Rightarrow> pod \<Rightarrow> (('w, 'm) bstate, unit) go" where
  "ensureService E p = bindg (gets b_cr) (\<lambda>cr. case mgs_exporter (mg_spec cr) of
     None \<Rightarrow> panic ''nil pointer dereference''
   | Some x \<Rightarrow> if xs_enable x
       then bindg (owner_of p) (\<lambda>n. bindg (gets held) (\<lambda>h. EnsureService E (BuildMetricService h n)))
       else ret ())"

text \<open>\<open>wait.Poll\<close> calls the condition \<open>n\<close> times before it gives up.\<close>

fun poll :: "nat \<Rightarrow> ('s, bool) go \<Rightarrow> ('s, unit) go" where
  "poll 0 cond = fail (NewErr ''timed out waiting for the condition'')"
| "poll (Suc n) cond = bindg cond (\<lambda>done. if done then ret () else poll n cond)"

definition InitializationMongoCheck :: "('w, 'm) benv \<Rightarrow> labels \<Rightarrow> (('w, 'm) bstate, unit) go" where
  "InitializationMongoCheck E selector =
     poll (e_polls E) (bindg (list_pods E selector []) (\<lambda>pods. bindg (gets b_cr) (\<lambda>cr.
       ret (\<not> int (length pods) < mgs_members (mg_spec cr)))))"

definition EnsureMembers :: "('w, 'm) benv \<Rightarrow> pod list \<Rightarrow> (('w, 'm) bstate, unit) go" where
  "EnsureMembers E pods =
     (if pods = [] then ret ()
      else andthen (for_each pods (ensureService E)) (for_each pods (MongoEnsureMemberConfig E)))"

section \<open>Shrinking\<close>

text \<open>The primary of the reported node steps down first; \<open>target\<close> is \<open>len(found) - m\<close>.\<close>

definition exporter_enabled :: "(('w, 'm) bstate, bool) go" where
  "exporter_enabled = bindg (gets b_cr) (\<lambda>cr. case mgs_exporter (mg_spec cr) of
     None \<Rightarrow> panic ''nil pointer dereference'' | Some x \<Rightarrow> ret (xs_enable x))"

fun scale_down_loop :: "('w, 'm) benv \<Rightarrow> int \<Rightarrow> nat \<Rightarrow> pod list \<Rightarrow> (('w, 'm) bstate, unit) go" where
  "scale_down_loop E target removed [] = ret ()"
| "scale_down_loop E target removed (p # ps) =
     bindg (as_sync (GetMgoDataNodeInfo E p)) (\<lambda>info.
       andthen (if sr_is_master info then StepDown E p else ret ())
         (bindg exporter_enabled (\<lambda>enable.
           andthen (MongoRemoveMemberAndDeleteSts E p (sr_me info) enable)
             (if target = int (Suc removed) then ret () else scale_down_loop E target (Suc removed) ps))))"

definition scaleDownDataNode ::
    "('w, 'm) benv \<Rightarrow> stateful_set list \<Rightarrow> int \<Rightarrow> labels \<Rightarrow> (('w, 'm) bstate, unit) go" where
  "scaleDownDataNode E found m selector =
     bindg (as_sync (list_pods E (AddDataLabel selector) [])) (\<lambda>podList.
       scale_down_loop E (int (length found) - m) 0 podList)"

definition scaleDownArbiterNode :: "('w, 'm) benv \<Rightarrow> labels \<Rightarrow> (('w, 'm) bstate, unit) go" where
  "scaleDownArbiterNode E selector =
     bindg (as_sync (member_config E)) (\<lambda>cm.
     bindg (lift_outcome (ConfigMapToArbiterMember cm)) (\<lambda>_.
     bindg (gets b_cr) (\<lambda>cr.
     bindg (as_sync (api (ListSts (e_cli E) (cr_ns' cr) (AddArbiterLabel selector)))) (\<lambda>found.
       if found \<noteq> [] then
         bindg (as_sync (list_pods E (AddArbiterLabel selector) [])) (\<lambda>podList. case podList of
             [] \<Rightarrow> fail (Wrap (Sentinel ErrObjSync) '''')
           | p # _ \<Rightarrow> bindg (as_sync (GetMgoArbiterNodeInfo E p)) (\<lambda>host.
               bindg exporter_enabled (\<lambda>enable. MongoRemoveMemberAndDeleteSts E p host enable)))
       else ret ()))))"

section \<open>Synchronisation\<close>

definition ArbiterName :: string where "ArbiterName = ''arbiter''"
definition ServiceNameInfix :: string where "ServiceNameInfix = ''mongodb''"

text \<open>\<open>if cr.Status.State != StateReconciling { UpdateState(StateReconciling) }\<close>\<close>

definition to_reconciling :: "('w, 'm) benv \<Rightarrow> (('w, 'm) bstate, unit) go" where
  "to_reconciling E = bindg (gets b_cr) (\<lambda>cr.
     if mgt_state (mg_status cr) \<noteq> StateReconciling then as_sync (UpdateState E StateReconciling) else ret ())"

definition ensure_member_sts ::
    "('w, 'm) benv \<Rightarrow> string \<Rightarrow> labels \<Rightarrow> (('w, 'm) bstate, unit) go" where
  "ensure_member_sts E name ls = bindg (gets held) (\<lambda>h. bindg (gets b_cr) (\<lambda>cr.
     bindg (lift_outcome (MongoSts (e_parse E) (e_img E) h name ls
         (CommandReplSet (gm_get '''' ls LabelKeyReplsetName) (mgs_custom_config_ref (mg_spec cr)))))
       (\<lambda>sts. as_sync (EnsureSts E sts))))"

text \<open>One stateful set per service of the instance, the arbiter's aside.\<close>

definition grow :: "('w, 'm) benv \<Rightarrow> labels \<Rightarrow> (('w, 'm) bstate, unit) go" where
  "grow E dataLabels = bindg (gets b_cr) (\<lambda>cr.
     bindg (as_sync (api (ListService (e_cli E) (cr_ns' cr) [(LabelKeyInstance, cr_name' cr)]))) (\<lambda>serviceList.
       for_each serviceList (\<lambda>svc.
         if has_suffix (om_name (svc_meta svc)) ArbiterName then ret ()
         else ensure_member_sts E (om_name (svc_meta svc)) dataLabels)))"

definition sync_arbiter :: "('w, 'm) benv \<Rightarrow> labels \<Rightarrow> (('w, 'm) bstate, unit) go" where
  "sync_arbiter E selector = bindg (gets b_cr) (\<lambda>cr.
     if mgs_arbiter (mg_spec cr)
     then ensure_member_sts E (cr_name' cr @ ''-'' @ ServiceNameInfix @ ''-'' @ ArbiterName) (AddArbiterLabel selector)
     else ret ())"

definition drop_arbiter :: "('w, 'm) benv \<Rightarrow> labels \<Rightarrow> (('w, 'm) bstate, unit) go" where
  "drop_arbiter E selector = bindg (gets b_cr) (\<lambda>cr.
     if \<not> mgs_arbiter (mg_spec cr) then scaleDownArbiterNode E selector else ret ())"

definition sync_pods :: "('w, 'm) benv \<Rightarrow> labels \<Rightarrow> (('w, 'm) bstate, unit) go" where
  "sync_pods E selector =
     andthen (as_sync (InitializationMongoCheck E selector))
     (bindg (gets b_cr) (\<lambda>cr.
      bindg (as_sync (api (ListSts (e_cli E) (cr_ns' cr) selector))) (\<lambda>stsList.
      bindg (as_sync (list_pods E selector [])) (\<lambda>podList.
      bindg (lift_outcome (FilterPodsIsDeleted podList stsList)) (EnsureMembers E)))))"

definition SyncMember :: "('w, 'm) benv \<Rightarrow> labels \<Rightarrow> (('w, 'm) bstate, unit) go" where
  "SyncMember E selector = bindg (gets b_cr) (\<lambda>cr.
     let m = mgs_members (mg_spec cr); dataLabels = AddDataLabel selector
     in bindg (as_sync (api (ListSts (e_cli E) (cr_ns' cr) dataLabels))) (\<lambda>found.
          andthen (if m \<noteq> int (length found) then to_reconciling E else ret ())
         (andthen (if m > int (length found) then grow E dataLabels else ret ())
         (andthen (if m < int (length found) then scaleDownDataNode E found m selector else ret ())
         (andthen (sync_arbiter E selector)
         (andthen (drop_arbiter E selector)
                  (sync_pods E selector)))))))"

end
