(* ===== verification/Mongo_Replica.thy ===== *)
theory Mongo_Replica
  imports Mongo_Sync
begin

text \<open>
  The replica-set mode of the MongoDB controller: \<open>mode/replica/replica.go\<close>. \<open>GetMongoInstance\<close>
  (\<open>mode/mongo.go\<close>) builds it whatever the type of the resource. Its \<open>expectedCount\<close> is an argument of
  \<open>PostConfig\<close> (0 until \<open>Sync\<close> has set it).
\<close>

section \<open>PreConfig\<close>

definition wrapped :: "string \<Rightarrow> (('w, 'm) bstate, 'a) go \<Rightarrow> (('w, 'm) bstate, 'a) go" where
  "wrapped msg m = bindg (attempt m) (\<lambda>r. case r of Inr x \<Rightarrow> ret x | Inl e \<Rightarrow> fail (Wrap e msg))"

text \<open>A missing ConfigMap only moves the state to Reconciling; other errors of the read are dropped.\<close>

definition check_config :: "('w, 'm) benv \<Rightarrow> string \<Rightarrow> (('w, 'm) bstate, unit) go" where
  "check_config E name = bindg (gets b_cr) (\<lambda>cr.
     bindg (attempt (api (GetConfigMap (e_cli E) name (cr_ns' cr)))) (\<lambda>r. case r of
       Inr _ \<Rightarrow> ret ()
     | Inl e \<Rightarrow> if is_not_found e then to_reconciling E else ret ()))"

definition image_registry :: "string \<Rightarrow> string" where
  "image_registry img = hd (go_split ''/'' img)"

definition PreConfig :: "('w, 'm) benv \<Rightarrow> (('w, 'm) bstate, unit) go" where
  "PreConfig E =
     andthen (wrapped '''' (UpdateRevision E))
    (bindg (gets b_cr) (\<lambda>cr. bindg (wrapped '''' (api (ListService (e_cli E) (cr_ns' cr) [(LabelKeyInstance, cr_name' cr)])))
      (\<lambda>found.
     andthen (if found = [] \<or> int (length found) < mgs_members (mg_spec cr) then to_reconciling E else ret ())
    (andthen (bindg (gets b_cr) (\<lambda>cr. check_config E (mgs_member_config_ref (mg_spec cr))))
    (andthen (wrapped '''' (MongoBase_EnsureSecret E))
    (andthen (bindg (gets b_cr) (\<lambda>cr. if mgs_custom_config_ref (mg_spec cr) \<noteq> ''''
                then check_config E (mgs_custom_config_ref (mg_spec cr)) else ret ()))
             (bindg (gets b_cr) (\<lambda>cr.
                let ps = mgs_pull_secret (mg_spec cr)
                in if pl_username ps \<noteq> '''' \<and> pl_password ps \<noteq> ''''
                   then wrapped '''' (EnsureImagePullSecret E (image_registry (mgs_image (mg_spec cr)))
                     (pl_username ps) (pl_password ps) (cr_ns' cr) (cr_name' cr @ ''-image-pull-secret''))
                   else ret ()))))))))"

section \<open>Sync and PostConfig\<close>

text \<open>\<open>Sync\<close> returns the count it expects.\<close>

definition Sync :: "('w, 'm) benv \<Rightarrow> (('w, 'm) bstate, int) go" where
  "Sync E = bindg (gets b_cr) (\<lambda>cr. bindg (gets held) (\<lambda>h.
     andthen (SyncMember E (replSetLabel (mg_meta h) False)) (ret (mgs_members (mg_spec cr)))))"

definition replset_pods :: "('w, 'm) benv \<Rightarrow> (('w, 'm) bstate, pod list) go" where
  "replset_pods E = bindg (gets held) (\<lambda>h.
     list_pods E (WithBaseLabel (mg_meta h) [[(LabelKeyRole, LabelValReplset)]]) [])"

text \<open>The error of the first read is overwritten by that of the second: it counts as no pods.\<close>

definition PostConfig :: "('w, 'm) benv \<Rightarrow> int \<Rightarrow> (('w, 'm) bstate, unit) go" where
  "PostConfig E expectedCount =
     bindg (attempt (replset_pods E)) (\<lambda>r. let pods = (case r of Inr ps \<Rightarrow> ps | Inl e \<Rightarrow> []) in
     bindg (member_config E) (\<lambda>cm.
     andthen (lift_outcome (CheckPodsReady expectedCount pods))
    (andthen (ReplSetInit E pods cm)
    (bindg (gets b_cr) (\<lambda>cr.
      let pw = du_password (mgs_db_user (mg_spec cr)); old = ci_db_password (mgt_current (mg_status cr));
          needUpdate = (pw \<noteq> old \<and> old \<noteq> '''')
      in andthen (CreateMongoUser E pods cm needUpdate pw)
        (andthen (bindg (gets b_cr) (\<lambda>cr. UpdateCurrentDBUserPW E (du_password (mgs_db_user (mg_spec cr)))))
        (andthen (UpdateRSStatus E) (CheckMemberRole E))))))))"

section \<open>Restart\<close>

definition judgePodIsPrimary :: "('w, 'm) benv \<Rightarrow> pod \<Rightarrow> string \<Rightarrow> (('w, 'm) bstate, bool) go" where
  "judgePodIsPrimary E p primary =
     bindg (attempt (GetServiceNodePort E p)) (\<lambda>r. case r of
       Inl err \<Rightarrow> fail (NewErr (''get pod service nodeport err: '' @ err_text err))
     | Inr nodePort \<Rightarrow> bindg (gets b_cr) (\<lambda>cr.
         ret (gm_get '''' (om_labels (mg_meta cr)) LabelKeyClusterVIP @ '':'' @ itoa (sint nodePort) = primary)))"

text \<open>
  The resources of every container named like the database; each change is written at once, with
  the resource version cleared on the first object only (the answer sets it again).
\<close>

definition set_resources :: "nat \<Rightarrow> resource_setting \<Rightarrow> stateful_set \<Rightarrow> stateful_set" where
  "set_resources i r sts = sts\<lparr>ss_containers := (ss_containers sts)[i := (ss_containers sts ! i)\<lparr>ct_resources := r\<rparr>]\<rparr>"

fun update_containers ::
    "('w, 'm) benv \<Rightarrow> (nat \<times> container) list \<Rightarrow> stateful_set \<Rightarrow> (('w, 'm) bstate, unit) go" where
  "update_containers E [] sts = ret ()"
| "update_containers E ((i, c) # cs) sts =
     (if ct_name c = ContainerName
      then if \<not> i < length (ss_containers sts) then panic ''index out of range'' else bindg (gets b_cr) (\<lambda>cr. case mgs_resources (mg_spec cr) of
          None \<Rightarrow> panic ''nil pointer dereference''
        | Some r \<Rightarrow> bindg (api (UpdateObject (e_cli E) (OSts (set_resources i r sts)))) (\<lambda>y. case y of
            OSts t \<Rightarrow> update_containers E cs t
          | _ \<Rightarrow> panic ''interface conversion''))
      else update_containers E cs sts)"

definition apply_resources :: "('w, 'm) benv \<Rightarrow> pod \<Rightarrow> (('w, 'm) bstate, unit) go" where
  "apply_resources E p = bindg (owner_of p) (\<lambda>n. bindg (gets b_cr) (\<lambda>cr.
     bindg (api (GetSts (e_cli E) n (cr_ns' cr))) (\<lambda>sts.
       update_containers E (enumerate 0 (ss_containers sts)) (sts\<lparr>ss_meta := (ss_meta sts)\<lparr>om_rv := ''''\<rparr>\<rparr>))))"

definition delete_in_restart :: "('w, 'm) benv \<Rightarrow> pod \<Rightarrow> (('w, 'm) bstate, unit) go" where
  "delete_in_restart E p = bindg (gets b_cr) (\<lambda>cr.
     bindg (attempt (DeletePodInRestart E (mgt_revision (mg_status cr)) p)) (\<lambda>r. case r of
       Inr _ \<Rightarrow> ret ()
     | Inl err \<Rightarrow> fail (NewErr (''failed to apply changes: '' @ err_text err))))"

definition delete_secondaries :: "('w, 'm) benv \<Rightarrow> string \<Rightarrow> pod list \<Rightarrow> (('w, 'm) bstate, unit) go" where
  "delete_secondaries E primary pods = for_each pods (\<lambda>p.
     bindg (judgePodIsPrimary E p primary) (\<lambda>isPrimary.
       if \<not> isPrimary then delete_in_restart E p else ret ()))"

definition delete_primary :: "('w, 'm) benv \<Rightarrow> string \<Rightarrow> pod list \<Rightarrow> (('w, 'm) bstate, unit) go" where
  "delete_primary E primary pods = for_each pods (\<lambda>p.
     bindg (judgePodIsPrimary E p primary) (\<lambda>isPrimary.
       if isPrimary then andthen (StepDown E p) (delete_in_restart E p) else ret ()))"

text \<open>The result beside the error: whether the restart is over.\<close>

definition finish_restart ::
    "('w, 'm) benv \<Rightarrow> bool \<Rightarrow> (('w, 'm) bstate, unit) go \<Rightarrow> restart_state \<Rightarrow>
     (('w, 'm) bstate, bool \<times> gerror option) go" where
  "finish_restart E over work next = bindg (attempt work) (\<lambda>r. case r of
       Inl err \<Rightarrow> ret (False, Some err)
     | Inr _ \<Rightarrow> bindg (attempt (UpdateRestartState E next)) (\<lambda>q. case q of
         Inl err \<Rightarrow> ret (over, Some err)
       | Inr _ \<Rightarrow> ret (over, None)))"

text \<open>The switch over the restart state.\<close>

definition restart_step ::
    "('w, 'm) benv \<Rightarrow> string \<Rightarrow> pod list \<Rightarrow> restart_state \<Rightarrow> (('w, 'm) bstate, bool \<times> gerror option) go" where
  "restart_step E primary pods st = (case st of
     RestartNotInProcess \<Rightarrow> finish_restart E False (delete_secondaries E primary pods) RestartSecondaryDeleted
   | RestartNone \<Rightarrow> finish_restart E False (delete_secondaries E primary pods) RestartSecondaryDeleted
   | RestartSecondaryDeleted \<Rightarrow> finish_restart E False (delete_primary E primary pods) RestartPrimaryDeleted
   | RestartPrimaryDeleted \<Rightarrow> finish_restart E True (ret ()) RestartNotInProcess
   | OtherRestart t \<Rightarrow> panic ''unknown restart state'')"

definition Restart :: "('w, 'm) benv \<Rightarrow> (('w, 'm) bstate, bool \<times> gerror option) go" where
  "Restart E =
     bindg (attempt (replset_pods E)) (\<lambda>r. case r of
       Inl e \<Rightarrow> ret (False, Some e)
     | Inr pods \<Rightarrow> bindg (gets b_cr) (\<lambda>cr. case CheckPodsReady (mgs_members (mg_spec cr)) pods of
         Panic q \<Rightarrow> panic q
       | Err _ \<Rightarrow> ret (False, None)
       | Ok _ \<Rightarrow> bindg (attempt (GetPrimaryPod E)) (\<lambda>r. case r of
           Inl err \<Rightarrow> ret (False, Some (NewErr (''get primary pod err: '' @ err_text err)))
         | Inr primary \<Rightarrow> bindg (attempt (for_each pods (apply_resources E))) (\<lambda>r. case r of
             Inl err \<Rightarrow> ret (False, Some err)
           | Inr _ \<Rightarrow> bindg (gets b_cr) (\<lambda>cr. restart_step E primary pods (mgt_restart (mg_status cr)))))))"

end
