(* ===== verification/Mongo_Controller.thy ===== *)
theory Mongo_Controller
  imports Mongo_Replica
begin

text \<open>
  The reconciler of MongoDB resources on a member cluster: \<open>controllers/mongodb_controller.go\<close>.
  Events, metrics and logs are left out. The reconciler's own pointer \<open>cr\<close> is \<open>held\<close>: after a refresh
  inside a status write it is no longer the object the base works on.
\<close>

section \<open>The reconciler's object\<close>

definition mongoDBFinalizerName :: string where
  "mongoDBFinalizerName = ''mongodb.finalizers.middleware.fedstate.io''"

definition change_held :: "(mongodb \<Rightarrow> mongodb) \<Rightarrow> (('w, 'm) bstate, unit) go" where
  "change_held f = modify (\<lambda>s. case b_held s of
     None \<Rightarrow> s\<lparr>b_cr := f (b_cr s)\<rparr> | Some x \<Rightarrow> s\<lparr>b_held := Some (f x)\<rparr>)"

definition update_held :: "('w, 'm) benv \<Rightarrow> (('w, 'm) bstate, unit) go" where
  "update_held E = bindg (gets held) (\<lambda>cr. bindg (api (c_update (e_cli E) (OMongo cr))) (\<lambda>y. case y of
     OMongo c \<Rightarrow> change_held (\<lambda>_. c)
   | _ \<Rightarrow> panic ''interface conversion''))"

fun ContainsString :: "string list \<Rightarrow> string \<Rightarrow> bool" where
  "ContainsString [] s = False"
| "ContainsString (x # xs) s = (if x = s then True else ContainsString xs s)"

lemma ContainsString_iff: "ContainsString xs s \<longleftrightarrow> s \<in> set xs"
  by (induction xs) auto

definition set_mongo_finalizers :: "(string list \<Rightarrow> string list) \<Rightarrow> mongodb \<Rightarrow> mongodb" where
  "set_mongo_finalizers f cr = cr\<lparr>mg_meta := (mg_meta cr)\<lparr>om_finalizers := f (om_finalizers (mg_meta cr))\<rparr>\<rparr>"

section \<open>Restart on changed resources\<close>

text \<open>\<open>Cpu()\<close> and \<open>Memory()\<close> of a list are zero where it has no entry.\<close>

definition same_quantity :: "(string, quantity) gomap \<Rightarrow> (string, quantity) gomap \<Rightarrow> bool" where
  "same_quantity a b \<longleftrightarrow> gm_get 0 a ''cpu'' = gm_get 0 b ''cpu'' \<and> gm_get 0 a ''memory'' = gm_get 0 b ''memory''"

definition same_setting :: "resource_setting \<Rightarrow> resource_setting \<Rightarrow> bool" where
  "same_setting a b \<longleftrightarrow> same_quantity (rs_limits a) (rs_limits b) \<and> same_quantity (rs_requests a) (rs_requests b)"

text \<open>\<open>err = m()\<close> where a later statement decides what becomes of \<open>err\<close>.\<close>

definition error_of :: "('s, unit) go \<Rightarrow> ('s, gerror option) go" where
  "error_of m = bindg (attempt m) (\<lambda>r. case r of Inr _ \<Rightarrow> ret None | Inl e \<Rightarrow> ret (Some e))"

text \<open>
  The result is the error and whether the state should become Reconciling. The error of the state
  update before \<open>Restart\<close> is overwritten; the deferred closure records the resources once a restart is
  over.
\<close>

definition checkRestart :: "('w, 'm) benv \<Rightarrow> (('w, 'm) bstate, gerror option \<times> bool) go" where
  "checkRestart E = bindg (gets held) (\<lambda>cr.
     let srs = mgs_resources (mg_spec cr)
     in (case ci_resources (mgt_current (mg_status cr)) of
           None \<Rightarrow> bindg (error_of (UpdateCurrentResources E srs)) (\<lambda>err. ret (err, True))
         | Some crs \<Rightarrow> (case srs of
             None \<Rightarrow> panic ''nil pointer dereference''
           | Some r \<Rightarrow>
               if same_setting r crs then ret (None, False)
               else andthen
                 (if mgt_state (mg_status cr) \<noteq> StateReconciling
                  then bindg (error_of (UpdateState E StateReconciling)) (\<lambda>_. ret ()) else ret ())
                 (bindg (Restart E) (\<lambda>(restartOver, err).
                    if err = None \<and> restartOver
                    then bindg (error_of (UpdateCurrentResources E srs)) (\<lambda>err. ret (err, True))
                    else ret (err, True))))))"

section \<open>Results\<close>

type_synonym outcome_of_round = "int option \<times> gerror option" \<comment> \<open>RequeueAfter in seconds, error\<close>

text \<open>\<open>if err := m(); err != nil { return res, err }\<close>\<close>

definition or_return ::
    "int option \<Rightarrow> (('w, 'm) bstate, 'a) go \<Rightarrow> ('a \<Rightarrow> (('w, 'm) bstate, outcome_of_round) go) \<Rightarrow>
     (('w, 'm) bstate, outcome_of_round) go" where
  "or_return res m f = bindg (attempt m) (\<lambda>r. case r of Inr x \<Rightarrow> f x | Inl err \<Rightarrow> ret (res, Some err))"

definition handle_success :: "('w, 'm) benv \<Rightarrow> (('w, 'm) bstate, outcome_of_round) go" where
  "handle_success E =
     or_return None (UpdateState E StateRunning) (\<lambda>_.
     or_return None (bindg (gets b_cr) (\<lambda>cr. UpdateCurrentMembers E (mgs_members (mg_spec cr)))) (\<lambda>_.
       ret (Some 60, None)))"

text \<open>The error that \<open>UpdateState(StateError)\<close> adds is only logged.\<close>

definition handle_failure :: "('w, 'm) benv \<Rightarrow> (('w, 'm) bstate, outcome_of_round) go" where
  "handle_failure E =
     andthen (bindg (error_of (UpdateState E StateError)) (\<lambda>_. ret ()))
    (bindg (gets held) (\<lambda>h.
     or_return (Some 5) (list_pods E (AddDataLabel (WithBaseLabel (mg_meta h) [])) []) (\<lambda>pods.
     or_return (Some 5) (UpdateErrRSStatus E pods) (\<lambda>_.
     or_return (Some 5) (RestoreReplSet E pods) (\<lambda>_. ret (Some 5, None))))))"

definition handleReturn :: "('w, 'm) benv \<Rightarrow> gerror option \<Rightarrow> (('w, 'm) bstate, outcome_of_round) go" where
  "handleReturn E err = (case err of
     None \<Rightarrow> handle_success E
   | Some e \<Rightarrow> bindg (gets b_cr) (\<lambda>cr.
       or_return (Some 5) (if mgt_state (mg_status cr) \<noteq> StateReconciling then UpdateState E StateReconciling else ret ())
         (\<lambda>_.
           if err_is e ErrObjSync then ret (Some 5, Some e)
           else if err_is e ErrWaitRequeue then or_return (Some 5) (UpdateRSStatus E) (\<lambda>_. ret (Some 5, None))
           else handle_failure E)))"

section \<open>The reconciler\<close>

text \<open>\<open>if err := m(); err != nil { return r.handleReturn(..., err) }\<close>\<close>

definition or_handle ::
    "('w, 'm) benv \<Rightarrow> (('w, 'm) bstate, 'a) go \<Rightarrow> ('a \<Rightarrow> (('w, 'm) bstate, outcome_of_round) go) \<Rightarrow>
     (('w, 'm) bstate, outcome_of_round) go" where
  "or_handle E m f = bindg (attempt m) (\<lambda>r. case r of Inr x \<Rightarrow> f x | Inl err \<Rightarrow> handleReturn E (Some err))"

definition remove_mongo :: "('w, 'm) benv \<Rightarrow> (('w, 'm) bstate, outcome_of_round) go" where
  "remove_mongo E =
     andthen (change_held (\<lambda>c. c\<lparr>mg_spec := (mg_spec c)\<lparr>mgs_members := 0\<rparr>\<rparr>))
    (or_return None (Sync E) (\<lambda>_.
     andthen (change_held (set_mongo_finalizers (removeAll mongoDBFinalizerName)))
    (or_return None (update_held E) (\<lambda>_. ret (None, None)))))"

definition converge :: "('w, 'm) benv \<Rightarrow> (('w, 'm) bstate, outcome_of_round) go" where
  "converge E =
     bindg (checkRestart E) (\<lambda>(err, stateNeedReconciling). case err of
       Some e \<Rightarrow> ret (None, Some e)
     | None \<Rightarrow> bindg (gets held) (\<lambda>cr.
         or_return None
           (if stateNeedReconciling \<and> mgt_state (mg_status cr) \<noteq> StateReconciling \<or> mgt_state (mg_status cr) = StateError
            then UpdateState E StateReconciling else ret ())
         (\<lambda>_. or_handle E (PreConfig E)
         (\<lambda>_. or_handle E (Sync E)
         (\<lambda>expectedCount. or_handle E (PostConfig E expectedCount)
         (\<lambda>_. handleReturn E None))))))"

definition reconcile_mongo :: "('w, 'm) benv \<Rightarrow> (('w, 'm) bstate, outcome_of_round) go" where
  "reconcile_mongo E = bindg (gets b_cr) (\<lambda>cr.
     if \<not> om_deleting (mg_meta cr) then
       or_return None
         (if \<not> ContainsString (om_finalizers (mg_meta cr)) mongoDBFinalizerName
          then andthen (change_held (set_mongo_finalizers (\<lambda>fs. fs @ [mongoDBFinalizerName]))) (update_held E)
          else ret ())
         (\<lambda>_. bindg (gets b_cr) (\<lambda>cr.
            if mgs_pause (mg_spec cr)
            then or_return None (UpdateState E StatePause) (\<lambda>_. ret (None, None))
            else converge E))
     else if ContainsString (om_finalizers (mg_meta cr)) mongoDBFinalizerName then remove_mongo E
     else ret (None, None))"

text \<open>A round starts with the object as it is stored; the two worlds are its state.\<close>

definition Mongo_Reconcile ::
    "('w, 'm) benv \<Rightarrow> string \<Rightarrow> string \<Rightarrow> 'w \<times> 'm \<Rightarrow> outcome_of_round outcome \<times> 'w \<times> 'm" where
  "Mongo_Reconcile E ns n = (\<lambda>(w, d).
     case c_get (e_cli E) (KMongo, ns, n) w of
       (Ok (OMongo cr), w') \<Rightarrow>
         (case reconcile_mongo E \<lparr>b_cr = cr, b_held = None, b_api = w', b_db = d\<rparr> of
            (r, s') \<Rightarrow> (r, b_api s', b_db s'))
     | (Ok _, w') \<Rightarrow> (Panic ''interface conversion'', w', d)
     | (Err e, w') \<Rightarrow> (Ok (None, if is_not_found e then None else Some e), w', d)
     | (Panic p, w') \<Rightarrow> (Panic p, w', d))"

end
