(* ===== verification/Plane_Samples.thy ===== *)
theory Plane_Samples
  imports Mongo_Controller
begin

text \<open>
  One member cluster on the in-memory server and database: the instance \<open>m\<close> with its host ConfigMap,
  the secret of the cluster administrator, two services with their stateful sets and ready pods, and a
  replica set whose first member is the primary. The laws of the data plane are applied to it.
\<close>

definition plane_mongo :: mongodb where
  "plane_mongo = ready_mongo
     \<lparr>mg_meta := (mg_meta ready_mongo)
        \<lparr>om_labels := [(LabelKeyClusterVIP, ''10.0.0.1'')], om_rv := ''7'', om_finalizers := [mongoDBFinalizerName]\<rparr>,
      mg_spec := (mg_spec ready_mongo)\<lparr>mgs_members := 2\<rparr>,
      mg_status := empty_mongo_status\<lparr>mgt_revision := ''m-h''\<rparr>\<rparr>"

definition plane_line :: "string \<Rightarrow> string" where
  "plane_line addr = ''host:'' @ quote @ addr @ quote"

definition plane_cm :: config_map where
  "plane_cm = \<lparr>cm_meta = (meta_of ''m-hostconf'' ''ns'' [])\<lparr>om_rv := ''7''\<rparr>,
     cm_data = [(''datas'', plane_line ''10.0.0.1:1'' @ [CHR ''\<newline>''] @ plane_line ''10.0.0.1:2'')]\<rparr>"

definition plane_service :: "string \<Rightarrow> 32 word \<Rightarrow> service" where
  "plane_service n port = (sample_service n port)
     \<lparr>svc_meta := (meta_of n ''ns'' [(LabelKeyInstance, ''m'')])\<lparr>om_rv := ''7''\<rparr>\<rparr>"

definition plane_labels :: labels where
  "plane_labels = replSetLabel (mg_meta plane_mongo) False"

definition plane_pod :: "string \<Rightarrow> pod" where
  "plane_pod n = (sample_pod (n @ ''-0'') [n])
     \<lparr>po_meta := (meta_of (n @ ''-0'') ''ns'' (AddDataLabel plane_labels))\<lparr>om_rv := ''7'', om_owners := [n]\<rparr>\<rparr>"

definition plane_container :: container where
  "plane_container = \<lparr>ct_name = ContainerName, ct_image = [], ct_pull_policy = [], ct_command = [],
     ct_resources = default_resources, ct_env = [], ct_ports = [], ct_mounts = []\<rparr>"

definition plane_sts :: "string \<Rightarrow> stateful_set" where
  "plane_sts n = (sample_sts n False)
     \<lparr>ss_meta := (meta_of n ''ns'' (AddDataLabel plane_labels))\<lparr>om_rv := ''7''\<rparr>,
      ss_containers := [plane_container]\<rparr>"

definition plane_secret :: secret where
  "plane_secret = (AdminSecret ''key'' plane_mongo MongoClusterAdmin)
     \<lparr>sec_meta := (meta_of ''m-clusteradmin'' ''ns'' [])\<lparr>om_rv := ''7''\<rparr>\<rparr>"

definition plane_objects :: "kobj list" where
  "plane_objects = [OMongo plane_mongo, OConfigMap plane_cm, OSecret plane_secret,
     OService (plane_service ''a'' 1), OService (plane_service ''b'' 2),
     OSts (plane_sts ''a''), OSts (plane_sts ''b''), OPod (plane_pod ''a''), OPod (plane_pod ''b'')]"

definition plane_status :: "member_status list" where
  "plane_status =
     [\<lparr>mb_host = ''10.0.0.1:1'', mb_state_str = Primary, mb_syncing_to = [], mb_sync_source = [],
        mb_id = 0, mb_health = 1, mb_state = 1\<rparr>,
      \<lparr>mb_host = ''10.0.0.1:2'', mb_state_str = Secondary, mb_syncing_to = [], mb_sync_source = [],
        mb_id = 1, mb_health = 1, mb_state = 2\<rparr>]"

definition plane_db :: mongod where
  "plane_db = sample_mongod [plain_member 0 ''10.0.0.1:1''] plane_status"

definition plane :: "(mem, mongod) bstate" where
  "plane = sample_bstate plane_mongo (mem_of plane_objects) plane_db"

definition plane_env :: "(mem, mongod) benv" where
  "plane_env = sample_env"

end
