(* ===== verification/Plane_Frame.thy ===== *)
theory Plane_Frame
  imports Plane_Samples
begin

text \<open>
  Frame rules for the MongoDB controller: which stored objects an operation can touch, whatever answers
  it gets and however it ends, over any server that keeps the laws of \<open>kube_api\<close>.
\<close>

named_theorems frame_intros \<open>rules that an operation touches only the given keys\<close>

text \<open>A call whose error the caller handles, when the whole ends in a value.\<close>

lemma attempt_case_Ok:
  "bindg (attempt m) (\<lambda>r. case r of Inl e \<Rightarrow> f e | Inr x \<Rightarrow> g x) s = (Ok y, t) \<longleftrightarrow>
   (\<exists>e u. m s = (Err e, u) \<and> f e u = (Ok y, t)) \<or> (\<exists>x u. m s = (Ok x, u) \<and> g x u = (Ok y, t))"
  by (cases "m s"; cases "fst (m s)") (auto simp: bindg_def attempt_def)

section \<open>The API side\<close>

text \<open>The server is consistent and its objects outside \<open>K\<close> are those of \<open>f\<close>.\<close>

definition apart :: "('w \<Rightarrow> okey \<Rightarrow> kobj option) \<Rightarrow> ('w \<Rightarrow> bool) \<Rightarrow> (okey \<Rightarrow> kobj option) \<Rightarrow> okey set \<Rightarrow> 'w \<Rightarrow> bool" where
  "apart objs I f K w \<longleftrightarrow> I w \<and> (\<forall>k. k \<notin> K \<longrightarrow> objs w k = f k)"

lemma apart_self [simp]: "apart objs I (objs w) K w \<longleftrightarrow> I w"
  by (simp add: apart_def)

lemma apart_mono: "apart objs I f K w \<Longrightarrow> K \<subseteq> L \<Longrightarrow> apart objs I f L w"
  by (auto simp: apart_def)

context kube_api
begin

lemma apart_same:
  assumes "keeps inv m" "\<And>w. objs (snd (m w)) = objs w"
  shows "keeps (apart objs inv f K) m"
  using assms by (auto simp: keeps_def apart_def)

lemma apart_reads [frame_intros]:
  "keeps (apart objs inv f K) (c_get cli k)" "keeps (apart objs inv f K) (c_list cli kd ns opt)"
  "keeps (apart objs inv f K) (c_set_ref cli m x)" "keeps (apart objs inv f K) (c_now cli)"
  by (rule apart_same; simp add: keeps_inv reads)+

lemma apart_create [frame_intros]:
  assumes "okey_of x \<in> K" shows "keeps (apart objs inv f K) (c_create cli x)"
proof (rule keepsI)
  fix w r w' assume w: "apart objs inv f K w" and run: "c_create cli x w = (r, w')"
  from w have "inv w'" using keepsD[OF keeps_inv(3) _ run] by (simp add: apart_def)
  moreover have "objs w' k = objs w k" if "k \<notin> K" for k
    using that assms create_Ok[of x w w'] failed_writes(1)[of x w _ w'] no_panic(3)[of x w _ w'] run by (cases r) auto
  ultimately show "apart objs inv f K w'" using w by (auto simp: apart_def)
qed

lemma apart_update [frame_intros]:
  assumes "okey_of x \<in> K" shows "keeps (apart objs inv f K) (c_update cli x)"
proof (rule keepsI)
  fix w r w' assume w: "apart objs inv f K w" and run: "c_update cli x w = (r, w')"
  from w have "inv w'" using keepsD[OF keeps_inv(4) _ run] by (simp add: apart_def)
  moreover have "objs w' k = objs w k" if "k \<notin> K" for k
    using that assms update_Ok[of x w _ w'] failed_writes(2)[of x w _ w'] no_panic(4)[of x w _ w'] run
    by (cases r) auto
  ultimately show "apart objs inv f K w'" using w by (auto simp: apart_def)
qed

lemma apart_update_status [frame_intros]:
  assumes "okey_of x \<in> K" shows "keeps (apart objs inv f K) (c_update_status cli x)"
proof (rule keepsI)
  fix w r w' assume w: "apart objs inv f K w" and run: "c_update_status cli x w = (r, w')"
  from w have "inv w'" using keepsD[OF keeps_inv(5) _ run] by (simp add: apart_def)
  moreover have "objs w' k = objs w k" if "k \<notin> K" for k
    using that assms status_Ok[of x w _ w'] failed_writes(3)[of x w _ w'] no_panic(5)[of x w _ w'] run
    by (cases r) auto
  ultimately show "apart objs inv f K w'" using w by (auto simp: apart_def)
qed

lemma apart_delete [frame_intros]:
  assumes "k0 \<in> K" shows "keeps (apart objs inv f K) (c_delete cli k0)"
proof (rule keepsI)
  fix w r w' assume w: "apart objs inv f K w" and run: "c_delete cli k0 w = (r, w')"
  from w have "inv w'" using keepsD[OF keeps_inv(6) _ run] by (simp add: apart_def)
  moreover have "objs w' k = objs w k" if "k \<notin> K" for k
  proof (cases r)
    case (Ok u)
    with run delete_Ok[of k0 w w'] obtain v where "objs w' = (objs w)(k0 := v)" by auto
    with that assms show ?thesis by auto
  qed (use run failed_writes(4) no_panic(6) in auto)
  ultimately show "apart objs inv f K w'" using w by (auto simp: apart_def)
qed

lemma apart_delete_all [frame_intros]:
  assumes "\<And>z. in_scope kd ns opt z \<Longrightarrow> okey_of z \<in> K"
  shows "keeps (apart objs inv f K) (c_delete_all cli kd ns opt)"
proof (rule keepsI)
  fix w r w' assume w: "apart objs inv f K w" and run: "c_delete_all cli kd ns opt w = (r, w')"
  from w have "inv w'" using keepsD[OF keeps_inv(7) _ run] by (simp add: apart_def)
  moreover have "objs w' k = objs w k" if "k \<notin> K" for k
    using that delete_all_frame[OF run, of k] w stored[of w k] assms by (auto simp: apart_def)
  ultimately show "apart objs inv f K w'" using w by (auto simp: apart_def)
qed

lemma apart_get_as [frame_intros]: "keeps (apart objs inv f K) (get_as cli p k)"
  unfolding get_as_def by (intro keeps_bind frame_intros) (auto split: option.splits)

lemma apart_getters [frame_intros]:
  "keeps (apart objs inv f K) (IsExists cli k)" "keeps (apart objs inv f K) (GetConfigMap cli n ns)"
  "keeps (apart objs inv f K) (GetService cli ns n)" "keeps (apart objs inv f K) (GetMongoInstanceByName cli n ns)"
  "keeps (apart objs inv f K) (GetSts cli n ns)" "keeps (apart objs inv f K) (ListPod cli ns l)"
  "keeps (apart objs inv f K) (ListService cli ns l)" "keeps (apart objs inv f K) (ListSts cli ns l)"
  unfolding IsExists_def GetConfigMap_def GetService_def GetMongoInstanceByName_def GetSts_def ListPod_def
    ListService_def ListSts_def
  by (intro keeps_bind keeps_attempt keeps_basic frame_intros | auto split: sum.splits)+

lemma apart_composed [frame_intros]:
  "keeps (apart objs inv f K) (GetMongoAddrs cli n ns)"
  "keeps (apart objs inv f K) (base_ListPod cli srt ns l fs)"
  "okey_of x \<in> K \<Longrightarrow> keeps (apart objs inv f K) (CreateObject cli x)"
  "okey_of x \<in> K \<Longrightarrow> keeps (apart objs inv f K) (UpdateObject cli x)"
  "okey_of x \<in> K \<Longrightarrow> keeps (apart objs inv f K) (DeleteObj cli x)"
  "(KSts, ns, n) \<in> K \<Longrightarrow> keeps (apart objs inv f K) (DeleteSts cli ns n)"
  unfolding GetMongoAddrs_def base_ListPod_def CreateObject_def UpdateObject_def DeleteObj_def DeleteSts_def
  by (intro keeps_bind keeps_attempt keeps_basic frame_intros |
    auto simp: in_scope_def okey_of_def split: sum.splits)+

end

section \<open>The controller side\<close>

text \<open>As \<open>apart\<close>, and the objects in memory are as given: no status was written.\<close>

definition framed ::
    "('w \<Rightarrow> okey \<Rightarrow> kobj option) \<Rightarrow> ('w \<Rightarrow> bool) \<Rightarrow> (okey \<Rightarrow> kobj option) \<Rightarrow> okey set \<Rightarrow> mongodb \<Rightarrow> mongodb option \<Rightarrow>
     ('w, 'm) bstate \<Rightarrow> bool" where
  "framed objs I f K c h s \<longleftrightarrow> apart objs I f K (b_api s) \<and> b_cr s = c \<and> b_held s = h"

lemma framed_self [simp]:
  "framed objs I (objs (b_api s)) K c h s \<longleftrightarrow> I (b_api s) \<and> b_cr s = c \<and> b_held s = h"
  by (simp add: framed_def)

lemma framed_api [frame_intros]:
  "keeps (apart objs I f K) m \<Longrightarrow> keeps (framed objs I f K c h) (api m)"
  by (rule keepsI) (auto simp: api_run framed_def dest: keepsD)

lemma framed_db [frame_intros]: "keeps (framed objs I f K c h) (db m)"
  by (rule keepsI) (auto simp: db_run framed_def)

lemma framed_with_client [frame_intros]:
  assumes "keeps (framed objs I f K c h) m" "\<And>x. keeps (framed objs I f K c h) (body x)"
  shows "keeps (framed objs I f K c h) (with_client E m body)"
  unfolding with_client_def disconnect_def
  by (intro keeps_bind keeps_defer keeps_attempt keeps_basic frame_intros assms)

lemma framed_owner [frame_intros]: "keeps J (owner_of p)"
  unfolding owner_of_def by (auto split: list.splits)

lemma framed_wrappers [frame_intros]:
  "keeps J m \<Longrightarrow> keeps J (as_sync m)" "keeps J m \<Longrightarrow> keeps J (wrapped msg m)"
  unfolding as_sync_def wrapped_def by (intro keeps_bind keeps_attempt; auto split: sum.splits)+

text \<open>An environment whose API client keeps the laws of the server.\<close>

locale plane_api = kube_api cli objs inv for cli :: "'w client" and objs and inv +
  fixes E :: "('w, 'm) benv"
  assumes e_client: "e_cli E = cli"
begin

lemma framed_clients [frame_intros]:
  "keeps (framed objs inv f K c h) (user_secret E u)" "keeps (framed objs inv f K c h) (dial_as E x addrs d)"
  "keeps (framed objs inv f K c h) (MongoClient E addrs)"
  "keeps (framed objs inv f K c h) (MongoClientWithOneNode E addrs)"
  "keeps (framed objs inv f K c h) (member_addrs E)" "keeps (framed objs inv f K c h) (member_config E)"
  "keeps (framed objs inv f K c h) (exec_in E p cmd)"
  unfolding user_secret_def dial_as_def MongoClient_def MongoClientWithOneNode_def member_addrs_def
    member_config_def exec_in_def e_client
  by (intro keeps_bind keeps_basic frame_intros | auto split: option.splits kobj.splits prod.splits intro: frame_intros)+

end

context plane_api
begin

lemma framed_queries [frame_intros]:
  "keeps (framed objs inv f K c h) (list_pods E l fs)" "keeps (framed objs inv f K c h) (replset_pods E)"
  "keeps (framed objs inv f K c h) (GetServiceNodePort E p)" "keeps (framed objs inv f K c h) (GetMgoReplSetStatus E)"
  "keeps (framed objs inv f K c h) (GetPrimaryPod E)" "keeps (framed objs inv f K c h) (StepDown E p)"
  "keeps (framed objs inv f K c h) (judgePodIsPrimary E p primary)"
  "keeps (framed objs inv f K c h) (GetMgoDataNodeInfo E p)" "keeps (framed objs inv f K c h) (GetMgoArbiterNodeInfo E p)"
  "keeps (framed objs inv f K c h) (MongoRemoveMember E p host)" "keeps (framed objs inv f K c h) exporter_enabled"
  unfolding list_pods_def replset_pods_def GetServiceNodePort_def GetMgoReplSetStatus_def GetPrimaryPod_def
    StepDown_def judgePodIsPrimary_def GetMgoDataNodeInfo_def GetMgoArbiterNodeInfo_def MongoRemoveMember_def
    exporter_enabled_def e_client
  by (intro keeps_bind keeps_attempt keeps_basic keeps_if frame_intros |
    auto simp: Let_def split: option.splits list.splits sum.splits prod.splits intro: frame_intros keeps_bind)+

lemma framed_apply [frame_intros]:
  assumes "\<And>k. fst k = KSts \<Longrightarrow> k \<in> K"
  shows "keeps (framed objs inv f K c h) (update_containers E cs sts)" "keeps (framed objs inv f K c h) (apply_resources E p)"
proof -
  show upd: "keeps (framed objs inv f K c h) (update_containers E cs sts)" for cs sts
    by (induction cs arbitrary: sts)
      (auto simp: e_client okey_of_def assms split: option.splits kobj.splits intro!: keeps_bind keeps_basic frame_intros)
  show "keeps (framed objs inv f K c h) (apply_resources E p)"
    unfolding apply_resources_def e_client by (intro keeps_bind keeps_basic frame_intros upd)
qed

lemma framed_delete_in_restart [frame_intros]:
  "okey_of (OPod p) \<in> K \<Longrightarrow> keeps (framed objs inv f K c h) (delete_in_restart E p)"
  unfolding delete_in_restart_def DeletePodInRestart_def e_client
  by (intro keeps_bind keeps_attempt keeps_basic keeps_if frame_intros | auto split: sum.splits)+

end

interpretation plane: plane_api mem_client mem_lookup mem_inv plane_env
  by unfold_locales (simp add: plane_env_def sample_env_def)


section \<open>Status writes\<close>

lemma mongo_of_key: "fst (okey_of y) = KMongo \<Longrightarrow> \<exists>m. y = OMongo m"
  by (cases y) (auto simp: okey_of_def)

lemma okey_of_mongo [simp]: "okey_of (OMongo (c\<lparr>mg_status := st\<rparr>)) = okey_of (OMongo c)"
  "fst (okey_of (OMongo c)) = KMongo"
  by (simp_all add: okey_of_def)

locale plane_status = plane_api + kube_status
begin

lemma refreshCR_cases:
  assumes "inv (b_api s)" "refreshCR E s = (r, s')"
  obtains "r = Ok ()" "inv (b_api s')" "objs (b_api s') = objs (b_api s)"
    "b_cr s' = b_cr s \<or> objs (b_api s) (okey_of (OMongo (b_cr s))) = Some (OMongo (b_cr s'))"
proof -
  let ?k = "okey_of (OMongo (b_cr s))"
  have key: "?k = (KMongo, cr_ns' (b_cr s), cr_name' (b_cr s))"
    by (simp add: okey_of_def cr_ns'_def cr_name'_def)
  obtain q w where get: "c_get cli ?k (b_api s) = (q, w)" by fastforce
  have "b_cr s' = b_cr s \<or> objs (b_api s) ?k = Some (OMongo (b_cr s'))"
  proof (cases q)
    case (Ok x)
    with get have x: "objs (b_api s) ?k = Some x" by (auto dest: get_Ok)
    then obtain m where m: "x = OMongo m" using stored[OF assms(1) x] mongo_of_key[of x] by auto
    with assms(2) get Ok have "b_cr s' = m"
      by (auto simp: refreshCR_def GetMongoInstanceByName_def get_as_def bindg_def attempt_def gets_def api_def
          zoom_def modify_def repoint_def ret_def e_client key)
    with x m show ?thesis by simp
  qed (use assms(2) get in \<open>auto simp: refreshCR_def GetMongoInstanceByName_def get_as_def bindg_def attempt_def
      gets_def api_def zoom_def ret_def e_client key\<close>)
  with refreshCR_run[OF e_client assms] that show ?thesis by blast
qed

lemma WriteStatus_cases:
  assumes I: "inv (b_api s)" and run: "WriteStatus E s = (r, s')"
  defines "k \<equiv> okey_of (OMongo (b_cr s))"
  obtains (direct) z where "r = Ok ()" "objs (b_api s) k = Some (OMongo z)" "mg_spec (b_cr s') = mg_spec z"
      "mg_meta (b_cr s') = (mg_meta z)\<lparr>om_rv := om_rv (mg_meta (b_cr s'))\<rparr>"
      "mg_status (b_cr s') = mg_status (b_cr s)" "inv (b_api s')"
      "objs (b_api s') = (objs (b_api s))(k \<mapsto> OMongo (b_cr s'))"
  | (fallback) c z where "r = Ok ()" "c = b_cr s \<or> objs (b_api s) k = Some (OMongo c)"
      "objs (b_api s) k = Some (OMongo z)" "mg_spec (b_cr s') = mg_spec c"
      "om_finalizers (mg_meta (b_cr s')) = om_finalizers (mg_meta c)" "okey_of (OMongo (b_cr s')) = k"
      "om_deleting (mg_meta (b_cr s')) = om_deleting (mg_meta z)"
      "mg_status (b_cr s') = mg_status z" "inv (b_api s')"
      "objs (b_api s') = (objs (b_api s))(k := if om_deleting (mg_meta (b_cr s')) \<and>
         om_finalizers (mg_meta (b_cr s')) = [] then None else Some (OMongo (b_cr s')))"
  | (failed) c e where "r = Err e" "c = b_cr s \<or> objs (b_api s) k = Some (OMongo c)"
      "b_cr s' = c\<lparr>mg_status := mg_status (b_cr s)\<rparr>" "inv (b_api s')" "objs (b_api s') = objs (b_api s)"
proof -
  let ?x = "OMongo (b_cr s)"
  obtain q w1 where upd: "c_update_status cli ?x (b_api s) = (q, w1)" by fastforce
  have w1: "inv w1" using keepsD[OF keeps_inv(5) I upd] .
  show ?thesis
  proof (cases q)
    case (Ok y)
    with upd have "c_update_status cli ?x (b_api s) = (Ok y, w1)" by simp
    from status_Ok[OF this] obtain z0 where z0: "objs (b_api s) k = Some z0" "persisted z0 y" "same_status ?x y"
        "ometa y = (ometa z0)\<lparr>om_rv := om_rv (ometa y)\<rparr>" "objs w1 = (objs (b_api s))(k \<mapsto> y)"
      unfolding k_def by blast
    obtain z where z: "z0 = OMongo z" using stored[OF I z0(1)] mongo_of_key[of z0] by (auto simp: k_def)
    obtain m where m: "y = OMongo m" using z0(3) by (cases y) auto
    have "r = Ok ()" "s' = s\<lparr>b_api := w1, b_cr := m\<rparr>"
      using run upd Ok m by (auto simp: WriteStatus_def bindg_def attempt_def gets_def api_def zoom_def decode_cr_def
          modify_def e_client)
    with z0 z m w1 show ?thesis by (intro direct[of z]) auto
  next
    case (Err e)
    have w1o: "objs w1 = objs (b_api s)" using failed_writes(3) upd Err by blast
    obtain q2 s2 where ref: "refreshCR E (s\<lparr>b_api := w1\<rparr>) = (q2, s2)" by fastforce
    from refreshCR_cases[OF _ ref] w1 obtain s2: "q2 = Ok ()" "inv (b_api s2)" "objs (b_api s2) = objs (b_api s)"
        "b_cr s2 = b_cr s \<or> objs (b_api s) k = Some (OMongo (b_cr s2))"
      by (auto simp: w1o k_def)
    let ?c = "(b_cr s2)\<lparr>mg_status := mg_status (b_cr s)\<rparr>"
    have ck: "okey_of (OMongo ?c) = k"
      using s2(4) stored[OF I, of k "OMongo (b_cr s2)"] by (auto simp: k_def)
    obtain q3 w3 where put: "c_update cli (OMongo ?c) (b_api s2) = (q3, w3)" by fastforce
    have w3: "inv w3" using keepsD[OF keeps_inv(4) s2(2) put] .
    have fin: "(case q3 of Ok y \<Rightarrow> decode_cr y (s2\<lparr>b_cr := ?c, b_api := w3\<rparr>)
      | Err err \<Rightarrow> (Err (Wrap err ''update cr status''), s2\<lparr>b_cr := ?c, b_api := w3\<rparr>)
      | Panic p \<Rightarrow> (Panic p, s2\<lparr>b_cr := ?c, b_api := w3\<rparr>)) = (r, s')"
      using run upd Err ref s2(1) put
      by (auto simp: WriteStatus_def bindg_def attempt_def gets_def api_def zoom_def change_status_def modify_def
          fail_def e_client split: outcome.splits)
    show ?thesis
    proof (cases q3)
      case (Ok y)
      with put have put': "c_update cli (OMongo ?c) (b_api s2) = (Ok y, w3)" by simp
      from update_Ok[OF put'] ck s2(3) obtain z0 where y: "objs (b_api s) k = Some z0" "okey_of y = k"
          "om_finalizers (ometa y) = om_finalizers (mg_meta (b_cr s2))" "persisted (OMongo ?c) y"
          "om_deleting (ometa y) = om_deleting (ometa z0)"
          "objs w3 = (objs (b_api s))(k := if om_deleting (ometa y) \<and> om_finalizers (ometa y) = [] then None else Some y)"
        by auto
      obtain z where z: "z0 = OMongo z" using stored[OF I y(1)] mongo_of_key[of z0] by (auto simp: k_def)
      obtain m where m: "y = OMongo m" using y(4) by (cases y) (auto dest: same_body_kind)
      have "mg_status m = mg_status z"
        using update_keeps_status[OF put'] y(1) s2(3) ck z m by simp
      moreover have "r = Ok ()" "s' = s2\<lparr>b_cr := m, b_api := w3\<rparr>"
        using fin Ok m by (auto simp: decode_cr_def modify_def)
      ultimately show ?thesis using y z m w3 s2(4)
        by (intro fallback[of "b_cr s2" z]) (auto split: if_splits)
    next
      case (Err e2)
      have "objs w3 = objs (b_api s)" using failed_writes(2) put Err s2(3) by metis
      with fin Err w3 s2(4) show ?thesis by (intro failed[of _ "b_cr s2"]) auto
    qed (use put no_panic(4) in blast)
  qed (use upd no_panic(5) in blast)
qed

end


interpretation plane: plane_status mem_client mem_lookup mem_inv plane_env
  by unfold_locales


end
