(* ===== verification/Growth_Laws.thy ===== *)
theory Growth_Laws
  imports Plane_Frame
begin

text \<open>
  What ensuring objects on a member cluster adds to it: the stateful sets of a growing replica set and
  the secrets of its users. Nothing that was stored is touched.
\<close>

section \<open>Growing\<close>

text \<open>Nothing stored is touched, and what is new has a key of \<open>K\<close>.\<close>

definition grown ::
    "('w \<Rightarrow> okey \<Rightarrow> kobj option) \<Rightarrow> okey set \<Rightarrow> ('w, 'm) bstate \<Rightarrow> ('w, 'm) bstate \<Rightarrow> bool" where
  "grown objs K s t \<longleftrightarrow> b_cr t = b_cr s \<and> b_held t = b_held s \<and>
     (\<forall>k. objs (b_api t) k \<noteq> objs (b_api s) k \<longrightarrow> objs (b_api s) k = None \<and> k \<in> K)"

lemma grown_refl [simp]: "grown objs K s s"
  by (simp add: grown_def)

lemma grown_trans: "grown objs K s t \<Longrightarrow> grown objs L t u \<Longrightarrow> grown objs (K \<union> L) s u"
  unfolding grown_def by (metis UnCI)

lemma grown_mono: "grown objs K s t \<Longrightarrow> K \<subseteq> L \<Longrightarrow> grown objs L s t"
  by (auto simp: grown_def)

lemma grown_held: "grown objs K s t \<Longrightarrow> held t = held s"
  by (simp add: grown_def held_def split: option.splits)

lemma grown_keeps: "grown objs K s t \<Longrightarrow> objs (b_api s) k \<noteq> None \<Longrightarrow> objs (b_api t) k \<noteq> None"
  unfolding grown_def by metis

context plane_api
begin

lemma base_Ensure_api:
  "base_Ensure E x s = api (bindg (IsExists cli (okey_of x)) (\<lambda>f. case f of Some z \<Rightarrow> check_found x z
    | None \<Rightarrow> bindg (c_set_ref cli (mg_meta (b_cr s)) x) (CreateObject cli))) s"
  by (auto simp: base_Ensure_def base_SetRefAndCreateObject_def e_client bindg_def api_def zoom_def gets_def ret_def
      fail_def check_found_def
      split: prod.splits outcome.splits option.splits)

lemma base_Ensure_cases:
  assumes run: "base_Ensure E x s = (r, s')"
  shows "(objs (b_api s') = objs (b_api s) \<and> (r = Ok () \<longrightarrow> objs (b_api s) (okey_of x) \<noteq> None) \<or>
      objs (b_api s) (okey_of x) = None \<and> r = Ok () \<and>
      (\<exists>os y. okey_of y = okey_of x \<and> om_labels (ometa y) = om_labels (ometa x) \<and>
         persisted (set_ometa ((ometa x)\<lparr>om_owners := os\<rparr>) x) y \<and>
         objs (b_api s') = (objs (b_api s))(okey_of x \<mapsto> y))) \<and>
    b_cr s' = b_cr s \<and> b_held s' = b_held s"
proof -
  let ?m = "bindg (IsExists cli (okey_of x)) (\<lambda>f. case f of Some z \<Rightarrow> check_found x z
    | None \<Rightarrow> bindg (c_set_ref cli (mg_meta (b_cr s)) x) (CreateObject cli))"
  obtain q w where m: "?m (b_api s) = (q, w)" by fastforce
  with run have s': "s' = s\<lparr>b_api := w\<rparr>" "q = r" unfolding base_Ensure_api by (auto simp: api_def zoom_def)
  from m have "objs w = objs (b_api s) \<and> (q = Ok () \<longrightarrow> objs (b_api s) (okey_of x) \<noteq> None) \<or>
      objs (b_api s) (okey_of x) = None \<and> q = Ok () \<and>
      (\<exists>os y. okey_of y = okey_of x \<and> om_labels (ometa y) = om_labels (ometa x) \<and>
         persisted (set_ometa ((ometa x)\<lparr>om_owners := os\<rparr>) x) y \<and> objs w = (objs (b_api s))(okey_of x \<mapsto> y))"
  proof (rule after_lookup)
    fix w1 assume f: "(case objs (b_api s) (okey_of x) of None \<Rightarrow>
        bindg (c_set_ref cli (mg_meta (b_cr s)) x) (CreateObject cli) | Some z \<Rightarrow> check_found x z) w1 = (q, w)"
      and same: "objs w1 = objs (b_api s)"
    show ?thesis
    proof (cases "objs (b_api s) (okey_of x)")
      case None
      with f have "bindg (c_set_ref cli (mg_meta (b_cr s)) x) (CreateObject cli) w1 = (q, w)" by simp
      note create = create_with_ref_run[OF this, unfolded same]
      show ?thesis
      proof (cases "q = Ok ()")
        case True
        with create None show ?thesis by blast
      next
        case False
        with create show ?thesis by blast
      qed
    qed (use f same in \<open>auto simp: check_found_def go_simps split: if_splits\<close>)
  qed auto
  with s' show ?thesis by simp
qed

lemma base_Ensure_run:
  assumes run: "base_Ensure E x s = (r, s')"
  shows "grown objs {okey_of x} s s' \<and> (r = Ok () \<longrightarrow> objs (b_api s') (okey_of x) \<noteq> None)"
  using base_Ensure_cases[OF run] by (fastforce simp: grown_def simp del: okey_of_def)

lemma base_Ensure_inv:
  assumes "base_Ensure E x s = (r, s')" and "inv (b_api s)"
  shows "inv (b_api s')"
proof -
  let ?m = "bindg (IsExists cli (okey_of x)) (\<lambda>f. case f of Some z \<Rightarrow> check_found x z
    | None \<Rightarrow> bindg (c_set_ref cli (mg_meta (b_cr s)) x) (CreateObject cli))"
  have "keeps inv ?m"
    unfolding CreateObject_def by (intro keeps_bind keeps_intros keeps_inv check_found_simps)
  moreover have "\<exists>w. ?m (b_api s) = (r, w) \<and> s' = s\<lparr>b_api := w\<rparr>"
    using assms(1) unfolding base_Ensure_api by (auto simp: api_run)
  ultimately show ?thesis using assms(2) by (auto dest: keepsD)
qed

lemma ensure_member_sts_run:
  assumes "ensure_member_sts E n ls s = (r, s')"
  shows "grown objs {(KSts, cr_ns' (held s), n)} s s' \<and>
    (r = Ok () \<longrightarrow> objs (b_api s') (KSts, cr_ns' (held s), n) \<noteq> None)"
proof -
  let ?o = "MongoSts (e_parse E) (e_img E) (held s) n ls
    (CommandReplSet (gm_get '''' ls LabelKeyReplsetName) (mgs_custom_config_ref (mg_spec (b_cr s))))"
  show ?thesis
  proof (cases ?o)
    case (Ok sts)
    obtain q t where e: "base_Ensure E (OSts sts) s = (q, t)" by fastforce
    from Ok have key: "okey_of (OSts sts) = (KSts, cr_ns' (held s), n)"
      by (auto simp: MongoSts_def okey_of_def Let_def meta_of_def split: option.splits outcome.splits if_splits)
    have "t = s'" "r = Ok () \<Longrightarrow> q = Ok ()"
      using assms Ok e by (cases q; auto simp: ensure_member_sts_def EnsureSts_def as_sync_def bindg_def attempt_def
          gets_def lift_outcome_def ret_def fail_def)+
    with base_Ensure_run[OF e] key show ?thesis by auto
  qed (use assms in \<open>auto simp: ensure_member_sts_def go_simps\<close>)
qed

lemma for_each_growing:
  assumes "for_each svcs (\<lambda>svc. if has_suffix (om_name (svc_meta svc)) ArbiterName then ret ()
      else ensure_member_sts E (om_name (svc_meta svc)) ls) s = (r, s')"
  shows "grown objs {(KSts, cr_ns' (held s), n) | n.
        n \<in> (om_name \<circ> svc_meta) ` set svcs \<and> \<not> has_suffix n ArbiterName} s s' \<and>
    (r = Ok () \<longrightarrow> (\<forall>svc \<in> set svcs. \<not> has_suffix (om_name (svc_meta svc)) ArbiterName \<longrightarrow>
      objs (b_api s') (KSts, cr_ns' (held s), om_name (svc_meta svc)) \<noteq> None))"
  using assms
proof (induction svcs arbitrary: s)
  case (Cons svc svcs)
  let ?n = "om_name (svc_meta svc)"
  let ?K = "\<lambda>xs. {(KSts, cr_ns' (held s), n) | n. n \<in> (om_name \<circ> svc_meta) ` set xs \<and> \<not> has_suffix n ArbiterName}"
  obtain q t where one: "(if has_suffix ?n ArbiterName then ret () else ensure_member_sts E ?n ls) s = (q, t)" by fastforce
  have t: "grown objs (?K [svc]) s t \<and> (q = Ok () \<longrightarrow> \<not> has_suffix ?n ArbiterName \<longrightarrow>
      objs (b_api t) (KSts, cr_ns' (held s), ?n) \<noteq> None)"
  proof (cases "has_suffix ?n ArbiterName")
    case False
    with one ensure_member_sts_run[of ?n ls s q t] show ?thesis by (auto intro: grown_mono)
  qed (use one in \<open>auto simp: go_simps\<close>)
  note heldt = grown_held[OF conjunct1[OF t]]
  have sub: "?K [svc] \<subseteq> ?K (svc # svcs)" "?K [svc] \<union> ?K svcs \<subseteq> ?K (svc # svcs)" by auto
  show ?case
  proof (cases q)
    case (Ok u)
    with Cons.prems one have "for_each svcs (\<lambda>svc. if has_suffix (om_name (svc_meta svc)) ArbiterName then ret ()
      else ensure_member_sts E (om_name (svc_meta svc)) ls) t = (r, s')" by (simp add: bindg_eqs)
    note IH = Cons.IH[OF this, unfolded heldt]
    have "grown objs (?K [svc] \<union> ?K svcs) s s'" using t IH by (blast intro: grown_trans)
    then have "grown objs (?K (svc # svcs)) s s'" using sub(2) by (rule grown_mono)
    moreover have "r = Ok () \<Longrightarrow> \<not> has_suffix ?n ArbiterName \<Longrightarrow> objs (b_api s') (KSts, cr_ns' (held s), ?n) \<noteq> None"
      using t Ok grown_keeps[OF conjunct1[OF IH], of "(KSts, cr_ns' (held s), ?n)"] by simp
    ultimately show ?thesis using IH by auto
  next
    case (Err e)
    with Cons.prems one have "s' = t" "r \<noteq> Ok ()" by (auto simp: bindg_eqs)
    with t sub(1) show ?thesis by (blast intro: grown_mono)
  next
    case (Panic p)
    with Cons.prems one have "s' = t" "r \<noteq> Ok ()" by (auto simp: bindg_eqs)
    with t sub(1) show ?thesis by (blast intro: grown_mono)
  qed
qed (auto simp: go_simps)

lemma listed_services:
  assumes "inv w" "ListService cli ns sel w = (Ok svcs, w')"
  shows "set svcs = {svc. objs w (KService, ns, om_name (svc_meta svc)) = Some (OService svc) \<and>
    listed (MatchingLabels sel) (svc_meta svc)}"
proof -
  obtain xs where xs: "c_list cli KService (Some ns) (MatchingLabels sel) w = (Ok xs, w')" and svcs: "svcs = services_of xs"
    using assms(2) by (auto simp: ListService_def bindg_Ok_iff go_simps)
  have "svc \<in> set svcs \<longleftrightarrow> OService svc \<in> set xs" for svc
    unfolding svcs by (induction xs) (auto simp: services_of_def List.map_filter_simps split: kobj.splits)
  moreover have "OService svc \<in> set xs \<longleftrightarrow> objs w (KService, ns, om_name (svc_meta svc)) = Some (OService svc) \<and>
      listed (MatchingLabels sel) (svc_meta svc)" for svc
    using list_Ok[OF assms(1) xs] stored[OF assms(1), of "(KService, ns, om_name (svc_meta svc))" "OService svc"]
    by (auto simp: in_scope_def okey_of_def)
  ultimately show ?thesis by blast
qed

lemma grow_effect:
  assumes I: "inv (b_api s)" and run: "grow E ls s = (r, s')"
  defines "wanted n \<equiv> (\<exists>svc. objs (b_api s) (KService, cr_ns' (b_cr s), n) = Some (OService svc) \<and>
      listed (MatchingLabels [(LabelKeyInstance, cr_name' (b_cr s))]) (svc_meta svc)) \<and> \<not> has_suffix n ArbiterName"
  shows "grown objs {(KSts, cr_ns' (held s), n) | n. wanted n} s s' \<and>
    (r = Ok () \<longrightarrow> (\<forall>n. wanted n \<longrightarrow> objs (b_api s') (KSts, cr_ns' (held s), n) \<noteq> None))"
proof -
  let ?sel = "[(LabelKeyInstance, cr_name' (b_cr s))]"
  obtain q w where l: "ListService cli (cr_ns' (b_cr s)) ?sel (b_api s) = (q, w)" by fastforce
  have same: "objs w = objs (b_api s)"
    using l reads(2)[of KService "Some (cr_ns' (b_cr s))" "MatchingLabels ?sel" "b_api s"]
    by (auto simp: ListService_def bindg_def ret_def split: prod.splits outcome.splits)
  show ?thesis
  proof (cases q)
    case (Ok svcs)
    let ?t = "s\<lparr>b_api := w\<rparr>"
    have t: "grown objs {} s ?t" "held ?t = held s" using same by (simp_all add: grown_def held_def split: option.splits)
    from run l Ok have "for_each svcs (\<lambda>svc. if has_suffix (om_name (svc_meta svc)) ArbiterName then ret ()
        else ensure_member_sts E (om_name (svc_meta svc)) ls) ?t = (r, s')"
      by (simp add: grow_def e_client as_sync_def attempt_def api_def zoom_def go_simps bindg_def)
    note loop = for_each_growing[OF this, unfolded t(2)]
    have name: "om_name (svc_meta svc) = n" if "objs (b_api s) (KService, cr_ns' (b_cr s), n) = Some (OService svc)" for n svc
      using stored[OF I that] by (simp add: okey_of_def)
    have names: "n \<in> (om_name \<circ> svc_meta) ` set svcs \<and> \<not> has_suffix n ArbiterName \<longleftrightarrow> wanted n" for n
      using listed_services[OF I l[unfolded Ok]] name by (auto simp: wanted_def)
    have "grown objs {(KSts, cr_ns' (held s), n) | n. wanted n} s s'"
      using grown_trans[OF t(1) conjunct1[OF loop]] by (rule grown_mono) (auto simp flip: names)
    moreover have "objs (b_api s') (KSts, cr_ns' (held s), n) \<noteq> None" if "r = Ok ()" "wanted n" for n
      using conjunct2[OF loop] that by (auto simp flip: names)
    ultimately show ?thesis by blast
  qed (use run l same in \<open>auto simp: grow_def e_client as_sync_def attempt_def api_def zoom_def go_simps bindg_def grown_def\<close>)
qed

end

lemma grow_cases:
  assumes "kube_api cli objs I" and "e_cli E = cli" and "I (b_api s)" and "grow E ls s = (r, s')"
  shows "(\<forall>k. objs (b_api s') k \<noteq> objs (b_api s) k \<longrightarrow> objs (b_api s) k = None \<and>
      (\<exists>n svc. k = (KSts, cr_ns' (held s), n) \<and> objs (b_api s) (KService, cr_ns' (b_cr s), n) = Some (OService svc) \<and>
         listed (MatchingLabels [(LabelKeyInstance, cr_name' (b_cr s))]) (svc_meta svc) \<and> \<not> has_suffix n ArbiterName))
    \<and> (r = Ok () \<longrightarrow> (\<forall>n svc. objs (b_api s) (KService, cr_ns' (b_cr s), n) = Some (OService svc) \<longrightarrow>
         listed (MatchingLabels [(LabelKeyInstance, cr_name' (b_cr s))]) (svc_meta svc) \<longrightarrow> \<not> has_suffix n ArbiterName \<longrightarrow>
         objs (b_api s') (KSts, cr_ns' (held s), n) \<noteq> None))"
proof -
  have "plane_api cli objs I E" using assms(1,2) by (simp add: plane_api_def plane_api_axioms_def)
  from plane_api.grow_effect[OF this assms(3,4)] show ?thesis unfolding grown_def by blast
qed

lemma grown_members:
  assumes "kube_api cli objs I" and "e_cli E = cli" and "I (b_api s)" and "grow E ls s = (Ok (), s')"
    and "objs (b_api s) (KService, cr_ns' (b_cr s), n) = Some (OService svc)"
    and "listed (MatchingLabels [(LabelKeyInstance, cr_name' (b_cr s))]) (svc_meta svc)" and "\<not> has_suffix n ArbiterName"
  shows "objs (b_api s') (KSts, cr_ns' (held s), n) \<noteq> None"
  using grow_cases[OF assms(1-4)] assms(5-7) by blast

text \<open>
  C10: growing a member cluster creates what is missing and nothing else: \<open>grow\<close> changes no stored object,
  creates nothing but stateful sets named after a stored service of the instance that is not the
  arbiter's, however it ends; and when it ends without error, every such service has its stateful set.
\<close>

theorem grow_covers_services:
  assumes "kube_api cli objs I" and "e_cli E = cli" and "I (b_api s)" and "grow E ls s = (r, s')"
  shows "(\<forall>k. objs (b_api s') k \<noteq> objs (b_api s) k \<longrightarrow> objs (b_api s) k = None \<and>
      (\<exists>n svc. k = (KSts, cr_ns' (held s), n) \<and> objs (b_api s) (KService, cr_ns' (b_cr s), n) = Some (OService svc) \<and>
         listed (MatchingLabels [(LabelKeyInstance, cr_name' (b_cr s))]) (svc_meta svc) \<and> \<not> has_suffix n ArbiterName))
    \<and> (r = Ok () \<longrightarrow> (\<forall>n svc. objs (b_api s) (KService, cr_ns' (b_cr s), n) = Some (OService svc) \<longrightarrow>
         listed (MatchingLabels [(LabelKeyInstance, cr_name' (b_cr s))]) (svc_meta svc) \<longrightarrow> \<not> has_suffix n ArbiterName \<longrightarrow>
         objs (b_api s') (KSts, cr_ns' (held s), n) \<noteq> None))"
  using assms by (rule grow_cases)

text \<open>A third service was propagated to the cluster; its stateful set is created.\<close>

definition growing_plane :: "(mem, mongod) bstate" where
  "growing_plane = sample_bstate plane_mongo (mem_of (OService (plane_service ''c'' 3) # plane_objects)) plane_db"

theorem grow_covers_services_witness:
  "\<exists>s'. grow plane_env (AddDataLabel plane_labels) growing_plane = (Ok (), s') \<and>
    mem_lookup (b_api growing_plane) (KSts, ''ns'', ''c'') = None \<and>
    mem_lookup (b_api s') (KSts, ''ns'', ''c'') \<noteq> None \<and>
    mem_lookup (b_api s') (KSts, ''ns'', ''a'') = mem_lookup (b_api growing_plane) (KSts, ''ns'', ''a'')"
proof -
  have "fst (grow plane_env (AddDataLabel plane_labels) growing_plane) = Ok ()" by code_simp
  then obtain s' where run: "grow plane_env (AddDataLabel plane_labels) growing_plane = (Ok (), s')"
    by (metis prod.collapse)
  have env: "e_cli plane_env = mem_client" by (simp add: plane_env_def sample_env_def)
  have inv: "mem_inv (b_api growing_plane)" by code_simp
  have svc: "mem_lookup (b_api growing_plane) (KService, cr_ns' (b_cr growing_plane), ''c'') = Some (OService (plane_service ''c'' 3))"
      "listed (MatchingLabels [(LabelKeyInstance, cr_name' (b_cr growing_plane))]) (svc_meta (plane_service ''c'' 3))"
      "\<not> has_suffix ''c'' ArbiterName" "cr_ns' (held growing_plane) = ''ns''"
      "mem_lookup (b_api growing_plane) (KSts, ''ns'', ''c'') = None"
      "mem_lookup (b_api growing_plane) (KSts, ''ns'', ''a'') \<noteq> None"
    by code_simp+
  from grow_covers_services[OF mem.kube_api_axioms env inv run] run svc show ?thesis by metis
qed


section \<open>The secrets of the users\<close>

lemma grown_outside: "grown objs K s t \<Longrightarrow> k \<notin> K \<Longrightarrow> objs (b_api t) k = objs (b_api s) k"
  unfolding grown_def by blast

context plane_api
begin

lemma EnsureSecret_cases:
  assumes "EnsureSecret E x s = (r, t)"
  shows "grown objs {okey_of (OSecret x)} s t" and "held t = held s"
    and "r = Ok () \<Longrightarrow> objs (b_api t) (okey_of (OSecret x)) \<noteq> None"
    and "r = Ok () \<Longrightarrow> objs (b_api s) (okey_of (OSecret x)) = None \<Longrightarrow>
      \<exists>y. objs (b_api t) (okey_of (OSecret x)) = Some (OSecret y) \<and> sec_data y = sec_data x"
proof -
  have run: "base_Ensure E (OSecret x) s = (r, t)" using assms by (simp add: EnsureSecret_def)
  note cases = base_Ensure_cases[OF run]
  show "grown objs {okey_of (OSecret x)} s t" "r = Ok () \<Longrightarrow> objs (b_api t) (okey_of (OSecret x)) \<noteq> None"
    using base_Ensure_run[OF run] by simp_all
  then show "held t = held s" by (rule_tac grown_held)
  assume "r = Ok ()" "objs (b_api s) (okey_of (OSecret x)) = None"
  with cases obtain os y where y: "persisted (set_ometa ((ometa (OSecret x))\<lparr>om_owners := os\<rparr>) (OSecret x)) y"
      "objs (b_api t) (okey_of (OSecret x)) = Some y"
    by (auto simp del: okey_of_def)
  from y(1) obtain z where "y = OSecret z" "x\<lparr>sec_meta := sec_meta z\<rparr> = z" by (cases y) (auto simp: same_body_def)
  then have "\<exists>z. y = OSecret z \<and> sec_data z = sec_data x" by (metis secret.select_convs(2) secret.surjective secret.update_convs(1))
  with y(2) show "\<exists>y. objs (b_api t) (okey_of (OSecret x)) = Some (OSecret y) \<and> sec_data y = sec_data x" by blast
qed

lemma secrets_in_turn:
  "MongoBase_EnsureSecret E s = for_each (base_secrets (e_key E) (held s)) (EnsureSecret E) s"
proof -
  have step: "andthen (bindg (gets held) (\<lambda>cr. EnsureSecret E (f cr))) m u = andthen (EnsureSecret E (f (held u))) m' u"
    if "\<And>t. held t = held u \<Longrightarrow> m t = m' t" for f m m' u
  proof -
    obtain r t where run: "EnsureSecret E (f (held u)) u = (r, t)" by fastforce
    with that EnsureSecret_cases(2)[OF run] show ?thesis by (cases r) (simp_all add: bindg_def gets_def)
  qed
  have last: "bindg (gets held) (\<lambda>cr. EnsureSecret E (f cr)) u = andthen (EnsureSecret E (f (held u))) (ret ()) u" for f u
    by (cases "EnsureSecret E (f (held u)) u"; cases "fst (EnsureSecret E (f (held u)) u)")
      (auto simp: bindg_def gets_def ret_def)
  show ?thesis
    unfolding MongoBase_EnsureSecret_def base_secrets_def for_each.simps
    by (rule step, rule step[THEN trans], rule step[THEN trans]) (simp_all add: last)
qed

lemma for_each_secret:
  assumes "for_each xs (EnsureSecret E) s = (r, t)" and "distinct (map (okey_of \<circ> OSecret) xs)"
  shows "grown objs ((okey_of \<circ> OSecret) ` set xs) s t \<and>
    (r = Ok () \<longrightarrow> (\<forall>x \<in> set xs. objs (b_api t) (okey_of (OSecret x)) \<noteq> None \<and>
      (objs (b_api s) (okey_of (OSecret x)) = None \<longrightarrow>
        (\<exists>y. objs (b_api t) (okey_of (OSecret x)) = Some (OSecret y) \<and> sec_data y = sec_data x))))"
  using assms
proof (induction xs arbitrary: s)
  case (Cons x xs)
  obtain q u where one: "EnsureSecret E x s = (q, u)" by fastforce
  note first = EnsureSecret_cases[OF one]
  show ?case
  proof (cases "q = Ok ()")
    case True
    with Cons.prems one have rest: "for_each xs (EnsureSecret E) u = (r, t)" by (simp add: bindg_eqs)
    note IH = Cons.IH[OF rest]
    have "grown objs ({okey_of (OSecret x)} \<union> (okey_of \<circ> OSecret) ` set xs) s t"
      using grown_trans[OF first(1) conjunct1[OF IH]] Cons.prems(2) by simp
    moreover have "objs (b_api t) (okey_of (OSecret x)) = objs (b_api u) (okey_of (OSecret x))"
      using Cons.prems(2) by (intro grown_outside[OF conjunct1[OF IH]]) (auto simp: image_iff)
    moreover have "objs (b_api u) (okey_of (OSecret z)) = objs (b_api s) (okey_of (OSecret z))" if "z \<in> set xs" for z
      using Cons.prems(2) that by (intro grown_outside[OF first(1)]) (auto simp: image_iff)
    ultimately show ?thesis using IH Cons.prems(2) first(3,4) True by simp
  next
    case False
    with Cons.prems one have "t = u" "r \<noteq> Ok ()" by (cases q; simp add: bindg_eqs)+
    with first(1) show ?thesis by (auto intro: grown_mono)
  qed
qed (auto simp: go_simps)

end

text \<open>
  C35: the credentials the controller stores are those it later logs in with: when \<open>MongoBase_EnsureSecret\<close>
  ends without error, the secret of each of the three administrative users is there under the name
  \<open>user_secret\<close> looks it up by, nothing stored before is changed and only the four secrets are new; a
  secret that was missing now holds the user and the root password of the spec (or the key generated for
  this secret when the spec has none).
\<close>

theorem secrets_hold_credentials:
  assumes "kube_api cli objs I" and "e_cli E = cli" and "MongoBase_EnsureSecret E s = (Ok (), s')"
    and "u \<in> {MongoRoot, MongoClusterAdmin, MongoClusterMonitor}"
  defines "k \<equiv> (KSecret, om_namespace (UserSecretMetaOnly (held s) u), om_name (UserSecretMetaOnly (held s) u))"
  shows "objs (b_api s') k \<noteq> None \<and>
    (objs (b_api s) k = None \<longrightarrow> (\<exists>x. objs (b_api s') k = Some (OSecret x) \<and> GetAuthInfo (Some x) =
       (u, if mgs_root_password (mg_spec (held s)) \<noteq> '''' then mgs_root_password (mg_spec (held s)) else e_key E u))) \<and>
    (\<forall>j. objs (b_api s') j \<noteq> objs (b_api s) j \<longrightarrow> objs (b_api s) j = None \<and>
       j \<in> (okey_of \<circ> OSecret) ` set (base_secrets (e_key E) (held s)))"
proof -
  have P: "plane_api cli objs I E" using assms(1,2) by (simp add: plane_api_def plane_api_axioms_def)
  let ?xs = "base_secrets (e_key E) (held s)" and ?x = "AdminSecret (e_key E u) (held s) u"
  have "distinct (map (okey_of \<circ> OSecret) ?xs)"
    by (simp add: base_secrets_def okey_of_def KeyFileSecret_def AdminSecret_def Let_def UserSecretMetaOnly_def meta_of_def
        SuffixSecretName_def MongoRoot_def MongoClusterAdmin_def MongoClusterMonitor_def to_lower_def lower_char_def)
  from plane_api.for_each_secret[OF P _ this] assms(3)
  have all: "grown objs ((okey_of \<circ> OSecret) ` set ?xs) s s'"
    "\<forall>x \<in> set ?xs. objs (b_api s') (okey_of (OSecret x)) \<noteq> None \<and>
      (objs (b_api s) (okey_of (OSecret x)) = None \<longrightarrow>
        (\<exists>y. objs (b_api s') (okey_of (OSecret x)) = Some (OSecret y) \<and> sec_data y = sec_data x))"
    by (simp_all add: plane_api.secrets_in_turn[OF P])
  have "?x \<in> set ?xs" using assms(4) by (auto simp: base_secrets_def)
  moreover have "okey_of (OSecret ?x) = k" by (simp add: okey_of_def AdminSecret_def Let_def k_def)
  moreover have "GetAuthInfo (Some y) = (u, if mgs_root_password (mg_spec (held s)) \<noteq> ''''
      then mgs_root_password (mg_spec (held s)) else e_key E u)" if "sec_data y = sec_data ?x" for y
    using that by (simp add: GetAuthInfo_def AdminSecret_def Let_def gm_get_def MongoUser_def MongoPassword_def MongoRole_def MongoDB_def)
  ultimately show ?thesis using all unfolding grown_def by metis
qed

text \<open>The administrator's secret was removed; it is created again with the password of the spec.\<close>

definition locked_plane :: "(mem, mongod) bstate" where
  "locked_plane = sample_bstate plane_mongo (mem_of [OMongo plane_mongo]) plane_db"

theorem secrets_hold_credentials_witness:
  "\<exists>s' x. MongoBase_EnsureSecret plane_env locked_plane = (Ok (), s') \<and>
    mem_lookup (b_api s') (KSecret, ''ns'', ''m-clusteradmin'') = Some (OSecret x) \<and>
    GetAuthInfo (Some x) = (''clusterAdmin'', ''pw'')"
proof -
  have "fst (MongoBase_EnsureSecret plane_env locked_plane) = Ok ()" by code_simp
  then obtain s' where run: "MongoBase_EnsureSecret plane_env locked_plane = (Ok (), s')" by (metis prod.collapse)
  have env: "e_cli plane_env = mem_client" by (simp add: plane_env_def sample_env_def)
  have key: "(KSecret, om_namespace (UserSecretMetaOnly (held locked_plane) MongoClusterAdmin),
      om_name (UserSecretMetaOnly (held locked_plane) MongoClusterAdmin)) = (KSecret, ''ns'', ''m-clusteradmin'')"
      "mem_lookup (b_api locked_plane) (KSecret, ''ns'', ''m-clusteradmin'') = None"
      "mgs_root_password (mg_spec (held locked_plane)) = ''pw''"
    by code_simp+
  from secrets_hold_credentials[OF mem.kube_api_axioms env run, of MongoClusterAdmin, unfolded key] key(2) run
  show ?thesis by (auto simp: MongoClusterAdmin_def)
qed


end
