(* ===== verification/Scale_Down.thy ===== *)
theory Scale_Down
  imports Scale_Plan
begin

text \<open>
  \<open>ScaleDownCleaner\<close> of \<open>pkg/driver/k8s/client.go\<close>: from the addresses the member clusters report
  it decides which services are in use, deletes the others, and shrinks or deletes the propagation
  policies of the services.
\<close>

section \<open>Services in use\<close>

definition Arbiter :: string where "Arbiter = ''ARBITER''"

text \<open>\<open>strings.Split(addr, ":")[1]\<close> and \<open>strconv.Atoi\<close>, then \<open>int32(port)\<close>.\<close>

definition port_of_addr :: "string \<Rightarrow> 32 word outcome" where
  "port_of_addr addr = (case go_split '':'' addr of
     _ # nodePort # _ \<Rightarrow> (case atoi nodePort of Inl e \<Rightarrow> Err e | Inr port \<Rightarrow> Ok (word_of_int port))
   | _ \<Rightarrow> Panic ''index out of range [1]'')"

lemma port_of_addr_join:
  assumes "CHR '':'' \<notin> set vip" "in_int64 i"
  shows "port_of_addr (vip @ '':'' @ itoa i) = Ok (word_of_int i)"
proof -
  have "go_split '':'' (vip @ CHR '':'' # itoa i) = [vip, itoa i]"
    using assms(1) by (simp add: go_split_char_step go_split_char_absent)
  with assms(2) show ?thesis by (simp add: port_of_addr_def atoi_itoa)
qed

fun services_in_use :: "service list \<Rightarrow> (string \<times> string) list \<Rightarrow> string list outcome" where
  "services_in_use serviceList [] = Ok []"
| "services_in_use serviceList ((addr, role) # caw) =
     (if role = Arbiter then services_in_use serviceList caw
      else (case port_of_addr addr of
          Ok port \<Rightarrow> (case GetServiceByNodePort port serviceList of
              Inl e \<Rightarrow> Err e
            | Inr svc \<Rightarrow> (case services_in_use serviceList caw of
                Ok names \<Rightarrow> Ok (List.insert (om_name (svc_meta svc)) names) | r \<Rightarrow> r))
        | Err e \<Rightarrow> Err e
        | Panic p \<Rightarrow> Panic p))"

text \<open>\<open>allEffectService\<close> and \<open>serviceWithCluster\<close>, over the entries of \<open>Status.Result\<close>.\<close>

fun effect_services ::
    "runtime \<Rightarrow> service list \<Rightarrow> service_topology list \<Rightarrow> string list \<times> (string, string list) gomap \<Rightarrow>
     (string list \<times> (string, string list) gomap) outcome" where
  "effect_services rt serviceList [] acc = Ok acc"
| "effect_services rt serviceList (t # ts) (allEffect, withCluster) =
     (case services_in_use serviceList (rt_range_labels rt (tp_connect t)) of
        Ok names \<Rightarrow> effect_services rt serviceList ts
          (List.union names allEffect, AList.update (tp_cluster t) names withCluster)
      | Err e \<Rightarrow> Err e
      | Panic p \<Rightarrow> Panic p)"

section \<open>Policies in use\<close>

fun keep_first :: "string list \<Rightarrow> string list \<Rightarrow> string list" where
  "keep_first seen [] = []"
| "keep_first seen (x # xs) = (if x \<in> set seen then keep_first seen xs else x # keep_first (x # seen) xs)"

lemma keep_first_set: "set (keep_first seen xs) = set xs - set seen"
  by (induction seen xs rule: keep_first.induct) auto

lemma keep_first_distinct: "distinct (keep_first seen xs)"
  by (induction seen xs rule: keep_first.induct) (auto simp: keep_first_set)

text \<open>The clusters appended for one policy: one entry per use of a selected service.\<close>

definition used_clusters :: "(string, string list) gomap \<Rightarrow> propagation_policy \<Rightarrow> string list \<Rightarrow> string list" where
  "used_clusters withCluster pp clusterNames =
     [cluster. cluster \<leftarrow> clusterNames, svcName \<leftarrow> gm_get [] withCluster cluster,
               resource \<leftarrow> pp_selectors pp, rsel_name resource = svcName]"

fun policy_clusters ::
    "(string, string list) gomap \<Rightarrow> propagation_policy list \<Rightarrow> (string, string list) gomap \<Rightarrow>
     (string, string list) gomap outcome" where
  "policy_clusters withCluster [] m = Ok m"
| "policy_clusters withCluster (pp # pps) m =
     (case pp_affinity pp of
        None \<Rightarrow> Panic ''nil pointer dereference''
      | Some names \<Rightarrow>
          (let used = used_clusters withCluster pp names; n = om_name (pp_meta pp)
           in policy_clusters withCluster pps
                (if used = [] then m else AList.update n (gm_get [] m n @ used) m)))"

definition dedup_all :: "(string, string list) gomap \<Rightarrow> (string, string list) gomap" where
  "dedup_all m = map (\<lambda>(k, clusters). (k, keep_first [] clusters)) m"

section \<open>The cleaner\<close>

definition clean_services :: "'w client \<Rightarrow> string list \<Rightarrow> service list \<Rightarrow> ('w, unit) go" where
  "clean_services cli allEffect serviceList =
     for_each serviceList (\<lambda>svc.
       if om_name (svc_meta svc) \<in> set allEffect then ret () else DeleteObj cli (OService svc))"

text \<open>
  A policy without clusters in use is deleted, and then also compared: its clusters differ from
  the missing entry, an empty list, so it is sent to \<open>UpsertPPEnsure\<close> as well.
\<close>

definition clean_policy ::
    "'w client \<Rightarrow> multi_cloud \<Rightarrow> (string, string list) gomap \<Rightarrow> propagation_policy \<Rightarrow> ('w, unit) go" where
  "clean_policy cli cr ppMap pp =
     (let n = om_name (pp_meta pp) in
      andthen (if gm_has ppMap n then ret () else DeleteObj cli (OPP pp))
        (case pp_affinity pp of
           None \<Rightarrow> panic ''nil pointer dereference''
         | Some names \<Rightarrow>
             (if names \<noteq> gm_get [] ppMap n
              then UpsertPPEnsure cli cr (pp\<lparr>pp_affinity := Some (gm_get [] ppMap n)\<rparr>)
              else ret ())))"

definition clean_policies ::
    "'w client \<Rightarrow> multi_cloud \<Rightarrow> (string, string list) gomap \<Rightarrow> propagation_policy list \<Rightarrow> ('w, unit) go" where
  "clean_policies cli cr ppMap pps = for_each pps (clean_policy cli cr ppMap)"

definition ScaleDownCleaner ::
    "'w client \<Rightarrow> runtime \<Rightarrow> service list \<Rightarrow> multi_cloud \<Rightarrow> propagation_policy list \<Rightarrow> ('w, unit) go" where
  "ScaleDownCleaner cli rt serviceList cr svcPPList =
     bindg (lift_outcome (effect_services rt serviceList (mst_result (mc_status cr)) ([], [])))
       (\<lambda>(allEffect, withCluster).
          andthen (clean_services cli allEffect serviceList)
            (bindg (lift_outcome (policy_clusters withCluster svcPPList []))
              (\<lambda>servicePPMap. clean_policies cli cr (dedup_all servicePPMap) svcPPList)))"

section \<open>What the cleaner leaves alone\<close>

text \<open>\<open>frame objs K m\<close>: however \<open>m\<close> ends, objects with keys outside \<open>K\<close> are stored as before.\<close>

definition frame :: "('w \<Rightarrow> okey \<Rightarrow> kobj option) \<Rightarrow> okey set \<Rightarrow> ('w, 'a) go \<Rightarrow> bool" where
  "frame objs K m \<longleftrightarrow> (\<forall>w k. k \<notin> K \<longrightarrow> objs (snd (m w)) k = objs w k)"

lemma frame_basic [intro!]: "frame objs K (ret x)" "frame objs K (fail e)" "frame objs K (panic p)"
    "frame objs K (lift_outcome r)"
  by (simp_all add: frame_def go_simps)

lemma frame_keeps: "frame objs K m \<longleftrightarrow> (\<forall>f. keeps (\<lambda>w. \<forall>k. k \<notin> K \<longrightarrow> objs w k = f k) m)"
proof
  assume "\<forall>f. keeps (\<lambda>w. \<forall>k. k \<notin> K \<longrightarrow> objs w k = f k) m"
  then have "keeps (\<lambda>w'. \<forall>k. k \<notin> K \<longrightarrow> objs w' k = objs w k) m" for w by blast
  then show "frame objs K m" by (simp add: frame_def keeps_def)
qed (simp add: frame_def keeps_def)

lemma frame_bind [intro]:
  "frame objs K m \<Longrightarrow> (\<And>a. frame objs K (f a)) \<Longrightarrow> frame objs K (bindg m f)"
  unfolding frame_keeps by (blast intro: keeps_bind)

lemma frame_for_each [intro]:
  "(\<And>x. x \<in> set xs \<Longrightarrow> frame objs K (f x)) \<Longrightarrow> frame objs K (for_each xs f)"
  unfolding frame_keeps by (blast intro: keeps_for_each)

lemma frame_mono: "frame objs K m \<Longrightarrow> K \<subseteq> L \<Longrightarrow> frame objs L m"
  unfolding frame_def by blast

context kube_api
begin

lemma frame_delete: "frame objs {okey_of x} (DeleteObj cli x)"
proof (unfold frame_def DeleteObj_def, intro allI impI)
  fix w k assume "k \<notin> {okey_of x}"
  obtain r w' where run: "c_delete cli (okey_of x) w = (r, w')" by fastforce
  then show "objs (snd (c_delete cli (okey_of x) w)) k = objs w k"
    using delete_Ok[of "okey_of x" w w'] failed_writes(4)[of "okey_of x" w _ w'] no_panic(6) \<open>k \<notin> _\<close>
    by (cases r) auto
qed

lemma frame_create_with_ref:
  "frame objs {okey_of x} (bindg (c_set_ref cli m x) (CreateObject cli))"
proof (unfold frame_def, intro allI impI)
  fix w k assume "k \<notin> {okey_of x}"
  obtain r w' where run: "bindg (c_set_ref cli m x) (CreateObject cli) w = (r, w')" by fastforce
  from create_with_ref_run[OF run] \<open>k \<notin> _\<close>
  show "objs (snd (bindg (c_set_ref cli m x) (CreateObject cli) w)) k = objs w k"
    unfolding run by (cases "r = Ok ()") auto
qed

lemma frame_upsert: "frame objs {okey_of x} (UpsertObject cli x)"
proof (unfold frame_def, intro allI impI)
  fix w k assume "k \<notin> {okey_of x}"
  obtain r w' where run: "UpsertObject cli x w = (r, w')" by fastforce
  from upsert_run[OF run] \<open>k \<notin> _\<close>
  show "objs (snd (UpsertObject cli x w)) k = objs w k"
    unfolding run by (cases "r = Ok ()") auto
qed

lemma frame_IsExists: "frame objs K (IsExists cli k)"
  using IsExists_run[of k] by (simp add: frame_def) (metis prod.collapse)

lemma frame_upsert_policy: "frame objs {okey_of (OPP p)} (UpsertPPEnsure cli cr p)"
  unfolding UpsertPPEnsure_def
  using frame_upsert[of "set_rv rv (OPP p)" for rv] frame_create_with_ref[of "OPP p"] frame_IsExists
  by (intro frame_bind) (auto simp: Let_def split: option.splits kobj.splits simp del: set_rv_cases)

lemma frame_clean_services:
  "frame objs (okey_of ` OService ` {s \<in> set serviceList. om_name (svc_meta s) \<notin> set allEffect})
     (clean_services cli allEffect serviceList)"
  unfolding clean_services_def
proof (rule frame_for_each)
  fix s assume "s \<in> set serviceList"
  then show "frame objs (okey_of ` OService ` {s \<in> set serviceList. om_name (svc_meta s) \<notin> set allEffect})
      (if om_name (svc_meta s) \<in> set allEffect then ret () else DeleteObj cli (OService s))"
    by (auto intro: frame_mono[OF frame_delete])
qed

lemma frame_clean_policies: "frame objs (okey_of ` OPP ` set pps) (clean_policies cli cr ppMap pps)"
  unfolding clean_policies_def
proof (rule frame_for_each)
  fix p assume p: "p \<in> set pps"
  have key: "okey_of (OPP (p\<lparr>pp_affinity := a\<rparr>)) = okey_of (OPP p)" for a by (simp add: okey_of_def)
  have "frame objs (okey_of ` OPP ` set pps) (UpsertPPEnsure cli cr (p\<lparr>pp_affinity := a\<rparr>))" for a
    using frame_upsert_policy[of "p\<lparr>pp_affinity := a\<rparr>"] key p by (auto intro: frame_mono)
  moreover have "frame objs (okey_of ` OPP ` set pps) (DeleteObj cli (OPP p))"
    using p by (auto intro: frame_mono[OF frame_delete])
  ultimately show "frame objs (okey_of ` OPP ` set pps) (clean_policy cli cr ppMap p)"
    unfolding clean_policy_def Let_def by (auto intro!: frame_bind split: option.splits)
qed

end

section \<open>Lemmas\<close>

lemma services_in_use_Ok:
  "services_in_use serviceList caw = Ok names \<Longrightarrow> (addr, role) \<in> set caw \<Longrightarrow> role \<noteq> Arbiter \<Longrightarrow>
   \<exists>port s. port_of_addr addr = Ok port \<and> GetServiceByNodePort port serviceList = Inr s \<and>
     om_name (svc_meta s) \<in> set names"
  by (induction serviceList caw arbitrary: names rule: services_in_use.induct)
    (fastforce split: if_splits outcome.splits sum.splits)+

lemma effect_services_Ok:
  "effect_services rt ss ts acc = Ok (allEffect, withCluster) \<Longrightarrow>
   set (fst acc) \<subseteq> set allEffect \<and>
   (\<forall>t \<in> set ts. \<exists>names. services_in_use ss (rt_range_labels rt (tp_connect t)) = Ok names \<and>
      set names \<subseteq> set allEffect)"
proof (induction rt ss ts acc rule: effect_services.induct)
  case (2 rt ss t ts allEffect' withCluster')
  then show ?case by (fastforce split: outcome.splits)
qed simp

text \<open>A service whose node port a reported data member has is in use.\<close>

lemma effect_services_used:
  assumes "runtime_ok rt" "effect_services rt ss ts ([], []) = Ok (allEffect, withCluster)"
    and "t \<in> set ts" "(addr, role) \<in> set (tp_connect t)" "role \<noteq> Arbiter"
    and "port_of_addr addr = Ok port" "GetServiceByNodePort port ss = Inr s"
  shows "om_name (svc_meta s) \<in> set allEffect"
proof -
  from effect_services_Ok[OF assms(2)] assms(3) obtain names where
    names: "services_in_use ss (rt_range_labels rt (tp_connect t)) = Ok names" "set names \<subseteq> set allEffect"
    by blast
  have "(addr, role) \<in> set (rt_range_labels rt (tp_connect t))"
    using assms(1,4) by (simp add: runtime_ok_def iteration_order_set)
  with services_in_use_Ok[OF names(1)] assms(5-7) have "om_name (svc_meta s) \<in> set names" by fastforce
  with names(2) show ?thesis by blast
qed

context kube_api
begin

definition dead :: "'w \<Rightarrow> okey \<Rightarrow> bool" where
  "dead w k \<longleftrightarrow> (\<forall>z. objs w k = Some z \<longrightarrow> om_deleting (ometa z))"

lemma delete_dead:
  "ensures (\<lambda>w. \<forall>k \<in> K. dead w k) (DeleteObj cli x) (\<lambda>_ w. \<forall>k \<in> insert (okey_of x) K. dead w k)"
proof (rule ensuresI)
  fix w a w' assume K: "\<forall>k \<in> K. dead w k" and run: "DeleteObj cli x w = (Ok a, w')"
  from run delete_Ok[of "okey_of x" w w'] obtain v where
    "objs w' = (objs w)(okey_of x := v)" "\<forall>y. v = Some y \<longrightarrow> om_deleting (ometa y)"
    by (auto simp: DeleteObj_def)
  with K show "\<forall>k \<in> insert (okey_of x) K. dead w' k" by (auto simp: dead_def)
qed

lemma clean_services_dead:
  "ensures (\<lambda>_. True) (clean_services cli [] ss) (\<lambda>_ w. \<forall>s \<in> set ss. dead w (okey_of (OService s)))"
proof -
  have "ensures (\<lambda>w. \<forall>s \<in> set []. dead w (okey_of (OService s)))
      (for_each ss (\<lambda>s. DeleteObj cli (OService s))) (\<lambda>_ w. \<forall>s \<in> set ss. dead w (okey_of (OService s)))"
  proof (rule ensures_for_each)
    fix ys s zs
    show "ensures (\<lambda>w. \<forall>s \<in> set ys. dead w (okey_of (OService s))) (DeleteObj cli (OService s))
        (\<lambda>_ w. \<forall>s \<in> set (ys @ [s]). dead w (okey_of (OService s)))"
      using delete_dead[of "okey_of ` OService ` set ys" "OService s"]
      by (auto simp: ensures_def)
  qed
  then show ?thesis by (simp add: clean_services_def)
qed

lemma clean_policy_stuck:
  assumes "objs w (okey_of (OPP pp)) = Some z" "om_finalizers (ometa z) = []"
    and "\<not> gm_has ppMap (om_name (pp_meta pp))" "pp_affinity pp = Some names" "names \<noteq> []"
    and "om_rv (pp_meta pp) \<noteq> ''''"
    and "clean_policy cli cr ppMap pp w = (r, w')"
  shows "r \<noteq> Ok ()"
proof
  assume r: "r = Ok ()"
  have none: "gm_get [] ppMap (om_name (pp_meta pp)) = []"
    using assms(3) by (simp add: gm_has_def gm_get_def)
  let ?p = "pp\<lparr>pp_affinity := Some []\<rparr>"
  have key: "okey_of (OPP ?p) = okey_of (OPP pp)" by (simp add: okey_of_def)
  from assms(3-5,7) r none obtain w1 where w1: "DeleteObj cli (OPP pp) w = (Ok (), w1)"
      "UpsertPPEnsure cli cr ?p w1 = (Ok (), w')"
    by (auto simp: clean_policy_def bindg_Ok_iff)
  from w1(1) delete_Ok[of "okey_of (OPP pp)" w w1] assms(1,2)
  have gone: "objs w1 (okey_of (OPP ?p)) = None"
    unfolding key by (auto simp: DeleteObj_def okey_of_def)
  from w1(2) show False unfolding UpsertPPEnsure_def
  proof (cases rule: after_lookup)
    case (found w2)
    with gone have "bindg (c_set_ref cli (mc_meta cr) (OPP ?p)) (CreateObject cli) w2 = (Ok (), w')"
      by simp
    from create_with_ref_run[OF this] assms(6) show False by simp
  qed simp
qed

end

section \<open>Properties\<close>

text \<open>
  C3: the cleaner never deletes the service of a reported data member: however it ends, a service
  that a non-arbiter address of \<open>Status.Result\<close> resolves to is stored as before; so is every
  object that is neither one of the listed services nor one of the listed policies.
\<close>

theorem cleaner_keeps_used:
  assumes "kube_api cli objs I" and "runtime_ok rt"
    and "ScaleDownCleaner cli rt serviceList cr svcPPList w = (r, w')"
    and "t \<in> set (mst_result (mc_status cr))" and "(addr, role) \<in> set (tp_connect t)"
    and "role \<noteq> Arbiter" and "port_of_addr addr = Ok port"
    and "GetServiceByNodePort port serviceList = Inr s"
  shows "objs w' (okey_of (OService s)) = objs w (okey_of (OService s)) \<and>
    (\<forall>k. k \<notin> okey_of ` OService ` set serviceList \<and> k \<notin> okey_of ` OPP ` set svcPPList \<longrightarrow>
       objs w' k = objs w k)"
proof -
  let ?K = "{k. k \<in> okey_of ` OService ` set serviceList \<and> k \<noteq> okey_of (OService s)} \<union>
      okey_of ` OPP ` set svcPPList"
  have "frame objs ?K (ScaleDownCleaner cli rt serviceList cr svcPPList)"
  proof (cases "effect_services rt serviceList (mst_result (mc_status cr)) ([], [])")
    case (Ok e)
    obtain allEffect withCluster where e: "e = (allEffect, withCluster)" by fastforce
    have used: "om_name (svc_meta s) \<in> set allEffect"
      using effect_services_used[OF assms(2) Ok[unfolded e] assms(4-8)] .
    have "frame objs ?K (clean_services cli allEffect serviceList)"
      by (rule frame_mono[OF kube_api.frame_clean_services[OF assms(1)]])
        (use used in \<open>auto simp: okey_of_def\<close>)
    moreover have "frame objs ?K (clean_policies cli cr m svcPPList)" for m
      by (rule frame_mono[OF kube_api.frame_clean_policies[OF assms(1)]]) auto
    moreover have "ScaleDownCleaner cli rt serviceList cr svcPPList =
        andthen (clean_services cli allEffect serviceList)
          (bindg (lift_outcome (policy_clusters withCluster svcPPList []))
            (\<lambda>m. clean_policies cli cr (dedup_all m) svcPPList))"
      by (simp add: ScaleDownCleaner_def Ok e fun_eq_iff bindg_def lift_outcome_def)
    ultimately show ?thesis by (auto intro!: frame_bind)
  qed (simp_all add: ScaleDownCleaner_def frame_def bindg_def lift_outcome_def)
  moreover have "okey_of (OService s) \<notin> ?K" by (auto simp: okey_of_def)
  ultimately show ?thesis
    using assms(3) unfolding frame_def by (metis (no_types, lifting) Un_iff mem_Collect_eq snd_conv)
qed

theorem cleaner_keeps_used_witness:
  "let ss = [sample_service ''s0'' 30001, sample_service ''s1'' 30002];
       cr = with_result [sample_topology ''a'' [(''10.0.0.1:'' @ itoa 30001, ''PRIMARY'')]] sample_cr
   in \<exists>r w'. ScaleDownCleaner mem_client (plain_runtime undefined undefined) ss cr []
        (mem_of (map OService ss)) = (r, w') \<and>
      mem_lookup w' (KService, ''ns'', ''s0'') = Some (OService (sample_service ''s0'' 30001))"
proof -
  let ?ss = "[sample_service ''s0'' 30001, sample_service ''s1'' 30002]"
  let ?cr = "with_result [sample_topology ''a'' [(''10.0.0.1:'' @ itoa 30001, ''PRIMARY'')]] sample_cr"
  let ?w = "mem_of (map OService ?ss)"
  obtain r w' where run:
    "ScaleDownCleaner mem_client (plain_runtime undefined undefined) ?ss ?cr [] ?w = (r, w')"
    by fastforce
  have port: "port_of_addr (''10.0.0.1:'' @ itoa 30001) = Ok 30001"
    using port_of_addr_join[of "''10.0.0.1''" 30001] by (simp add: in_int64_def)
  have svc: "GetServiceByNodePort 30001 ?ss = Inr (sample_service ''s0'' 30001)"
    by (simp add: sample_service_def)
  have "mem_lookup w' (okey_of (OService (sample_service ''s0'' 30001))) =
      mem_lookup ?w (okey_of (OService (sample_service ''s0'' 30001)))"
    using cleaner_keeps_used[OF mem.kube_api_axioms plain_runtime_ok run _ _ _ port svc,
        of "sample_topology ''a'' [(''10.0.0.1:'' @ itoa 30001, ''PRIMARY'')]" "''PRIMARY''"]
    by (simp add: sample_topology_def Arbiter_def)
  with run show ?thesis
    by (simp add: Let_def samples sample_service_def mem_lookup_def)
qed

text \<open>
  C29: with an empty \<open>Status.Result\<close>, the state of a fresh or reset status, the cleaner takes no
  service to be in use: once its deletions succeeded no listed service is left alive.
\<close>

theorem cleaner_empty_result:
  assumes "kube_api cli objs I" and "mst_result (mc_status cr) = []"
    and "clean_services cli [] serviceList w = (Ok (), w1)"
    and "ScaleDownCleaner cli rt serviceList cr svcPPList w = (r, w')"
    and "s \<in> set serviceList" and "objs w' (okey_of (OService s)) = Some z"
  shows "om_deleting (ometa z)"
proof -
  have dead: "kube_api.dead objs w1 (okey_of (OService s))"
    using kube_api.clean_services_dead[OF assms(1)] assms(3,5) by (auto simp: ensures_def)
  let ?K = "okey_of ` OPP ` set svcPPList"
  let ?rest = "bindg (lift_outcome (policy_clusters [] svcPPList []))
      (\<lambda>m. clean_policies cli cr (dedup_all m) svcPPList)"
  have "ScaleDownCleaner cli rt serviceList cr svcPPList w = ?rest w1"
    using assms(2,3) by (simp add: ScaleDownCleaner_def bindg_def lift_outcome_def)
  moreover have "frame objs ?K ?rest"
    using kube_api.frame_clean_policies[OF assms(1)] by (blast intro: frame_bind)
  moreover have "okey_of (OService s) \<notin> ?K" by (auto simp: okey_of_def)
  ultimately have "objs w' (okey_of (OService s)) = objs w1 (okey_of (OService s))"
    using assms(4) unfolding frame_def by (metis snd_conv)
  with dead assms(6) show ?thesis by (simp add: kube_api.dead_def[OF assms(1)])
qed

theorem cleaner_empty_result_witness:
  "let ss = [sample_service ''s0'' 30001] in
   \<exists>w1 r w'. clean_services mem_client [] ss (mem_of (map OService ss)) = (Ok (), w1) \<and>
     ScaleDownCleaner mem_client (plain_runtime undefined undefined) ss (with_result [] sample_cr) []
       (mem_of (map OService ss)) = (r, w') \<and>
     (\<forall>z. mem_lookup w' (KService, ''ns'', ''s0'') = Some z \<longrightarrow> om_deleting (ometa z))"
proof -
  let ?ss = "[sample_service ''s0'' 30001]"
  let ?w = "mem_of (map OService ?ss)"
  have "fst (clean_services mem_client [] ?ss ?w) = Ok ()" by code_simp
  then obtain w1 where clean: "clean_services mem_client [] ?ss ?w = (Ok (), w1)"
    by (metis prod.collapse)
  obtain r w' where run: "ScaleDownCleaner mem_client (plain_runtime undefined undefined) ?ss
      (with_result [] sample_cr) [] ?w = (r, w')" by fastforce
  have "om_deleting (ometa z)" if "mem_lookup w' (KService, ''ns'', ''s0'') = Some z" for z
    using cleaner_empty_result[OF mem.kube_api_axioms _ clean run, of "sample_service ''s0'' 30001" z]
      that by (simp add: okey_of_def sample_service_def meta_of_def)
  with clean run show ?thesis by (simp add: Let_def)
qed

text \<open>
  A stored policy none of whose services is in use cannot be cleaned without an error: it is
  deleted, and then sent to \<open>UpsertPPEnsure\<close>, which finds it missing and tries to create it with
  the resource version it was read with.
\<close>

theorem cleaner_unused_policy_fails:
  assumes "kube_api cli objs I"
    and "objs w (okey_of (OPP pp)) = Some (OPP pp)" and "om_finalizers (pp_meta pp) = []"
    and "om_rv (pp_meta pp) \<noteq> ''''"
    and "\<not> gm_has ppMap (om_name (pp_meta pp))" and "pp_affinity pp = Some names" and "names \<noteq> []"
    and "clean_policy cli cr ppMap pp w = (r, w')"
  shows "r \<noteq> Ok ()"
  using kube_api.clean_policy_stuck[OF assms(1,2) _ assms(5,6,7,4,8)] assms(3) by simp

theorem cleaner_unused_policy_fails_witness:
  "let pp = (sample_policy [''a''] [])\<lparr>pp_meta := (meta_of ''p'' ''ns'' [])\<lparr>om_rv := ''7''\<rparr>\<rparr>
   in fst (clean_policy mem_client sample_cr [] pp (mem_of [OPP pp])) \<noteq> Ok ()"
proof -
  let ?pp = "(sample_policy [''a''] [])\<lparr>pp_meta := (meta_of ''p'' ''ns'' [])\<lparr>om_rv := ''7''\<rparr>\<rparr>"
  obtain r w' where run: "clean_policy mem_client sample_cr [] ?pp (mem_of [OPP ?pp]) = (r, w')"
    by fastforce
  have "mem_lookup (mem_of [OPP ?pp]) (okey_of (OPP ?pp)) = Some (OPP ?pp)"
    by (simp add: mem_of_def mem_lookup_def)
  from cleaner_unused_policy_fails[OF mem.kube_api_axioms this _ _ _ _ _ run, of "[''a'']"]
  have "r \<noteq> Ok ()" by (simp add: sample_policy_def meta_of_def)
  with run show ?thesis by (simp add: Let_def)
qed

end
