(* ===== verification/Handlers.thy ===== *)
theory Handlers
  imports Scale_Down Conditions
begin

text \<open>
  The chain of responsibility of \<open>pkg/controller/multicloudmongodb/core.go\<close>. Each handler is a
  state transformer over \<open>hstate\<close>, the model of \<open>MultiCloudDBParams\<close> together with the world behind
  the client, and takes the next handler as an optional argument. Variables that a deferred closure
  captures (\<open>processStatus\<close>, \<open>processReason\<close>, \<open>processMessage\<close>) are the second component of the
  state inside \<open>with_report\<close>. Log calls are left out.
\<close>

section \<open>Parameters and reports\<close>

record 'w hstate =
  h_cr :: multi_cloud
  h_vips :: labels \<comment> \<open>ClusterToVIPMap\<close>
  h_sched :: "cluster_replicas list option" \<comment> \<open>SchedulerResult, a pointer\<close>
  h_arbiters :: "(string, service) gomap" \<comment> \<open>ArbiterMap\<close>
  h_svcnames :: "(string, string list) gomap" \<comment> \<open>ServiceNameWithCluster\<close>
  h_active :: "string list" \<comment> \<open>ActiveCluster\<close>
  h_world :: 'w

type_synonym 'w handler = "('w hstate, unit) go"

definition api :: "('w, 'a) go \<Rightarrow> ('w hstate, 'a) go" where
  "api m = zoom h_world (\<lambda>w s. s\<lparr>h_world := w\<rparr>) m"

definition run_next :: "'w handler option \<Rightarrow> 'w handler" where
  "run_next next = (case next of Some h \<Rightarrow> h | None \<Rightarrow> ret ())"

definition need_sched :: "('w hstate, cluster_replicas list) go" where
  "need_sched = bindg (gets h_sched) (\<lambda>r. case r of
     Some xs \<Rightarrow> ret xs | None \<Rightarrow> panic ''nil pointer dereference'')"

definition first_of :: "'a list \<Rightarrow> ('s, 'a) go" where
  "first_of xs = (case xs of x # _ \<Rightarrow> ret x | [] \<Rightarrow> panic ''index out of range [0]'')"

definition deref :: "'a option \<Rightarrow> ('s, 'a) go" where
  "deref p = (case p of Some x \<Rightarrow> ret x | None \<Rightarrow> panic ''nil pointer dereference'')"

record report =
  rep_type :: condition_type
  rep_status :: condition_status
  rep_reason :: string
  rep_message :: string

text \<open>
  The body of the deferred closures: record the condition, push the status, and only log a failed
  push. The update decodes the server's answer into the object.
\<close>

definition set_condition :: "'w client \<Rightarrow> report \<Rightarrow> ('w hstate, unit) go" where
  "set_condition cli rep = bindg (api (c_now cli)) (\<lambda>now. modify (\<lambda>s.
     s\<lparr>h_cr := (h_cr s)\<lparr>mc_status := SetTypeCondition now (rep_type rep) (rep_status rep)
         (rep_reason rep) (rep_message rep) (mc_status (h_cr s))\<rparr>\<rparr>))"

definition record_condition :: "'w client \<Rightarrow> report \<Rightarrow> ('w hstate, unit) go" where
  "record_condition cli rep = andthen (set_condition cli rep)
     (bindg (gets h_cr) (\<lambda>cr. bindg (attempt (api (UpdateObjectStatus cli (OMultiCloud cr)))) (\<lambda>r.
        case r of
          Inr (OMultiCloud cr') \<Rightarrow> modify (\<lambda>s. s\<lparr>h_cr := cr'\<rparr>)
        | _ \<Rightarrow> ret ())))"

definition with_report :: "(report \<Rightarrow> ('s, unit) go) \<Rightarrow> report \<Rightarrow> ('s \<times> report, 'a) go \<Rightarrow> ('s, 'a) go" where
  "with_report d rep m = (\<lambda>s. case m (s, rep) of (r, (t, rep')) \<Rightarrow>
     (case d rep' t of (Panic p, u) \<Rightarrow> (Panic p, u) | (_, u) \<Rightarrow> (r, u)))"

definition on_state :: "('s, 'a) go \<Rightarrow> ('s \<times> 'r, 'a) go" where
  "on_state m = zoom fst (\<lambda>s (_, r). (s, r)) m"

definition set_report :: "report \<Rightarrow> ('s \<times> report, unit) go" where
  "set_report rep = modify (\<lambda>(s, _). (s, rep))"

text \<open>\<open>if err := m(); err != nil { process... = ...; return err }\<close>\<close>

definition reporting :: "(gerror \<Rightarrow> report) \<Rightarrow> ('s, 'a) go \<Rightarrow> ('s \<times> report, 'a) go" where
  "reporting f m = bindg (attempt (on_state m)) (\<lambda>r. case r of
     Inl e \<Rightarrow> andthen (set_report (f e)) (fail e)
   | Inr x \<Rightarrow> ret x)"

definition cr_name :: "multi_cloud \<Rightarrow> string" where "cr_name cr = om_name (mc_meta cr)"
definition cr_ns :: "multi_cloud \<Rightarrow> string" where "cr_ns cr = om_namespace (mc_meta cr)"
definition cr_labels :: "multi_cloud \<Rightarrow> labels" where "cr_labels cr = om_labels (mc_meta cr)"

section \<open>GetScheduleStatusHandler\<close>

definition schedule_sum :: "cluster_replicas list \<Rightarrow> int" where
  "schedule_sum cs = foldl (\<lambda>acc c. add64 acc (cw_replicaset c)) 0 cs"

definition schedule_message :: "string \<Rightarrow> multi_cloud \<Rightarrow> string \<Rightarrow> string" where
  "schedule_message verdict cr detail =
     ''Get Scheduler Result From MultiCloudMongoDB Annotations '' @ verdict @ '' ('' @ cr_ns cr @ ''/'' @
     cr_name cr @ ''): '' @ detail"

definition GetScheduleStatusHandler ::
    "'w client \<Rightarrow> runtime \<Rightarrow> 'w handler option \<Rightarrow> 'w handler" where
  "GetScheduleStatusHandler cli rt next = bindg (gets h_cr) (\<lambda>cr.
     let annotation = gm_get '''' (om_annotations (mc_meta cr)) ''schedulerResult''
     in with_report (record_condition cli)
          \<lparr>rep_type = ServerScheduledResult, rep_status = CTrue, rep_reason = ''GetSchedulerSuccess'',
           rep_message = schedule_message ''Success'' cr annotation\<rparr>
          (bindg (reporting (\<lambda>e. \<lparr>rep_type = ServerScheduledResult, rep_status = CFalse,
                      rep_reason = ''GetSchedulerFailed'',
                      rep_message = schedule_message ''Failed'' cr (err_text e)\<rparr>)
                   (case rt_json_sched rt annotation of
                      Inl e \<Rightarrow> fail e
                    | Inr result \<Rightarrow> modify (\<lambda>s. s\<lparr>h_sched := result\<rparr>)))
             (\<lambda>_. on_state (bindg need_sched (\<lambda>sched.
                if schedule_sum sched = 0 then ret () else run_next next)))))"

section \<open>VIPAllocatorHandler\<close>

definition VIPAllocatorHandler :: "'w client \<Rightarrow> 'w handler option \<Rightarrow> 'w handler" where
  "VIPAllocatorHandler cli next = andthen need_sched
     (andthen (modify (\<lambda>s. s\<lparr>h_vips := []\<rparr>))
       (bindg (api (ListClusterByLabel cli)) (\<lambda>clusters.
          andthen (modify (\<lambda>s. s\<lparr>h_vips := fold (\<lambda>c vips. AList.update (om_name (kc_meta c))
                     (gm_get '''' (om_labels (kc_meta c)) ''vip'') vips) clusters (h_vips s)\<rparr>))
            (run_next next))))"

section \<open>ClusterScaleHandler\<close>

definition down_report :: "condition_status \<Rightarrow> string \<Rightarrow> string \<Rightarrow> report" where
  "down_report st reason msg = \<lparr>rep_type = ServerWaitingScaleDown, rep_status = st,
     rep_reason = reason, rep_message = msg\<rparr>"

definition check_failed :: "gerror \<Rightarrow> report" where
  "check_failed e = down_report CFalse ''CheckFailed''
     (''Update PP and SVC and ConfigMap failed, err: '' @ err_text e)"

text \<open>The clean-up once every shrinking cluster reports its new size.\<close>

definition scale_down_clean :: "'w client \<Rightarrow> runtime \<Rightarrow> ('w hstate \<times> report, unit) go" where
  "scale_down_clean cli rt = bindg (on_state (gets h_cr)) (\<lambda>cr.
     bindg (reporting check_failed
             (api (ListService cli (cr_ns cr) (BaseLabel (cr_labels cr) (cr_name cr))))) (\<lambda>serviceList.
     bindg (reporting check_failed
             (api (ListSvcPPByLabel cli
                (GenerateServicePPLabel (cr_labels cr) (cr_name cr @ ''-service-pp''))))) (\<lambda>svcPPList.
     reporting check_failed (api (ScaleDownCleaner cli rt serviceList cr svcPPList)))))"

definition apply_service ::
    "'w client \<Rightarrow> multi_cloud \<Rightarrow> service_plan \<Rightarrow> nat \<Rightarrow> ('w, unit) go" where
  "apply_service cli cr plan i =
     (if gm_get [] plan i = [] then ret ()
      else (let serviceName = mongodb_name (cr_name cr) i;
                label = GenerateServiceLabel (cr_labels cr) (cr_name cr) serviceName;
                svc = GenerateService serviceName (cr_ns cr) label label False;
                servicePPLabel = GenerateServicePPLabel label (cr_name cr @ ''-service-pp'');
                servicePP = GenerateServicePP (serviceName @ ''-pp'') (cr_ns cr) svc servicePPLabel
                  (gm_get [] plan i)
            in andthen (Ensure cli cr (OService svc)) (UpsertPPEnsure cli cr servicePP)))"

definition scale_up :: "'w client \<Rightarrow> runtime \<Rightarrow> (string, int) gomap \<Rightarrow> 'w handler option \<Rightarrow> 'w handler" where
  "scale_up cli rt up next = bindg (gets h_cr) (\<lambda>cr.
     bindg (deref (mcs_replicaset (mc_spec cr))) (\<lambda>replicaset.
       with_report (record_condition cli)
         \<lparr>rep_type = ServerCheck, rep_status = CTrue, rep_reason = ''CheckSuccess'', rep_message =
            ''The number of member clusters is the same as the number of control plane copies, check, SpecReplicaset: ''
            @ itoa (sint replicaset)\<rparr>
         (on_state (bindg (gets h_svcnames) (\<lambda>svcnames.
            let plan = upsert_plan rt (cr_name cr) svcnames up
            in bindg need_sched (\<lambda>sched. bindg (first_of sched) (\<lambda>c0.
                 andthen (api (for_each [0..<nat (cw_replicaset c0)] (apply_service cli cr plan)))
                   (run_next next))))))))"

definition scale_down ::
    "'w client \<Rightarrow> runtime \<Rightarrow> (string, int) gomap \<Rightarrow> (string, int) gomap \<Rightarrow> 'w handler option \<Rightarrow> 'w handler"
where
  "scale_down cli rt up down next = bindg (gets h_cr) (\<lambda>cr.
     bindg (deref (mcs_replicaset (mc_spec cr))) (\<lambda>replicaset.
       with_report (record_condition cli)
         (down_report CTrue ''WaitingMemberScaleDown''
            (''Waiting for member clusters to undergo capacity reduction SpecReplicaset: ''
             @ itoa (sint replicaset)))
         (bindg (lift_outcome (scale_down_ok down (mst_result (mc_status cr)))) (\<lambda>scaleDownOk.
            andthen (if scaleDownOk then scale_down_clean cli rt else ret ())
              (on_state (case next of
                 Some h \<Rightarrow> h
               | None \<Rightarrow> scale_up cli rt up None))))))"

definition ClusterScaleHandler :: "'w client \<Rightarrow> runtime \<Rightarrow> 'w handler option \<Rightarrow> 'w handler" where
  "ClusterScaleHandler cli rt next = bindg need_sched (\<lambda>unsorted.
     let sched = rt_sort rt unsorted
     in andthen (modify (\<lambda>s. s\<lparr>h_sched := Some sched, h_active := h_active s @ active_clusters sched\<rparr>))
       (bindg (gets h_cr) (\<lambda>cr.
          bindg (attempt (api (GetConfigMap cli (cr_name cr @ ''-hostconf'') (cr_ns cr)))) (\<lambda>r.
            case r of
              Inl e \<Rightarrow> if \<not> is_not_found e then fail e else scale_up cli rt (all_scale_up sched) next
            | Inr cm \<Rightarrow> bindg (gets h_vips) (\<lambda>vips.
                bindg (lift_outcome (host_sizes vips
                         (go_split ''\<newline>'' (gm_get '''' (cm_data cm) ''datas'')) [])) (\<lambda>sizes.
                  let up = clustersToScaleUp sizes sched; down = clustersToScaleDown sizes sched
                  in if down \<noteq> [] then scale_down cli rt up down next
                     else scale_up cli rt up next))))))"

definition removeDuplicates :: "string list \<Rightarrow> string list" where
  "removeDuplicates entries = keep_first [] entries"

section \<open>UpsertArbiterHandler\<close>

definition arbiter_cluster :: "cluster_replicas list \<Rightarrow> string" where
  "arbiter_cluster sched = foldl (\<lambda>cluster c. if cw_arbiter c then cw_cluster c else cluster) '''' sched"

definition arbiter_on :: "'w client \<Rightarrow> multi_cloud \<Rightarrow> 'w handler" where
  "arbiter_on cli cr =
     (let svcName = cr_name cr @ ''-mongodb-arbiter'';
          label = GenerateArbiterLabel (cr_labels cr) svcName;
          svc = GenerateService svcName (cr_ns cr) label label False;
          opName = cr_name cr @ ''-arbiter''
      in bindg need_sched (\<lambda>sched. bindg (first_of sched) (\<lambda>c0.
           let sched' = c0\<lparr>cw_arbiter := True\<rparr> # tl sched
           in andthen (modify (\<lambda>s. s\<lparr>h_sched := Some sched'\<rparr>))
             (andthen (api (UpsertOpEnsure cli cr (GenerateMongoOPWithPath opName (cr_ns cr)
                              (cw_cluster c0) label cr ''/spec/arbiter'')))
               (andthen (api (Ensure cli cr (OService svc)))
                 (api (UpsertPPEnsure cli cr (GenerateServicePP (svcName @ ''-pp'') (cr_ns cr) svc
                         (GenerateArbiterServicePPLabel (cr_name cr)) [arbiter_cluster sched']))))))))"

definition arbiter_off :: "'w client \<Rightarrow> multi_cloud \<Rightarrow> 'w handler" where
  "arbiter_off cli cr =
     (let svcName = cr_name cr @ ''-mongodb-arbiter'';
          opName = cr_name cr @ ''-arbiter''
      in andthen (api (IsExistAndDeleted cli KOP opName (cr_ns cr)))
        (andthen (api (IsExistAndDeleted cli KService svcName (cr_ns cr)))
          (andthen (api (IsExistAndDeleted cli KPP (svcName @ ''-pp'') (cr_ns cr)))
            (api (UpsertConfigMapDeleteArbiter cli (cr_name cr @ ''-hostconf'') (cr_ns cr))))))"

definition UpsertArbiterHandler :: "'w client \<Rightarrow> 'w handler option \<Rightarrow> 'w handler" where
  "UpsertArbiterHandler cli next = bindg (gets h_cr) (\<lambda>cr.
     andthen (if cf_arbiter (mcs_config (mc_spec cr)) then arbiter_on cli cr else arbiter_off cli cr)
       (run_next next))"

section \<open>HostConfigMapHandler\<close>

text \<open>The lines of one policy: one per cluster it names, at the node port of its service.\<close>

fun policy_members ::
    "labels \<Rightarrow> service \<Rightarrow> string list \<Rightarrow> ('w hstate, string list) go" where
  "policy_members vips s [] = ret []"
| "policy_members vips s (cluster # cs) =
     bindg (first_of (svc_ports s)) (\<lambda>port.
       andthen (modify (\<lambda>st. st\<lparr>h_svcnames := AList.update cluster
                  (gm_get [] (h_svcnames st) cluster @ [om_name (svc_meta s)]) (h_svcnames st)\<rparr>))
         (bindg (policy_members vips s cs) (\<lambda>ls.
            ret (host_line (gm_get '''' vips cluster) (spo_node_port port) # ls))))"

fun collect_members ::
    "'w client \<Rightarrow> labels \<Rightarrow> propagation_policy list \<Rightarrow> ('w hstate, string list) go" where
  "collect_members cli vips [] = ret []"
| "collect_members cli vips (pp # pps) =
     bindg (first_of (pp_selectors pp)) (\<lambda>sel.
     bindg (api (GetSvc cli (rsel_namespace sel) (rsel_name sel))) (\<lambda>s.
     bindg (deref (pp_affinity pp)) (\<lambda>names.
     bindg (policy_members vips s names) (\<lambda>ls.
     bindg (collect_members cli vips pps) (\<lambda>rest. ret (ls @ rest))))))"

definition arbiter_member :: "'w client \<Rightarrow> multi_cloud \<Rightarrow> labels \<Rightarrow> ('w hstate, string list) go" where
  "arbiter_member cli cr vips =
     bindg (api (GetSvc cli (cr_ns cr) (cr_name cr @ ''-mongodb-arbiter''))) (\<lambda>svc.
     bindg need_sched (\<lambda>sched.
       let cluster = arbiter_cluster sched
       in andthen (modify (\<lambda>st. st\<lparr>h_arbiters := AList.update cluster svc (h_arbiters st)\<rparr>))
         (bindg (first_of (svc_ports svc)) (\<lambda>port.
            andthen (modify (\<lambda>st. st\<lparr>h_svcnames := AList.update cluster
                       (gm_get [] (h_svcnames st) cluster @ [om_name (svc_meta svc)]) (h_svcnames st)\<rparr>))
              (ret [host_line (gm_get '''' vips cluster) (spo_node_port port)])))))"

definition HostConfigMapHandler :: "'w client \<Rightarrow> 'w handler option \<Rightarrow> 'w handler" where
  "HostConfigMapHandler cli next = bindg (gets h_cr) (\<lambda>cr.
     bindg (api (ListSvcPPByLabel cli
              (GenerateServicePPLabel (cr_labels cr) (cr_name cr @ ''-service-pp'')))) (\<lambda>svcPPList.
     bindg (gets h_vips) (\<lambda>vips.
     bindg (collect_members cli vips svcPPList) (\<lambda>members.
     bindg (if cf_arbiter (mcs_config (mc_spec cr)) then arbiter_member cli cr vips else ret []) (\<lambda>arbiters.
       let cmLabel = GenerateConfigMapLabel (cr_labels cr) (cr_name cr);
           cm = GenerateConfigMap (cr_name cr @ ''-hostconf'') (cr_ns cr) cmLabel
                  \<lparr>hc_arbiters = arbiters, hc_members = members\<rparr>;
           cmPPLabel = GenerateConfigMapPPLabel cmLabel (cr_name cr @ ''-configmap-pp'')
       in andthen (api (EnsureConfigMapUpdate cli cr cm))
            (bindg (gets h_active) (\<lambda>active.
               andthen (api (UpsertPPEnsure cli cr (GenerateConfigMapPP (om_name (cm_meta cm) @ ''-pp'')
                              (om_namespace (cm_meta cm)) cm cmPPLabel active)))
                 (run_next next))))))))"

section \<open>MongoDependencyHandler and MongoHandler\<close>

definition MongoDependencyHandler :: "'w client \<Rightarrow> 'w handler option \<Rightarrow> 'w handler" where
  "MongoDependencyHandler cli next = bindg (gets h_cr) (\<lambda>cr.
     andthen (case cf_ref (mcs_config (mc_spec cr)) of
         None \<Rightarrow> ret ()
       | Some cmName \<Rightarrow> bindg (api (GetConfigMap cli cmName (cr_ns cr))) (\<lambda>cmFound.
           bindg (gets h_active) (\<lambda>active.
             let cmPPLabel = GenerateCustomConfigMapPPLabel (om_labels (cm_meta cmFound))
                               (cr_name cr @ ''-custom-configmap-pp'')
             in api (UpsertPPEnsure cli cr (GenerateConfigMapPP
                       (om_name (cm_meta cmFound) @ ''-custom-configmap-pp'')
                       (om_namespace (cm_meta cmFound)) cmFound cmPPLabel active)))))
       (run_next next))"

definition vip_override :: "multi_cloud \<Rightarrow> labels \<Rightarrow> string \<Rightarrow> override_policy" where
  "vip_override cr vips cluster =
     GenerateMongoOPWithLabel (cr_name cr @ ''-'' @ cluster @ ''-vip'') (cr_ns cr) cluster
       (GenerateClusterVipLabel (cr_labels cr) (cr_name cr)) cr
       (GenerateClusterVIPLabel (gm_get '''' vips cluster))"

definition MongoHandler :: "'w client \<Rightarrow> runtime \<Rightarrow> 'w handler option \<Rightarrow> 'w handler" where
  "MongoHandler cli rt next = bindg (gets h_cr) (\<lambda>cr.
     let baseLabel = BaseLabel (cr_labels cr) (cr_name cr)
     in bindg (lift_outcome (GenerateMongo rt (cr_name cr) (cr_ns cr) baseLabel cr)) (\<lambda>mongoCR.
       andthen (api (EnsureMongoWithoutSetRef cli mongoCR))
         (bindg need_sched (\<lambda>sched. bindg (first_of sched) (\<lambda>c0.
            andthen (api (UpsertOpEnsure cli cr (GenerateMongoOPWithPath (cr_name cr @ ''-init'')
                      (cr_ns cr) (cw_cluster c0) (GenerateInitLabel (cr_labels cr) (cr_name cr)) cr
                      ''/spec/rsInit'')))
              (bindg (gets (\<lambda>s. (h_active s, h_vips s))) (\<lambda>(active, vips).
                 andthen (api (for_each active (\<lambda>cluster.
                            UpsertOpEnsure cli cr (vip_override cr vips cluster))))
                   (andthen (api (UpsertPPEnsure cli cr (GenerateMongoPP (cr_name cr) (cr_ns cr)
                              baseLabel cr sched active)))
                     (run_next next)))))))))"

section \<open>StatusHandler\<close>

definition ready_report :: "report" where
  "ready_report = \<lparr>rep_type = ServerReady, rep_status = CTrue, rep_reason = ''ServerReady'',
     rep_message = ''Service Dispatch Successful And Ready For External Service''\<rparr>"

definition not_ready_report :: "string \<Rightarrow> report" where
  "not_ready_report detail = \<lparr>rep_type = ServerReady, rep_status = CFalse, rep_reason = ''ServerReady'',
     rep_message = ''Service Dispatch Failed And NotReady For External Service'' @ detail\<rparr>"

definition not_ready_err :: "gerror \<Rightarrow> report" where
  "not_ready_err e = not_ready_report ('', Err: '' @ err_text e)"

text \<open>Entries of the result while the member clusters have not all reported.\<close>

definition pending_topology :: "cluster_replicas \<Rightarrow> service_topology" where
  "pending_topology cwr = \<lparr>tp_status = Some 0, tp_spec = Some (cw_replicaset cwr), tp_connect = [],
     tp_cluster = cw_cluster cwr, tp_state = StateUnKnown, tp_revision = ''Unknown'', tp_applied = False\<rparr>"

record aggregate =
  agg_result :: "service_topology list"
  agg_buffer :: string
  agg_health :: nat

definition spec_replicaset :: "cluster_replicas list \<Rightarrow> string \<Rightarrow> int" where
  "spec_replicaset sched cluster =
     foldl (\<lambda>n c. if cw_cluster c = cluster then cw_replicaset c else n) 0 sched"

text \<open>\<open>Status.Result[i].ConnectAddrWithRole[addr] = role\<close>\<close>

definition set_connect :: "nat \<Rightarrow> string \<Rightarrow> string \<Rightarrow> (aggregate, unit) go" where
  "set_connect i addr role = bindg (gets agg_result) (\<lambda>ts.
     if i < length ts then modify (\<lambda>a. a\<lparr>agg_result :=
          ts[i := (ts ! i)\<lparr>tp_connect := AList.update addr role (tp_connect (ts ! i))\<rparr>]\<rparr>)
     else panic ''index out of range'')"

definition connect_member :: "nat \<Rightarrow> string \<Rightarrow> member_status \<Rightarrow> (aggregate, unit) go" where
  "connect_member i clusterVip rs =
     (if go_contains (mb_host rs) clusterVip
      then andthen (set_connect i (mb_host rs) (mb_state_str rs))
             (modify (\<lambda>a. a\<lparr>agg_buffer := agg_buffer a @ mb_host rs @ '',''\<rparr>))
      else ret ())"

definition connect_arbiter :: "nat \<Rightarrow> string \<Rightarrow> service option \<Rightarrow> (aggregate, unit) go" where
  "connect_arbiter i clusterVip found = (case found of
     None \<Rightarrow> ret ()
   | Some svc \<Rightarrow> bindg (first_of (svc_ports svc)) (\<lambda>port.
       set_connect i (join_host_port clusterVip (itoa (sint (spo_node_port port)))) ''ARBITER''))"

definition aggregate_item ::
    "runtime \<Rightarrow> labels \<Rightarrow> (string, service) gomap \<Rightarrow> cluster_replicas list \<Rightarrow> nat \<times> aggregated_item \<Rightarrow>
     (aggregate, unit) go" where
  "aggregate_item rt vips arbiters sched entry = (case entry of (i, item) \<Rightarrow>
     (case ag_status item of
        None \<Rightarrow> ret ()
      | Some raw \<Rightarrow> (case rt_json_status rt raw of
          Inl e \<Rightarrow> fail e
        | Inr decoded \<Rightarrow> bindg (deref decoded) (\<lambda>mongoStatus.
            let cluster = ag_cluster item; clusterVip = gm_get '''' vips cluster
            in andthen (modify (\<lambda>a. a\<lparr>agg_result := agg_result a @
                   [\<lparr>tp_status = Some (ci_members (mgt_current mongoStatus)),
                     tp_spec = Some (spec_replicaset sched cluster), tp_connect = [],
                     tp_cluster = cluster, tp_state = mgt_state mongoStatus,
                     tp_revision = mgt_revision mongoStatus, tp_applied = ag_applied item\<rparr>]\<rparr>))
              (andthen (connect_arbiter i clusterVip (map_of arbiters cluster))
                (andthen (for_each (mgt_replset mongoStatus) (connect_member i clusterVip))
                  (if mgt_state mongoStatus = StateRunning
                   then modify (\<lambda>a. a\<lparr>agg_health := Suc (agg_health a)\<rparr>) else ret ())))))))"

definition set_status :: "(mc_status \<Rightarrow> mc_status) \<Rightarrow> ('w hstate, unit) go" where
  "set_status f = modify (\<lambda>s. s\<lparr>h_cr := (h_cr s)\<lparr>mc_status := f (mc_status (h_cr s))\<rparr>\<rparr>)"

text \<open>The loop writes its entries to \<open>Status.Result\<close> as it goes, so they are there also after an error.\<close>

definition aggregate_status ::
    "runtime \<Rightarrow> aggregated_item list \<Rightarrow> ('w hstate, aggregate) go" where
  "aggregate_status rt items = bindg need_sched (\<lambda>sched.
     bindg (gets (\<lambda>s. (h_vips s, h_arbiters s))) (\<lambda>(vips, arbiters).
       case for_each (enumerate 0 items) (aggregate_item rt vips arbiters sched)
              \<lparr>agg_result = [], agg_buffer = '''', agg_health = 0\<rparr> of
         (r, a) \<Rightarrow> andthen (set_status (\<lambda>m. m\<lparr>mst_result := agg_result a, mst_external := ''''\<rparr>))
           (andthen (lift_outcome r) (ret a))))"

definition status_body :: "'w client \<Rightarrow> runtime \<Rightarrow> ('w hstate \<times> report, unit) go" where
  "status_body cli rt =
     (bindg (on_state (gets h_cr)) (\<lambda>cr.
      bindg (reporting not_ready_err
              (api (GetRBByName cli (cr_name cr @ ''-mongodb'') (cr_ns cr)))) (\<lambda>rb.
      andthen (on_state (set_status (\<lambda>m. m\<lparr>mst_state := UnKnown\<rparr>)))
        (andthen (on_state (modify (\<lambda>s. s\<lparr>h_active := removeDuplicates (h_active s)\<rparr>)))
          (bindg (on_state (gets h_active)) (\<lambda>active.
             if length (rb_aggregated rb) < length active
             then bindg (on_state need_sched) (\<lambda>sched.
               andthen (on_state (set_status (\<lambda>m. m\<lparr>mst_result := map pending_topology sched\<rparr>)))
                 (set_report (not_ready_report '''')))
             else bindg (reporting not_ready_err (aggregate_status rt (rb_aggregated rb))) (\<lambda>a.
               let healthy = agg_health a = length (rb_aggregated rb);
                   rep = (if healthy then ready_report else not_ready_report '''')
               in andthen (set_report rep)
                 (andthen (on_state (set_status (\<lambda>m.
                      m\<lparr>mst_state := (if healthy then Health else UnHealth),
                        mst_external := trim_suffix (agg_buffer a) '',''\<rparr>)))
                   (on_state (set_condition cli rep))))))))))"

definition StatusHandler :: "'w client \<Rightarrow> runtime \<Rightarrow> 'w handler" where
  "StatusHandler cli rt = with_report (record_condition cli) ready_report (status_body cli rt)"

section \<open>The chain\<close>

definition BuildMultiCloudDBHandlerChain :: "'w client \<Rightarrow> runtime \<Rightarrow> 'w handler" where
  "BuildMultiCloudDBHandlerChain cli rt =
     GetScheduleStatusHandler cli rt (Some
       (VIPAllocatorHandler cli (Some
         (ClusterScaleHandler cli rt (Some
           (UpsertArbiterHandler cli (Some
             (HostConfigMapHandler cli (Some
               (MongoDependencyHandler cli (Some
                 (MongoHandler cli rt (Some (StatusHandler cli rt))))))))))))))"

end
