(* ===== verification/Handler_Laws.thy ===== *)
theory Handler_Laws
  imports Handlers
begin

text \<open>
  What the handlers of core.go guarantee: how a step's outcome is reported in the conditions, what
  the status handler derives from the member clusters' reports, which objects exist after the
  arbiter, host-configuration and MongoDB steps, and where the chain stops.
\<close>

section \<open>Running a handler\<close>

lemma api_iff: "api m s = (r, s') \<longleftrightarrow> (\<exists>w. m (h_world s) = (r, w) \<and> s' = s\<lparr>h_world := w\<rparr>)"
  by (auto simp: api_def zoom_def split: prod.splits)

lemma on_state_iff: "on_state m (s, rep) = (r, (s', rep')) \<longleftrightarrow> m s = (r, s') \<and> rep' = rep"
  by (auto simp: on_state_def zoom_def split: prod.splits)

lemma set_report_eq [simp]: "set_report rep (s, rep0) = (Ok (), (s, rep))"
  by (simp add: set_report_def go_simps)

lemma deref_iff: "deref p s = (Ok x, s') \<longleftrightarrow> p = Some x \<and> s' = s"
  by (auto simp: deref_def go_simps split: option.splits)

lemma first_of_iff: "first_of xs s = (Ok x, s') \<longleftrightarrow> (\<exists>ys. xs = x # ys) \<and> s' = s"
  by (auto simp: first_of_def go_simps split: list.splits)

lemma need_sched_iff: "need_sched s = (Ok xs, s') \<longleftrightarrow> h_sched s = Some xs \<and> s' = s"
  by (auto simp: need_sched_def bindg_def go_simps split: option.splits)

lemma reporting_Ok: "reporting f m (s, rep) = (Ok x, (s', rep')) \<longleftrightarrow> m s = (Ok x, s') \<and> rep' = rep"
  by (auto simp: reporting_def bindg_def attempt_def on_state_def zoom_def go_simps
      split: prod.splits outcome.splits sum.splits)

lemma reporting_Err: "reporting f m (s, rep) = (Err e, (s', rep')) \<longleftrightarrow> m s = (Err e, s') \<and> rep' = f e"
  by (auto simp: reporting_def bindg_def attempt_def on_state_def zoom_def go_simps
      split: prod.splits outcome.splits sum.splits)

lemma with_report_cases:
  assumes "with_report d rep m s = (r, u)"
  obtains q t rep' q' where "m (s, rep) = (q, (t, rep'))" "d rep' t = (q', u)"
    "(\<exists>p. q' = Panic p) \<or> r = q"
  using assms by (auto simp: with_report_def split: prod.splits outcome.splits)

context kube_api
begin

lemma record_condition_run:
  assumes "record_condition cli rep s = (r, s')"
  shows "r = Ok () \<and> (\<exists>now. mc_status (h_cr s') = SetTypeCondition now (rep_type rep) (rep_status rep)
      (rep_reason rep) (rep_message rep) (mc_status (h_cr s))) \<and>
    h_vips s' = h_vips s \<and> h_sched s' = h_sched s \<and> h_arbiters s' = h_arbiters s \<and>
    h_svcnames s' = h_svcnames s \<and> h_active s' = h_active s \<and>
    (\<forall>k. k \<noteq> okey_of (OMultiCloud (h_cr s)) \<longrightarrow> objs (h_world s') k = objs (h_world s) k)"
proof -
  obtain q w1 where now: "c_now cli (h_world s) = (q, w1)" by fastforce
  have same1: "objs w1 = objs (h_world s)" using reads(4)[of "h_world s"] now by simp
  show ?thesis
  proof (cases q)
    case (Ok now)
    define cr where "cr = (h_cr s)\<lparr>mc_status := SetTypeCondition now (rep_type rep) (rep_status rep)
         (rep_reason rep) (rep_message rep) (mc_status (h_cr s))\<rparr>"
    have key: "okey_of (OMultiCloud cr) = okey_of (OMultiCloud (h_cr s))" by (simp add: cr_def okey_of_def)
    obtain q2 w2 where upd: "c_update_status cli (OMultiCloud cr) w1 = (q2, w2)" by fastforce
    have eq: "record_condition cli rep s = (bindg (lift_outcome (case q2 of Ok y \<Rightarrow> Ok (Inr y) | Err e \<Rightarrow> Ok (Inl e)
          | Panic p \<Rightarrow> Panic p)) (\<lambda>r. case r of Inr (OMultiCloud cr') \<Rightarrow> modify (\<lambda>s. s\<lparr>h_cr := cr'\<rparr>) | _ \<Rightarrow> ret ()))
        (s\<lparr>h_cr := cr, h_world := w2\<rparr>)"
      using now Ok upd
      by (simp add: record_condition_def set_condition_def bindg_def api_def zoom_def go_simps attempt_def
          UpdateObjectStatus_def cr_def[symmetric] split: outcome.splits)
    show ?thesis
    proof (cases q2)
      case (Ok y)
      then obtain z where z: "same_status (OMultiCloud cr) y" "objs w2 = (objs w1)(okey_of (OMultiCloud cr) \<mapsto> y)"
        using status_Ok upd by blast
      from z(1) obtain cr' where y: "y = OMultiCloud cr'" "mc_status cr' = mc_status cr" by (cases y) auto
      from assms eq Ok y have "r = Ok ()" "s' = s\<lparr>h_world := w2, h_cr := cr'\<rparr>"
        by (simp_all add: bindg_def go_simps)
      with y z same1 key show ?thesis by (auto simp: cr_def)
    next
      case (Err e)
      with upd failed_writes(3) have "objs w2 = objs w1" by blast
      moreover from assms eq Err have "r = Ok ()" "s' = s\<lparr>h_cr := cr, h_world := w2\<rparr>"
        by (simp_all add: bindg_def go_simps)
      ultimately show ?thesis using same1 by (auto simp: cr_def)
    next
      case (Panic p)
      with upd no_panic(5) show ?thesis by blast
    qed
  next
    case (Err e)
    with now now_Ok show ?thesis by blast
  next
    case (Panic p)
    with now no_panic(9) show ?thesis by blast
  qed
qed

end

section \<open>Aggregating the member clusters' reports\<close>

definition item_running :: "runtime \<Rightarrow> aggregated_item \<Rightarrow> bool" where
  "item_running rt item = (case ag_status item of
     None \<Rightarrow> False
   | Some raw \<Rightarrow> (case rt_json_status rt raw of
       Inr (Some ms) \<Rightarrow> mgt_state ms = StateRunning | _ \<Rightarrow> False))"

definition sized :: "nat \<Rightarrow> nat \<Rightarrow> aggregate \<Rightarrow> bool" where
  "sized n h a \<longleftrightarrow> length (agg_result a) = n \<and> agg_health a = h"

lemma sized_set_connect: "keeps (sized n h) (set_connect i addr role)"
  by (rule keepsI) (auto simp: set_connect_def bindg_def go_simps sized_def split: if_splits)

lemma sized_connect_member: "keeps (sized n h) (connect_member i vip rs)"
  unfolding connect_member_def
  by (intro keeps_intros sized_set_connect keeps_modify) (simp add: sized_def)

lemma sized_connect_arbiter: "keeps (sized n h) (connect_arbiter i vip found)"
  unfolding connect_arbiter_def first_of_def
  by (intro keeps_intros sized_set_connect) (auto split: list.splits)

lemma aggregate_item_steps:
  assumes "aggregate_item rt vips arbiters sched (i, item) a = (Ok (), a')"
    and "ag_status item = Some raw" "rt_json_status rt raw = Inr (Some ms)"
  obtains t1 t2 t3 where "sized (Suc (length (agg_result a))) (agg_health a) t1"
    "connect_arbiter i (gm_get '''' vips (ag_cluster item)) (map_of arbiters (ag_cluster item)) t1 = (Ok (), t2)"
    "for_each (mgt_replset ms) (connect_member i (gm_get '''' vips (ag_cluster item))) t2 = (Ok (), t3)"
    "(if mgt_state ms = StateRunning then modify (\<lambda>a. a\<lparr>agg_health := Suc (agg_health a)\<rparr>)
      else ret ()) t3 = (Ok (), a')"
proof -
  let ?t1 = "a\<lparr>agg_result := agg_result a @
     [\<lparr>tp_status = Some (ci_members (mgt_current ms)),
       tp_spec = Some (spec_replicaset sched (ag_cluster item)), tp_connect = [],
       tp_cluster = ag_cluster item, tp_state = mgt_state ms, tp_revision = mgt_revision ms,
       tp_applied = ag_applied item\<rparr>]\<rparr>"
  have "sized (Suc (length (agg_result a))) (agg_health a) ?t1" by (simp add: sized_def)
  with that[of ?t1] assms show ?thesis
    by (auto simp: aggregate_item_def deref_def Let_def bindg_Ok_iff modify_def)
qed

lemma aggregate_item_run:
  assumes "aggregate_item rt vips arbiters sched (i, item) a = (Ok (), a')"
  shows "sized (length (agg_result a) + (if ag_status item = None then 0 else 1))
    (agg_health a + (if item_running rt item then 1 else 0)) a'"
proof (cases "ag_status item")
  case None
  with assms show ?thesis by (simp add: aggregate_item_def sized_def item_running_def go_simps)
next
  case (Some raw)
  with assms obtain ms where ms: "rt_json_status rt raw = Inr (Some ms)"
    by (auto simp: aggregate_item_def deref_def bindg_def go_simps split: sum.splits option.splits)
  let ?n = "Suc (length (agg_result a))" and ?h = "agg_health a"
  let ?vip = "gm_get '''' vips (ag_cluster item)"
  let ?connect = "andthen (connect_arbiter i ?vip (map_of arbiters (ag_cluster item)))
      (for_each (mgt_replset ms) (connect_member i ?vip))"
  have keep: "keeps (sized ?n ?h) ?connect"
    by (intro keeps_intros sized_connect_arbiter sized_connect_member)
  from assms Some ms obtain t1 t2 t3 where
    t1: "sized ?n ?h t1" and
    t2: "connect_arbiter i ?vip (map_of arbiters (ag_cluster item)) t1 = (Ok (), t2)" and
    t3: "for_each (mgt_replset ms) (connect_member i ?vip) t2 = (Ok (), t3)" and
    last: "(if mgt_state ms = StateRunning then modify (\<lambda>a. a\<lparr>agg_health := Suc (agg_health a)\<rparr>)
            else ret ()) t3 = (Ok (), a')"
    by (rule aggregate_item_steps)
  from t2 t3 have "?connect t1 = (Ok (), t3)" by (simp add: bindg_def)
  with keep t1 have "sized ?n ?h t3" by (blast dest: keepsD)
  with last Some ms show ?thesis by (auto simp: item_running_def sized_def go_simps split: if_splits)
qed

lemma aggregate_all_run:
  assumes "for_each (enumerate n items) (aggregate_item rt vips arbiters sched) a = (Ok (), a')"
  shows "sized (length (agg_result a) + length (filter (\<lambda>x. ag_status x \<noteq> None) items))
    (agg_health a + length (filter (item_running rt) items)) a'"
  using assms
proof (induction items arbitrary: n a)
  case Nil
  then show ?case by (simp add: sized_def go_simps)
next
  case (Cons x items)
  then obtain t where t: "aggregate_item rt vips arbiters sched (n, x) a = (Ok (), t)"
      "for_each (enumerate (Suc n) items) (aggregate_item rt vips arbiters sched) t = (Ok (), a')"
    by (auto simp: bindg_Ok_iff)
  from Cons.IH[OF t(2)] aggregate_item_run[OF t(1)] show ?case by (auto simp: sized_def)
qed

text \<open>An entry past a cluster without a report cannot be written.\<close>

lemma set_connect_out_of_range:
  "length (agg_result a) \<le> i \<Longrightarrow> set_connect i addr role a = (Panic ''index out of range'', a)"
  by (simp add: set_connect_def bindg_def go_simps)

lemma connect_members_out_of_range:
  assumes "\<exists>rs \<in> set members. go_contains (mb_host rs) vip" "length (agg_result a) \<le> i"
  shows "fst (for_each members (connect_member i vip) a) = Panic ''index out of range''"
  using assms
  by (induction members)
    (auto simp: connect_member_def bindg_def go_simps set_connect_out_of_range)

lemma aggregate_item_out_of_range:
  assumes "ag_status item = Some raw" "rt_json_status rt raw = Inr (Some ms)"
    and "length (agg_result a) < i" "\<exists>rs \<in> set (mgt_replset ms). go_contains (mb_host rs)
          (gm_get '''' vips (ag_cluster item))"
  shows "aggregate_item rt vips arbiters sched (i, item) a \<noteq> (Ok (), a')"
proof
  assume "aggregate_item rt vips arbiters sched (i, item) a = (Ok (), a')"
  with assms(1,2) obtain t1 t2 t3 where
    "sized (Suc (length (agg_result a))) (agg_health a) t1"
    "connect_arbiter i (gm_get '''' vips (ag_cluster item)) (map_of arbiters (ag_cluster item)) t1 = (Ok (), t2)"
    "for_each (mgt_replset ms) (connect_member i (gm_get '''' vips (ag_cluster item))) t2 = (Ok (), t3)"
    by (blast elim: aggregate_item_steps)
  moreover from this have "length (agg_result t2) \<le> i"
    using keepsD[OF sized_connect_arbiter] assms(3) by (fastforce simp: sized_def)
  ultimately show False using connect_members_out_of_range[OF assms(4)] by force
qed

lemma aggregate_skip_panics:
  assumes "\<exists>x \<in> set xs. ag_status x = None" "ag_status item = Some raw"
    and "rt_json_status rt raw = Inr (Some ms)"
    and "\<exists>rs \<in> set (mgt_replset ms). go_contains (mb_host rs) (gm_get '''' vips (ag_cluster item))"
  shows "for_each (enumerate 0 (xs @ item # ys)) (aggregate_item rt vips arbiters sched)
      \<lparr>agg_result = [], agg_buffer = buf, agg_health = 0\<rparr> \<noteq> (Ok (), a')"
proof
  let ?a = "\<lparr>agg_result = [], agg_buffer = buf, agg_health = 0\<rparr>"
  assume "for_each (enumerate 0 (xs @ item # ys)) (aggregate_item rt vips arbiters sched) ?a = (Ok (), a')"
  then obtain t u where t: "for_each (enumerate 0 xs) (aggregate_item rt vips arbiters sched) ?a = (Ok (), t)"
      "aggregate_item rt vips arbiters sched (length xs, item) t = (Ok (), u)"
    by (auto simp: enumerate_append_eq for_each_append bindg_Ok_iff)
  from aggregate_all_run[OF t(1)]
  have "length (agg_result t) = length (filter (\<lambda>x. ag_status x \<noteq> None) xs)" by (simp add: sized_def)
  also have "\<dots> < length xs" using assms(1) by (auto intro!: length_filter_less)
  finally show False using aggregate_item_out_of_range[OF assms(2,3) _ assms(4)] t(2) by blast
qed

section \<open>The status handler\<close>

lemma set_status_run: "set_status f s = (Ok (), s\<lparr>h_cr := (h_cr s)\<lparr>mc_status := f (mc_status (h_cr s))\<rparr>\<rparr>)"
  by (simp add: set_status_def go_simps)

lemma aggregate_status_Ok:
  assumes "aggregate_status rt items s = (Ok a, s')"
  obtains sched where "for_each (enumerate 0 items) (aggregate_item rt (h_vips s) (h_arbiters s) sched)
      \<lparr>agg_result = [], agg_buffer = '''', agg_health = 0\<rparr> = (Ok (), a)"
    "s' = s\<lparr>h_cr := (h_cr s)\<lparr>mc_status := (mc_status (h_cr s))\<lparr>mst_result := agg_result a,
       mst_external := ''''\<rparr>\<rparr>\<rparr>"
proof -
  from assms obtain sched where sched: "h_sched s = Some sched"
    by (auto simp: aggregate_status_def bindg_Ok_iff need_sched_iff)
  obtain r a0 where run: "for_each (enumerate 0 items) (aggregate_item rt (h_vips s) (h_arbiters s) sched)
      \<lparr>agg_result = [], agg_buffer = '''', agg_health = 0\<rparr> = (r, a0)" by fastforce
  from assms sched run have "r = Ok ()" "a0 = a" "s' = s\<lparr>h_cr := (h_cr s)\<lparr>mc_status :=
      (mc_status (h_cr s))\<lparr>mst_result := agg_result a, mst_external := ''''\<rparr>\<rparr>\<rparr>"
    by (auto simp: aggregate_status_def bindg_Ok_iff need_sched_iff go_simps set_status_run)
  with run that show ?thesis by blast
qed

context kube_api
begin

lemma get_as_run:
  "get_as cli proj k w = (Ok a, w') \<Longrightarrow> \<exists>x. objs w k = Some x \<and> proj x = Some a \<and> objs w' = objs w"
  using reads(1)[of k w]
  by (auto simp: get_as_def bindg_def go_simps dest: get_Ok split: prod.splits outcome.splits option.splits)

lemma set_condition_run:
  assumes "set_condition cli rep s = (r, s')"
  shows "r = Ok () \<and> mst_state (mc_status (h_cr s')) = mst_state (mc_status (h_cr s)) \<and>
    mst_result (mc_status (h_cr s')) = mst_result (mc_status (h_cr s))"
  using assms no_panic(9) now_Ok
  by (auto simp: set_condition_def bindg_def api_def zoom_def go_simps SetTypeCondition_def Let_def
      split: prod.splits outcome.splits)

lemma aggregate_status_run:
  assumes "aggregate_status rt items s = (Ok a, s')"
  shows "agg_health a = length (filter (item_running rt) items) \<and> h_cr s' = (h_cr s)\<lparr>mc_status :=
     (mc_status (h_cr s))\<lparr>mst_result := agg_result a, mst_external := ''''\<rparr>\<rparr>"
proof -
  from assms obtain sched where
    run: "for_each (enumerate 0 items) (aggregate_item rt (h_vips s) (h_arbiters s) sched)
      \<lparr>agg_result = [], agg_buffer = '''', agg_health = 0\<rparr> = (Ok (), a)" and
    s': "s' = s\<lparr>h_cr := (h_cr s)\<lparr>mc_status := (mc_status (h_cr s))\<lparr>mst_result := agg_result a,
       mst_external := ''''\<rparr>\<rparr>\<rparr>"
    by (rule aggregate_status_Ok)
  from aggregate_all_run[OF run] s' show ?thesis by (simp add: sized_def)
qed

lemma status_body_run:
  assumes "status_body cli rt (s, rep) = (Ok (), (t, rep'))"
    and "objs (h_world s) (KBinding, cr_ns (h_cr s), cr_name (h_cr s) @ ''-mongodb'') = Some (OBinding rb)"
  shows "if length (rb_aggregated rb) < length (removeDuplicates (h_active s))
     then mst_state (mc_status (h_cr t)) = UnKnown \<and>
       (\<exists>sched. h_sched s = Some sched \<and> mst_result (mc_status (h_cr t)) = map pending_topology sched)
     else mst_state (mc_status (h_cr t)) =
       (if \<forall>item \<in> set (rb_aggregated rb). item_running rt item then Health else UnHealth)"
proof -
  have all: "length (filter P xs) = length xs \<longleftrightarrow> (\<forall>x \<in> set xs. P x)" for P and xs :: "aggregated_item list"
    by (metis filter_True length_filter_less nat_neq_iff)
  from assms(1) obtain rb' w where
    rb': "GetRBByName cli (cr_name (h_cr s) @ ''-mongodb'') (cr_ns (h_cr s)) (h_world s) = (Ok rb', w)"
    by (auto simp: status_body_def bindg_Ok_iff on_state_iff reporting_Ok api_iff go_simps)
  then have "rb' = rb" using assms(2) get_as_run by (fastforce simp: GetRBByName_def split: kobj.splits)
  with assms(1) rb' show ?thesis
    by (auto simp: status_body_def bindg_Ok_iff on_state_iff reporting_Ok api_iff go_simps set_status_run
        need_sched_iff Let_def all dest!: aggregate_status_run set_condition_run split: if_splits)
qed

lemma status_state:
  assumes "StatusHandler cli rt s = (Ok (), s')"
    and "objs (h_world s) (KBinding, cr_ns (h_cr s), cr_name (h_cr s) @ ''-mongodb'') = Some (OBinding rb)"
  shows "if length (rb_aggregated rb) < length (removeDuplicates (h_active s))
     then mst_state (mc_status (h_cr s')) = UnKnown \<and>
       (\<exists>sched. h_sched s = Some sched \<and> mst_result (mc_status (h_cr s')) = map pending_topology sched)
     else mst_state (mc_status (h_cr s')) =
       (if \<forall>item \<in> set (rb_aggregated rb). item_running rt item then Health else UnHealth)"
proof -
  from assms(1) obtain q t rep' q' where
    run: "status_body cli rt (s, ready_report) = (q, (t, rep'))" "record_condition cli rep' t = (q', s')"
      "(\<exists>p. q' = Panic p) \<or> q = Ok ()"
    unfolding StatusHandler_def by (rule with_report_cases) auto
  from record_condition_run[OF run(2)] run(3) have "q = Ok ()"
    "mst_state (mc_status (h_cr s')) = mst_state (mc_status (h_cr t))"
    "mst_result (mc_status (h_cr s')) = mst_result (mc_status (h_cr t))"
    by (auto simp: SetTypeCondition_def)
  with status_body_run[of rt s ready_report t rep' rb] assms(2) run(1) show ?thesis by simp
qed

end

section \<open>The host configuration\<close>

text \<open>The lines a policy stands for, given the stored objects and the cluster addresses.\<close>

definition policy_lines :: "(okey \<Rightarrow> kobj option) \<Rightarrow> labels \<Rightarrow> propagation_policy \<Rightarrow> string list" where
  "policy_lines st vips pp = (case (pp_selectors pp, pp_affinity pp) of
     (sel # _, Some names) \<Rightarrow> (case st (KService, rsel_namespace sel, rsel_name sel) of
         Some (OService svc) \<Rightarrow>
           map (\<lambda>c. host_line (gm_get '''' vips c) (spo_node_port (hd (svc_ports svc)))) names
       | _ \<Rightarrow> [])
   | _ \<Rightarrow> [])"

lemma policy_members_run:
  "policy_members vips svc cs s = (Ok ls, s') \<Longrightarrow>
   ls = map (\<lambda>c. host_line (gm_get '''' vips c) (spo_node_port (hd (svc_ports svc)))) cs \<and>
   h_world s' = h_world s \<and> h_cr s' = h_cr s \<and> h_vips s' = h_vips s \<and> h_active s' = h_active s \<and>
   h_sched s' = h_sched s"
proof (induction cs arbitrary: s ls)
  case (Cons c cs)
  from Cons.prems obtain port ports ls' where
    *: "svc_ports svc = port # ports" "ls = host_line (gm_get '''' vips c) (spo_node_port port) # ls'"
      "policy_members vips svc cs (s\<lparr>h_svcnames := AList.update c
         (gm_get [] (h_svcnames s) c @ [om_name (svc_meta svc)]) (h_svcnames s)\<rparr>) = (Ok ls', s')"
    by (auto simp: bindg_Ok_iff first_of_iff modify_def ret_def)
  from Cons.IH[OF *(3)] * show ?case by simp
qed (simp add: go_simps)

lemma policies_of_set: "set (policies_of xs) = {p. OPP p \<in> set xs}"
proof (induction xs)
  case (Cons x xs)
  then show ?case by (cases x) (auto simp: policies_of_def List.map_filter_simps)
qed (simp add: policies_of_def List.map_filter_simps)

lemma policies_of_distinct: "distinct (map okey_of xs) \<Longrightarrow> distinct (map (\<lambda>p. okey_of (OPP p)) (policies_of xs))"
proof (induction xs)
  case (Cons x xs)
  have "okey_of (OPP p) \<in> okey_of ` set xs" if "p \<in> set (policies_of xs)" for p
    using that by (auto simp: policies_of_set)
  with Cons show ?case by (cases x) (auto simp: policies_of_def List.map_filter_simps)
qed (simp add: policies_of_def List.map_filter_simps)

context kube_api
begin

lemma collect_members_run:
  "collect_members cli vips pps s = (Ok ls, s') \<Longrightarrow>
   ls = concat (map (policy_lines (objs (h_world s)) vips) pps) \<and>
   objs (h_world s') = objs (h_world s) \<and> h_cr s' = h_cr s \<and> h_vips s' = h_vips s \<and>
   h_active s' = h_active s \<and> h_sched s' = h_sched s"
proof (induction pps arbitrary: s ls)
  case (Cons pp pps)
  from Cons.prems obtain sel rest svc w1 names ls1 s2 ls2 where
    *: "pp_selectors pp = sel # rest" "GetSvc cli (rsel_namespace sel) (rsel_name sel) (h_world s) = (Ok svc, w1)"
      "pp_affinity pp = Some names" "policy_members vips svc names (s\<lparr>h_world := w1\<rparr>) = (Ok ls1, s2)"
      "collect_members cli vips pps s2 = (Ok ls2, s')" "ls = ls1 @ ls2"
    by (auto simp: bindg_Ok_iff first_of_iff deref_iff api_iff go_simps)
  from *(2) have svc: "objs (h_world s) (KService, rsel_namespace sel, rsel_name sel) = Some (OService svc)"
      "objs w1 = objs (h_world s)"
    by (auto simp: GetSvc_def dest!: get_as_run split: kobj.splits)
  from policy_members_run[OF *(4)] Cons.IH[OF *(5)] svc * show ?case
    by (simp add: policy_lines_def)
qed (simp add: go_simps)

lemma ListSvcPPByLabel_run:
  assumes "ListSvcPPByLabel cli label w = (Ok pps, w')" "inv w"
  shows "objs w' = objs w \<and> distinct (map (\<lambda>p. okey_of (OPP p)) pps) \<and>
    set pps = {p. objs w (okey_of (OPP p)) = Some (OPP p) \<and> selects label (om_labels (pp_meta p))}"
proof -
  from assms(1) obtain xs where xs: "c_list cli KPP None (MatchingLabels label) w = (Ok xs, w')"
      "pps = policies_of xs"
    by (auto simp: ListSvcPPByLabel_def bindg_Ok_iff go_simps)
  from list_Ok[OF assms(2) xs(1)] reads(2)[of KPP None "MatchingLabels label" w] xs show ?thesis
    by (auto simp: policies_of_set in_scope_def intro: policies_of_distinct)
qed

lemma config_update_run:
  assumes "EnsureConfigMapUpdate cli cr c w = (Ok (), w')"
    and "\<And>z. objs w (okey_of (OConfigMap c)) = Some z \<Longrightarrow> \<not> om_deleting (ometa z)"
  shows "\<exists>d. objs w' = (objs w)(okey_of (OConfigMap c) \<mapsto> OConfigMap d) \<and>
    map_of (cm_data d) = map_of (cm_data c)"
proof -
  have "\<exists>y. (\<exists>d. y = OConfigMap d \<and> map_of (cm_data d) = map_of (cm_data c)) \<and>
      objs w' = (objs w)(okey_of (OConfigMap c) \<mapsto> y)"
    using assms(1) unfolding EnsureConfigMapUpdate_def
    by (rule ensure_update_post)
      (auto simp: assms(2) persisted_cases gm_eq_iff split: kobj.splits)
  then show ?thesis by blast
qed

lemma upsert_policy_frame:
  "UpsertPPEnsure cli cr p w = (r, w') \<Longrightarrow> k \<noteq> okey_of (OPP p) \<Longrightarrow> objs w' k = objs w k"
  using frame_upsert_policy[of p cr] unfolding frame_def by (metis singletonD snd_conv)

lemma host_config_run:
  assumes "HostConfigMapHandler cli None s = (Ok (), s')" "inv (h_world s)"
    and "\<not> cf_arbiter (mcs_config (mc_spec (h_cr s)))"
    and "\<And>z. objs (h_world s) (KConfigMap, cr_ns (h_cr s), cr_name (h_cr s) @ ''-hostconf'') = Some z \<Longrightarrow>
           \<not> om_deleting (ometa z)"
  shows "\<exists>pps cm. distinct (map (\<lambda>p. okey_of (OPP p)) pps) \<and>
    set pps = {p. objs (h_world s) (okey_of (OPP p)) = Some (OPP p) \<and>
       selects (GenerateServicePPLabel (cr_labels (h_cr s)) (cr_name (h_cr s) @ ''-service-pp''))
         (om_labels (pp_meta p))} \<and>
    objs (h_world s') (KConfigMap, cr_ns (h_cr s), cr_name (h_cr s) @ ''-hostconf'') = Some (OConfigMap cm) \<and>
    map_of (cm_data cm) ''datas'' = Some (sprintf0 (go_join ''\<newline>''
      (concat (map (policy_lines (objs (h_world s)) (h_vips s)) pps))))"
proof -
  let ?cr = "h_cr s"
  let ?label = "GenerateServicePPLabel (cr_labels ?cr) (cr_name ?cr @ ''-service-pp'')"
  let ?cm = "\<lambda>ls. GenerateConfigMap (cr_name ?cr @ ''-hostconf'') (cr_ns ?cr)
      (GenerateConfigMapLabel (cr_labels ?cr) (cr_name ?cr)) \<lparr>hc_arbiters = [], hc_members = ls\<rparr>"
  have key: "okey_of (OConfigMap (?cm ls)) = (KConfigMap, cr_ns ?cr, cr_name ?cr @ ''-hostconf'')" for ls
    by (simp add: okey_of_def GenerateConfigMap_def meta_of_def)
  from assms(1,3) obtain pps w1 ls s2 w3 w4 p where
    1: "ListSvcPPByLabel cli ?label (h_world s) = (Ok pps, w1)" and
    2: "collect_members cli (h_vips s) pps (s\<lparr>h_world := w1\<rparr>) = (Ok ls, s2)" and
    3: "EnsureConfigMapUpdate cli ?cr (?cm ls) (h_world s2) = (Ok (), w3)" and
    4: "UpsertPPEnsure cli ?cr p w3 = (Ok (), w4)" and 5: "h_world s' = w4"
    by (auto simp: HostConfigMapHandler_def bindg_Ok_iff api_iff go_simps Let_def run_next_def)
  note r1 = ListSvcPPByLabel_run[OF 1 assms(2)] and r2 = collect_members_run[OF 2]
  have "\<not> om_deleting (ometa z)" if "objs (h_world s2) (okey_of (OConfigMap (?cm ls))) = Some z" for z
    using that assms(4) r1 r2 unfolding key by simp
  from config_update_run[OF 3 this] obtain d where
    "objs w3 (okey_of (OConfigMap (?cm ls))) = Some (OConfigMap d)"
    "map_of (cm_data d) = map_of (cm_data (?cm ls))" by auto
  moreover from upsert_policy_frame[OF 4] have
    "objs w4 (okey_of (OConfigMap (?cm ls))) = objs w3 (okey_of (OConfigMap (?cm ls)))"
    by (simp add: okey_of_def)
  ultimately show ?thesis using r1 r2 5 unfolding key
    by (intro exI[of _ pps] exI[of _ d]) (simp add: GenerateConfigMap_def)
qed

end

section \<open>The first handler and the arbiter\<close>

lemma schedule_decoded:
  assumes "rt_json_sched rt (gm_get '''' (om_annotations (mc_meta (h_cr s))) ''schedulerResult'') = Inr (Some sched)"
    and "schedule_sum sched = 0"
  shows "GetScheduleStatusHandler cli rt next s = GetScheduleStatusHandler cli rt None s"
proof -
  have "bindg (reporting f (modify (\<lambda>s. s\<lparr>h_sched := Some sched\<rparr>)))
      (\<lambda>_. on_state (bindg need_sched (\<lambda>sched. if schedule_sum sched = 0 then ret () else run_next next))) sr =
    bindg (reporting f (modify (\<lambda>s. s\<lparr>h_sched := Some sched\<rparr>)))
      (\<lambda>_. on_state (bindg need_sched (\<lambda>sched. if schedule_sum sched = 0 then ret () else run_next None))) sr"
    for f and sr :: "'a hstate \<times> report"
    using assms(2) by (cases sr)
      (simp add: reporting_def bindg_def attempt_def on_state_def zoom_def modify_def need_sched_def gets_def ret_def)
  with assms(1) show ?thesis
    by (simp add: GetScheduleStatusHandler_def bindg_def gets_def Let_def with_report_def)
qed

context kube_api
begin

lemma schedule_failed:
  assumes "rt_json_sched rt (gm_get '''' (om_annotations (mc_meta (h_cr s))) ''schedulerResult'') = Inl e"
    and "GetScheduleStatusHandler cli rt next s = (r, s')"
  shows "r = Err e \<and>
    (\<exists>i. FindStatusCondition (mst_conditions (mc_status (h_cr s'))) ServerScheduledResult = Some i \<and>
       server_payload (mst_conditions (mc_status (h_cr s')) ! i) =
         (CFalse, ''GetSchedulerFailed'', schedule_message ''Failed'' (h_cr s) (err_text e))) \<and>
    (\<forall>k. k \<noteq> okey_of (OMultiCloud (h_cr s)) \<longrightarrow> objs (h_world s') k = objs (h_world s) k)"
proof -
  let ?rep = "\<lparr>rep_type = ServerScheduledResult, rep_status = CFalse, rep_reason = ''GetSchedulerFailed'',
      rep_message = schedule_message ''Failed'' (h_cr s) (err_text e)\<rparr>"
  obtain q s2 where rec: "record_condition cli ?rep s = (q, s2)" by fastforce
  note run = record_condition_run[OF rec]
  from assms rec run have eq: "r = Err e" "s' = s2"
    by (auto simp: GetScheduleStatusHandler_def bindg_def gets_def Let_def with_report_def
        reporting_def attempt_def on_state_def zoom_def fail_def set_report_def modify_def)
  from run obtain now where st: "mc_status (h_cr s2) = SetTypeCondition now ServerScheduledResult CFalse
      ''GetSchedulerFailed'' (schedule_message ''Failed'' (h_cr s) (err_text e)) (mc_status (h_cr s))"
    by auto
  with eq run srv.find_upsert_same[of now "\<lparr>sc_type = ServerScheduledResult, sc_status = CFalse,
      sc_transition = now, sc_reason = ''GetSchedulerFailed'',
      sc_message = schedule_message ''Failed'' (h_cr s) (err_text e)\<rparr>" "mst_conditions (mc_status (h_cr s))"]
  show ?thesis by (simp add: SetTypeCondition_def server_payload_def Let_def)
qed

lemma upsert_frame: "UpsertObject cli x w = (r, w') \<Longrightarrow> k \<noteq> okey_of x \<Longrightarrow> objs w' k = objs w k"
  using frame_upsert[of x] unfolding frame_def by (metis singletonD snd_conv)

lemma IsExistAndDeleted_dead:
  "ensures (\<lambda>w. inv w \<and> (\<forall>k \<in> K. dead w k)) (IsExistAndDeleted cli kd n ns)
     (\<lambda>_ w. inv w \<and> (\<forall>k \<in> insert (kd, ns, n) K. dead w k))"
proof (rule ensuresI, elim conjE)
  fix w a w' assume inv: "inv w" and K: "\<forall>k \<in> K. dead w k"
    and run: "IsExistAndDeleted cli kd n ns w = (Ok a, w')"
  from run obtain f w1 where f: "IsExists cli (kd, ns, n) w = (Ok f, w1)"
      "(case f of Some found \<Rightarrow> DeleteObj cli found | None \<Rightarrow> ret ()) w1 = (Ok a, w')"
    by (auto simp: IsExistAndDeleted_def IsExistsByName_eq bindg_Ok_iff)
  from IsExists_run[OF f(1)] have same: "objs w1 = objs w" "f = objs w (kd, ns, n)" by auto
  have inv1: "inv w1" using keepsD[OF IsExists_inv inv f(1)] .
  show "inv w' \<and> (\<forall>k \<in> insert (kd, ns, n) K. dead w' k)"
  proof (cases f)
    case None
    with f(2) same K inv1 show ?thesis by (auto simp: go_simps dead_def)
  next
    case (Some x)
    then have "okey_of x = (kd, ns, n)" using stored[OF inv] same by simp
    moreover have "\<forall>k \<in> K. dead w1 k" using K same by (simp add: dead_def)
    ultimately have "\<forall>k \<in> insert (kd, ns, n) K. dead w' k"
      using ensuresD[OF delete_dead[of K x]] f(2) Some by auto
    moreover have "inv w'" using f(2) Some inv1 keepsD[OF keeps_inv(6)] by (auto simp: DeleteObj_def)
    ultimately show ?thesis by blast
  qed
qed

lemma delete_arbiter_data_frame:
  assumes "UpsertConfigMapDeleteArbiter cli n ns w = (Ok (), w')" "fst k \<noteq> KConfigMap"
  shows "objs w' k = objs w k"
proof -
  from assms(1) obtain f w1 where f: "IsExists cli (KConfigMap, ns, n) w = (Ok f, w1)" and
    rest: "(case f of
       Some (OConfigMap cm) \<Rightarrow>
         (if cm_data cm = [] then panic ''assignment to entry in nil map''
          else UpsertObject cli (OConfigMap (cm\<lparr>cm_data := AList.update ''arbiters'' '''' (cm_data cm)\<rparr>)))
     | Some _ \<Rightarrow> panic ''interface conversion''
     | None \<Rightarrow> ret ()) w1 = (Ok (), w')"
    unfolding UpsertConfigMapDeleteArbiter_def IsExistsByName_eq bindg_Ok_iff by blast
  have same: "objs w1 = objs w" using IsExists_run[OF f] by blast
  show ?thesis
  proof (cases f)
    case None
    with rest same show ?thesis by (simp add: go_simps)
  next
    case (Some x)
    with rest obtain c where up: "UpsertObject cli (OConfigMap c) w1 = (Ok (), w')"
      by (cases x) (auto simp: go_simps split: if_splits)
    have "k \<noteq> okey_of (OConfigMap c)" using assms(2) by (auto simp: okey_of_def)
    with upsert_frame[OF up] same show ?thesis by simp
  qed
qed

lemma arbiter_off_dead:
  assumes "arbiter_off cli cr s = (Ok (), s')" "inv (h_world s)"
  shows "\<forall>k \<in> {(KOP, cr_ns cr, cr_name cr @ ''-arbiter''), (KService, cr_ns cr, cr_name cr @ ''-mongodb-arbiter''),
    (KPP, cr_ns cr, cr_name cr @ ''-mongodb-arbiter-pp'')}. dead (h_world s') k"
proof -
  from assms(1) obtain w1 w2 w3 w4 where
    1: "IsExistAndDeleted cli KOP (cr_name cr @ ''-arbiter'') (cr_ns cr) (h_world s) = (Ok (), w1)" and
    2: "IsExistAndDeleted cli KService (cr_name cr @ ''-mongodb-arbiter'') (cr_ns cr) w1 = (Ok (), w2)" and
    3: "IsExistAndDeleted cli KPP (cr_name cr @ ''-mongodb-arbiter-pp'') (cr_ns cr) w2 = (Ok (), w3)" and
    4: "UpsertConfigMapDeleteArbiter cli (cr_name cr @ ''-hostconf'') (cr_ns cr) w3 = (Ok (), w4)" and
    5: "h_world s' = w4"
    by (auto simp: arbiter_off_def bindg_Ok_iff api_iff go_simps Let_def)
  have "inv w3 \<and> (\<forall>k \<in> {(KOP, cr_ns cr, cr_name cr @ ''-arbiter''),
      (KService, cr_ns cr, cr_name cr @ ''-mongodb-arbiter''),
      (KPP, cr_ns cr, cr_name cr @ ''-mongodb-arbiter-pp'')}. dead w3 k)"
    using ensuresD[OF IsExistAndDeleted_dead[of "{}"] _ 1] assms(2)
      ensuresD[OF IsExistAndDeleted_dead[of "{(KOP, cr_ns cr, cr_name cr @ ''-arbiter'')}"] _ 2]
      ensuresD[OF IsExistAndDeleted_dead[of "{(KOP, cr_ns cr, cr_name cr @ ''-arbiter''),
        (KService, cr_ns cr, cr_name cr @ ''-mongodb-arbiter'')}"] _ 3] by auto
  moreover have "fst k \<noteq> KConfigMap \<longrightarrow> objs w4 k = objs w3 k" for k
    using delete_arbiter_data_frame[OF 4] by blast
  ultimately show ?thesis using 5 by (auto simp: dead_def)
qed

end

section \<open>Samples\<close>

definition sample_state :: "mem \<Rightarrow> mem hstate" where
  "sample_state w = \<lparr>h_cr = sample_cr, h_vips = [(''a'', ''10.0.0.1'')],
     h_sched = Some [\<lparr>cw_cluster = ''a'', cw_replicaset = 1, cw_arbiter = False\<rparr>], h_arbiters = [],
     h_svcnames = [], h_active = [''a''], h_world = w\<rparr>"

definition running_status :: mongo_status where
  "running_status = empty_mongo_status\<lparr>mgt_state := StateRunning,
     mgt_replset := [\<lparr>mb_host = ''10.0.0.1:30001'', mb_state_str = ''PRIMARY'', mb_syncing_to = '''',
       mb_sync_source = '''', mb_id = 0, mb_health = 1, mb_state = 1\<rparr>]\<rparr>"

definition sample_binding :: "string option list \<Rightarrow> resource_binding" where
  "sample_binding raws = \<lparr>rb_meta = (meta_of ''m-mongodb'' ''ns'' [])\<lparr>om_rv := ''3''\<rparr>,
     rb_aggregated = map (\<lambda>r. \<lparr>ag_cluster = ''a'', ag_applied = True, ag_status = r\<rparr>) raws\<rparr>"

definition sample_runtime :: runtime where
  "sample_runtime = plain_runtime
     (\<lambda>t. if t = '''' then Inl (NewErr ''unexpected end of JSON input'') else Inr (Some []))
     (\<lambda>_. Inr (Some running_status))"

lemma sample_runtime_simps [simp]:
  "rt_json_status sample_runtime raw = Inr (Some running_status)"
  "rt_json_sched sample_runtime t =
     (if t = '''' then Inl (NewErr ''unexpected end of JSON input'') else Inr (Some []))"
  by (simp_all add: sample_runtime_def)

section \<open>Properties\<close>

text \<open>
  C22: the health the control plane publishes is the conjunction of the member clusters' states:
  once every active cluster has an entry in the resource binding, the state is \<open>Health\<close> exactly
  when every entry carries a status whose MongoDB is running, and \<open>UnHealth\<close> otherwise; with
  fewer entries it is \<open>UnKnown\<close> and the result lists every scheduled cluster with zero members.
\<close>

theorem status_health:
  assumes "kube_api cli objs I"
    and "StatusHandler cli rt s = (Ok (), s')"
    and "objs (h_world s) (KBinding, cr_ns (h_cr s), cr_name (h_cr s) @ ''-mongodb'') = Some (OBinding rb)"
  shows "if length (rb_aggregated rb) < length (removeDuplicates (h_active s))
     then mst_state (mc_status (h_cr s')) = UnKnown \<and>
       (\<exists>sched. h_sched s = Some sched \<and> mst_result (mc_status (h_cr s')) = map pending_topology sched)
     else mst_state (mc_status (h_cr s')) =
       (if \<forall>item \<in> set (rb_aggregated rb). item_running rt item then Health else UnHealth)"
  using kube_api.status_state[OF assms] .

theorem status_health_witness:
  "\<exists>s'. StatusHandler mem_client sample_runtime (sample_state (mem_of [OBinding (sample_binding [Some ''x''])]))
      = (Ok (), s') \<and> mst_state (mc_status (h_cr s')) = Health"
proof -
  let ?s = "sample_state (mem_of [OBinding (sample_binding [Some ''x''])])"
  have "fst (StatusHandler mem_client sample_runtime ?s) = Ok ()" by code_simp
  then obtain s' where run: "StatusHandler mem_client sample_runtime ?s = (Ok (), s')"
    by (metis prod.collapse)
  have look: "mem_lookup (h_world ?s) (KBinding, cr_ns (h_cr ?s), cr_name (h_cr ?s) @ ''-mongodb'') =
      Some (OBinding (sample_binding [Some ''x'']))"
    by (simp add: sample_state_def sample_binding_def mem_lookup_def samples cr_ns_def cr_name_def)
  from status_health[OF mem.kube_api_axioms run look] run show ?thesis
    by (simp add: sample_state_def sample_binding_def removeDuplicates_def item_running_def
        running_status_def)
qed

text \<open>
  A cluster without a status in the resource binding makes the aggregation panic as soon as a
  later cluster reports a member at its address: the loop skips the first but indexes
  \<open>Status.Result\<close>, which then has one entry less, by the position in the binding.
\<close>

theorem status_skip_panics:
  assumes "\<exists>x \<in> set xs. ag_status x = None" and "ag_status item = Some raw"
    and "rt_json_status rt raw = Inr (Some ms)"
    and "\<exists>rs \<in> set (mgt_replset ms). go_contains (mb_host rs) (gm_get '''' (h_vips s) (ag_cluster item))"
    and "aggregate_status rt (xs @ item # ys) s = (r, s')"
  shows "\<nexists>a. r = Ok a"
proof
  assume "\<exists>a. r = Ok a"
  with assms(5) obtain a where "aggregate_status rt (xs @ item # ys) s = (Ok a, s')" by blast
  then obtain sched where "for_each (enumerate 0 (xs @ item # ys))
      (aggregate_item rt (h_vips s) (h_arbiters s) sched)
      \<lparr>agg_result = [], agg_buffer = '''', agg_health = 0\<rparr> = (Ok (), a)"
    by (rule aggregate_status_Ok)
  with aggregate_skip_panics[OF assms(1-4)] show False by blast
qed

theorem status_skip_panics_witness:
  "\<nexists>a. fst (aggregate_status sample_runtime (rb_aggregated (sample_binding [None, Some ''x'']))
      (sample_state (mem_of []))) = Ok a"
proof -
  let ?s = "sample_state (mem_of [])"
  let ?i = "\<lparr>ag_cluster = ''a'', ag_applied = True, ag_status = Some ''x''\<rparr>"
  let ?x = "\<lparr>ag_cluster = ''a'', ag_applied = True, ag_status = None\<rparr>"
  obtain r s' where run: "aggregate_status sample_runtime ([?x] @ ?i # []) ?s = (r, s')" by fastforce
  have "\<nexists>a. r = Ok a"
  proof (rule status_skip_panics[OF _ _ _ _ run])
    show "\<exists>rs \<in> set (mgt_replset running_status). go_contains (mb_host rs)
        (gm_get '''' (h_vips ?s) (ag_cluster ?i))"
      by (simp add: running_status_def sample_state_def gm_get_def)
  qed simp_all
  with run show ?thesis by (simp add: sample_binding_def)
qed

text \<open>
  C20: the host configuration lists exactly the members of the stored service policies: after the
  handler (without an arbiter) its \<open>datas\<close> has, for each policy labelled as one of this database
  and each cluster the policy names, one line with the cluster's address and the node port of the
  policy's service. Policies are taken from every namespace.
\<close>

theorem host_config_written:
  assumes "kube_api cli objs I" and "I (h_world s)"
    and "HostConfigMapHandler cli None s = (Ok (), s')"
    and "\<not> cf_arbiter (mcs_config (mc_spec (h_cr s)))"
    and "\<And>z. objs (h_world s) (KConfigMap, cr_ns (h_cr s), cr_name (h_cr s) @ ''-hostconf'') = Some z \<Longrightarrow>
           \<not> om_deleting (ometa z)"
  shows "\<exists>pps cm. distinct (map (\<lambda>p. okey_of (OPP p)) pps) \<and>
    set pps = {p. objs (h_world s) (okey_of (OPP p)) = Some (OPP p) \<and>
       selects (GenerateServicePPLabel (cr_labels (h_cr s)) (cr_name (h_cr s) @ ''-service-pp''))
         (om_labels (pp_meta p))} \<and>
    objs (h_world s') (KConfigMap, cr_ns (h_cr s), cr_name (h_cr s) @ ''-hostconf'') = Some (OConfigMap cm) \<and>
    map_of (cm_data cm) ''datas'' = Some (sprintf0 (go_join ''\<newline>''
      (concat (map (policy_lines (objs (h_world s)) (h_vips s)) pps))))"
  using kube_api.host_config_run[OF assms(1,3,2,4,5)] .

definition sample_service_policy :: propagation_policy where
  "sample_service_policy = (sample_policy [''a''] [])\<lparr>
     pp_meta := (meta_of ''s0-pp'' ''ns'' [(ServicePP, ''m-service-pp'')])\<lparr>om_rv := ''7''\<rparr>,
     pp_selectors := [(service_selector ''s0'')\<lparr>rsel_namespace := ''ns''\<rparr>]\<rparr>"

theorem host_config_written_witness:
  "\<exists>s' cm lines. HostConfigMapHandler mem_client None
      (sample_state (mem_of [OService (sample_service ''s0'' 7), OPP sample_service_policy])) = (Ok (), s') \<and>
    mem_lookup (h_world s') (KConfigMap, ''ns'', ''m-hostconf'') = Some (OConfigMap cm) \<and>
    map_of (cm_data cm) ''datas'' = Some lines"
proof -
  let ?s = "sample_state (mem_of [OService (sample_service ''s0'' 7), OPP sample_service_policy])"
  have "fst (HostConfigMapHandler mem_client None ?s) = Ok ()" by code_simp
  then obtain s' where run: "HostConfigMapHandler mem_client None ?s = (Ok (), s')"
    by (metis prod.collapse)
  have w: "h_world ?s = mem_of [OService (sample_service ''s0'' 7), OPP sample_service_policy]"
    by (simp add: sample_state_def)
  have inv: "mem_inv (h_world ?s)"
    unfolding w by (simp add: mem_inv_def mem_of_def okey_of_def sample_service_def
        sample_service_policy_def)
  have "\<not> om_deleting (ometa z)"
    if "mem_lookup (h_world ?s) (KConfigMap, cr_ns (h_cr ?s), cr_name (h_cr ?s) @ ''-hostconf'') = Some z" for z
    using that unfolding w by (simp add: mem_lookup_def mem_of_def okey_of_def)
  from host_config_written[OF mem.kube_api_axioms inv run _ this]
  show ?thesis using run
    by (auto simp: sample_state_def samples sample_spec_def cr_ns_def cr_name_def)
qed

text \<open>
  \<open>removeDuplicates\<close> is the library's duplicate removal seen from the end of the list: it keeps
  each cluster once, at its first occurrence.
\<close>

theorem removeDuplicates_spec: "removeDuplicates xs = rev (remdups (rev xs))"
proof -
  have snoc: "keep_first seen (xs @ [x]) =
      keep_first seen xs @ (if x \<in> set xs \<union> set seen then [] else [x])" for seen xs x
    by (induction seen xs rule: keep_first.induct) auto
  have "keep_first [] xs = rev (remdups (rev xs))"
    by (induction xs rule: rev_induct) (simp_all add: snoc)
  then show ?thesis by (simp add: removeDuplicates_def)
qed

text \<open>
  A scheduler result that cannot be decoded stops the chain: the first handler returns the
  error without running the next one, records the condition \<open>ServerScheduledResult\<close> as false with
  the reason \<open>GetSchedulerFailed\<close> and the error in its message, and leaves every stored object but
  the resource itself alone.
\<close>

theorem schedule_failure_recorded:
  assumes "kube_api cli objs I"
    and "rt_json_sched rt (gm_get '''' (om_annotations (mc_meta (h_cr s))) ''schedulerResult'') = Inl e"
    and "GetScheduleStatusHandler cli rt next s = (r, s')"
  shows "r = Err e \<and>
    (\<exists>i. FindStatusCondition (mst_conditions (mc_status (h_cr s'))) ServerScheduledResult = Some i \<and>
       server_payload (mst_conditions (mc_status (h_cr s')) ! i) =
         (CFalse, ''GetSchedulerFailed'', schedule_message ''Failed'' (h_cr s) (err_text e))) \<and>
    (\<forall>k. k \<noteq> okey_of (OMultiCloud (h_cr s)) \<longrightarrow> objs (h_world s') k = objs (h_world s) k)"
  using kube_api.schedule_failed[OF assms] .

theorem schedule_failure_recorded_witness:
  "fst (GetScheduleStatusHandler mem_client sample_runtime (Some (panic ''next'')) (sample_state (mem_of [])))
    = Err (NewErr ''unexpected end of JSON input'')"
proof -
  let ?s = "sample_state (mem_of [])"
  obtain r s' where run: "GetScheduleStatusHandler mem_client sample_runtime (Some (panic ''next'')) ?s = (r, s')"
    by fastforce
  have "rt_json_sched sample_runtime (gm_get '''' (om_annotations (mc_meta (h_cr ?s))) ''schedulerResult'') =
      Inl (NewErr ''unexpected end of JSON input'')"
    by (simp add: sample_state_def samples)
  from schedule_failure_recorded[OF mem.kube_api_axioms this run] run show ?thesis by simp
qed

text \<open>
  A scheduler result without replicas (the sum, with 64-bit wrap-around, is zero) ends the chain
  after the first handler: what it does and returns does not depend on the next handler.
\<close>

theorem empty_schedule_stops:
  assumes "rt_json_sched rt (gm_get '''' (om_annotations (mc_meta (h_cr s))) ''schedulerResult'') = Inr (Some sched)"
    and "schedule_sum sched = 0"
  shows "GetScheduleStatusHandler cli rt next s = GetScheduleStatusHandler cli rt None s"
  using schedule_decoded[OF assms] .

theorem empty_schedule_stops_witness:
  "let s = (sample_state (mem_of []))\<lparr>h_cr := sample_cr\<lparr>mc_meta :=
       (mc_meta sample_cr)\<lparr>om_annotations := [(''schedulerResult'', ''{}'')]\<rparr>\<rparr>\<rparr>
   in GetScheduleStatusHandler mem_client sample_runtime (Some (panic ''next'')) s =
      GetScheduleStatusHandler mem_client sample_runtime None s"
  unfolding Let_def
  by (rule empty_schedule_stops[of _ _ "[]"]) (simp_all add: gm_get_def schedule_sum_def)

text \<open>
  C31: when the arbiter is switched off and the step returns nil, no live override policy, service or
  service policy of the arbiter is left.
\<close>

theorem arbiter_removed:
  assumes "kube_api cli objs I" and "I (h_world s)"
    and "\<not> cf_arbiter (mcs_config (mc_spec (h_cr s)))"
    and "UpsertArbiterHandler cli None s = (Ok (), s')"
    and "(kd, n) \<in> {(KOP, cr_name (h_cr s) @ ''-arbiter''), (KService, cr_name (h_cr s) @ ''-mongodb-arbiter''),
           (KPP, cr_name (h_cr s) @ ''-mongodb-arbiter-pp'')}"
    and "objs (h_world s') (kd, cr_ns (h_cr s), n) = Some z"
  shows "om_deleting (ometa z)"
proof -
  from assms(3,4) have "arbiter_off cli (h_cr s) s = (Ok (), s')"
    by (auto simp: UpsertArbiterHandler_def bindg_Ok_iff go_simps run_next_def)
  from kube_api.arbiter_off_dead[OF assms(1) this assms(2)] assms(5,6) show ?thesis
    by (auto simp: kube_api.dead_def[OF assms(1)])
qed

theorem arbiter_removed_witness:
  "\<exists>s'. UpsertArbiterHandler mem_client None
      (sample_state (mem_of [OService (sample_service ''m-mongodb-arbiter'' 7)])) = (Ok (), s') \<and>
    (\<forall>z. mem_lookup (h_world s') (KService, ''ns'', ''m-mongodb-arbiter'') = Some z \<longrightarrow> om_deleting (ometa z))"
proof -
  let ?s = "sample_state (mem_of [OService (sample_service ''m-mongodb-arbiter'' 7)])"
  have "fst (UpsertArbiterHandler mem_client None ?s) = Ok ()" by code_simp
  then obtain s' where run: "UpsertArbiterHandler mem_client None ?s = (Ok (), s')"
    by (metis prod.collapse)
  have inv: "mem_inv (h_world ?s)"
    by (simp add: sample_state_def mem_inv_def mem_of_def sample_service_def)
  have off: "\<not> cf_arbiter (mcs_config (mc_spec (h_cr ?s)))"
    by (simp add: sample_state_def sample_cr_def sample_spec_def)
  show ?thesis
    using run arbiter_removed[OF mem.kube_api_axioms inv off run, of KService "''m-mongodb-arbiter''"]
    by (auto simp: sample_state_def sample_cr_def cr_ns_def cr_name_def meta_of_def)
qed

end
