(* ===== verification/Multi_Cloud_Controller.thy ===== *)
theory Multi_Cloud_Controller
  imports Handler_Laws
begin

text \<open>
  \<open>controllers/multicloudmongodb_controller.go\<close>: one reconciliation of a MultiCloudMongoDB, with its
  finalizer protocol. The result is the requeue delay in seconds and the error that
  \<open>Reconcile\<close> returns.
\<close>

section \<open>The reconciler\<close>

definition multiCloudMongoDBFinalizerName :: string where
  "multiCloudMongoDBFinalizerName = ''multiCloudMongoDB.finalizers.middleware.fedstate.io''"

text \<open>\<open>if err := DeleteObjByLabel(...); err != nil && !IsNotFound(err) { return err }\<close>\<close>

definition ignore_not_found :: "('w, unit) go \<Rightarrow> ('w, unit) go" where
  "ignore_not_found m = bindg (attempt m) (\<lambda>r. case r of
     Inr _ \<Rightarrow> ret () | Inl e \<Rightarrow> if is_not_found e then ret () else fail e)"

definition deleteExternalResources :: "'w client \<Rightarrow> multi_cloud \<Rightarrow> ('w, unit) go" where
  "deleteExternalResources cli cr =
     (let baselabel = BaseLabel (cr_labels cr) (cr_name cr);
          vipLabel = GenerateClusterVipLabel (cr_labels cr) (cr_name cr);
          initLabel = GenerateInitLabel (cr_labels cr) (cr_name cr);
          arbiterPPLabel = GenerateArbiterServicePPLabel (cr_name cr);
          customConfigMapPPLabel =
            GenerateCustomConfigMapPPLabel [] (cr_name cr @ ''-custom-configmap-pp'');
          ns = cr_ns cr
      in andthen (DeleteObjByLabel cli KPP baselabel ns)
        (andthen (ignore_not_found (DeleteObjByLabel cli KPP arbiterPPLabel ns))
        (andthen (ignore_not_found (DeleteObjByLabel cli KPP customConfigMapPPLabel ns))
        (andthen (DeleteObjByLabel cli KService baselabel ns)
        (andthen (DeleteObjByLabel cli KConfigMap baselabel ns)
        (andthen (DeleteObjByLabel cli KMongo baselabel ns)
        (andthen (DeleteObjByLabel cli KOP baselabel ns)
        (andthen (DeleteObjByLabel cli KOP vipLabel ns)
                 (DeleteObjByLabel cli KOP initLabel ns)))))))))"

definition initial_params :: "multi_cloud \<Rightarrow> 'w \<Rightarrow> 'w hstate" where
  "initial_params cr w = \<lparr>h_cr = cr, h_vips = [], h_sched = Some [], h_arbiters = [], h_svcnames = [],
     h_active = [], h_world = w\<rparr>"

definition set_finalizers :: "string list \<Rightarrow> multi_cloud \<Rightarrow> multi_cloud" where
  "set_finalizers fs cr = cr\<lparr>mc_meta := (mc_meta cr)\<lparr>om_finalizers := fs\<rparr>\<rparr>"

type_synonym reconcile_result = "nat option \<times> gerror option"

definition run_chain :: "'w client \<Rightarrow> runtime \<Rightarrow> multi_cloud \<Rightarrow> ('w, reconcile_result) go" where
  "run_chain cli rt cr = (\<lambda>w. case BuildMultiCloudDBHandlerChain cli rt (initial_params cr w) of
     (Ok _, s) \<Rightarrow> (Ok (Some 15, None), h_world s)
   | (Err e, s) \<Rightarrow> (Ok (Some 5, Some e), h_world s)
   | (Panic p, s) \<Rightarrow> (Panic p, h_world s))"

definition or_result :: "('w, 'a) go \<Rightarrow> ('a \<Rightarrow> ('w, reconcile_result) go) \<Rightarrow> ('w, reconcile_result) go" where
  "or_result m f = bindg (attempt m) (\<lambda>r. case r of Inl e \<Rightarrow> ret (None, Some e) | Inr x \<Rightarrow> f x)"

definition Reconcile :: "'w client \<Rightarrow> runtime \<Rightarrow> string \<Rightarrow> string \<Rightarrow> ('w, reconcile_result) go" where
  "Reconcile cli rt namespace name =
     bindg (attempt (get_as cli (\<lambda>x. case x of OMultiCloud m \<Rightarrow> Some m | _ \<Rightarrow> None) (KMultiCloud, namespace, name)))
       (\<lambda>r. case r of
          Inl e \<Rightarrow> ret (None, if is_not_found e then None else Some e)
        | Inr cr \<Rightarrow>
            (let finalizers = om_finalizers (mc_meta cr) in
             if \<not> om_deleting (mc_meta cr) then
               (if multiCloudMongoDBFinalizerName \<notin> set finalizers
                then or_result (UpdateObject cli (OMultiCloud
                         (set_finalizers (finalizers @ [multiCloudMongoDBFinalizerName]) cr))) (\<lambda>x.
                       case x of OMultiCloud cr' \<Rightarrow> run_chain cli rt cr'
                       | _ \<Rightarrow> panic ''interface conversion'')
                else run_chain cli rt cr)
             else if multiCloudMongoDBFinalizerName \<in> set finalizers then
               or_result (deleteExternalResources cli cr) (\<lambda>_.
                 or_result (UpdateObject cli (OMultiCloud
                      (set_finalizers (filter (\<lambda>f. f \<noteq> multiCloudMongoDBFinalizerName) finalizers) cr)))
                   (\<lambda>_. ret (None, None)))
             else ret (None, None)))"

section \<open>Lemmas\<close>

text \<open>\<open>clear st S\<close>: the stored objects in one of the scopes \<open>S\<close> are all being deleted.\<close>

type_synonym scope = "kind \<times> string \<times> labels"

definition covers :: "scope \<Rightarrow> kobj \<Rightarrow> bool" where
  "covers sc x = (case sc of (kd, ns, label) \<Rightarrow> in_scope kd (Some ns) (MatchingLabels label) x)"

definition clear :: "(okey \<Rightarrow> kobj option) \<Rightarrow> scope set \<Rightarrow> bool" where
  "clear st S \<longleftrightarrow> (\<forall>k z sc. st k = Some z \<longrightarrow> sc \<in> S \<longrightarrow> covers sc z \<longrightarrow> om_deleting (ometa z))"

definition cleanup_scopes :: "multi_cloud \<Rightarrow> scope set" where
  "cleanup_scopes cr =
     {(kd, cr_ns cr, BaseLabel (cr_labels cr) (cr_name cr)) | kd.
        kd \<in> {KPP, KService, KConfigMap, KMongo, KOP}} \<union>
     {(KOP, cr_ns cr, GenerateClusterVipLabel (cr_labels cr) (cr_name cr)),
      (KOP, cr_ns cr, GenerateInitLabel (cr_labels cr) (cr_name cr))}"

lemma clear_mono: "clear st S \<Longrightarrow> T \<subseteq> S \<Longrightarrow> clear st T"
  unfolding clear_def by blast

context kube_api
begin

definition cleaned :: "scope set \<Rightarrow> okey \<Rightarrow> kobj \<Rightarrow> 'w \<Rightarrow> bool" where
  "cleaned S k0 x w \<longleftrightarrow> inv w \<and> clear (objs w) S \<and> objs w k0 = Some x"

lemma delete_label_keeps:
  assumes "fst k0 \<noteq> kd"
  shows "keeps (\<lambda>w. inv w \<and> objs w k0 = Some x) (DeleteObjByLabel cli kd label ns)"
proof (rule keepsI, elim conjE)
  fix w r w' assume *: "inv w" "objs w k0 = Some x" "DeleteObjByLabel cli kd label ns w = (r, w')"
  then have run: "c_delete_all cli kd (Some ns) (MatchingLabels label) w = (r, w')"
    by (simp add: DeleteObjByLabel_def)
  have "\<not> in_scope kd (Some ns) (MatchingLabels label) x"
    using assms stored[OF *(1,2)] by (cases k0) (auto simp: in_scope_def okey_of_def)
  with delete_all_frame[OF run *(1), of k0] *(2) have "objs w' k0 = Some x" by auto
  with keepsD[OF keeps_inv(7) *(1) run] show "inv w' \<and> objs w' k0 = Some x" by simp
qed

lemma delete_label_clear:
  assumes "inv w" "clear (objs w) S" "DeleteObjByLabel cli kd label ns w = (r, w')"
  shows "clear (objs w') S \<and> (r = Ok () \<longrightarrow> clear (objs w') (insert (kd, ns, label) S))"
proof -
  from assms(3) have run: "c_delete_all cli kd (Some ns) (MatchingLabels label) w = (r, w')"
    by (simp add: DeleteObjByLabel_def)
  have old: "om_deleting (ometa y)" if "objs w' k = Some y" "sc \<in> S" "covers sc y" for k y sc
  proof (cases "objs w' k = objs w k")
    case True
    with that assms(2) show ?thesis unfolding clear_def by (cases k) metis
  next
    case False
    with delete_all_frame[OF run assms(1), of k] that(1) show ?thesis by blast
  qed
  have new: "om_deleting (ometa y)"
    if "r = Ok ()" "objs w' k = Some y" "in_scope kd (Some ns) (MatchingLabels label) y" for k y
  proof (cases "objs w' k = objs w k")
    case True
    with that delete_all_Ok[OF run[unfolded that(1)] assms(1), of k y] show ?thesis by auto
  next
    case False
    with delete_all_frame[OF run assms(1), of k] that(2) show ?thesis by blast
  qed
  from old new show ?thesis unfolding clear_def covers_def by (metis (no_types, lifting) case_prod_conv insertE)
qed

lemma delete_label_cleaned:
  assumes "fst k0 \<noteq> kd"
  shows "ensures (cleaned S k0 x) (DeleteObjByLabel cli kd label ns)
    (\<lambda>_. cleaned (insert (kd, ns, label) S) k0 x)"
proof (rule ensuresI)
  fix w a w' assume c: "cleaned S k0 x w" and run: "DeleteObjByLabel cli kd label ns w = (Ok a, w')"
  then have inv: "inv w" and S: "clear (objs w) S" and x: "objs w k0 = Some x"
    by (simp_all add: cleaned_def)
  from delete_label_clear[OF inv S run] keepsD[OF delete_label_keeps[OF assms, of x label ns] conjI[OF inv x] run]
  show "cleaned (insert (kd, ns, label) S) k0 x w'" by (simp add: cleaned_def)
qed

lemma ignore_not_found_cleaned:
  assumes "fst k0 \<noteq> kd"
  shows "ensures (cleaned S k0 x) (ignore_not_found (DeleteObjByLabel cli kd label ns)) (\<lambda>_. cleaned S k0 x)"
proof (rule ensuresI)
  fix w a w' assume c: "cleaned S k0 x w"
    and run: "ignore_not_found (DeleteObjByLabel cli kd label ns) w = (Ok a, w')"
  obtain r w1 where del: "DeleteObjByLabel cli kd label ns w = (r, w1)" by fastforce
  with run have "w' = w1"
    by (cases r) (auto simp: ignore_not_found_def bindg_def attempt_def go_simps split: if_splits)
  with del delete_label_clear[OF _ _ del, of S] c keepsD[OF delete_label_keeps[OF assms, of x label ns] _ del]
  show "cleaned S k0 x w'" by (simp add: cleaned_def)
qed

lemma cleanup_clears:
  assumes "fst k0 = KMultiCloud" "deleteExternalResources cli cr w = (Ok (), w')"
    and "inv w" "objs w k0 = Some x"
  shows "clear (objs w') (cleanup_scopes cr)"
proof -
  let ?b = "BaseLabel (cr_labels cr) (cr_name cr)"
  have kinds: "fst k0 \<noteq> KPP" "fst k0 \<noteq> KService" "fst k0 \<noteq> KConfigMap" "fst k0 \<noteq> KMongo" "fst k0 \<noteq> KOP"
    using assms(1) by simp_all
  let ?S = "{(KOP, cr_ns cr, GenerateInitLabel (cr_labels cr) (cr_name cr)),
     (KOP, cr_ns cr, GenerateClusterVipLabel (cr_labels cr) (cr_name cr)), (KOP, cr_ns cr, ?b),
     (KMongo, cr_ns cr, ?b), (KConfigMap, cr_ns cr, ?b), (KService, cr_ns cr, ?b), (KPP, cr_ns cr, ?b)}"
  have post: "ensures (cleaned {} k0 x) (deleteExternalResources cli cr) (\<lambda>_. cleaned ?S k0 x)"
    unfolding deleteExternalResources_def Let_def
    by ((rule ensures_bind, (rule delete_label_cleaned | rule ignore_not_found_cleaned), rule kinds)+,
        rule delete_label_cleaned, rule kinds)
  have "cleaned {} k0 x w" using assms(3,4) by (simp add: cleaned_def clear_def)
  with post assms(2) have "cleaned ?S k0 x w'" unfolding ensures_def by blast
  then have "clear (objs w') ?S" by (simp only: cleaned_def)
  moreover have "cleanup_scopes cr \<subseteq> ?S" unfolding cleanup_scopes_def by blast
  ultimately show ?thesis by (rule clear_mono)
qed

lemma cleanup_frame:
  assumes "fst k0 = KMultiCloud"
  shows "keeps (\<lambda>w. inv w \<and> objs w k0 = Some x) (deleteExternalResources cli cr)"
  unfolding deleteExternalResources_def Let_def ignore_not_found_def
  by (intro keeps_intros delete_label_keeps) (simp_all add: assms)

lemma update_finalizers_other:
  assumes "UpdateObject cli (OMultiCloud (set_finalizers fs cr)) w = (r, w')"
    and "k \<noteq> okey_of (OMultiCloud cr)"
  shows "objs w' k = objs w k"
proof -
  have key: "okey_of (OMultiCloud (set_finalizers fs cr)) = okey_of (OMultiCloud cr)"
    by (simp add: set_finalizers_def okey_of_def)
  from assms(1) have run: "c_update cli (OMultiCloud (set_finalizers fs cr)) w = (r, w')"
    by (simp add: UpdateObject_def)
  show ?thesis
  proof (cases r)
    case (Ok y)
    from update_Ok[OF run[unfolded Ok]] assms(2) show ?thesis unfolding key by (metis fun_upd_other)
  next
    case (Err e)
    from failed_writes(2)[OF run[unfolded Err]] show ?thesis by simp
  next
    case (Panic p)
    with run no_panic(4) show ?thesis by blast
  qed
qed

lemma reconcile_cleanup:
  assumes "inv w" "objs w (KMultiCloud, ns, n) = Some (OMultiCloud cr)" "om_deleting (mc_meta cr)"
    and "multiCloudMongoDBFinalizerName \<in> set (om_finalizers (mc_meta cr))"
    and "Reconcile cli rt ns n w = (Ok (requeue, err), w')"
  shows "requeue = None \<and> (err = None \<longrightarrow> clear (objs w') (cleanup_scopes cr)) \<and>
    (err \<noteq> None \<longrightarrow> objs w' (KMultiCloud, ns, n) = Some (OMultiCloud cr) \<or>
       clear (objs w') (cleanup_scopes cr))"
proof -
  let ?k = "(KMultiCloud, ns, n)"
  have key: "okey_of (OMultiCloud cr) = ?k" using stored[OF assms(1,2)] by blast
  obtain g w1 where g: "get_as cli (\<lambda>x. case x of OMultiCloud m \<Rightarrow> Some m | _ \<Rightarrow> None) ?k w = (g, w1)"
    by fastforce
  have inv1: "inv w1" and same1: "objs w1 = objs w"
    using g keepsD[OF keeps_inv(1) assms(1)] reads(1)[of ?k w]
    by (auto simp: get_as_def bindg_def go_simps split: prod.splits outcome.splits option.splits)
  show ?thesis
  proof (cases g)
    case (Err e)
    with assms(2,5) g have "requeue = None" "w' = w1"
      by (auto simp: Reconcile_def bindg_def attempt_def go_simps)
    moreover have "\<not> is_not_found e"
      using g Err assms(2) get_missing[of ?k w]
      by (auto simp: get_as_def bindg_def go_simps split: prod.splits outcome.splits option.splits)
    ultimately show ?thesis using assms(2,5) g Err same1
      by (auto simp: Reconcile_def bindg_def attempt_def go_simps)
  next
    case (Panic p)
    with assms(5) g show ?thesis by (simp add: Reconcile_def bindg_def attempt_def)
  next
    case (Ok cr0)
    with g assms(2) have "cr0 = cr" by (auto dest!: get_as_run split: kobj.splits)
    let ?upd = "UpdateObject cli (OMultiCloud (set_finalizers
        (filter (\<lambda>f. f \<noteq> multiCloudMongoDBFinalizerName) (om_finalizers (mc_meta cr))) cr))"
    obtain d w2 where d: "deleteExternalResources cli cr w1 = (d, w2)" by fastforce
    have kept: "inv w2 \<and> objs w2 ?k = Some (OMultiCloud cr)"
      using keepsD[OF cleanup_frame[of ?k "OMultiCloud cr" cr] _ d] inv1 same1 assms(2) by simp
    from assms(3,4,5) g Ok \<open>cr0 = cr\<close> have rest:
      "or_result (deleteExternalResources cli cr) (\<lambda>_. or_result ?upd (\<lambda>_. ret (None, None))) w1
        = (Ok (requeue, err), w')"
      by (simp add: Reconcile_def bindg_def attempt_def go_simps Let_def)
    show ?thesis
    proof (cases d)
      case (Ok u)
      from cleanup_clears[of ?k cr w1 w2 "OMultiCloud cr"] d Ok inv1 same1 assms(2)
      have clear2: "clear (objs w2) (cleanup_scopes cr)" by simp
      obtain q w3 where q: "?upd w2 = (q, w3)" by fastforce
      have "clear (objs w3) (cleanup_scopes cr)"
      proof (unfold clear_def, intro allI impI)
        fix k z sc assume z: "objs w3 k = Some z" "sc \<in> cleanup_scopes cr" "covers sc z"
        then have "okind z \<noteq> KMultiCloud" by (auto simp: cleanup_scopes_def covers_def in_scope_def)
        moreover have "inv w3" using keepsD[OF keeps_inv(4) conjunct1[OF kept]] q by (simp add: UpdateObject_def)
        ultimately have "k \<noteq> okey_of (OMultiCloud cr)" using stored z(1) key by (auto simp: okey_of_def)
        from update_finalizers_other[OF q this] z clear2 show "om_deleting (ometa z)"
          unfolding clear_def by metis
      qed
      moreover from rest d Ok q no_panic(4) have "w' = w3 \<and> requeue = None"
        by (cases q) (auto simp: or_result_def bindg_def attempt_def go_simps UpdateObject_def)
      ultimately show ?thesis by blast
    next
      case (Err e)
      with rest d kept show ?thesis by (auto simp: or_result_def bindg_def attempt_def go_simps)
    next
      case (Panic p)
      with rest d show ?thesis by (simp add: or_result_def bindg_def attempt_def)
    qed
  qed
qed

end

context kube_api
begin

text \<open>The world in which the handlers may start: the resource carries the finalizer, all else is as before.\<close>

definition protected :: "okey \<Rightarrow> multi_cloud \<Rightarrow> 'w \<Rightarrow> multi_cloud \<Rightarrow> 'w \<Rightarrow> bool" where
  "protected k cr w cr1 w1 \<longleftrightarrow> inv w1 \<and> objs w1 k = Some (OMultiCloud cr1) \<and> mc_spec cr1 = mc_spec cr \<and>
     multiCloudMongoDBFinalizerName \<in> set (om_finalizers (mc_meta cr1)) \<and> (\<forall>j. j \<noteq> k \<longrightarrow> objs w1 j = objs w j)"

lemma add_finalizer_run:
  assumes I: "inv w" and look: "objs w k = Some (OMultiCloud cr)" and live: "\<not> om_deleting (mc_meta cr)"
    and run: "UpdateObject cli (OMultiCloud (set_finalizers (fs @ [multiCloudMongoDBFinalizerName]) cr)) w = (Ok y, w')"
  shows "\<exists>cr1. y = OMultiCloud cr1 \<and> protected k cr w cr1 w'"
proof -
  let ?x = "OMultiCloud (set_finalizers (fs @ [multiCloudMongoDBFinalizerName]) cr)"
  have k: "okey_of (OMultiCloud cr) = k" using stored[OF I look] by blast
  then have key: "okey_of ?x = k" by (simp add: set_finalizers_def okey_of_def)
  from run have upd: "c_update cli ?x w = (Ok y, w')" by (simp add: UpdateObject_def)
  have x: "om_finalizers (ometa ?x) = fs @ [multiCloudMongoDBFinalizerName]" by (simp add: set_finalizers_def)
  from update_Ok[OF upd, unfolded key x] look have y: "\<not> om_deleting (ometa y)" "persisted ?x y"
      "om_finalizers (ometa y) = fs @ [multiCloudMongoDBFinalizerName]" "objs w' = (objs w)(k \<mapsto> y)"
    using live by auto
  then obtain cr1 where cr1: "y = OMultiCloud cr1" by (cases y) (auto dest: same_body_kind)
  moreover have "inv w'" using keepsD[OF keeps_inv(4) I upd] .
  ultimately show ?thesis using y by (auto simp: protected_def set_finalizers_def)
qed

lemma get_multi_cloud_run:
  assumes "inv w" "objs w k = Some (OMultiCloud cr)"
    and "get_as cli (\<lambda>x. case x of OMultiCloud m \<Rightarrow> Some m | _ \<Rightarrow> None) k w = (g, w1)"
  shows "inv w1" "objs w1 = objs w" "g = Ok cr \<or> (\<exists>e. g = Err e \<and> \<not> is_not_found e)"
proof -
  obtain q u where q: "c_get cli k w = (q, u)" by fastforce
  have u: "inv u" "objs u = objs w" using keepsD[OF keeps_inv(1) assms(1) q] reads(1)[of k w] q by simp_all
  have "w1 = u \<and> (g = Ok cr \<or> (\<exists>e. g = Err e \<and> \<not> is_not_found e))"
  proof (cases q)
    case (Ok x)
    with q get_Ok assms(2) have "x = OMultiCloud cr" by fastforce
    with assms(3) q Ok show ?thesis by (simp add: get_as_def bindg_def ret_def)
  next
    case (Err e)
    with q get_missing[of k w e u] assms(2) have "\<not> is_not_found e" by auto
    with assms(3) q Err show ?thesis by (auto simp: get_as_def bindg_def)
  qed (use q no_panic(1) in blast)
  with u show "inv w1" "objs w1 = objs w" "g = Ok cr \<or> (\<exists>e. g = Err e \<and> \<not> is_not_found e)" by simp_all
qed

lemma Reconcile_protected:
  assumes I: "inv w" and look: "objs w (KMultiCloud, ns, n) = Some (OMultiCloud cr)" and live: "\<not> om_deleting (mc_meta cr)"
    and run: "Reconcile cli rt ns n w = (Ok (requeue, err), w')"
  shows "requeue = None \<and> err \<noteq> None \<and> objs w' = objs w \<or>
    (\<exists>cr1 w1. protected (KMultiCloud, ns, n) cr w cr1 w1 \<and> run_chain cli rt cr1 w1 = (Ok (requeue, err), w'))"
proof -
  let ?k = "(KMultiCloud, ns, n)" and ?fs = "om_finalizers (mc_meta cr)"
  obtain g w1 where g: "get_as cli (\<lambda>x. case x of OMultiCloud m \<Rightarrow> Some m | _ \<Rightarrow> None) ?k w = (g, w1)" by fastforce
  note got = get_multi_cloud_run[OF I look g]
  from got(3) show ?thesis
  proof (elim disjE exE conjE)
    fix e assume "g = Err e" "\<not> is_not_found e"
    with run g got(2) show ?thesis by (auto simp: Reconcile_def bindg_def attempt_def ret_def)
  next
    assume Ok: "g = Ok cr"
    show ?thesis
    proof (cases "multiCloudMongoDBFinalizerName \<in> set ?fs")
      case True
      with run g Ok live have "run_chain cli rt cr w1 = (Ok (requeue, err), w')"
        by (simp add: Reconcile_def bindg_def attempt_def Let_def)
      moreover have "protected ?k cr w cr w1" using True got(1,2) look by (simp add: protected_def)
      ultimately show ?thesis by blast
    next
      case False
      let ?upd = "UpdateObject cli (OMultiCloud (set_finalizers (?fs @ [multiCloudMongoDBFinalizerName]) cr))"
      obtain q w2 where q: "?upd w1 = (q, w2)" by fastforce
      show ?thesis
      proof (cases q)
        case (Ok y)
        with q add_finalizer_run[OF got(1) _ live] got(2) look obtain cr1 where
            y: "y = OMultiCloud cr1" and p: "protected ?k cr w1 cr1 w2" by force
        have "run_chain cli rt cr1 w2 = (Ok (requeue, err), w')"
          using run g \<open>g = Ok cr\<close> live False q Ok y by (simp add: Reconcile_def or_result_def bindg_def attempt_def Let_def)
        with p got(2) show ?thesis by (auto simp: protected_def)
      next
        case (Err e)
        have "objs w2 = objs w" using failed_writes(2) q Err got(2) by (simp add: UpdateObject_def)
        with run g \<open>g = Ok cr\<close> live False q Err show ?thesis
          by (auto simp: Reconcile_def or_result_def bindg_def attempt_def ret_def Let_def)
      next
        case (Panic p)
        with q no_panic(4) show ?thesis by (simp add: UpdateObject_def)
      qed
    qed
  qed
qed

end

section \<open>Properties\<close>

text \<open>
  C18: a MultiCloudMongoDB under deletion loses its finalizer only after its resources are gone:
  when the reconciliation returns without an error, no live policy, service, ConfigMap or MongoDB
  with the base label and no live override policy with the address or init label is stored in its
  namespace; when it returns an error, either that holds too or the resource is stored as it was,
  finalizer included. Nothing is requeued by delay.
\<close>

theorem finalizer_after_cleanup:
  assumes "kube_api cli objs I" and "I w"
    and "objs w (KMultiCloud, ns, n) = Some (OMultiCloud cr)" and "om_deleting (mc_meta cr)"
    and "multiCloudMongoDBFinalizerName \<in> set (om_finalizers (mc_meta cr))"
    and "Reconcile cli rt ns n w = (Ok (requeue, err), w')"
  shows "requeue = None \<and> (err = None \<longrightarrow> clear (objs w') (cleanup_scopes cr)) \<and>
    (err \<noteq> None \<longrightarrow> objs w' (KMultiCloud, ns, n) = Some (OMultiCloud cr) \<or>
       clear (objs w') (cleanup_scopes cr))"
  using kube_api.reconcile_cleanup[OF assms] .

definition deleting_cr :: multi_cloud where
  "deleting_cr = sample_cr\<lparr>mc_meta := (mc_meta sample_cr)\<lparr>om_deleting := True, om_rv := ''9'',
     om_finalizers := [multiCloudMongoDBFinalizerName]\<rparr>\<rparr>"

theorem finalizer_after_cleanup_witness:
  "\<exists>w'. Reconcile mem_client sample_runtime ''ns'' ''m'' (mem_of [OMultiCloud deleting_cr]) =
      (Ok (None, None), w') \<and> clear (mem_lookup w') (cleanup_scopes deleting_cr)"
proof -
  let ?w = "mem_of [OMultiCloud deleting_cr]"
  have "fst (Reconcile mem_client sample_runtime ''ns'' ''m'' ?w) = Ok (None, None)" by code_simp
  then obtain w' where run: "Reconcile mem_client sample_runtime ''ns'' ''m'' ?w = (Ok (None, None), w')"
    by (metis prod.collapse)
  have inv: "mem_inv ?w" by (simp add: mem_inv_def mem_of_def deleting_cr_def)
  have look: "mem_lookup ?w (KMultiCloud, ''ns'', ''m'') = Some (OMultiCloud deleting_cr)"
    by (simp add: mem_lookup_def samples deleting_cr_def)
  from finalizer_after_cleanup[OF mem.kube_api_axioms inv look _ _ run] run show ?thesis
    by (simp add: deleting_cr_def)
qed

text \<open>
  For labels of the resource that set neither key, the base label by which the clean-up deletes
  selects the services and service policies of the members, but neither the arbiter's service nor
  its override policy, whose label lacks the instance: these go only by their owner reference.
\<close>

theorem cleanup_label_coverage:
  assumes "wf_gomap L" and "map_of L LabelKeyApp = None" and "map_of L LabelKeyInstance = None"
    and "map_of L ServicePP = None"
  shows "selects (BaseLabel L n) (GenerateServiceLabel L n svc) \<and>
    selects (BaseLabel L n) (GenerateServicePPLabel (GenerateServiceLabel L n svc) pp) \<and>
    \<not> selects (BaseLabel L n) (GenerateArbiterLabel L arb)"
proof -
  have keys: "LabelKeyApp \<noteq> LabelKeyInstance" "ServicePP \<noteq> LabelKeyInstance" "ServicePP \<noteq> LabelKeyApp"
    by (simp_all add: label_keys)
  have "selects (BaseLabel L n) (GenerateServiceLabel L n svc)"
    unfolding selects_iff[OF BaseLabel_wf]
    using assms(1,2) keys by (simp add: BaseLabel_lookup GenerateServiceLabel_lookup)
  moreover have "selects (BaseLabel L n) (GenerateServicePPLabel (GenerateServiceLabel L n svc) pp)"
    unfolding selects_iff[OF BaseLabel_wf] GenerateServicePPLabel_lookup[OF GenerateServiceLabel_wf]
    using assms(1,2,4) keys by (simp add: BaseLabel_lookup GenerateServiceLabel_lookup)
  moreover have "\<not> selects (BaseLabel L n) (GenerateArbiterLabel L arb)"
    unfolding selects_iff[OF BaseLabel_wf]
    using assms(1,3) keys
    by (simp add: BaseLabel_lookup GenerateArbiterLabel_lookup) (metis (no_types) option.distinct(1))
  ultimately show ?thesis by blast
qed

theorem cleanup_label_coverage_witness:
  "\<not> selects (BaseLabel [] ''m'') (GenerateArbiterLabel [] ''m-mongodb-arbiter'')"
  using cleanup_label_coverage[of "[]" "''m''"] by simp

text \<open>
  C19: nothing is created for a MultiCloudMongoDB before its finalizer is stored, and a resource that is not
  being deleted is never forgotten. A round for such a resource that ends either failed before the
  handlers ran, and then it returns an error and changed nothing; or the handlers ran from a world in
  which the resource is stored with the finalizer and its specification, and everything else is as it was
  before the round, and then the round asks to be called again, after 15 seconds when they succeeded and
  after 5, with their error, when they failed. Returning neither an error nor a delay is impossible.
\<close>

theorem chain_runs_finalized:
  assumes "kube_api cli objs I" and "I w" and "objs w (KMultiCloud, ns, n) = Some (OMultiCloud cr)"
    and "\<not> om_deleting (mc_meta cr)" and "Reconcile cli rt ns n w = (Ok (requeue, err), w')"
  shows "requeue = None \<and> err \<noteq> None \<and> objs w' = objs w \<or>
    (\<exists>cr1 w1 r s. I w1 \<and> objs w1 (KMultiCloud, ns, n) = Some (OMultiCloud cr1) \<and> mc_spec cr1 = mc_spec cr \<and>
       multiCloudMongoDBFinalizerName \<in> set (om_finalizers (mc_meta cr1)) \<and>
       (\<forall>j. j \<noteq> (KMultiCloud, ns, n) \<longrightarrow> objs w1 j = objs w j) \<and>
       BuildMultiCloudDBHandlerChain cli rt (initial_params cr1 w1) = (r, s) \<and> w' = h_world s \<and>
       (r = Ok () \<and> requeue = Some 15 \<and> err = None \<or> (\<exists>e. r = Err e \<and> requeue = Some 5 \<and> err = Some e)))"
proof -
  have chain: "\<exists>r s. BuildMultiCloudDBHandlerChain cli rt (initial_params cr1 w1) = (r, s) \<and> w' = h_world s \<and>
      (r = Ok () \<and> requeue = Some 15 \<and> err = None \<or> (\<exists>e. r = Err e \<and> requeue = Some 5 \<and> err = Some e))"
    if "run_chain cli rt cr1 w1 = (Ok (requeue, err), w')" for cr1 w1
    using that by (auto simp: run_chain_def split: prod.splits outcome.splits)
  from kube_api.Reconcile_protected[OF assms] show ?thesis
  proof (elim disjE exE conjE)
    fix cr1 w1
    assume p: "kube_api.protected objs I (KMultiCloud, ns, n) cr w cr1 w1"
      and "run_chain cli rt cr1 w1 = (Ok (requeue, err), w')"
    from chain[OF this(2)] obtain r s where rs: "BuildMultiCloudDBHandlerChain cli rt (initial_params cr1 w1) = (r, s)"
        "w' = h_world s" "r = Ok () \<and> requeue = Some 15 \<and> err = None \<or> (\<exists>e. r = Err e \<and> requeue = Some 5 \<and> err = Some e)"
      by blast
    show ?thesis
      by (rule disjI2, rule exI[of _ cr1], rule exI[of _ w1], rule exI[of _ r], rule exI[of _ s])
        (use p rs in \<open>simp add: kube_api.protected_def[OF assms(1)]\<close>)
  qed simp
qed

text \<open>
  A new resource that nothing is scheduled for: the first round stores the finalizer and ends with the long
  delay. Without the scheduler's annotation the handlers fail, after the finalizer was stored as well.
\<close>

definition unscheduled_cr :: multi_cloud where
  "unscheduled_cr = sample_cr\<lparr>mc_meta := (mc_meta sample_cr)
     \<lparr>om_rv := ''3'', om_annotations := [(''schedulerResult'', ''{}'')]\<rparr>\<rparr>"

theorem chain_runs_finalized_witness:
  "(\<exists>w' cr1 w1. Reconcile mem_client sample_runtime ''ns'' ''m'' (mem_of [OMultiCloud unscheduled_cr]) =
      (Ok (Some 15, None), w') \<and> mem_lookup w1 (KMultiCloud, ''ns'', ''m'') = Some (OMultiCloud cr1) \<and>
      multiCloudMongoDBFinalizerName \<in> set (om_finalizers (mc_meta cr1)) \<and>
      fst (BuildMultiCloudDBHandlerChain mem_client sample_runtime (initial_params cr1 w1)) = Ok ()) \<and>
   (\<exists>w' cr1 w1 e. Reconcile mem_client sample_runtime ''ns'' ''m'' (mem_of [stored_at ''3'' (OMultiCloud sample_cr)]) =
      (Ok (Some 5, Some e), w') \<and> mem_lookup w1 (KMultiCloud, ''ns'', ''m'') = Some (OMultiCloud cr1) \<and>
      multiCloudMongoDBFinalizerName \<in> set (om_finalizers (mc_meta cr1)) \<and>
      fst (BuildMultiCloudDBHandlerChain mem_client sample_runtime (initial_params cr1 w1)) = Err e)"
proof -
  let ?k = "(KMultiCloud, ''ns'', ''m'')" and ?R = "Reconcile mem_client sample_runtime ''ns'' ''m''"
  have ran: "\<exists>w' cr1 w1. ?R (mem_of [OMultiCloud cr]) = (Ok (requeue, err), w') \<and>
      mem_lookup w1 ?k = Some (OMultiCloud cr1) \<and> multiCloudMongoDBFinalizerName \<in> set (om_finalizers (mc_meta cr1)) \<and>
      fst (BuildMultiCloudDBHandlerChain mem_client sample_runtime (initial_params cr1 w1)) =
        (case err of None \<Rightarrow> Ok () | Some e \<Rightarrow> Err e)"
    if run: "fst (?R (mem_of [OMultiCloud cr])) = Ok (requeue, err)" and "requeue \<noteq> None"
      and cr: "om_rv (mc_meta cr) \<noteq> ''''" "okey_of (OMultiCloud cr) = ?k" "\<not> om_deleting (mc_meta cr)"
    for cr requeue err
  proof -
    obtain w' where w': "?R (mem_of [OMultiCloud cr]) = (Ok (requeue, err), w')" using run by (metis prod.collapse)
    have inv: "mem_inv (mem_of [OMultiCloud cr])" using cr(1) by (simp add: mem_inv_def mem_of_def)
    have look: "mem_lookup (mem_of [OMultiCloud cr]) ?k = Some (OMultiCloud cr)"
      using cr(2) by (simp add: mem_lookup_def mem_of_def)
    from chain_runs_finalized[OF mem.kube_api_axioms inv look cr(3) w'] \<open>requeue \<noteq> None\<close>
    obtain cr1 w1 r s where *: "mem_lookup w1 ?k = Some (OMultiCloud cr1)"
        "multiCloudMongoDBFinalizerName \<in> set (om_finalizers (mc_meta cr1))"
        "BuildMultiCloudDBHandlerChain mem_client sample_runtime (initial_params cr1 w1) = (r, s)"
        "r = Ok () \<and> err = None \<or> (\<exists>e. r = Err e \<and> err = Some e)"
      by blast
    from *(3,4) have "fst (BuildMultiCloudDBHandlerChain mem_client sample_runtime (initial_params cr1 w1)) =
        (case err of None \<Rightarrow> Ok () | Some e \<Rightarrow> Err e)"
      by auto
    with w' *(1,2) show ?thesis by blast
  qed
  have idle: "fst (?R (mem_of [OMultiCloud unscheduled_cr])) = Ok (Some 15, None)" by code_simp
  have stored: "stored_at ''3'' (OMultiCloud sample_cr) = OMultiCloud (sample_cr\<lparr>mc_meta := (mc_meta sample_cr)\<lparr>om_rv := ''3''\<rparr>\<rparr>)"
    by (simp add: stored_at_def set_rv_def)
  have failed: "fst (?R (mem_of [stored_at ''3'' (OMultiCloud sample_cr)])) =
      Ok (Some 5, Some (NewErr ''unexpected end of JSON input''))" by code_simp
  show ?thesis
    using ran[OF idle] ran[OF failed[unfolded stored]] unfolding stored
    by (fastforce simp: unscheduled_cr_def sample_cr_def meta_of_def okey_of_def)
qed

end
