(* ===== verification/Composition.thy ===== *)
theory Composition
  imports Growth_Laws Multi_Cloud_Controller
begin

text \<open>
  Where the two controllers meet: the objects the control plane generates, as Karmada brings them to a
  member cluster, under the operations of the MongoDB controller there.
\<close>

section \<open>From the generated instance to its stateful sets\<close>

lemma complete_builds:
  assumes "complete (mg_spec cr)" and "parse (ps_storage (mgs_persistence (mg_spec cr))) \<noteq> None" and "wf_gomap ls"
  shows "\<exists>s. MongoSts parse img cr name ls command = Ok s \<and> mounts_bound s"
proof -
  note spec = MongoSts_cases[where parse = parse and img = img and cr = cr and name = name and command = command, OF assms(3) refl]
  show ?thesis
    using spec assms(1,2) by (cases "MongoSts parse img cr name ls command") (auto simp: complete_def)
qed

lemma history_storage:
  assumes "history img m n" and "complete (mg_spec m)"
  shows "ps_storage (mgs_persistence (mg_spec n)) = ps_storage (mgs_persistence (mg_spec m))"
  using history_keeps[OF assms] by (simp add: identity_def)

text \<open>
  C13: an instance the control plane generates never gets stuck on a member cluster: the defaulting
  webhook accepts it, and after any history of admitted updates the stateful set of every member can be
  built, with all mounts bound, as long as the requested size parses as a quantity; no pointer the
  builder follows is nil.
\<close>

theorem generated_instance_builds:
  assumes "GenerateMongo rt name ns ls cr = Ok g" and "parse (or_default (sg_size (mcs_storage (mc_spec cr))) DefaultStorage) \<noteq> None"
    and "wf_gomap sel"
  shows "\<exists>m. MongoDB_Default img g = Ok m \<and> complete (mg_spec m) \<and>
    (\<forall>n. history img m n \<longrightarrow> (\<exists>s. MongoSts parse eimg n sts sel command = Ok s \<and> mounts_bound s))"
proof -
  from assms(1) obtain x where x: "mgs_exporter (mg_spec g) = Some x"
      and size: "ps_storage (mgs_persistence (mg_spec g)) = sg_size (mcs_storage (mc_spec cr))"
    by (auto simp: GenerateMongo_def Let_def split: option.splits if_splits)
  then obtain m where m: "MongoDB_Default img g = Ok m"
      and store: "ps_storage (mgs_persistence (mg_spec m)) = or_default (sg_size (mcs_storage (mc_spec cr))) DefaultStorage"
    by (simp add: MongoDB_Default_def Let_def)
  note c = default_complete[OF m]
  have "\<exists>s. MongoSts parse eimg n sts sel command = Ok s \<and> mounts_bound s" if h: "history img m n" for n
    using complete_builds[OF _ _ assms(3)] history_keeps[OF h c] history_storage[OF h c] store assms(2) by simp
  with m c show ?thesis by blast
qed

theorem generated_instance_builds_witness:
  "\<exists>g m s. GenerateMongo (plain_runtime undefined undefined) ''m'' ''ns'' [] sample_cr = Ok g \<and>
    MongoDB_Default ''mongo'' g = Ok m \<and> MongoSts sample_parse ''exp'' m ''m-mongodb-0'' [] [''mongod''] = Ok s \<and>
    mounts_bound s"
proof -
  obtain g where g: "GenerateMongo (plain_runtime undefined undefined) ''m'' ''ns'' [] sample_cr = Ok g"
    by (auto simp: GenerateMongo_def Let_def sample_cr_def sample_spec_def)
  have size: "sample_parse (or_default (sg_size (mcs_storage (mc_spec sample_cr))) DefaultStorage) \<noteq> None"
    by code_simp
  have sel: "wf_gomap []" by (simp add: wf_gomap_def)
  from generated_instance_builds[where parse = sample_parse and img = "''mongo''" and eimg = "''exp''" and
      command = "[''mongod'']" and sts = "''m-mongodb-0''", OF g size sel] g history.unchanged
  show ?thesis by blast
qed

section \<open>From the services of the control plane to the members\<close>

lemma has_suffix_append: "length suf \<le> length t \<Longrightarrow> has_suffix (s @ t) suf = has_suffix t suf"
  by (simp add: has_suffix_def)

lemma has_suffix_last: "has_suffix s suf \<Longrightarrow> suf \<noteq> [] \<Longrightarrow> last s = last suf"
  unfolding has_suffix_def by (metis append_take_drop_id last_appendR)

lemma mongodb_name_not_arbiter: "\<not> has_suffix (mongodb_name n j) ArbiterName"
proof
  assume "has_suffix (mongodb_name n j) ArbiterName"
  from has_suffix_last[OF this] have last: "last (mongodb_name n j) = CHR ''r''" by (simp add: ArbiterName_def)
  have "itoa (int j) \<noteq> []" by (subst itoa_nat, subst nat_digits.simps) simp
  then have "last (mongodb_name n j) \<in> set (itoa (int j))" by (simp add: mongodb_name_def sprintf_sd_def)
  with itoa_chars[of "CHR ''r''" "int j"] last show False by auto
qed

lemma GenerateServiceLabel_instance:
  "map_of (GenerateServiceLabel additional name serviceName) LabelKeyInstance = Some name"
  by (simp add: GenerateServiceLabel_def MergeLabels_get map_of_rev_distinct BaseLabel_def label_keys)

text \<open>
  C11: a service planned by the control plane becomes a member: where the member cluster holds the
  services which the scale handler generated for the instance (name and labels as generated), a
  \<open>grow\<close> that ends without error leaves a stateful set of the same name for every one of them.
\<close>

theorem planned_services_become_members:
  assumes "kube_api cli objs I" and "e_cli E = cli" and "I (b_api s)" and "grow E ls s = (Ok (), s')"
    and "cr_name' (b_cr s) = cr_name cr" and "b_held s = None"
    and "\<forall>j < n. \<exists>svc. objs (b_api s) (KService, cr_ns' (b_cr s), mongodb_name (cr_name cr) j) = Some (OService svc) \<and>
      om_labels (svc_meta svc) = GenerateServiceLabel (cr_labels cr) (cr_name cr) (mongodb_name (cr_name cr) j)"
  shows "\<forall>j < n. objs (b_api s') (KSts, cr_ns' (b_cr s), mongodb_name (cr_name cr) j) \<noteq> None"
proof (intro allI impI)
  fix j assume "j < n"
  with assms(7) obtain svc where
      svc: "objs (b_api s) (KService, cr_ns' (b_cr s), mongodb_name (cr_name cr) j) = Some (OService svc)"
      "om_labels (svc_meta svc) = GenerateServiceLabel (cr_labels cr) (cr_name cr) (mongodb_name (cr_name cr) j)"
    by blast
  then have "listed (MatchingLabels [(LabelKeyInstance, cr_name' (b_cr s))]) (svc_meta svc)"
    by (simp add: GenerateServiceLabel_instance assms(5))
  with grown_members[OF assms(1-4)] svc(1) mongodb_name_not_arbiter
  show "objs (b_api s') (KSts, cr_ns' (b_cr s), mongodb_name (cr_name cr) j) \<noteq> None"
    using assms(6) by (simp add: held_def)
qed

text \<open>Two planned services on the member cluster, none of which has its stateful set yet.\<close>

definition planned_service :: "nat \<Rightarrow> 32 word \<Rightarrow> service" where
  "planned_service j port = (sample_service (mongodb_name ''m'' j) port)
     \<lparr>svc_meta := (meta_of (mongodb_name ''m'' j) ''ns''
        (GenerateServiceLabel [] ''m'' (mongodb_name ''m'' j)))\<lparr>om_rv := ''7''\<rparr>\<rparr>"

definition planned_plane :: "(mem, mongod) bstate" where
  "planned_plane = sample_bstate plane_mongo
     (mem_of [OMongo plane_mongo, OService (planned_service 0 1), OService (planned_service 1 2)]) plane_db"

theorem planned_services_become_members_witness:
  "\<exists>s'. grow plane_env (AddDataLabel plane_labels) planned_plane = (Ok (), s') \<and>
    mem_lookup (b_api planned_plane) (KSts, ''ns'', ''m-mongodb-1'') = None \<and>
    mem_lookup (b_api s') (KSts, ''ns'', ''m-mongodb-1'') \<noteq> None"
proof -
  have "fst (grow plane_env (AddDataLabel plane_labels) planned_plane) = Ok ()" by code_simp
  then obtain s' where run: "grow plane_env (AddDataLabel plane_labels) planned_plane = (Ok (), s')"
    by (metis prod.collapse)
  have env: "e_cli plane_env = mem_client" by (simp add: plane_env_def sample_env_def)
  have inv: "mem_inv (b_api planned_plane)" by code_simp
  have held: "b_held planned_plane = None" by (simp add: planned_plane_def sample_bstate_def)
  have name: "cr_name' (b_cr planned_plane) = cr_name sample_cr" by code_simp
  have svcs: "\<forall>j < 2. \<exists>svc. mem_lookup (b_api planned_plane)
        (KService, cr_ns' (b_cr planned_plane), mongodb_name (cr_name sample_cr) j) = Some (OService svc) \<and>
      om_labels (svc_meta svc) = GenerateServiceLabel (cr_labels sample_cr) (cr_name sample_cr) (mongodb_name (cr_name sample_cr) j)"
  proof (intro allI impI)
    fix j :: nat assume "j < 2"
    then have "j = 0 \<or> j = 1" by auto
    moreover have "mem_lookup (b_api planned_plane)
        (KService, cr_ns' (b_cr planned_plane), mongodb_name (cr_name sample_cr) 0) = Some (OService (planned_service 0 1))"
      "mem_lookup (b_api planned_plane)
        (KService, cr_ns' (b_cr planned_plane), mongodb_name (cr_name sample_cr) 1) = Some (OService (planned_service 1 2))"
      "om_labels (svc_meta (planned_service 0 1)) =
        GenerateServiceLabel (cr_labels sample_cr) (cr_name sample_cr) (mongodb_name (cr_name sample_cr) 0)"
      "om_labels (svc_meta (planned_service 1 2)) =
        GenerateServiceLabel (cr_labels sample_cr) (cr_name sample_cr) (mongodb_name (cr_name sample_cr) 1)"
      by code_simp+
    ultimately show "\<exists>svc. mem_lookup (b_api planned_plane)
        (KService, cr_ns' (b_cr planned_plane), mongodb_name (cr_name sample_cr) j) = Some (OService svc) \<and>
      om_labels (svc_meta svc) = GenerateServiceLabel (cr_labels sample_cr) (cr_name sample_cr) (mongodb_name (cr_name sample_cr) j)"
      by blast
  qed
  have one: "mongodb_name (cr_name sample_cr) 1 = ''m-mongodb-1''" "cr_ns' (b_cr planned_plane) = ''ns''"
      "mem_lookup (b_api planned_plane) (KSts, ''ns'', ''m-mongodb-1'') = None"
    by code_simp+
  from planned_services_become_members[OF mem.kube_api_axioms env inv run name held svcs] have
    "mem_lookup (b_api s') (KSts, ''ns'', ''m-mongodb-1'') \<noteq> None"
    using one by (metis one_less_numeral_iff semiring_norm(76))
  with run one show ?thesis by blast
qed

section \<open>The services of the exporter\<close>

lemma BuildMetricService_instance:
  "map_of (om_labels (svc_meta (BuildMetricService cr n))) LabelKeyInstance = Some (cr_name' cr)"
  by (simp add: BuildMetricService_def MetricService_def meta_of_def WithBaseLabel_def baseLabel_def MergeLabels_get
      map_of_rev_distinct label_keys cr_name'_def)

lemma exporter_not_arbiter: "\<not> has_suffix (n @ ''-exporter'') ArbiterName"
  by (subst has_suffix_append) (simp_all add: ArbiterName_def has_suffix_def)

text \<open>
  C12: the metrics service of a member is taken for a member: it carries the instance label the services
  of the members are found by. So where \<open>ensureService\<close> created the service of the exporter of a pod, a
  later \<open>grow\<close> that ends without error creates a stateful set named after that service.
\<close>

theorem exporter_service_becomes_member:
  assumes "kube_api cli objs I" and "e_cli E = cli" and "I (b_api s)" and "b_held s = None"
    and "mgs_exporter (mg_spec (b_cr s)) = Some x" and "xs_enable x" and "om_owners (po_meta p) = n # ns"
    and "objs (b_api s) (KService, cr_ns' (b_cr s), n @ ''-exporter'') = None"
    and "ensureService E p s = (Ok (), s1)" and "grow E ls s1 = (Ok (), s2)"
  shows "objs (b_api s2) (KSts, cr_ns' (b_cr s), n @ ''-exporter'') \<noteq> None"
proof -
  have P: "plane_api cli objs I E" using assms(1,2) by (simp add: plane_api_def plane_api_axioms_def)
  let ?svc = "BuildMetricService (b_cr s) n"
  have run: "base_Ensure E (OService ?svc) s = (Ok (), s1)"
    using assms(4-7,9) by (simp add: ensureService_def EnsureService_def owner_of_def held_def go_simps)
  have key: "okey_of (OService ?svc) = (KService, cr_ns' (b_cr s), n @ ''-exporter'')"
    by (simp add: okey_of_def BuildMetricService_def MetricService_def meta_of_def)
  from plane_api.base_Ensure_cases[OF P run] assms(8) key obtain y where y: "okey_of y = (KService, cr_ns' (b_cr s), n @ ''-exporter'')"
      "om_labels (ometa y) = om_labels (svc_meta ?svc)"
      "objs (b_api s1) (KService, cr_ns' (b_cr s), n @ ''-exporter'') = Some y"
    and same: "b_cr s1 = b_cr s" "b_held s1 = b_held s" by auto
  from y(1) obtain svc where svc: "y = OService svc" by (cases y) (auto simp: okey_of_def)
  have "listed (MatchingLabels [(LabelKeyInstance, cr_name' (b_cr s1))]) (svc_meta svc)"
    using y(2) svc same BuildMetricService_instance[of "b_cr s" n] by simp
  from grown_members[OF assms(1,2) plane_api.base_Ensure_inv[OF P run assms(3)] assms(10) _ this exporter_not_arbiter[of n]]
  show ?thesis using y(3) svc same assms(4) by (simp add: held_def)
qed

definition exporting_plane :: "(mem, mongod) bstate" where
  "exporting_plane = sample_bstate (plane_mongo\<lparr>mg_spec := (mg_spec plane_mongo)
     \<lparr>mgs_exporter := Some \<lparr>xs_resources = Some default_resources, xs_enable = True\<rparr>\<rparr>\<rparr>)
     (mem_of [OMongo plane_mongo]) plane_db"

theorem exporter_service_becomes_member_witness:
  "\<exists>s1 s2. ensureService plane_env (plane_pod ''a'') exporting_plane = (Ok (), s1) \<and>
    grow plane_env (AddDataLabel plane_labels) s1 = (Ok (), s2) \<and>
    mem_lookup (b_api exporting_plane) (KSts, ''ns'', ''a-exporter'') = None \<and>
    mem_lookup (b_api s2) (KSts, ''ns'', ''a-exporter'') \<noteq> None"
proof -
  let ?both = "bindg (ensureService plane_env (plane_pod ''a'')) (\<lambda>_. grow plane_env (AddDataLabel plane_labels))"
  have "fst (?both exporting_plane) = Ok ()" by code_simp
  then obtain s2 where "?both exporting_plane = (Ok (), s2)" by (metis prod.collapse)
  then obtain s1 where one: "ensureService plane_env (plane_pod ''a'') exporting_plane = (Ok (), s1)"
      and two: "grow plane_env (AddDataLabel plane_labels) s1 = (Ok (), s2)"
    by (auto simp: bindg_Ok_iff)
  have env: "e_cli plane_env = mem_client" by (simp add: plane_env_def sample_env_def)
  have inv: "mem_inv (b_api exporting_plane)" by code_simp
  have held: "b_held exporting_plane = None" by (simp add: exporting_plane_def sample_bstate_def)
  have x: "mgs_exporter (mg_spec (b_cr exporting_plane)) = Some \<lparr>xs_resources = Some default_resources, xs_enable = True\<rparr>"
    by (simp add: exporting_plane_def sample_bstate_def)
  have on: "xs_enable \<lparr>xs_resources = Some default_resources, xs_enable = True\<rparr>" by simp
  have owner: "om_owners (po_meta (plane_pod ''a'')) = [''a'']" by (simp add: plane_pod_def)
  have none: "mem_lookup (b_api exporting_plane) (KService, cr_ns' (b_cr exporting_plane), ''a'' @ ''-exporter'') = None"
      "mem_lookup (b_api exporting_plane) (KSts, ''ns'', ''a-exporter'') = None" "cr_ns' (b_cr exporting_plane) = ''ns''"
    by code_simp+
  from exporter_service_becomes_member[OF mem.kube_api_axioms env inv held x on owner none(1) one two] one two none(2,3)
  show ?thesis by auto
qed

end
