(* ===== verification/Reconcile_Laws.thy ===== *)
theory Reconcile_Laws
  imports Plane_Frame
begin

text \<open>
  The reconciler of MongoDB resources as a whole: when it asks to be called again.
\<close>

section \<open>Rounds\<close>

text \<open>A round is retried when it has a delay or an error; it is calm after a minute without error.\<close>

definition retried :: "outcome_of_round \<Rightarrow> bool" where
  "retried r \<longleftrightarrow> r \<in> {(Some 60, None), (Some 5, None)} \<or> snd r \<noteq> None \<and> fst r \<in> {None, Some 5}"

definition retries :: "('s, outcome_of_round) go \<Rightarrow> bool" where
  "retries m \<longleftrightarrow> (\<forall>s r s'. m s = (Ok r, s') \<longrightarrow> retried r)"

lemma retries_ret: "retried r \<Longrightarrow> retries (ret r)"
  by (simp add: retries_def go_simps)

lemma retries_bind: "(\<And>x. retries (f x)) \<Longrightarrow> retries (bindg m f)"
  unfolding retries_def by (metis bindg_Ok_iff)

lemma retries_or_return:
  assumes "res \<in> {None, Some 5}" "\<And>x. retries (f x)"
  shows "retries (or_return res m f)"
  unfolding or_return_def
  by (rule retries_bind) (use assms in \<open>auto intro!: retries_ret simp: retried_def split: sum.splits\<close>)

lemma handleReturn_retries: "retries (handleReturn E err)"
proof -
  have "retries (handle_success E)"
    unfolding handle_success_def by (intro retries_or_return retries_ret) (auto simp: retried_def)
  moreover have "retries (handle_failure E)"
    unfolding handle_failure_def by (intro retries_bind retries_or_return retries_ret) (auto simp: retried_def)
  ultimately show ?thesis
    unfolding handleReturn_def
    by (auto split: option.splits simp: retried_def intro!: retries_bind retries_or_return retries_ret)
qed

lemma retries_or_handle: "(\<And>x. retries (f x)) \<Longrightarrow> retries (or_handle E m f)"
  unfolding or_handle_def
  by (rule retries_bind) (auto intro: handleReturn_retries split: sum.splits)

lemma converge_retries: "retries (converge E)"
  unfolding converge_def
  by (rule retries_bind)
    (auto simp: retried_def split: prod.splits option.splits
      intro!: retries_bind retries_or_return retries_or_handle handleReturn_retries retries_ret)

context plane_api
begin

lemma update_held_run:
  assumes "b_held s = None" "update_held E s = (r, s')"
  shows "(\<exists>e. r = Err e) \<or> r = Ok () \<and> b_held s' = None \<and> mg_spec (b_cr s') = mg_spec (b_cr s)"
proof -
  obtain q w where upd: "c_update cli (OMongo (b_cr s)) (b_api s) = (q, w)" by fastforce
  show ?thesis
  proof (cases q)
    case (Ok y)
    with upd update_Ok[of "OMongo (b_cr s)" "b_api s" y w] have y: "persisted (OMongo (b_cr s)) y" by simp
    then obtain m where "y = OMongo m" by (cases y) (auto dest: same_body_kind)
    with y assms upd Ok show ?thesis
      by (auto simp: update_held_def bindg_def gets_def held_def api_def zoom_def e_client change_held_def modify_def)
  qed (use assms upd no_panic(4) in \<open>auto simp: update_held_def bindg_def gets_def held_def api_def zoom_def e_client\<close>)
qed

lemma reconcile_retries:
  assumes "b_held s = None" "\<not> om_deleting (mg_meta (b_cr s))" "\<not> mgs_pause (mg_spec (b_cr s))"
    and "reconcile_mongo E s = (Ok r, s')"
  shows "retried r"
proof -
  let ?fin = "if \<not> ContainsString (om_finalizers (mg_meta (b_cr s))) mongoDBFinalizerName
    then andthen (change_held (set_mongo_finalizers (\<lambda>fs. fs @ [mongoDBFinalizerName]))) (update_held E) else ret ()"
  obtain q t where fin: "?fin s = (q, t)" by fastforce
  have cases: "(\<exists>e. q = Err e) \<or> q = Ok () \<and> mg_spec (b_cr t) = mg_spec (b_cr s)"
  proof (cases "ContainsString (om_finalizers (mg_meta (b_cr s))) mongoDBFinalizerName")
    case False
    let ?s1 = "s\<lparr>b_cr := set_mongo_finalizers (\<lambda>fs. fs @ [mongoDBFinalizerName]) (b_cr s)\<rparr>"
    from False fin assms(1) have "update_held E ?s1 = (q, t)"
      by (simp add: change_held_def bindg_def modify_def)
    from update_held_run[OF _ this] assms(1) show ?thesis by (auto simp: set_mongo_finalizers_def)
  qed (use fin in \<open>auto simp: go_simps\<close>)
  have rest: "or_return None ?fin (\<lambda>_. bindg (gets b_cr) (\<lambda>cr. if mgs_pause (mg_spec cr)
        then or_return None (UpdateState E StatePause) (\<lambda>_. ret (None, None)) else converge E)) s = (Ok r, s')"
    using assms(2,4) by (simp add: reconcile_mongo_def go_simps)
  show ?thesis
  proof (cases q)
    case (Ok u)
    with rest fin cases assms(3) have "converge E t = (Ok r, s')"
      by (auto simp: or_return_def go_simps)
    then show ?thesis using converge_retries unfolding retries_def by blast
  qed (use rest fin cases in \<open>auto simp: or_return_def go_simps retried_def\<close>)
qed

end

section \<open>Properties\<close>

text \<open>
  C15: a MongoDB that is neither being deleted nor paused is never forgotten: every round that ends, ends
  with an error, which the manager retries, or asks to be called again, after a minute when nothing was
  wrong and after five seconds otherwise.
\<close>

theorem mongo_requeue:
  assumes "kube_api cli objs I" and "e_cli E = cli"
    and "objs w (KMongo, ns, n) = Some (OMongo cr)"
    and "\<not> om_deleting (mg_meta cr)" and "\<not> mgs_pause (mg_spec cr)"
    and "Mongo_Reconcile E ns n (w, d) = (Ok (after, err), w', d')"
  shows "err \<noteq> None \<and> after \<in> {None, Some 5} \<or> err = None \<and> after \<in> {Some 5, Some 60}"
proof -
  have api: "plane_api cli objs I E" using assms(1,2) by (simp add: plane_api_def plane_api_axioms_def)
  obtain q w1 where get: "c_get cli (KMongo, ns, n) w = (q, w1)" by fastforce
  show ?thesis
  proof (cases q)
    case (Ok x)
    with get kube_api.get_Ok[OF assms(1)] assms(3) have x: "x = OMongo cr" by fastforce
    obtain r s' where rec: "reconcile_mongo E \<lparr>b_cr = cr, b_held = None, b_api = w1, b_db = d\<rparr> = (r, s')" by fastforce
    with assms(2,6) get Ok x have "r = Ok (after, err)" by (simp add: Mongo_Reconcile_def)
    with rec plane_api.reconcile_retries[OF api, of "\<lparr>b_cr = cr, b_held = None, b_api = w1, b_db = d\<rparr>"] assms(4,5)
    have "retried (after, err)" by simp
    then show ?thesis by (auto simp: retried_def)
  next
    case (Err e)
    with get kube_api.get_missing[OF assms(1)] assms(3) have "\<not> is_not_found e" by fastforce
    with assms(2,6) get Err show ?thesis by (auto simp: Mongo_Reconcile_def)
  next
    case (Panic p)
    with assms(2,6) get show ?thesis by (simp add: Mongo_Reconcile_def)
  qed
qed


theorem mongo_requeue_witness:
  "\<exists>after w' d'. Mongo_Reconcile plane_env ''ns'' ''m'' (b_api plane, b_db plane) = (Ok (after, None), w', d') \<and>
    after \<in> {Some 5, Some 60}"
proof -
  have "map_outcome snd (fst (Mongo_Reconcile plane_env ''ns'' ''m'' (b_api plane, b_db plane))) = Ok None"
    by code_simp
  then obtain after w' d' where
      run: "Mongo_Reconcile plane_env ''ns'' ''m'' (b_api plane, b_db plane) = (Ok (after, None), w', d')"
    by (cases "Mongo_Reconcile plane_env ''ns'' ''m'' (b_api plane, b_db plane)";
      cases "fst (Mongo_Reconcile plane_env ''ns'' ''m'' (b_api plane, b_db plane))") auto
  have env: "e_cli plane_env = mem_client" by (simp add: plane_env_def sample_env_def)
  have here: "mem_lookup (b_api plane) (KMongo, ''ns'', ''m'') = Some (OMongo plane_mongo)"
    by (simp add: mem_lookup_def plane_def sample_bstate_def mem_of_def plane_objects_def okey_of_def plane_mongo_def
        ready_mongo_def sample_mongo_def meta_of_def)
  have "\<not> om_deleting (mg_meta plane_mongo)" "\<not> mgs_pause (mg_spec plane_mongo)"
    by (simp_all add: plane_mongo_def ready_mongo_def sample_mongo_def sample_mongo_spec_def meta_of_def)
  from mongo_requeue[OF mem.kube_api_axioms env here this run] run show ?thesis by auto
qed


end
