(* ===== verification/Deletion_Laws.thy ===== *)
theory Deletion_Laws
  imports Reconcile_Laws
begin

text \<open>
  What a deletion of a MongoDB has to wait for: the synchronisation with no members reads the host
  ConfigMap, so without it the finalizer stays.
\<close>

section \<open>Synchronisation touches stateful sets and services\<close>

definition sync_keys :: "okey set" where
  "sync_keys = {k. fst k = KSts \<or> fst k = KService}"

lemma sync_keys_simps [simp]:
  "okey_of (OSts x) \<in> sync_keys" "okey_of (OService y) \<in> sync_keys" "(KSts, ns, n) \<in> sync_keys"
  by (simp_all add: sync_keys_def okey_of_def)

context plane_api
begin

lemma framed_Ensure [frame_intros]:
  assumes "okind x = KSts \<or> okind x = KService"
  shows "keeps (framed objs inv f sync_keys c h) (base_Ensure E x)"
proof (rule keepsI)
  fix s r t assume s: "framed objs inv f sync_keys c h s" and run: "base_Ensure E x s = (r, t)"
  have create: "keeps (apart objs inv f sync_keys) (bindg (c_set_ref cli m x) (CreateObject cli))" for m
  proof (rule keepsI)
    fix w q u assume w: "apart objs inv f sync_keys w" and run: "bindg (c_set_ref cli m x) (CreateObject cli) w = (q, u)"
    have "keeps inv (bindg (c_set_ref cli m x) (CreateObject cli))"
      unfolding CreateObject_def by (intro keeps_bind keeps_inv)
    with w run have "inv u" by (auto simp: apart_def dest: keepsD)
    moreover have "objs u k = objs w k" if "k \<notin> sync_keys" for k
    proof -
      have "k \<noteq> okey_of x" using that assms by (auto simp: sync_keys_def okey_of_def)
      with create_with_ref_run[OF run] show ?thesis by (cases "q = Ok ()") auto
    qed
    ultimately show "apart objs inv f sync_keys u" using w by (auto simp: apart_def)
  qed
  have "base_SetRefAndCreateObject E x s =
      api (bindg (c_set_ref cli (mg_meta (b_cr s)) x) (CreateObject cli)) s" for s :: "('w, 'm) bstate"
    by (auto simp: base_SetRefAndCreateObject_def e_client bindg_def api_def zoom_def gets_def
        split: prod.splits outcome.splits)
  then have "keeps (framed objs inv f sync_keys c h) (base_SetRefAndCreateObject E x)"
    by (intro keepsI) (metis framed_api create keepsD)
  then have "keeps (framed objs inv f sync_keys c h) (base_Ensure E x)"
    unfolding base_Ensure_def e_client by (intro keeps_bind frame_intros) (auto split: option.splits)
  then show "framed objs inv f sync_keys c h t" using s run by (rule keepsD)
qed

lemma framed_grow [frame_intros]:
  "keeps (framed objs inv f sync_keys c h) (ensure_member_sts E n ls)"
  "keeps (framed objs inv f sync_keys c h) (grow E ls)"
  "keeps (framed objs inv f sync_keys c h) (sync_arbiter E ls)"
proof -
  show one: "keeps (framed objs inv f sync_keys c h) (ensure_member_sts E n ls)" for n ls
    unfolding ensure_member_sts_def EnsureSts_def by (intro keeps_bind keeps_basic frame_intros) simp
  show "keeps (framed objs inv f sync_keys c h) (grow E ls)"
    unfolding grow_def e_client by (intro keeps_bind keeps_basic keeps_for_each keeps_if one frame_intros)
  show "keeps (framed objs inv f sync_keys c h) (sync_arbiter E ls)"
    unfolding sync_arbiter_def by (intro keeps_bind keeps_basic keeps_if one)
qed

lemma framed_removal [frame_intros]:
  "keeps (framed objs inv f sync_keys c h) (MongoRemoveMemberAndDeleteSts E p host en)"
  unfolding MongoRemoveMemberAndDeleteSts_def removeService_def e_client
  by (intro keeps_bind keeps_basic keeps_if frame_intros) simp_all

lemma framed_scale_down [frame_intros]:
  "keeps (framed objs inv f sync_keys c h) (scale_down_loop E t n ps)"
  "keeps (framed objs inv f sync_keys c h) (scaleDownDataNode E found m ls)"
proof -
  show loop: "keeps (framed objs inv f sync_keys c h) (scale_down_loop E t n ps)" for t n ps
    by (induction ps arbitrary: n) (auto intro!: keeps_bind frame_intros)
  show "keeps (framed objs inv f sync_keys c h) (scaleDownDataNode E found m ls)"
    unfolding scaleDownDataNode_def by (intro keeps_bind frame_intros loop)
qed

end

section \<open>Waiting for the ConfigMap\<close>

definition mongo_key :: "string \<Rightarrow> string \<Rightarrow> okey" where
  "mongo_key ns n = (KMongo, ns, n)"

text \<open>An object in deletion whose hosts were in \<open>ref\<close> and that asks for no arbiter.\<close>

definition awaiting :: "string \<Rightarrow> mongodb \<Rightarrow> bool" where
  "awaiting ref c \<longleftrightarrow> om_deleting (mg_meta c) \<and> mongoDBFinalizerName \<in> set (om_finalizers (mg_meta c)) \<and>
     \<not> mgs_arbiter (mg_spec c) \<and> mgs_member_config_ref (mg_spec c) = ref"

text \<open>It is stored, the ConfigMap is not.\<close>

definition stuck_objs :: "(okey \<Rightarrow> kobj option) \<Rightarrow> string \<Rightarrow> string \<Rightarrow> string \<Rightarrow> bool" where
  "stuck_objs f ns n ref \<longleftrightarrow> (\<exists>z. f (mongo_key ns n) = Some (OMongo z) \<and> awaiting ref z) \<and>
     f (KConfigMap, ns, ref) = None"

definition stuck ::
    "('w \<Rightarrow> okey \<Rightarrow> kobj option) \<Rightarrow> ('w \<Rightarrow> bool) \<Rightarrow> string \<Rightarrow> string \<Rightarrow> string \<Rightarrow> ('w, 'm) bstate \<Rightarrow> bool" where
  "stuck objs I ns n ref s \<longleftrightarrow> I (b_api s) \<and> stuck_objs (objs (b_api s)) ns n ref \<and>
     okey_of (OMongo (b_cr s)) = mongo_key ns n \<and> awaiting ref (b_cr s)"

text \<open>\<open>blocked J m\<close>: from a state in \<open>J\<close>, \<open>m\<close> stays in \<open>J\<close> and never returns a nil error.\<close>

definition blocked :: "('s \<Rightarrow> bool) \<Rightarrow> ('s, 'a) go \<Rightarrow> bool" where
  "blocked J m \<longleftrightarrow> keeps J m \<and> (\<forall>s x t. J s \<longrightarrow> m s \<noteq> (Ok x, t))"

lemma blocked_bind: "blocked J m \<Longrightarrow> blocked J (bindg m f)"
  unfolding blocked_def keeps_def by (fastforce simp: bindg_def split: prod.splits outcome.splits)

lemma blocked_after: "keeps J m \<Longrightarrow> (\<And>a. blocked J (f a)) \<Longrightarrow> blocked J (bindg m f)"
  unfolding blocked_def by (auto intro: keeps_bind simp: bindg_Ok_iff dest: keepsD)

lemma blocked_gets: "(\<And>s. J s \<Longrightarrow> blocked J (f (g s))) \<Longrightarrow> blocked J (bindg (gets g) f)"
  unfolding blocked_def keeps_def by (auto simp: bindg_def gets_def)

lemma blocked_as_sync:
  assumes "blocked J m" shows "blocked J (as_sync m)"
proof -
  have "as_sync m s \<noteq> (Ok x, t)" if "J s" for s x t
    using assms that by (cases "m s"; cases "fst (m s)")
      (auto simp: blocked_def as_sync_def bindg_def attempt_def fail_def)
  with assms show ?thesis by (auto simp: blocked_def intro: framed_wrappers)
qed

context plane_status
begin

lemma stuck_framed:
  assumes "\<And>f c h. keeps (framed objs inv f sync_keys c h) m"
  shows "keeps (stuck objs inv ns n ref) m"
proof (rule keepsI)
  fix s r t assume s: "stuck objs inv ns n ref s" and run: "m s = (r, t)"
  have "framed objs inv (objs (b_api s)) sync_keys (b_cr s) (b_held s) s" using s by (simp add: stuck_def)
  with assms have "framed objs inv (objs (b_api s)) sync_keys (b_cr s) (b_held s) t" using run by (rule keepsD)
  then have t: "inv (b_api t)" "b_cr t = b_cr s" "\<And>k. k \<notin> sync_keys \<Longrightarrow> objs (b_api t) k = objs (b_api s) k"
    unfolding framed_def apart_def by blast+
  have "objs (b_api t) (mongo_key ns n) = objs (b_api s) (mongo_key ns n)"
      "objs (b_api t) (KConfigMap, ns, ref) = objs (b_api s) (KConfigMap, ns, ref)"
    by (intro t(3); simp add: sync_keys_def mongo_key_def)+
  with s t(1,2) show "stuck objs inv ns n ref t"
    by (simp add: stuck_def stuck_objs_def)
qed

lemma stuck_WriteStatus: "keeps (stuck objs inv ns n ref) (WriteStatus E)"
proof (rule keepsI)
  fix s r s' assume s: "stuck objs inv ns n ref s" and run: "WriteStatus E s = (r, s')"
  have I: "inv (b_api s)" and key: "okey_of (OMongo (b_cr s)) = mongo_key ns n" and cr: "awaiting ref (b_cr s)"
    using s by (simp_all add: stuck_def)
  obtain z where z: "objs (b_api s) (mongo_key ns n) = Some (OMongo z)" "awaiting ref z"
      "objs (b_api s) (KConfigMap, ns, ref) = None"
    using s by (auto simp: stuck_def stuck_objs_def)
  have other: "(KConfigMap, ns, ref) \<noteq> mongo_key ns n" by (simp add: mongo_key_def)
  have zk: "okey_of (OMongo z) = mongo_key ns n" using stored[OF I z(1)] by simp
  show "stuck objs inv ns n ref s'"
  proof (rule WriteStatus_cases[OF I run])
    fix y assume *: "objs (b_api s) (okey_of (OMongo (b_cr s))) = Some (OMongo y)" "mg_spec (b_cr s') = mg_spec y"
      "mg_meta (b_cr s') = (mg_meta y)\<lparr>om_rv := om_rv (mg_meta (b_cr s'))\<rparr>" "inv (b_api s')"
      "objs (b_api s') = (objs (b_api s))(okey_of (OMongo (b_cr s)) \<mapsto> OMongo (b_cr s'))"
    then have y: "y = z" using z(1) key by simp
    from *(3) have meta: "om_deleting (mg_meta (b_cr s')) = om_deleting (mg_meta z)"
        "om_finalizers (mg_meta (b_cr s')) = om_finalizers (mg_meta z)"
        "om_namespace (mg_meta (b_cr s')) = om_namespace (mg_meta z)" "om_name (mg_meta (b_cr s')) = om_name (mg_meta z)"
      unfolding y by (metis object_meta.select_convs object_meta.update_convs object_meta.surjective)+
    then have "awaiting ref (b_cr s')" "okey_of (OMongo (b_cr s')) = mongo_key ns n"
      using z(2) *(2) zk y by (simp_all add: awaiting_def okey_of_def)
    with * z key other show ?thesis by (auto simp: stuck_def stuck_objs_def)
  next
    fix c y assume *: "c = b_cr s \<or> objs (b_api s) (okey_of (OMongo (b_cr s))) = Some (OMongo c)"
      "objs (b_api s) (okey_of (OMongo (b_cr s))) = Some (OMongo y)" "mg_spec (b_cr s') = mg_spec c"
      "om_finalizers (mg_meta (b_cr s')) = om_finalizers (mg_meta c)"
      "okey_of (OMongo (b_cr s')) = okey_of (OMongo (b_cr s))"
      "om_deleting (mg_meta (b_cr s')) = om_deleting (mg_meta y)" "inv (b_api s')"
      "objs (b_api s') = (objs (b_api s))(okey_of (OMongo (b_cr s)) := if om_deleting (mg_meta (b_cr s')) \<and>
         om_finalizers (mg_meta (b_cr s')) = [] then None else Some (OMongo (b_cr s')))"
    have "awaiting ref c" "awaiting ref y" using *(1,2) cr z key by auto
    then have "awaiting ref (b_cr s')" using *(3,4,6) by (simp add: awaiting_def)
    moreover from this have "om_finalizers (mg_meta (b_cr s')) \<noteq> []" by (auto simp: awaiting_def)
    ultimately show ?thesis using * z key other by (auto simp: stuck_def stuck_objs_def)
  next
    fix c assume *: "c = b_cr s \<or> objs (b_api s) (okey_of (OMongo (b_cr s))) = Some (OMongo c)"
      "b_cr s' = c\<lparr>mg_status := mg_status (b_cr s)\<rparr>" "inv (b_api s')" "objs (b_api s') = objs (b_api s)"
    then have "awaiting ref c" "okey_of (OMongo c) = mongo_key ns n" using cr z key zk by auto
    with * z show ?thesis by (auto simp: stuck_def stuck_objs_def awaiting_def)
  qed
qed

end


context plane_status
begin

lemma stuck_UpdateState: "keeps (stuck objs inv ns n ref) (UpdateState E st)"
  unfolding UpdateState_def change_status_def
  by (intro keeps_bind stuck_WriteStatus keeps_modify) (simp add: stuck_def awaiting_def)

lemma stuck_to_reconciling: "keeps (stuck objs inv ns n ref) (to_reconciling E)"
  unfolding to_reconciling_def
  by (intro keeps_bind keeps_basic keeps_if framed_wrappers stuck_UpdateState)

lemma member_config_blocked: "blocked (stuck objs inv ns n ref) (member_config E)"
proof -
  have "member_config E s \<noteq> (Ok cm, t)" if s: "stuck objs inv ns n ref s" for s cm t
  proof
    assume "member_config E s = (Ok cm, t)"
    then obtain w where "GetConfigMap cli (mgs_member_config_ref (mg_spec (b_cr s))) (cr_ns' (b_cr s)) (b_api s) = (Ok cm, w)"
      by (auto simp: member_config_def bindg_Ok_iff go_simps api_run e_client)
    then obtain u where "get_as cli (\<lambda>x. case x of OConfigMap c \<Rightarrow> Some c | _ \<Rightarrow> None)
        (KConfigMap, cr_ns' (b_cr s), mgs_member_config_ref (mg_spec (b_cr s))) (b_api s) = (Ok cm, u)"
      unfolding GetConfigMap_def attempt_case_Ok by (auto simp: go_simps)
    then obtain x v where "c_get cli (KConfigMap, cr_ns' (b_cr s), mgs_member_config_ref (mg_spec (b_cr s)))
        (b_api s) = (Ok x, v)"
      by (auto simp: get_as_def bindg_Ok_iff)
    from get_Ok[OF this] s show False
      by (auto simp: stuck_def stuck_objs_def awaiting_def okey_of_def mongo_key_def cr_ns'_def)
  qed
  then show ?thesis by (auto simp: blocked_def intro: stuck_framed framed_clients)
qed

lemma drop_arbiter_blocked: "blocked (stuck objs inv ns n ref) (drop_arbiter E ls)"
proof -
  have "blocked (stuck objs inv ns n ref) (scaleDownArbiterNode E ls)"
    unfolding scaleDownArbiterNode_def by (intro blocked_bind blocked_as_sync member_config_blocked)
  then show ?thesis
    unfolding drop_arbiter_def by (intro blocked_gets) (simp add: stuck_def awaiting_def)
qed

lemma SyncMember_blocked: "blocked (stuck objs inv ns n ref) (SyncMember E ls)"
  unfolding SyncMember_def Let_def e_client
  by (intro blocked_after keeps_basic keeps_if stuck_to_reconciling stuck_framed frame_intros
      blocked_bind[OF drop_arbiter_blocked])

lemma Sync_blocked: "blocked (stuck objs inv ns n ref) (Sync E)"
  unfolding Sync_def by (intro blocked_after keeps_basic blocked_bind SyncMember_blocked)

lemma remove_mongo_blocked:
  assumes "b_held s = None" "stuck objs inv ns n ref s" "remove_mongo E s = (r, s')"
  shows "stuck objs inv ns n ref s' \<and> (\<forall>q e. r = Ok (q, e) \<longrightarrow> e \<noteq> None)"
proof -
  let ?s = "s\<lparr>b_cr := (b_cr s)\<lparr>mg_spec := (mg_spec (b_cr s))\<lparr>mgs_members := 0\<rparr>\<rparr>\<rparr>"
  have s: "stuck objs inv ns n ref ?s" using assms(2) by (simp add: stuck_def awaiting_def okey_of_def)
  obtain q t where sync: "Sync E ?s = (q, t)" by fastforce
  with Sync_blocked s have t: "stuck objs inv ns n ref t" "\<And>x. q \<noteq> Ok x"
    unfolding blocked_def by (blast dest: keepsD)+
  show ?thesis
    using t sync assms(1,3)
    by (cases q) (auto simp: remove_mongo_def change_held_def or_return_def go_simps)
qed

end

text \<open>Any number of rounds for one object.\<close>

inductive mongo_rounds :: "('w, 'm) benv \<Rightarrow> string \<Rightarrow> string \<Rightarrow> 'w \<times> 'm \<Rightarrow> 'w \<times> 'm \<Rightarrow> bool"
  for E ns n where
  no_round: "mongo_rounds E ns n x x"
| round: "mongo_rounds E ns n x y \<Longrightarrow> snd (Mongo_Reconcile E ns n y) = z \<Longrightarrow> mongo_rounds E ns n x z"

context plane_status
begin

lemma Mongo_Reconcile_blocked:
  assumes "inv w" "stuck_objs (objs w) ns n ref" "Mongo_Reconcile E ns n (w, d) = (r, w', d')"
  shows "inv w' \<and> stuck_objs (objs w') ns n ref \<and> (\<forall>q e. r = Ok (q, e) \<longrightarrow> e \<noteq> None)"
proof -
  obtain z where z: "objs w (KMongo, ns, n) = Some (OMongo z)" "awaiting ref z"
    using assms(2) by (auto simp: stuck_objs_def mongo_key_def)
  obtain q w1 where get: "c_get cli (KMongo, ns, n) w = (q, w1)" by fastforce
  have w1: "inv w1" "objs w1 = objs w"
    using keepsD[OF keeps_inv(1) assms(1) get] reads(1)[of "(KMongo, ns, n)" w] get by simp_all
  show ?thesis
  proof (cases q)
    case (Ok x)
    with get get_Ok z(1) have x: "x = OMongo z" by fastforce
    let ?s = "\<lparr>b_cr = z, b_held = None, b_api = w1, b_db = d\<rparr>"
    have "okey_of (OMongo z) = mongo_key ns n" using stored[OF assms(1) z(1)] by (simp add: mongo_key_def)
    with w1 assms(2) z(2) have s: "stuck objs inv ns n ref ?s" by (simp add: stuck_def)
    obtain r2 s2 where run: "remove_mongo E ?s = (r2, s2)" by fastforce
    with assms(3) get Ok x z(2) have "r = r2" "w' = b_api s2"
      by (auto simp: Mongo_Reconcile_def reconcile_mongo_def go_simps awaiting_def ContainsString_iff e_client)
    with remove_mongo_blocked[OF _ s run] show ?thesis by (auto simp: stuck_def)
  next
    case (Err e)
    with get get_missing z(1) have "\<not> is_not_found e" by fastforce
    with assms get Err w1 show ?thesis by (auto simp: Mongo_Reconcile_def e_client)
  qed (use get no_panic(1) in blast)
qed

lemma rounds_blocked:
  assumes "mongo_rounds E ns n x y" "inv (fst x)" "stuck_objs (objs (fst x)) ns n ref"
  shows "inv (fst y) \<and> stuck_objs (objs (fst y)) ns n ref"
  using assms
proof (induction rule: mongo_rounds.induct)
  case (round x y z)
  then show ?case
    using Mongo_Reconcile_blocked[of "fst y" ns n ref "snd y"]
    by (cases "Mongo_Reconcile E ns n y") auto
qed simp

end


section \<open>Properties\<close>

text \<open>
  C14: a MongoDB without an arbiter (\<open>Spec.Arbiter\<close> is false) that is deleted after its host ConfigMap is
  gone stays: the synchronisation that has to succeed before the finalizer goes then looks for an arbiter
  to remove and reads that ConfigMap first. However many rounds
  are run, with whatever answers of the server and of the database, the object is stored with its
  finalizer, and every further round that ends reports an error.
\<close>

theorem deletion_needs_config:
  assumes "kube_status cli objs I" and "e_cli E = cli" and "I w"
    and "objs w (KMongo, ns, n) = Some (OMongo z)" and "om_deleting (mg_meta z)"
    and "mongoDBFinalizerName \<in> set (om_finalizers (mg_meta z))" and "\<not> mgs_arbiter (mg_spec z)"
    and "objs w (KConfigMap, ns, mgs_member_config_ref (mg_spec z)) = None"
    and "mongo_rounds E ns n (w, d) (w', d')"
  shows "(\<exists>z'. objs w' (KMongo, ns, n) = Some (OMongo z') \<and> om_deleting (mg_meta z') \<and>
      mongoDBFinalizerName \<in> set (om_finalizers (mg_meta z'))) \<and>
    (\<forall>after err x. Mongo_Reconcile E ns n (w', d') = (Ok (after, err), x) \<longrightarrow> err \<noteq> None)"
proof -
  have plane: "plane_status cli objs I E"
    using assms(1,2) by (simp add: plane_status_def plane_api_def plane_api_axioms_def kube_status_def)
  let ?ref = "mgs_member_config_ref (mg_spec z)"
  have "stuck_objs (objs w) ns n ?ref"
    using assms(4-8) by (simp add: stuck_objs_def mongo_key_def awaiting_def)
  with plane_status.rounds_blocked[OF plane assms(9)] assms(3)
  have w': "I w'" "stuck_objs (objs w') ns n ?ref" by simp_all
  moreover have "err \<noteq> None" if "Mongo_Reconcile E ns n (w', d') = (Ok (after, err), x)" for after err x
    using plane_status.Mongo_Reconcile_blocked[OF plane w', of d' "Ok (after, err)" "fst x" "snd x"] that by simp
  ultimately show ?thesis by (auto simp: stuck_objs_def mongo_key_def awaiting_def)
qed

text \<open>The member cluster after its ConfigMap was withdrawn.\<close>

definition deleted_mongo :: mongodb where
  "deleted_mongo = plane_mongo\<lparr>mg_meta := (mg_meta plane_mongo)\<lparr>om_deleting := True\<rparr>\<rparr>"

definition deleted_world :: mem where
  "deleted_world = mem_of (OMongo deleted_mongo # filter (\<lambda>x. okind x \<noteq> KMongo \<and> okind x \<noteq> KConfigMap) plane_objects)"

theorem deletion_needs_config_witness:
  "\<exists>w' d' z'. snd (Mongo_Reconcile plane_env ''ns'' ''m'' (deleted_world, plane_db)) = (w', d') \<and>
    mem_lookup w' (KMongo, ''ns'', ''m'') = Some (OMongo z') \<and>
    mongoDBFinalizerName \<in> set (om_finalizers (mg_meta z'))"
proof -
  have env: "e_cli plane_env = mem_client" by (simp add: plane_env_def sample_env_def)
  have inv: "mem_inv deleted_world" by code_simp
  have here: "mem_lookup deleted_world (KMongo, ''ns'', ''m'') = Some (OMongo deleted_mongo)"
    by (simp add: mem_lookup_def deleted_world_def mem_of_def okey_of_def deleted_mongo_def plane_mongo_def
        ready_mongo_def sample_mongo_def meta_of_def)
  have cr: "om_deleting (mg_meta deleted_mongo)" "mongoDBFinalizerName \<in> set (om_finalizers (mg_meta deleted_mongo))"
    "\<not> mgs_arbiter (mg_spec deleted_mongo)" "mgs_member_config_ref (mg_spec deleted_mongo) = ''m-hostconf''"
    by (simp_all add: deleted_mongo_def plane_mongo_def ready_mongo_def sample_mongo_def sample_mongo_spec_def)
  have "mem_lookup deleted_world (KConfigMap, ''ns'', ''m-hostconf'') = None" by code_simp
  then have cm: "mem_lookup deleted_world (KConfigMap, ''ns'', mgs_member_config_ref (mg_spec deleted_mongo)) = None"
    by (simp add: cr(4))
  obtain w' d' where round: "snd (Mongo_Reconcile plane_env ''ns'' ''m'' (deleted_world, plane_db)) = (w', d')"
    by fastforce
  then have "mongo_rounds plane_env ''ns'' ''m'' (deleted_world, plane_db) (w', d')"
    by (intro mongo_rounds.round[OF no_round])
  from deletion_needs_config[OF mem.kube_status_axioms env inv here cr(1-3) cm this] round show ?thesis by blast
qed

text \<open>The condition on the arbiter is needed: with one, an instance of which nothing else is left is released in one round.\<close>

lemma arbiter_deletion_released:
  "mem_lookup (fst (snd (Mongo_Reconcile plane_env ''ns'' ''m'' (mem_of [OMongo (deleted_mongo\<lparr>mg_spec :=
      (mg_spec deleted_mongo)\<lparr>mgs_arbiter := True\<rparr>\<rparr>)], plane_db)))) (KMongo, ''ns'', ''m'') = None"
  by code_simp

end
