(* ===== verification/Sync_Laws.thy ===== *)
theory Sync_Laws
  imports Deletion_Laws
begin

text \<open>
  Shrinking a member cluster: which stateful sets and services \<open>scaleDownDataNode\<close> removes, and that it
  touches nothing else.
\<close>

section \<open>Shrinking\<close>

lemma framed_gets: "keeps (framed objs I f K c h) (m c) \<Longrightarrow> keeps (framed objs I f K c h) (bindg (gets b_cr) m)"
  by (auto simp: keeps_def bindg_def gets_def framed_def)

lemma keeps_owner:
  "(\<And>n ns. om_owners (po_meta p) = n # ns \<Longrightarrow> keeps J (m n)) \<Longrightarrow> keeps J (bindg (owner_of p) m)"
  by (cases "om_owners (po_meta p)") (auto simp: keeps_def bindg_def owner_of_def panic_def ret_def)

lemma owner_of_Ok: "owner_of p s = (Ok n, t) \<longleftrightarrow> t = s \<and> (\<exists>ns. om_owners (po_meta p) = n # ns)"
  by (cases "om_owners (po_meta p)") (auto simp: owner_of_def go_simps)

text \<open>What goes with a pod: its stateful set, and its metrics service where the exporter is enabled.\<close>

definition exporter_on :: "mongodb \<Rightarrow> bool" where
  "exporter_on c \<longleftrightarrow> (\<exists>x. mgs_exporter (mg_spec c) = Some x \<and> xs_enable x)"

definition removal_keys :: "mongodb \<Rightarrow> mongodb option \<Rightarrow> pod list \<Rightarrow> okey set" where
  "removal_keys c h ps = {k. \<exists>p n ns. p \<in> set ps \<and> om_owners (po_meta p) = n # ns \<and>
     (k = (KSts, cr_ns' c, n) \<or>
      exporter_on c \<and> k = (KService, cr_ns' (case h of None \<Rightarrow> c | Some x \<Rightarrow> x), n @ ''-exporter''))}"

lemma metric_service_key: "okey_of (OService (BuildMetricService cr n)) = (KService, cr_ns' cr, n @ ''-exporter'')"
  by (simp add: okey_of_def BuildMetricService_def MetricService_def meta_of_def)

lemma removal_keys_simps [simp]:
  "p \<in> set ps \<Longrightarrow> om_owners (po_meta p) = n # ns \<Longrightarrow> (KSts, cr_ns' c, n) \<in> removal_keys c h ps"
  "p \<in> set ps \<Longrightarrow> om_owners (po_meta p) = n # ns \<Longrightarrow> exporter_on c \<Longrightarrow>
     (KService, cr_ns' (case h of None \<Rightarrow> c | Some x \<Rightarrow> x), n @ ''-exporter'') \<in> removal_keys c h ps"
  by (auto simp: removal_keys_def)

lemma exporter_enabled_run: "exporter_enabled s = (Ok b, t) \<Longrightarrow> t = s \<and> (b \<longleftrightarrow> exporter_on (b_cr s))"
  by (auto simp: exporter_enabled_def exporter_on_def go_simps panic_def split: option.splits)

lemma framed_exporter:
  assumes "\<And>b. b = exporter_on c \<Longrightarrow> keeps (framed objs I f K c h) (m b)"
  shows "keeps (framed objs I f K c h) (bindg exporter_enabled m)"
proof (rule keepsI)
  fix s r t assume s: "framed objs I f K c h s" and run: "bindg exporter_enabled m s = (r, t)"
  obtain q u where q: "exporter_enabled s = (q, u)" by fastforce
  show "framed objs I f K c h t"
  proof (cases q)
    case (Ok b)
    with q exporter_enabled_run[of s b u] s have "u = s" "b = exporter_on c" by (auto simp: framed_def)
    with run q Ok have "m (exporter_on c) s = (r, t)" by (simp add: bindg_def)
    from keepsD[OF assms[OF refl] s this] show ?thesis .
  qed (use q run s in \<open>auto simp: exporter_enabled_def go_simps panic_def bindg_def split: option.splits\<close>)
qed

lemma held_cong: "b_cr t = b_cr s \<Longrightarrow> b_held t = b_held s \<Longrightarrow> held t = held s"
  by (simp add: held_def split: option.splits)

lemma framed_gets_held:
  "keeps (framed objs I f K c h) (m (case h of None \<Rightarrow> c | Some x \<Rightarrow> x)) \<Longrightarrow>
   keeps (framed objs I f K c h) (bindg (gets held) m)"
  by (auto simp: keeps_def bindg_def gets_def framed_def held_def)

context plane_api
begin

lemma framed_removal_of:
  assumes p: "p \<in> set ps" and en: "en \<longrightarrow> exporter_on c"
  shows "keeps (framed objs inv f (removal_keys c h ps) c h) (MongoRemoveMemberAndDeleteSts E p host en)"
proof -
  have "keeps (framed objs inv f (removal_keys c h ps) c h) (removeService E p)" if "exporter_on c"
    unfolding removeService_def e_client
    by (intro keeps_owner framed_gets_held framed_api apart_composed)
      (simp add: metric_service_key removal_keys_simps(2)[OF p _ that])
  then show ?thesis
    unfolding MongoRemoveMemberAndDeleteSts_def e_client
    by (intro keeps_bind[where f = "\<lambda>_. _"] keeps_if keeps_basic framed_wrappers framed_queries framed_gets keeps_owner
        framed_api apart_composed removal_keys_simps(1)[OF p]) (use en in auto)
qed

lemma framed_loop:
  assumes "int removed < target" "set (take (nat (target - int removed)) ps) \<subseteq> set qs"
  shows "keeps (framed objs inv f (removal_keys c h qs) c h) (scale_down_loop E target removed ps)"
  using assms
proof (induction ps arbitrary: removed)
  case (Cons p ps)
  have n: "nat (target - int removed) = Suc (nat (target - int (Suc removed)))" using Cons.prems(1) by simp
  then have p: "p \<in> set qs" using Cons.prems(2) by simp
  have "keeps (framed objs inv f (removal_keys c h qs) c h) (scale_down_loop E target (Suc removed) ps)"
    if "target \<noteq> int (Suc removed)"
    using Cons.IH[of "Suc removed"] Cons.prems n that by simp
  then show ?case
    by (auto intro!: framed_exporter framed_removal_of[OF p] keeps_bind[where f = "\<lambda>_. _"] keeps_bind keeps_if frame_intros)
qed auto

end

text \<open>Removed, or marked for removal.\<close>

definition gone :: "('w \<Rightarrow> okey \<Rightarrow> kobj option) \<Rightarrow> ('w \<Rightarrow> bool) \<Rightarrow> okey \<Rightarrow> ('w, 'm) bstate \<Rightarrow> bool" where
  "gone objs I k s \<longleftrightarrow> I (b_api s) \<and> (\<forall>y. objs (b_api s) k = Some y \<longrightarrow> om_deleting (ometa y))"

definition sts_gone :: "('w \<Rightarrow> okey \<Rightarrow> kobj option) \<Rightarrow> ('w \<Rightarrow> bool) \<Rightarrow> string \<Rightarrow> pod \<Rightarrow> ('w, 'm) bstate \<Rightarrow> bool" where
  "sts_gone objs I ns p s \<longleftrightarrow> (\<exists>n os. om_owners (po_meta p) = n # os \<and> gone objs I (KSts, ns, n) s)"

definition service_gone ::
    "('w \<Rightarrow> okey \<Rightarrow> kobj option) \<Rightarrow> ('w \<Rightarrow> bool) \<Rightarrow> string \<Rightarrow> pod \<Rightarrow> ('w, 'm) bstate \<Rightarrow> bool" where
  "service_gone objs I ns p s \<longleftrightarrow>
     (\<exists>n os. om_owners (po_meta p) = n # os \<and> gone objs I (KService, ns, n @ ''-exporter'') s)"

context plane_api
begin

lemma gone_framed:
  assumes "\<And>f c h. keeps (framed objs inv f {} c h) m"
  shows "keeps (gone objs inv k) m"
proof (rule keepsI)
  fix s r t assume s: "gone objs inv k s" and run: "m s = (r, t)"
  have "framed objs inv (objs (b_api s)) {} (b_cr s) (b_held s) s" using s by (simp add: gone_def)
  with assms(1) have "framed objs inv (objs (b_api s)) {} (b_cr s) (b_held s) t"
    using run by (rule keepsD)
  then have "inv (b_api t)" "objs (b_api t) k = objs (b_api s) k"
    unfolding framed_def apart_def by (cases k; auto)+
  with s show "gone objs inv k t" by (simp add: gone_def)
qed

lemma removeService_step_run:
  assumes run: "as_sync (removeService E p) s = (r, t)" and I: "inv (b_api s)"
  shows "inv (b_api t) \<and> (\<forall>k. gone objs inv k s \<longrightarrow> gone objs inv k t) \<and>
    (r = Ok () \<longrightarrow> service_gone objs inv (cr_ns' (held s)) p t)"
proof (cases "om_owners (po_meta p)")
  case Nil
  with assms show ?thesis
    by (auto simp: as_sync_def attempt_def bindg_def removeService_def owner_of_def panic_def)
next
  case (Cons n ns)
  let ?k = "(KService, cr_ns' (held s), n @ ''-exporter'')"
  obtain q w where del: "c_delete cli ?k (b_api s) = (q, w)" by fastforce
  with run Cons have t: "t = s\<lparr>b_api := w\<rparr>" "r = Ok () \<Longrightarrow> q = Ok ()"
    by (cases q; auto simp: as_sync_def attempt_def bindg_def gets_def owner_of_def ret_def fail_def api_def zoom_def
        e_client removeService_def DeleteObj_def metric_service_key)+
  have w: "inv w" using keepsD[OF keeps_inv(6) I del] .
  have eff: "objs w = objs (b_api s) \<or> q = Ok () \<and> (\<exists>v. objs w = (objs (b_api s))(?k := v) \<and>
      (\<forall>y. v = Some y \<longrightarrow> om_deleting (ometa y)))"
  proof (cases q)
    case (Ok u)
    with del delete_Ok[of ?k "b_api s" w] show ?thesis by auto
  qed (use del failed_writes(4) no_panic(6) in blast)+
  have "gone objs inv k t" if "gone objs inv k s" for k
    using eff that t(1) w by (auto simp: gone_def split: if_splits)
  moreover have "service_gone objs inv (cr_ns' (held s)) p t" if "r = Ok ()"
  proof -
    have "c_delete cli ?k (b_api s) = (Ok (), w)" using t(2)[OF that] del by simp
    from delete_Ok[OF this] obtain v where "objs w = (objs (b_api s))(?k := v)" "\<forall>y. v = Some y \<longrightarrow> om_deleting (ometa y)"
      by blast
    with t(1) w Cons show ?thesis by (simp add: service_gone_def gone_def)
  qed
  ultimately show ?thesis using t(1) w by simp
qed

lemma DeleteSts_run:
  assumes "DeleteSts cli ns n w = (r, w')" "inv w"
  shows "inv w' \<and> (\<forall>k. (\<forall>y. objs w k = Some y \<longrightarrow> om_deleting (ometa y)) \<longrightarrow>
      (\<forall>y. objs w' k = Some y \<longrightarrow> om_deleting (ometa y))) \<and>
    (r = Ok () \<longrightarrow> (\<forall>y. objs w' (KSts, ns, n) = Some y \<longrightarrow> om_deleting (ometa y)))"
proof -
  obtain q w1 where del: "c_delete_all cli KSts (Some ns) (MatchingName n) w = (q, w1)" by fastforce
  have w': "w' = w1" "r = Ok () \<Longrightarrow> q = Ok ()"
    using assms(1) del by (cases q; auto simp: DeleteSts_def bindg_def attempt_def ret_def fail_def)+
  have inv': "inv w1" using keepsD[OF keeps_inv(7) assms(2) del] .
  have old: "\<forall>y. objs w1 k = Some y \<longrightarrow> om_deleting (ometa y)"
    if "\<forall>y. objs w k = Some y \<longrightarrow> om_deleting (ometa y)" for k
    using delete_all_frame[OF del assms(2), of k] that by auto
  have new: "\<forall>y. objs w1 (KSts, ns, n) = Some y \<longrightarrow> om_deleting (ometa y)" if "q = Ok ()"
  proof (cases "objs w (KSts, ns, n)")
    case (Some z)
    then have "in_scope KSts (Some ns) (MatchingName n) z"
      using stored[OF assms(2) Some] by (auto simp: in_scope_def okey_of_def)
    with delete_all_Ok[OF _ assms(2) Some] del that show ?thesis by blast
  qed (use old[of "(KSts, ns, n)"] in auto)
  from inv' old new w' show ?thesis by blast
qed

lemma DeleteSts_step_run:
  assumes "as_sync (bindg (gets b_cr) (\<lambda>cr. bindg (owner_of p) (\<lambda>n. api (DeleteSts (e_cli E) (cr_ns' cr) n)))) s = (r, t)"
    and "inv (b_api s)"
  shows "inv (b_api t) \<and> (\<forall>k. gone objs inv k s \<longrightarrow> gone objs inv k t) \<and>
    (r = Ok () \<longrightarrow> sts_gone objs inv (cr_ns' (b_cr s)) p t)"
proof (cases "om_owners (po_meta p)")
  case Nil
  with assms show ?thesis
    by (auto simp: as_sync_def attempt_def bindg_def gets_def owner_of_def panic_def)
next
  case (Cons n ns)
  obtain q w where del: "DeleteSts cli (cr_ns' (b_cr s)) n (b_api s) = (q, w)" by fastforce
  with assms(1) Cons have "t = s\<lparr>b_api := w\<rparr>" "r = Ok () \<Longrightarrow> q = Ok ()"
    by (cases q; auto simp: as_sync_def attempt_def bindg_def gets_def owner_of_def ret_def fail_def api_def zoom_def
        e_client)+
  with DeleteSts_run[OF del assms(2)] Cons show ?thesis by (auto simp: gone_def sts_gone_def)
qed

lemma gone_parts:
  "keeps (gone objs inv k) (as_sync (MongoRemoveMember E p host))"
  "keeps (gone objs inv k) (if en then as_sync (removeService E p) else ret ())"
  "keeps (gone objs inv k) (MongoRemoveMemberAndDeleteSts E p host en)"
proof -
  have "keeps (gone objs inv k) (as_sync (removeService E p))"
  proof (rule keepsI)
    fix s r t assume s: "gone objs inv k s" and run: "as_sync (removeService E p) s = (r, t)"
    from s have "inv (b_api s)" by (simp add: gone_def)
    from removeService_step_run[OF run this] s show "gone objs inv k t" by blast
  qed
  then show serv: "keeps (gone objs inv k) (if en then as_sync (removeService E p) else ret ())"
    by (intro keeps_if keeps_basic)
  show mem: "keeps (gone objs inv k) (as_sync (MongoRemoveMember E p host))"
    by (intro gone_framed frame_intros)
  have "keeps (gone objs inv k)
      (as_sync (bindg (gets b_cr) (\<lambda>cr. bindg (owner_of p) (\<lambda>n. api (DeleteSts (e_cli E) (cr_ns' cr) n)))))"
  proof (rule keepsI)
    fix s r t assume s: "gone objs inv k s" and
      run: "as_sync (bindg (gets b_cr) (\<lambda>cr. bindg (owner_of p) (\<lambda>n. api (DeleteSts (e_cli E) (cr_ns' cr) n)))) s = (r, t)"
    from s have "inv (b_api s)" by (simp add: gone_def)
    from DeleteSts_step_run[OF run this] s show "gone objs inv k t" by blast
  qed
  with serv mem show "keeps (gone objs inv k) (MongoRemoveMemberAndDeleteSts E p host en)"
    unfolding MongoRemoveMemberAndDeleteSts_def by (intro keeps_bind)
qed

lemma removal_Ok:
  assumes "MongoRemoveMemberAndDeleteSts E p host en s = (Ok (), t)" "inv (b_api s)"
  shows "sts_gone objs inv (cr_ns' (b_cr s)) p t" "en \<Longrightarrow> service_gone objs inv (cr_ns' (held s)) p t"
proof -
  from assms(1) obtain s1 s2 where
      mem: "as_sync (MongoRemoveMember E p host) s = (Ok (), s1)" and
      del: "as_sync (bindg (gets b_cr) (\<lambda>cr. bindg (owner_of p) (\<lambda>n. api (DeleteSts (e_cli E) (cr_ns' cr) n)))) s1
        = (Ok (), s2)" and
      serv: "(if en then as_sync (removeService E p) else ret ()) s2 = (Ok (), t)"
    by (auto simp: MongoRemoveMemberAndDeleteSts_def bindg_Ok_iff)
  have "framed objs inv (objs (b_api s)) {} (b_cr s) (b_held s) s" using assms(2) by simp
  from keepsD[OF framed_wrappers(1)[OF framed_queries(10)] this mem]
  have s1: "inv (b_api s1)" "b_cr s1 = b_cr s" "b_held s1 = b_held s" by (simp_all add: framed_def apart_def)
  note step = DeleteSts_step_run[OF del s1(1)]
  with s1(2) show "sts_gone objs inv (cr_ns' (b_cr s)) p t"
    using keepsD[OF gone_parts(2) _ serv] by (auto simp: sts_gone_def)
  have "framed objs inv (objs (b_api s1)) {k. fst k = KSts} (b_cr s1) (b_held s1) s1" using s1(1) by simp
  moreover have "keeps (framed objs inv f {k. fst k = KSts} c h)
      (as_sync (bindg (gets b_cr) (\<lambda>cr. bindg (owner_of p) (\<lambda>n. api (DeleteSts (e_cli E) (cr_ns' cr) n)))))" for f c h
    unfolding e_client by (intro framed_wrappers framed_gets keeps_owner framed_api apart_composed) simp
  ultimately have "framed objs inv (objs (b_api s1)) {k. fst k = KSts} (b_cr s1) (b_held s1) s2" using del by (blast dest: keepsD)
  then have "held s2 = held s" using s1(2,3) by (intro held_cong) (simp_all add: framed_def)
  with removeService_step_run[of p s2 "Ok ()" t] serv step
  show "service_gone objs inv (cr_ns' (held s)) p t" if en using that by simp
qed

end


context plane_api
begin

lemma loop_gone: "keeps (gone objs inv k) (scale_down_loop E target removed ps)"
proof (induction ps arbitrary: removed)
  case (Cons p ps)
  then show ?case
    by (auto intro!: keeps_bind keeps_if gone_parts(3) gone_framed[of exporter_enabled] gone_framed[of "StepDown E p"]
        gone_framed[of "GetMgoDataNodeInfo E p"] frame_intros)
qed auto

text \<open>What a removal that succeeded leaves of a pod.\<close>

definition removed :: "mongodb \<Rightarrow> mongodb \<Rightarrow> pod \<Rightarrow> ('w, 'm) bstate \<Rightarrow> bool" where
  "removed c x p t \<longleftrightarrow> sts_gone objs inv (cr_ns' c) p t \<and> (exporter_on c \<longrightarrow> service_gone objs inv (cr_ns' x) p t)"

lemma loop_Ok:
  assumes "scale_down_loop E target n ps s = (Ok (), t)" "inv (b_api s)" "int n < target"
  shows "\<forall>p \<in> set (take (nat (target - int n)) ps). removed (b_cr s) (held s) p t"
  using assms
proof (induction ps arbitrary: n s)
  case (Cons p ps)
  let ?rest = "if target = int (Suc n) then ret () else scale_down_loop E target (Suc n) ps"
  let ?F = "framed objs inv (objs (b_api s)) (removal_keys (b_cr s) (b_held s) [p]) (b_cr s) (b_held s)"
  from Cons.prems(1) obtain info s1 s2 en s3 s4 where
      info: "as_sync (GetMgoDataNodeInfo E p) s = (Ok info, s1)" and
      step: "(if sr_is_master info then StepDown E p else ret ()) s1 = (Ok (), s2)" and
      en: "exporter_enabled s2 = (Ok en, s3)" and
      rem: "MongoRemoveMemberAndDeleteSts E p (sr_me info) en s3 = (Ok (), s4)" and
      rest: "?rest s4 = (Ok (), t)"
    by (auto simp: bindg_Ok_iff)
  have "?F s" using Cons.prems(2) by simp
  from keepsD[OF framed_wrappers(1)[OF framed_queries(8)] this info] have "?F s1" .
  moreover have "keeps ?F (if sr_is_master info then StepDown E p else ret ())"
    by (intro keeps_if keeps_basic frame_intros)
  ultimately have s2: "?F s2" using step by (blast dest: keepsD)
  have s3: "?F s3" and on: "en \<longleftrightarrow> exporter_on (b_cr s)"
    using exporter_enabled_run[OF en] s2 by (auto simp: framed_def)
  have s4: "?F s4" using keepsD[OF framed_removal_of s3 rem] on by simp
  have i3: "inv (b_api s3)" "b_cr s3 = b_cr s" "held s3 = held s" and i4: "inv (b_api s4)" "b_cr s4 = b_cr s" "held s4 = held s"
    using s3 s4 held_cong[of s3 s] held_cong[of s4 s] by (simp_all add: framed_def apart_def)
  have "removed (b_cr s) (held s) p s4" using removal_Ok[OF rem i3(1)] i3(2,3) on by (simp add: removed_def)
  moreover have "gone objs inv k t" if "gone objs inv k s4" for k
  proof -
    have "keeps (gone objs inv k) ?rest" by (intro keeps_if keeps_basic loop_gone)
    from keepsD[OF this that rest] show ?thesis .
  qed
  ultimately have p: "removed (b_cr s) (held s) p t"
    by (auto simp: removed_def sts_gone_def service_gone_def)
  have n: "nat (target - int n) = Suc (nat (target - int (Suc n)))" using Cons.prems(3) by simp
  show ?case
  proof (cases "target = int (Suc n)")
    case False
    with rest Cons.prems(3) Cons.IH[of "Suc n" s4] i4 p n show ?thesis by simp
  qed (use p n in simp)
qed simp

lemma scaleDown_effect:
  assumes run: "scaleDownDataNode E found m ls s = (r, s')" and I: "inv (b_api s)" and less: "m < int (length found)"
  shows "inv (b_api s') \<and>
    (objs (b_api s') k \<noteq> objs (b_api s) k \<longrightarrow>
       (\<exists>pods t. list_pods E (AddDataLabel ls) [] s = (Ok pods, t) \<and>
         k \<in> removal_keys (b_cr s) (b_held s) (take (nat (int (length found) - m)) pods))) \<and>
    (r = Ok () \<longrightarrow> (\<exists>pods t. list_pods E (AddDataLabel ls) [] s = (Ok pods, t) \<and>
       (\<forall>p \<in> set (take (nat (int (length found) - m)) pods). removed (b_cr s) (held s) p s')))"
proof -
  obtain q s1 where list: "list_pods E (AddDataLabel ls) [] s = (q, s1)" by fastforce
  have "framed objs inv (objs (b_api s)) {} (b_cr s) (b_held s) s" using I by simp
  from keepsD[OF framed_queries(1) this list]
  have s1: "inv (b_api s1)" "objs (b_api s1) = objs (b_api s)" "b_cr s1 = b_cr s" "b_held s1 = b_held s" "held s1 = held s"
    by (auto simp: framed_def apart_def intro: held_cong)
  show ?thesis
  proof (cases q)
    case (Ok pods)
    let ?target = "int (length found) - m"
    let ?K = "removal_keys (b_cr s) (b_held s) (take (nat ?target) pods)"
    from run list Ok have loop: "scale_down_loop E ?target 0 pods s1 = (r, s')"
      by (simp add: scaleDownDataNode_def as_sync_def bindg_def attempt_def ret_def)
    have "framed objs inv (objs (b_api s)) ?K (b_cr s) (b_held s) s1" using s1 by (simp add: framed_def apart_def)
    moreover have "keeps (framed objs inv (objs (b_api s)) ?K (b_cr s) (b_held s)) (scale_down_loop E ?target 0 pods)"
      using less by (intro framed_loop) auto
    ultimately have "framed objs inv (objs (b_api s)) ?K (b_cr s) (b_held s) s'" using loop by (blast dest: keepsD)
    then have "inv (b_api s')" "k \<notin> ?K \<Longrightarrow> objs (b_api s') k = objs (b_api s) k"
      unfolding framed_def apart_def by blast+
    moreover have "\<forall>p \<in> set (take (nat ?target) pods). removed (b_cr s) (held s) p s'" if "r = Ok ()"
      using loop_Ok[of ?target 0 pods s1 s'] loop that s1 less by simp
    ultimately show ?thesis using list Ok by blast
  next
    case (Err e)
    with run list s1 show ?thesis by (auto simp: scaleDownDataNode_def as_sync_def bindg_def attempt_def fail_def)
  next
    case (Panic e)
    with run list s1 show ?thesis by (auto simp: scaleDownDataNode_def as_sync_def bindg_def attempt_def)
  qed
qed

end


section \<open>Properties\<close>

text \<open>
  C6: shrinking a member cluster removes what belongs to the first pods and nothing else: with \<open>d\<close> stateful
  sets too many, every stored object that changed, whatever the answers and however the call ends, is the
  stateful set of one of the first \<open>d\<close> data pods in the order of their ordinals or, where the exporter is
  enabled, the metrics service of that stateful set; and when it ends without error, the stateful sets of
  all of these pods, and their metrics services, are removed or marked for removal.
\<close>

theorem scale_down_exact:
  assumes "kube_api cli objs I" and "e_cli E = cli" and "I (b_api s)" and "m < int (length found)"
    and "scaleDownDataNode E found m ls s = (r, s')"
  shows "(\<forall>k. objs (b_api s') k \<noteq> objs (b_api s) k \<longrightarrow>
      (\<exists>pods t p n os. list_pods E (AddDataLabel ls) [] s = (Ok pods, t) \<and>
        p \<in> set (take (nat (int (length found) - m)) pods) \<and> om_owners (po_meta p) = n # os \<and>
        (k = (KSts, cr_ns' (b_cr s), n) \<or>
         exporter_on (b_cr s) \<and> k = (KService, cr_ns' (held s), n @ ''-exporter'')))) \<and>
    (r = Ok () \<longrightarrow> (\<exists>pods t. list_pods E (AddDataLabel ls) [] s = (Ok pods, t) \<and>
      (\<forall>p \<in> set (take (nat (int (length found) - m)) pods). sts_gone objs I (cr_ns' (b_cr s)) p s' \<and>
        (exporter_on (b_cr s) \<longrightarrow> service_gone objs I (cr_ns' (held s)) p s'))))"
proof -
  have P: "plane_api cli objs I E" using assms(1,2) by (simp add: plane_api_def plane_api_axioms_def)
  note effect = plane_api.scaleDown_effect[OF P assms(5,3,4)]
  have keys: "k \<in> removal_keys (b_cr s) (b_held s) ps \<longleftrightarrow> (\<exists>p n os. p \<in> set ps \<and> om_owners (po_meta p) = n # os \<and>
      (k = (KSts, cr_ns' (b_cr s), n) \<or> exporter_on (b_cr s) \<and> k = (KService, cr_ns' (held s), n @ ''-exporter'')))" for k ps
    by (simp add: removal_keys_def held_def)
  from effect show ?thesis unfolding keys plane_api.removed_def[OF P] by blast
qed

text \<open>The sample cluster with the exporter enabled and its metrics services.\<close>

definition metered_mongo :: mongodb where
  "metered_mongo = plane_mongo\<lparr>mg_spec := (mg_spec plane_mongo)
     \<lparr>mgs_exporter := map_option (\<lambda>x. x\<lparr>xs_enable := True\<rparr>) (mgs_exporter (mg_spec plane_mongo))\<rparr>\<rparr>"

definition metered_plane :: "(mem, mongod) bstate" where
  "metered_plane = sample_bstate metered_mongo
     (mem_of (plane_objects @ map (\<lambda>n. OService (plane_service (n @ ''-exporter'') 0)) [''a'', ''b''])) plane_db"

theorem scale_down_exact_witness:
  "\<exists>s' pods t. scaleDownDataNode plane_env [plane_sts ''a'', plane_sts ''b''] 1 plane_labels metered_plane = (Ok (), s') \<and>
    list_pods plane_env (AddDataLabel plane_labels) [] metered_plane = (Ok pods, t) \<and>
    (\<forall>p \<in> set (take 1 pods). sts_gone mem_lookup mem_inv (cr_ns' (b_cr metered_plane)) p s' \<and>
       service_gone mem_lookup mem_inv (cr_ns' (held metered_plane)) p s') \<and>
    mem_lookup (b_api s') (KService, ''ns'', ''b-exporter'') = mem_lookup (b_api metered_plane) (KService, ''ns'', ''b-exporter'')"
proof -
  let ?found = "[plane_sts ''a'', plane_sts ''b'']" and ?k = "(KService, ''ns'', ''b-exporter'')"
  have "fst (scaleDownDataNode plane_env ?found 1 plane_labels metered_plane) = Ok ()" by code_simp
  then obtain s' where run: "scaleDownDataNode plane_env ?found 1 plane_labels metered_plane = (Ok (), s')"
    by (metis prod.collapse)
  have env: "e_cli plane_env = mem_client" by (simp add: plane_env_def sample_env_def)
  have inv: "mem_inv (b_api metered_plane)" by code_simp
  have less: "1 < int (length ?found)" by simp
  have on: "exporter_on (b_cr metered_plane)"
    by (simp add: exporter_on_def metered_plane_def sample_bstate_def metered_mongo_def plane_mongo_def ready_mongo_def
        sample_mongo_spec_def no_exporter_def)
  have "map_outcome (map (\<lambda>p. om_owners (po_meta p))) (fst (list_pods plane_env (AddDataLabel plane_labels) [] metered_plane))
      = Ok [[''a''], [''b'']]" by code_simp
  then have pods: "om_owners (po_meta p) = [''a'']"
    if "list_pods plane_env (AddDataLabel plane_labels) [] metered_plane = (Ok pods, t)" "p \<in> set (take 1 pods)" for pods t p
    using that by (cases pods) auto
  note exact = scale_down_exact[OF mem.kube_api_axioms env inv less run]
  have "mem_lookup (b_api s') ?k = mem_lookup (b_api metered_plane) ?k"
  proof (rule ccontr)
    assume "mem_lookup (b_api s') ?k \<noteq> mem_lookup (b_api metered_plane) ?k"
    with conjunct1[OF exact] pods show False by fastforce
  qed
  with exact run on show ?thesis by auto
qed


end
