(* ===== verification/Result_Frames.thy ===== *)
theory Result_Frames
  imports Plane_Frame
begin

text \<open>
  Frame rules that also say something of the answer: an operation keeps an invariant and its value, when
  it has one, satisfies a predicate. With them a proof that an operation stays within a namespace can use
  that the objects it was given by the server are of that namespace.
\<close>

section \<open>Keeping an invariant and yielding a value\<close>

definition yields :: "('s \<Rightarrow> bool) \<Rightarrow> ('s, 'a) go \<Rightarrow> ('a \<Rightarrow> bool) \<Rightarrow> bool" where
  "yields I m Q \<longleftrightarrow> (\<forall>s r t. I s \<longrightarrow> m s = (r, t) \<longrightarrow> I t \<and> (\<forall>x. r = Ok x \<longrightarrow> Q x))"

named_theorems yields_intros \<open>rules for the answers of an operation\<close>

lemma yieldsI:
  "(\<And>s r t. I s \<Longrightarrow> m s = (r, t) \<Longrightarrow> I t) \<Longrightarrow> (\<And>s x t. I s \<Longrightarrow> m s = (Ok x, t) \<Longrightarrow> Q x) \<Longrightarrow> yields I m Q"
  by (auto simp: yields_def)

lemma yields_keeps: "yields I m Q \<Longrightarrow> keeps I m"
  by (rule keepsI) (auto simp: yields_def)

lemma yields_any: "keeps I m \<Longrightarrow> yields I m (\<lambda>_. True)"
  by (rule yieldsI) (auto dest: keepsD)

lemma yields_weaken: "yields I m Q \<Longrightarrow> (\<And>x. Q x \<Longrightarrow> R x) \<Longrightarrow> yields I m R"
  by (auto simp: yields_def)

lemma yields_bind:
  assumes m: "yields I m Q" and f: "\<And>x. Q x \<Longrightarrow> yields I (f x) R"
  shows "yields I (bindg m f) R"
proof (rule yieldsI)
  fix s r t assume I: "I s" and run: "bindg m f s = (r, t)"
  obtain q u where q: "m s = (q, u)" by fastforce
  with m I have u: "I u" "\<And>x. q = Ok x \<Longrightarrow> Q x" by (auto simp: yields_def)
  show "I t"
  proof (cases q)
    case (Ok x)
    with run q u f[of x] show ?thesis by (auto simp: bindg_def yields_def)
  qed (use run q u in \<open>auto simp: bindg_def\<close>)
next
  fix s x t assume "I s" "bindg m f s = (Ok x, t)"
  with m f show "R x" unfolding yields_def bindg_Ok_iff by blast
qed

lemma keeps_bind_yields: "yields I m Q \<Longrightarrow> (\<And>x. Q x \<Longrightarrow> keeps I (f x)) \<Longrightarrow> keeps I (bindg m f)"
  using yields_bind[of I m Q f "\<lambda>_. True"] yields_any yields_keeps by blast

lemma yields_basic [yields_intros]:
  "Q x \<Longrightarrow> yields I (ret x) Q" "yields I (fail e) Q" "yields I (panic p) Q"
  "(\<And>s. I s \<Longrightarrow> Q (g s)) \<Longrightarrow> yields I (gets g) Q" "(\<And>y. r = Ok y \<Longrightarrow> Q y) \<Longrightarrow> yields I (lift_outcome r) Q"
  by (auto simp: yields_def go_simps)

definition answers :: "('a \<Rightarrow> bool) \<Rightarrow> gerror + 'a \<Rightarrow> bool" where
  "answers Q r \<longleftrightarrow> (\<forall>x. r = Inr x \<longrightarrow> Q x)"

lemma answers_simps [simp]: "answers Q (Inr x) \<longleftrightarrow> Q x" "answers Q (Inl e)"
  by (simp_all add: answers_def)

lemma yields_attempt [yields_intros]: "yields I m Q \<Longrightarrow> yields I (attempt m) (answers Q)"
  unfolding yields_def attempt_def by (fastforce split: prod.splits outcome.splits)

lemma yields_wrappers [yields_intros]:
  "yields I m Q \<Longrightarrow> yields I (as_sync m) Q" "yields I m Q \<Longrightarrow> yields I (wrapped msg m) Q"
  unfolding as_sync_def wrapped_def
  by (rule yields_bind[where Q = "answers Q"]; auto simp: answers_def intro: yields_attempt yields_basic split: sum.splits)+

section \<open>What the server answers\<close>

lemma apartD: "apart objs I f K w \<Longrightarrow> I w" "apart objs I f K w \<Longrightarrow> k \<notin> K \<Longrightarrow> objs w k = f k"
  unfolding apart_def by blast+

context kube_api
begin

lemma yields_get [yields_intros]: "yields (apart objs inv f K) (c_get cli k) (\<lambda>x. okey_of x = k)"
proof (rule yieldsI)
  show "apart objs inv f K s \<Longrightarrow> c_get cli k s = (r, t) \<Longrightarrow> apart objs inv f K t" for s r t
    using keepsD[OF apart_reads(1)] .
  show "apart objs inv f K s \<Longrightarrow> c_get cli k s = (Ok x, t) \<Longrightarrow> okey_of x = k" for s x t
    using stored[of s k x] apartD(1)[of objs inv f K s] get_Ok[of k s x t] by blast
qed

lemma yields_list [yields_intros]:
  "yields (apart objs inv f K) (c_list cli kd ns opt)
     (\<lambda>xs. \<forall>x \<in> set xs. in_scope kd ns opt x \<and> (okey_of x \<notin> K \<longrightarrow> f (okey_of x) = Some x))"
proof (rule yieldsI)
  show "apart objs inv f K s \<Longrightarrow> c_list cli kd ns opt s = (r, t) \<Longrightarrow> apart objs inv f K t" for s r t
    using keepsD[OF apart_reads(2)] .
  show "\<forall>x \<in> set xs. in_scope kd ns opt x \<and> (okey_of x \<notin> K \<longrightarrow> f (okey_of x) = Some x)"
    if "apart objs inv f K s" "c_list cli kd ns opt s = (Ok xs, t)" for s xs t
    using list_Ok[OF apartD(1)[OF that(1)] that(2)] apartD(2)[OF that(1)] by (metis (mono_tags, lifting) mem_Collect_eq)
qed

lemma yields_update [yields_intros]:
  assumes "okey_of x \<in> K"
  shows "yields (apart objs inv f K) (c_update cli x) (\<lambda>y. okey_of y = okey_of x)"
    "yields (apart objs inv f K) (c_update_status cli x) (\<lambda>y. okey_of y = okey_of x)"
proof -
  show "yields (apart objs inv f K) (c_update cli x) (\<lambda>y. okey_of y = okey_of x)"
    using keepsD[OF apart_update[OF assms]] by (intro yieldsI) (blast dest: update_Ok)+
  have "okey_of y = okey_of x" if I: "apart objs inv f K s" and run: "c_update_status cli x s = (Ok y, t)" for s t y
  proof -
    from status_Ok[OF run] obtain z where z: "objs s (okey_of x) = Some z" "persisted z y"
      "ometa y = (ometa z)\<lparr>om_rv := om_rv (ometa y)\<rparr>" by blast
    have kinds: "okind y = okind z" using z(2) by (cases z; cases y) (auto dest: same_body_kind)
    have names: "om_namespace (ometa y) = om_namespace (ometa z)" "om_name (ometa y) = om_name (ometa z)"
      by (subst z(3), simp)+
    have "okey_of z = okey_of x" using stored[OF apartD(1)[OF I] z(1)] by blast
    with kinds names show ?thesis by (simp add: okey_of_def)
  qed
  with keepsD[OF apart_update_status[OF assms]]
  show "yields (apart objs inv f K) (c_update_status cli x) (\<lambda>y. okey_of y = okey_of x)"
    by (intro yieldsI) blast+
qed

lemma yields_set_ref [yields_intros]:
  "yields (apart objs inv f K) (c_set_ref cli m x) (\<lambda>y. okey_of y = okey_of x)"
proof (rule yieldsI)
  show "apart objs inv f K s \<Longrightarrow> c_set_ref cli m x s = (r, t) \<Longrightarrow> apart objs inv f K t" for s r t
    using keepsD[OF apart_reads(3)] .
  show "c_set_ref cli m x s = (Ok y, t) \<Longrightarrow> okey_of y = okey_of x" for s y t
    using set_ref_Ok[of m x s y t] by (auto simp: okey_of_def)
qed

lemma yields_get_as [yields_intros]:
  "yields (apart objs inv f K) (get_as cli p k) (\<lambda>a. \<exists>x. p x = Some a \<and> okey_of x = k)"
  unfolding get_as_def
  by (rule yields_bind[OF yields_get]) (auto split: option.splits intro: yields_basic)

lemma yields_GetSts [yields_intros]:
  "yields (apart objs inv f K) (GetSts cli n ns) (\<lambda>x. okey_of (OSts x) = (KSts, ns, n))"
proof -
  have "(case x of OSts s \<Rightarrow> Some s | _ \<Rightarrow> None) = Some a \<longleftrightarrow> x = OSts a" for x a
    by (cases x) auto
  then have "yields (apart objs inv f K) (get_as cli (\<lambda>x. case x of OSts s \<Rightarrow> Some s | _ \<Rightarrow> None) (KSts, ns, n))
      (\<lambda>x. okey_of (OSts x) = (KSts, ns, n))"
    by (intro yields_weaken[OF yields_get_as]) auto
  then show ?thesis unfolding GetSts_def
    by (rule yields_bind[OF yields_attempt]) (auto simp: answers_def intro: yields_basic split: sum.splits)
qed

lemma yields_ListPod [yields_intros]:
  "yields (apart objs inv f K) (ListPod cli ns l) (\<lambda>ps. \<forall>p \<in> set ps. om_namespace (po_meta p) = ns)"
  unfolding ListPod_def
  by (rule yields_bind[OF yields_list])
    (fastforce simp: pods_of_def in_scope_def map_filter_def split: kobj.splits intro!: yields_basic)

lemma yields_ListService [yields_intros]:
  "yields (apart objs inv f K) (ListService cli ns l) (\<lambda>ss. \<forall>s \<in> set ss. om_namespace (svc_meta s) = ns)"
  unfolding ListService_def
  by (rule yields_bind[OF yields_list])
    (fastforce simp: services_of_def in_scope_def map_filter_def split: kobj.splits intro!: yields_basic)

end

end
