(* ===== verification/Isolation_Laws.thy ===== *)
theory Isolation_Laws
  imports Growth_Laws Sync_Laws Result_Frames
begin

text \<open>
  What a whole round of the MongoDB controller can reach: from the reconciler down, every operation leaves
  alone whatever is not its own resource, or a stateful set, service, secret or pod of its namespace.
\<close>

named_theorems isolated_intros \<open>rules that an operation of the MongoDB controller stays within its objects\<close>

definition plane_keys :: "string \<Rightarrow> string \<Rightarrow> okey set" where
  "plane_keys ns n = {k. k = (KMongo, ns, n) \<or> fst k \<in> {KSts, KService, KSecret, KPod} \<and> fst (snd k) = ns}"

lemma plane_keys_simps [simp]:
  "(KMongo, ns, n) \<in> plane_keys ns n"
  "kd \<in> {KSts, KService, KSecret, KPod} \<Longrightarrow> (kd, ns', m) \<in> plane_keys ns n \<longleftrightarrow> ns' = ns"
  by (auto simp: plane_keys_def)

text \<open>Both pointers of the controller are to the resource of the round.\<close>

definition isolated ::
    "('w \<Rightarrow> okey \<Rightarrow> kobj option) \<Rightarrow> ('w \<Rightarrow> bool) \<Rightarrow> (okey \<Rightarrow> kobj option) \<Rightarrow> string \<Rightarrow> string \<Rightarrow>
     ('w, 'm) bstate \<Rightarrow> bool" where
  "isolated objs I f ns n s \<longleftrightarrow> apart objs I f (plane_keys ns n) (b_api s) \<and>
     okey_of (OMongo (b_cr s)) = (KMongo, ns, n) \<and> (\<forall>x. b_held s = Some x \<longrightarrow> okey_of (OMongo x) = (KMongo, ns, n))"

lemma isolated_held: "isolated objs I f ns n s \<Longrightarrow> okey_of (OMongo (held s)) = (KMongo, ns, n)"
  by (auto simp: isolated_def held_def split: option.splits)

lemma isolated_change [isolated_intros]: "keeps (isolated objs I f ns n) (change_status g)"
  unfolding change_status_def by (rule keeps_modify) (simp add: isolated_def)

lemma isolated_change_held:
  "(\<And>x. okey_of (OMongo x) = (KMongo, ns, n) \<Longrightarrow> okey_of (OMongo (g x)) = (KMongo, ns, n)) \<Longrightarrow>
   keeps (isolated objs I f ns n) (change_held g)"
  unfolding change_held_def by (rule keeps_modify) (auto simp: isolated_def split: option.splits)

lemma isolated_framed:
  assumes "\<And>f c h. keeps (framed objs I f K c h) m" and "K \<subseteq> plane_keys ns n"
  shows "keeps (isolated objs I f ns n) m"
proof (rule keepsI)
  fix s r t assume s: "isolated objs I f ns n s" and run: "m s = (r, t)"
  have "framed objs I (objs (b_api s)) K (b_cr s) (b_held s) s" using s by (simp add: isolated_def apart_def)
  with assms(1) have "framed objs I (objs (b_api s)) K (b_cr s) (b_held s) t" using run by (rule keepsD)
  with s assms(2) show "isolated objs I f ns n t"
    unfolding isolated_def framed_def apart_def by (metis subsetD)
qed

text \<open>What the operations read of the two pointers.\<close>

lemma isolated_pointers [isolated_intros]:
  "yields (isolated objs I f ns n) (gets b_cr) (\<lambda>c. okey_of (OMongo c) = (KMongo, ns, n))"
  "yields (isolated objs I f ns n) (gets held) (\<lambda>c. okey_of (OMongo c) = (KMongo, ns, n))"
  by (rule yields_basic(4); auto simp: isolated_held isolated_def)+

lemma mongo_key: "okey_of (OMongo c) = (KMongo, ns, n) \<longleftrightarrow> cr_ns' c = ns \<and> cr_name' c = n"
  by (auto simp: okey_of_def cr_ns'_def cr_name'_def)

lemma MongoSts_key: "MongoSts parse img cr name ls cmd = Ok s \<Longrightarrow> okey_of (OSts s) = (KSts, cr_ns' cr, name)"
  by (auto simp: MongoSts_def okey_of_def meta_of_def Let_def split: outcome.splits option.splits if_splits)

lemma isolated_wrappers [isolated_intros]:
  "keeps J m \<Longrightarrow> keeps J (as_sync m)" "keeps J m \<Longrightarrow> keeps J (wrapped msg m)" "keeps J d \<Longrightarrow> keeps J (error_of d)"
  unfolding error_of_def by (intro framed_wrappers keeps_intros; assumption)+

context plane_api
begin

lemma isolated_read [isolated_intros]:
  "keeps (isolated objs inv f ns n) (user_secret E u)" "keeps (isolated objs inv f ns n) (dial_as E x addrs d)"
  "keeps (isolated objs inv f ns n) (MongoClient E addrs)" "keeps (isolated objs inv f ns n) (MongoClientWithOneNode E addrs)"
  "keeps (isolated objs inv f ns n) (member_addrs E)" "keeps (isolated objs inv f ns n) (member_config E)"
  "keeps (isolated objs inv f ns n) (exec_in E p cmd)" "keeps (isolated objs inv f ns n) (list_pods E l fs)"
  "keeps (isolated objs inv f ns n) (replset_pods E)" "keeps (isolated objs inv f ns n) (GetServiceNodePort E p)"
  "keeps (isolated objs inv f ns n) (GetMgoReplSetStatus E)" "keeps (isolated objs inv f ns n) (GetPrimaryPod E)"
  "keeps (isolated objs inv f ns n) (StepDown E p)" "keeps (isolated objs inv f ns n) (judgePodIsPrimary E p primary)"
  "keeps (isolated objs inv f ns n) (db m)"
  by (rule isolated_framed[of _ _ "{}"]; simp add: frame_intros)+

lemma isolated_client [isolated_intros]:
  assumes "keeps (isolated objs inv f ns n) m" "\<And>x. keeps (isolated objs inv f ns n) (body x)"
  shows "keeps (isolated objs inv f ns n) (with_client E m body)"
  unfolding with_client_def disconnect_def by (intro keeps_bind keeps_defer keeps_attempt keeps_basic isolated_intros assms)

lemma isolated_api [isolated_intros]:
  "keeps (apart objs inv f (plane_keys ns n)) m \<Longrightarrow> keeps (isolated objs inv f ns n) (api m)"
  by (rule keepsI) (auto simp: api_run isolated_def dest: keepsD)

lemma isolated_api_yields [yields_intros]:
  assumes "yields (apart objs inv f (plane_keys ns n)) m Q" shows "yields (isolated objs inv f ns n) (api m) Q"
proof (rule yieldsI)
  show "isolated objs inv f ns n s \<Longrightarrow> api m s = (r, t) \<Longrightarrow> isolated objs inv f ns n t" for s r t
    using isolated_api[OF yields_keeps[OF assms]] by (rule keepsD)
  show "Q x" if "isolated objs inv f ns n s" "api m s = (Ok x, t)" for s x t
    using that assms unfolding yields_def isolated_def api_run by blast
qed

text \<open>Reading one of the pointers first.\<close>

lemma isolated_cr:
  assumes "\<And>c. cr_ns' c = ns \<Longrightarrow> cr_name' c = n \<Longrightarrow> keeps (isolated objs inv f ns n) (m c)"
  shows "keeps (isolated objs inv f ns n) (bindg (gets b_cr) m)" "keeps (isolated objs inv f ns n) (bindg (gets held) m)"
proof -
  show "keeps (isolated objs inv f ns n) (bindg (gets b_cr) m)"
    by (rule keeps_bind_yields[OF isolated_pointers(1)]) (simp only: mongo_key assms)
  show "keeps (isolated objs inv f ns n) (bindg (gets held) m)"
    by (rule keeps_bind_yields[OF isolated_pointers(2)]) (simp only: mongo_key assms)
qed

lemma isolated_Ensure:
  assumes "okey_of x \<in> plane_keys ns n" shows "keeps (isolated objs inv f ns n) (base_Ensure E x)"
proof (rule keepsI)
  fix s r t assume s: "isolated objs inv f ns n s" and run: "base_Ensure E x s = (r, t)"
  have I: "inv (b_api s)" using s by (simp add: isolated_def apart_def)
  from assms base_Ensure_run[OF run] base_Ensure_inv[OF run I] s show "isolated objs inv f ns n t"
    unfolding isolated_def apart_def grown_def by (metis singletonD)
qed

lemma isolated_Ensures [isolated_intros]:
  "cr_ns' c = ns \<Longrightarrow> keeps (isolated objs inv f ns n) (EnsureService E (BuildMetricService c m))"
  "cr_ns' c = ns \<Longrightarrow> keeps (isolated objs inv f ns n) (EnsureSecret E (KeyFileSecret c))"
  "cr_ns' c = ns \<Longrightarrow> keeps (isolated objs inv f ns n) (EnsureSecret E (AdminSecret key c u))"
  "keeps (isolated objs inv f ns n) (EnsureImagePullSecret E srv user pw ns m)"
proof -
  show "cr_ns' c = ns \<Longrightarrow> keeps (isolated objs inv f ns n) (EnsureService E (BuildMetricService c m))"
    unfolding EnsureService_def
    by (rule isolated_Ensure) (simp add: okey_of_def BuildMetricService_def MetricService_def meta_of_def)
  show "cr_ns' c = ns \<Longrightarrow> keeps (isolated objs inv f ns n) (EnsureSecret E (KeyFileSecret c))"
    unfolding EnsureSecret_def by (rule isolated_Ensure) (simp add: okey_of_def KeyFileSecret_def meta_of_def)
  show "cr_ns' c = ns \<Longrightarrow> keeps (isolated objs inv f ns n) (EnsureSecret E (AdminSecret key c u))"
    unfolding EnsureSecret_def
    by (rule isolated_Ensure) (simp add: okey_of_def AdminSecret_def UserSecretMetaOnly_def meta_of_def)
  have "yields I (lift_outcome (NewDockerRegistrySecret j ns m srv user pw)) (\<lambda>x. okey_of (OSecret x) = (KSecret, ns, m))"
    for I j
    by (rule yields_basic(5))
      (auto simp: NewDockerRegistrySecret_def okey_of_def meta_of_def split: sum.splits)
  then show "keeps (isolated objs inv f ns n) (EnsureImagePullSecret E srv user pw ns m)"
    unfolding EnsureImagePullSecret_def EnsureSecret_def
    by (rule keeps_bind_yields) (rule isolated_Ensure, simp)
qed

lemma isolated_growth [isolated_intros]:
  "keeps (isolated objs inv f ns n) (ensure_member_sts E m ls)" "keeps (isolated objs inv f ns n) (grow E ls)"
  "keeps (isolated objs inv f ns n) (sync_arbiter E ls)"
proof -
  have "keeps (isolated objs inv f ns n) (bindg (lift_outcome (MongoSts p i c m ls cmd)) (\<lambda>sts. as_sync (EnsureSts E sts)))"
    if "cr_ns' c = ns" for p i c m ls cmd
  proof (rule keeps_bind_yields[OF yields_basic(5)])
    show "okey_of (OSts y) = (KSts, ns, m)" if "MongoSts p i c m ls cmd = Ok y" for y
      using MongoSts_key[OF that] \<open>cr_ns' c = ns\<close> by simp
    show "keeps (isolated objs inv f ns n) (as_sync (EnsureSts E x))" if "okey_of (OSts x) = (KSts, ns, m)" for x
      unfolding EnsureSts_def using that by (intro isolated_wrappers isolated_Ensure) simp
  qed
  then show one: "keeps (isolated objs inv f ns n) (ensure_member_sts E m ls)" for m ls
    unfolding ensure_member_sts_def by (intro isolated_cr)
  show "keeps (isolated objs inv f ns n) (grow E ls)"
    unfolding grow_def e_client
    by (intro keeps_bind keeps_basic keeps_for_each keeps_if one isolated_wrappers isolated_api frame_intros)
  show "keeps (isolated objs inv f ns n) (sync_arbiter E ls)"
    unfolding sync_arbiter_def by (intro keeps_bind keeps_basic keeps_if one)
qed

lemma isolated_nodes [isolated_intros]:
  "keeps (isolated objs inv f ns n) (GetMgoDataNodeInfo E p)" "keeps (isolated objs inv f ns n) (GetMgoArbiterNodeInfo E p)"
  "keeps (isolated objs inv f ns n) (MongoRemoveMember E p host)" "keeps (isolated objs inv f ns n) exporter_enabled"
  by (rule isolated_framed[of _ _ "{}"]; simp add: frame_intros)+

lemma isolated_removal [isolated_intros]:
  "keeps (isolated objs inv f ns n) (MongoRemoveMemberAndDeleteSts E p host en)"
  "keeps (isolated objs inv f ns n) (scaleDownDataNode E found m ls)"
proof -
  have "keeps (isolated objs inv f ns n) (removeService E p)"  for p
    unfolding removeService_def e_client
    by (intro keeps_bind framed_owner isolated_cr isolated_api apart_composed)
      (simp add: okey_of_def BuildMetricService_def MetricService_def meta_of_def)
  then show one: "keeps (isolated objs inv f ns n) (MongoRemoveMemberAndDeleteSts E p host en)" for p host en
    unfolding MongoRemoveMemberAndDeleteSts_def e_client
    by (intro keeps_bind keeps_if keeps_basic framed_owner isolated_cr isolated_wrappers isolated_api isolated_nodes
        apart_composed) simp_all
  have "keeps (isolated objs inv f ns n) (scale_down_loop E target k ps)" for target k ps
    by (induction ps arbitrary: k) (auto intro!: keeps_bind one isolated_wrappers isolated_nodes isolated_read)
  then show "keeps (isolated objs inv f ns n) (scaleDownDataNode E found m ls)"
    unfolding scaleDownDataNode_def by (intro keeps_bind isolated_wrappers isolated_read)
qed

end

lemma refreshCR_held: "refreshCR E s = (r, t) \<Longrightarrow> b_held t \<in> {b_held s, Some (held s)}"
  by (auto simp: refreshCR_def bindg_def attempt_def gets_def api_def zoom_def modify_def repoint_def held_def ret_def
      split: outcome.splits prod.splits option.splits)

lemma keeps_pointer:
  "keeps (\<lambda>t. b_held t \<in> A) (decode_cr y)" "keeps (\<lambda>t. b_held t \<in> A) (change_status g)"
  "keeps (\<lambda>t. b_held t \<in> A) (api m)"
  unfolding decode_cr_def change_status_def
  by (rule keepsI; auto simp: api_run modify_def panic_def split: kobj.splits)+

lemma WriteStatus_held:
  fixes s :: "('a, 'b) bstate" assumes "WriteStatus E s = (r, t)" shows "b_held t \<in> {b_held s, Some (held s)}"
proof -
  define A where "A = {b_held s, Some (held s)}"
  have s: "b_held s \<in> A" by (simp add: A_def)
  define rest :: "(('a, 'b) bstate, unit) go" where "rest = andthen (change_status (\<lambda>_. mg_status (b_cr s)))
    (bindg (gets b_cr) (\<lambda>cr2. bindg (attempt (api (c_update (e_cli E) (OMongo cr2)))) (\<lambda>r2. case r2 of
       Inr y \<Rightarrow> decode_cr y | Inl err \<Rightarrow> fail (Wrap err ''update cr status''))))"
  have rest: "keeps (\<lambda>t. b_held t \<in> A) rest"
    unfolding rest_def by (intro keeps_bind keeps_attempt keeps_basic keeps_pointer | auto split: sum.splits intro: keeps_pointer)+
  obtain q w where upd: "c_update_status (e_cli E) (OMongo (b_cr s)) (b_api s) = (q, w)" by fastforce
  let ?s = "s\<lparr>b_api := w\<rparr>"
  have run: "(case q of Ok y \<Rightarrow> decode_cr y ?s | Err e \<Rightarrow> andthen (refreshCR E) rest ?s | Panic p \<Rightarrow> (Panic p, ?s)) = (r, t)"
    using assms upd unfolding WriteStatus_def rest_def
    by (auto simp: bindg_def attempt_def gets_def api_def zoom_def split: outcome.splits)
  show ?thesis
  proof (cases q)
    case (Ok y)
    with run have "decode_cr y ?s = (r, t)" by simp
    from keepsD[OF keeps_pointer(1) _ this, of A] s show ?thesis by (simp add: A_def)
  next
    case (Err e)
    obtain q2 s2 where ref: "refreshCR E ?s = (q2, s2)" by fastforce
    with refreshCR_held[OF ref] have s2: "b_held s2 \<in> A"
      by (auto simp: A_def held_def split: option.splits)
    have "b_held t \<in> A" using run Err ref keepsD[OF rest s2] s2 by (cases q2) (auto simp: bindg_def)
    then show ?thesis by (simp add: A_def)
  qed (use run s in \<open>auto simp: A_def\<close>)
qed

context plane_status
begin

lemma WriteStatus_apart:
  assumes "inv (b_api s)" "WriteStatus E s = (r, t)"
  shows "inv (b_api t) \<and> okey_of (OMongo (b_cr t)) = okey_of (OMongo (b_cr s)) \<and>
    (\<forall>k. k \<noteq> okey_of (OMongo (b_cr s)) \<longrightarrow> objs (b_api t) k = objs (b_api s) k)"
  using assms
proof (cases rule: WriteStatus_cases)
  case (direct z)
  have "om_namespace (mg_meta (b_cr t)) = om_namespace (mg_meta z) \<and> om_name (mg_meta (b_cr t)) = om_name (mg_meta z)"
    by (subst (1 2) direct(4)) simp
  with direct stored[OF assms(1) direct(2)] show ?thesis by (auto simp: okey_of_def)
next
  case (failed c e)
  then have "okey_of (OMongo c) = okey_of (OMongo (b_cr s))" using stored[OF assms(1)] by blast
  with failed show ?thesis by simp
qed auto

lemma isolated_WriteStatus [isolated_intros]: "keeps (isolated objs inv f ns n) (WriteStatus E)"
proof (rule keepsI)
  fix s r t assume s: "isolated objs inv f ns n s" and run: "WriteStatus E s = (r, t)"
  have I: "inv (b_api s)" using s by (simp add: isolated_def apart_def)
  have "okey_of (OMongo (b_cr s)) \<in> plane_keys ns n" using s by (simp add: isolated_def plane_keys_def)
  with WriteStatus_apart[OF I run] s have "apart objs inv f (plane_keys ns n) (b_api t)"
    unfolding isolated_def apart_def by metis
  with WriteStatus_apart[OF I run] WriteStatus_held[OF run] s isolated_held[OF s]
  show "isolated objs inv f ns n t" unfolding isolated_def by auto
qed

lemma isolated_status [isolated_intros]:
  "keeps (isolated objs inv f ns n) (UpdateConds E cs)" "keeps (isolated objs inv f ns n) (UpdateState E st)"
  "keeps (isolated objs inv f ns n) (UpdateRestartState E rst)" "keeps (isolated objs inv f ns n) (UpdateCurrentDBUserPW E pw)"
  "keeps (isolated objs inv f ns n) (UpdateCurrentResources E rs)" "keeps (isolated objs inv f ns n) (UpdateCurrentMembers E k)"
  "keeps (isolated objs inv f ns n) (UpdateRevision E)" "keeps (isolated objs inv f ns n) (to_reconciling E)"
  "keeps (isolated objs inv f ns n) (UpdateRSStatus E)"
  unfolding UpdateConds_def UpdateState_def UpdateRestartState_def UpdateCurrentDBUserPW_def UpdateCurrentResources_def
    UpdateCurrentMembers_def UpdateRevision_def to_reconciling_def UpdateRSStatus_def change_current_def Let_def e_client
  by (intro keeps_bind keeps_basic keeps_if keeps_for_each isolated_intros frame_intros)+

end


lemma isolated_pods [isolated_intros]:
  "keeps J (owner_of p)" "keeps J (rs_name_of pods)" "keeps J (need_config r)"
  unfolding rs_name_of_def need_config_def by (auto intro: frame_intros split: list.splits option.splits)

context plane_status
begin

lemma isolated_initiation [isolated_intros]:
  "keeps (isolated objs inv f ns n) (CmdCheckReplSetInit E p)" "keeps (isolated objs inv f ns n) (reconfigure E p a b)"
  "keeps (isolated objs inv f ns n) (initiate_output E p js)" "keeps (isolated objs inv f ns n) (ReplSetInit E pods cm)"
proof -
  show a: "keeps (isolated objs inv f ns n) (CmdCheckReplSetInit E p)" for p
    unfolding CmdCheckReplSetInit_def
    by (auto intro!: keeps_bind keeps_if keeps_basic isolated_intros split: option.splits)
  show b: "keeps (isolated objs inv f ns n) (reconfigure E p a b)" for p a b
    unfolding reconfigure_def
    by (auto simp: Let_def intro!: keeps_bind keeps_if keeps_basic isolated_intros split: option.splits)
  show c: "keeps (isolated objs inv f ns n) (initiate_output E p js)" for p js
    unfolding initiate_output_def
    by (auto intro!: keeps_bind keeps_if keeps_basic isolated_intros split: option.splits)
  show "keeps (isolated objs inv f ns n) (ReplSetInit E pods cm)"
    unfolding ReplSetInit_def
    by (auto simp: Let_def intro!: keeps_bind keeps_if keeps_basic a b c split: option.splits sum.splits)
qed

lemma isolated_users [isolated_intros]:
  "keeps (isolated objs inv f ns n) (create_root_loop E a b ps err)" "keeps (isolated objs inv f ns n) (CreateRootUser E pods)"
  "keeps (isolated objs inv f ns n) (CreateClusterUser E pods cm u)"
  "keeps (isolated objs inv f ns n) (CreateOrUpdateDBUser E pods cm upd pw)"
  "keeps (isolated objs inv f ns n) (CreateMongoUser E pods cm upd pw)"
proof -
  show a: "keeps (isolated objs inv f ns n) (create_root_loop E a b ps err)" for a b ps err
    by (induction ps arbitrary: err)
      (auto intro!: keeps_bind keeps_if keeps_basic isolated_intros split: option.splits)
  show b: "keeps (isolated objs inv f ns n) (CreateRootUser E pods)"
    unfolding CreateRootUser_def
    by (auto simp: Let_def intro!: keeps_bind keeps_if keeps_basic isolated_intros a split: option.splits sum.splits)
  show c: "keeps (isolated objs inv f ns n) (CreateClusterUser E pods cm u)" for u
    unfolding CreateClusterUser_def root_client_def
    by (auto intro!: keeps_bind keeps_if keeps_basic isolated_intros split: option.splits)
  show d: "keeps (isolated objs inv f ns n) (CreateOrUpdateDBUser E pods cm upd pw)"
    unfolding CreateOrUpdateDBUser_def root_client_def
    by (auto simp: Let_def intro!: keeps_bind keeps_if keeps_basic isolated_intros)
  show "keeps (isolated objs inv f ns n) (CreateMongoUser E pods cm upd pw)"
    unfolding CreateMongoUser_def by (intro keeps_bind b c d)
qed

lemma isolated_members [isolated_intros]:
  "keeps (isolated objs inv f ns n) (ensureService E p)" "keeps (isolated objs inv f ns n) (MongoEnsureMemberConfig E p)"
  "keeps (isolated objs inv f ns n) (EnsureMembers E pods)" "keeps (isolated objs inv f ns n) (sync_pods E ls)"
  "keeps (isolated objs inv f ns n) (drop_arbiter E ls)"
proof -
  show a: "keeps (isolated objs inv f ns n) (ensureService E p)" for p
    unfolding ensureService_def
    by (intro isolated_cr keeps_case_option keeps_if keeps_bind[OF framed_owner] isolated_Ensures keeps_basic)
  show b: "keeps (isolated objs inv f ns n) (MongoEnsureMemberConfig E p)" for p
    unfolding MongoEnsureMemberConfig_def
    by (auto intro!: keeps_bind keeps_if keeps_basic isolated_intros split: option.splits prod.splits)
  show c: "keeps (isolated objs inv f ns n) (EnsureMembers E pods)" for pods
    unfolding EnsureMembers_def by (intro keeps_bind keeps_if keeps_basic keeps_for_each a b)
  have poll: "keeps J (poll k cond)" if "keeps J cond" for J k and cond :: "(('w, 'm) bstate, bool) go"
    using that by (induction k) (auto intro!: keeps_bind keeps_if)
  show "keeps (isolated objs inv f ns n) (sync_pods E ls)"
    unfolding sync_pods_def InitializationMongoCheck_def e_client
    by (intro keeps_bind keeps_basic isolated_intros frame_intros poll c)
  show "keeps (isolated objs inv f ns n) (drop_arbiter E ls)"
    unfolding drop_arbiter_def scaleDownArbiterNode_def e_client
    by (auto intro!: keeps_bind keeps_if keeps_basic isolated_intros frame_intros split: list.splits)
qed

lemma isolated_modes [isolated_intros]:
  "keeps (isolated objs inv f ns n) (SyncMember E ls)" "keeps (isolated objs inv f ns n) (Sync E)"
  "keeps (isolated objs inv f ns n) (check_config E x)" "keeps (isolated objs inv f ns n) (PreConfig E)"
  "keeps (isolated objs inv f ns n) (PostConfig E k)"
proof -
  show a: "keeps (isolated objs inv f ns n) (SyncMember E ls)" for ls
    unfolding SyncMember_def Let_def e_client by (intro keeps_bind keeps_basic keeps_if isolated_intros frame_intros)
  show "keeps (isolated objs inv f ns n) (Sync E)"
    unfolding Sync_def by (intro keeps_bind keeps_basic a)
  show c: "keeps (isolated objs inv f ns n) (check_config E x)" for x
    unfolding check_config_def e_client
    by (auto intro!: keeps_bind keeps_attempt keeps_if keeps_basic isolated_intros frame_intros split: sum.splits)
  show "keeps (isolated objs inv f ns n) (PreConfig E)"
    unfolding PreConfig_def Let_def e_client MongoBase_EnsureSecret_def
    by (intro isolated_cr isolated_Ensures isolated_wrappers keeps_if keeps_basic keeps_bind isolated_status isolated_api
        frame_intros c; simp add: isolated_Ensures)
  show "keeps (isolated objs inv f ns n) (PostConfig E k)"
    unfolding PostConfig_def Let_def CheckMemberRole_def
    by (auto intro!: keeps_bind keeps_attempt keeps_basic isolated_intros split: option.splits sum.splits)
qed

end


context plane_status
begin

lemma isolated_repair [isolated_intros]:
  "keeps (isolated objs inv f ns n) (disconnect E c)" "keeps (isolated objs inv f ns n) (RemoveNodeToMember E addrs)"
  "keeps (isolated objs inv f ns n) (AddNodeToMember E addrs)" "keeps (isolated objs inv f ns n) (RestoreReplSet E pods)"
  "keeps (isolated objs inv f ns n) (UpdateErrRSStatus E pods)"
proof -
  show d: "keeps (isolated objs inv f ns n) (disconnect E c)" for c
    unfolding disconnect_def by (intro keeps_bind keeps_attempt keeps_basic isolated_intros)
  show r: "keeps (isolated objs inv f ns n) (RemoveNodeToMember E addrs)" for addrs
    by (induction addrs) (auto intro!: keeps_bind keeps_basic isolated_intros)
  have "keeps (isolated objs inv f ns n) (add_node_loop E ms addrs cfg latest k)" for ms addrs cfg latest k
    by (induction addrs arbitrary: cfg latest k)
      (auto simp: Let_def intro!: keeps_bind keeps_attempt keeps_basic isolated_intros
        split: sum.splits option.splits prod.splits)
  moreover have "keeps (isolated objs inv f ns n) (disconnect_times E latest k)" for latest k
    by (induction k) (auto intro!: keeps_bind d split: option.splits)
  ultimately show a: "keeps (isolated objs inv f ns n) (AddNodeToMember E addrs)" for addrs
    unfolding AddNodeToMember_def
    by (auto intro!: keeps_bind keeps_defer keeps_basic isolated_intros split: option.splits prod.splits)
  have u: "keeps (isolated objs inv f ns n) (find_unknown E addrs us oks opened)" for addrs us oks opened
    by (induction addrs arbitrary: us oks opened)
      (auto intro!: keeps_bind keeps_attempt keeps_basic isolated_intros split: sum.splits option.splits prod.splits)
  have p: "keeps (isolated objs inv f ns n) (remove_unknown E oks ps u)" for oks ps u
    by (induction ps) (auto intro!: keeps_bind keeps_basic r)
  have q: "keeps (isolated objs inv f ns n) (remove_all_unknown E oks ps us)" for oks ps us
    by (induction us) (auto intro!: keeps_bind keeps_basic p)
  show "keeps (isolated objs inv f ns n) (RestoreReplSet E pods)"
    unfolding RestoreReplSet_def
    by (auto intro!: keeps_bind keeps_defer keeps_basic keeps_for_each keeps_if isolated_intros a d u q
        split: option.splits prod.splits)
  have "keeps (isolated objs inv f ns n) (first_status E addrs)" for addrs
    by (induction addrs) (auto intro!: keeps_bind keeps_attempt keeps_basic isolated_intros split: sum.splits)
  then show "keeps (isolated objs inv f ns n) (UpdateErrRSStatus E pods)"
    unfolding UpdateErrRSStatus_def by (intro keeps_bind isolated_intros)
qed

lemma isolated_apply [isolated_intros]: "keeps (isolated objs inv f ns n) (apply_resources E p)"
proof -
  have upd: "keeps (isolated objs inv f ns n) (update_containers E cs sts)" if "okey_of (OSts sts) = (KSts, ns, m)"
    for cs sts m using that
  proof (induction cs arbitrary: sts)
    case (Cons c cs)
    have key: "okey_of (OSts (set_resources i r sts)) = (KSts, ns, m)" for i r
      using Cons.prems by (simp add: set_resources_def okey_of_def)
    have "keeps (isolated objs inv f ns n) (bindg (api (UpdateObject cli (OSts (set_resources i r sts))))
        (\<lambda>y. case y of OSts t \<Rightarrow> update_containers E cs t | _ \<Rightarrow> panic ''interface conversion''))" for i r
      unfolding UpdateObject_def
      by (rule keeps_bind_yields[OF isolated_api_yields[OF yields_update(1)]])
        (auto simp: key split: kobj.splits intro: Cons.IH)
    with Cons show ?case
      by (cases c) (auto simp: e_client intro!: isolated_cr split: option.splits)
  qed auto
  have "keeps (isolated objs inv f ns n) (bindg (api (GetSts cli m ns)) (\<lambda>sts. update_containers E
      (enumerate 0 (ss_containers sts)) (sts\<lparr>ss_meta := (ss_meta sts)\<lparr>om_rv := ''''\<rparr>\<rparr>)))" for m
    by (rule keeps_bind_yields[OF isolated_api_yields[OF yields_GetSts]], rule upd[of _ m]) (simp add: okey_of_def)
  then show ?thesis unfolding apply_resources_def e_client by (intro keeps_bind[OF framed_owner] isolated_cr) simp
qed

end

text \<open>An environment that sorts pods as \<open>sort.Slice\<close> does.\<close>

locale plane_round = plane_status +
  assumes sorting: "sorts_pods (e_sort_pods E)"
begin

lemma replset_pods_here: "yields (isolated objs inv f ns n) (replset_pods E) (\<lambda>ps. \<forall>p \<in> set ps. om_namespace (po_meta p) = ns)"
proof -
  have set: "set (e_sort_pods E ps) = set ps" for ps using sorting by (metis mset_eq_setD sorts_pods_def)
  have "yields (apart objs inv f (plane_keys ns n)) (base_ListPod cli (e_sort_pods E) ns l fs)
      (\<lambda>ps. \<forall>p \<in> set ps. om_namespace (po_meta p) = ns)" for l fs
    unfolding base_ListPod_def
    by (rule yields_bind[OF yields_ListPod]) (auto simp: set PodFilter_eq intro: yields_basic)
  then have "yields (isolated objs inv f ns n) (list_pods E l fs) (\<lambda>ps. \<forall>p \<in> set ps. om_namespace (po_meta p) = ns)" for l fs
    unfolding list_pods_def e_client
    by (intro yields_bind[OF isolated_pointers(1)] isolated_api_yields) (simp add: mongo_key)
  then show ?thesis unfolding replset_pods_def by (intro yields_bind[OF isolated_pointers(2)])
qed

lemma isolated_restart [isolated_intros]: "keeps (isolated objs inv f ns n) (Restart E)"
proof -
  have d: "keeps (isolated objs inv f ns n) (delete_in_restart E p)" if "om_namespace (po_meta p) = ns" for p
    unfolding delete_in_restart_def DeletePodInRestart_def e_client using that
    by (intro keeps_bind keeps_attempt keeps_basic keeps_if keeps_case_sum isolated_api frame_intros)
      (simp add: okey_of_def)
  have s: "keeps (isolated objs inv f ns n) (delete_secondaries E x ps)" if "\<forall>p \<in> set ps. om_namespace (po_meta p) = ns" for x ps
    unfolding delete_secondaries_def using that
    by (intro keeps_for_each keeps_bind keeps_if keeps_basic isolated_read d) simp
  have p: "keeps (isolated objs inv f ns n) (delete_primary E x ps)" if "\<forall>p \<in> set ps. om_namespace (po_meta p) = ns" for x ps
    unfolding delete_primary_def using that
    by (intro keeps_for_each keeps_bind keeps_if keeps_basic isolated_read d) simp
  have fin: "keeps (isolated objs inv f ns n) (finish_restart E over work next)"
    if "keeps (isolated objs inv f ns n) work" for over work "next"
    unfolding finish_restart_def using that
    by (auto intro!: keeps_bind keeps_attempt keeps_basic isolated_intros split: sum.splits)
  have step: "keeps (isolated objs inv f ns n) (restart_step E x ps st)" if "\<forall>p \<in> set ps. om_namespace (po_meta p) = ns"
    for x ps st by (cases st) (auto simp: restart_step_def intro!: fin s p that)
  show ?thesis unfolding Restart_def
    by (rule keeps_bind_yields[OF yields_attempt[OF replset_pods_here]])
      (auto simp: answers_def intro!: keeps_bind keeps_attempt keeps_for_each keeps_basic isolated_read isolated_apply step
        split: sum.splits outcome.splits)
qed

lemma isolated_update_held [isolated_intros]: "keeps (isolated objs inv f ns n) (update_held E)"
proof (rule keepsI)
  fix s r t assume s: "isolated objs inv f ns n s" and run: "update_held E s = (r, t)"
  have key: "okey_of (OMongo (held s)) = (KMongo, ns, n)" using s by (rule isolated_held)
  obtain q w where upd: "c_update cli (OMongo (held s)) (b_api s) = (q, w)" by fastforce
  have "apart objs inv f (plane_keys ns n) w"
    using keepsD[OF apart_update _ upd] s key by (auto simp: isolated_def plane_keys_def)
  then have w: "isolated objs inv f ns n (s\<lparr>b_api := w\<rparr>)" using s by (simp add: isolated_def)
  show "isolated objs inv f ns n t"
  proof (cases q)
    case (Ok y)
    have y: "okey_of y = (KMongo, ns, n)" using update_Ok[of "OMongo (held s)" "b_api s" y w] upd Ok key by auto
    then obtain c where c: "y = OMongo c" using mongo_of_key[of y] by auto
    then have "change_held (\<lambda>_. c) (s\<lparr>b_api := w\<rparr>) = (r, t)"
      using run upd Ok by (auto simp: update_held_def e_client bindg_def gets_def api_def zoom_def)
    with isolated_change_held[of ns n "\<lambda>_. c"] y c w show ?thesis by (auto dest: keepsD)
  next
    case (Err e)
    with run upd w show ?thesis by (auto simp: update_held_def e_client bindg_def gets_def api_def zoom_def)
  next
    case (Panic m)
    with run upd w show ?thesis by (auto simp: update_held_def e_client bindg_def gets_def api_def zoom_def)
  qed
qed

lemma isolated_rounds [isolated_intros]:
  "keeps (isolated objs inv f ns n) (checkRestart E)" "keeps (isolated objs inv f ns n) (handleReturn E err)"
  "keeps (isolated objs inv f ns n) (remove_mongo E)" "keeps (isolated objs inv f ns n) (converge E)"
  "keeps (isolated objs inv f ns n) (reconcile_mongo E)"
proof -
  have ret: "keeps (isolated objs inv f ns n) (or_return res m g)"
    if "keeps (isolated objs inv f ns n) m" "\<And>x. keeps (isolated objs inv f ns n) (g x)"
    for res g m
    unfolding or_return_def using that by (auto intro!: keeps_bind keeps_attempt keeps_basic split: sum.splits)
  show c: "keeps (isolated objs inv f ns n) (checkRestart E)"
    unfolding checkRestart_def
    by (auto simp: Let_def intro!: keeps_bind keeps_if keeps_basic isolated_intros split: option.splits prod.splits)
  show h: "keeps (isolated objs inv f ns n) (handleReturn E err)" for err
    unfolding handleReturn_def handle_success_def handle_failure_def
    by (auto intro!: keeps_bind keeps_if keeps_basic isolated_intros ret split: option.splits)
  have handle: "keeps (isolated objs inv f ns n) (or_handle E m g)"
    if "keeps (isolated objs inv f ns n) m" "\<And>x. keeps (isolated objs inv f ns n) (g x)"
    for g m
    unfolding or_handle_def using that by (auto intro!: keeps_bind keeps_attempt keeps_basic h split: sum.splits)
  have held: "keeps (isolated objs inv f ns n) (change_held (\<lambda>c. c\<lparr>mg_spec := g c\<rparr>))"
    "keeps (isolated objs inv f ns n) (change_held (set_mongo_finalizers fs))" for g fs
    by (intro isolated_change_held; simp add: okey_of_def set_mongo_finalizers_def)+
  show rm: "keeps (isolated objs inv f ns n) (remove_mongo E)"
    unfolding remove_mongo_def by (intro keeps_bind ret keeps_basic isolated_intros held)
  show cv: "keeps (isolated objs inv f ns n) (converge E)"
    unfolding converge_def
    by (auto intro!: keeps_bind keeps_if keeps_basic isolated_intros ret handle c h split: option.splits prod.splits)
  show "keeps (isolated objs inv f ns n) (reconcile_mongo E)"
    unfolding reconcile_mongo_def
    by (intro keeps_bind keeps_if keeps_basic isolated_intros ret held cv rm)
qed

lemma round_isolated:
  assumes run: "Mongo_Reconcile E ns n (w, d) = (r, w', d')" and I: "inv w" and k: "k \<notin> plane_keys ns n"
  shows "inv w' \<and> objs w' k = objs w k"
proof -
  obtain q u where get: "c_get cli (KMongo, ns, n) w = (q, u)" by fastforce
  have u: "inv u" "objs u = objs w" using keepsD[OF keeps_inv(1) I get] reads(1)[of "(KMongo, ns, n)" w] get by auto
  show ?thesis
  proof (cases "\<exists>c. q = Ok (OMongo c)")
    case True
    then obtain c where c: "q = Ok (OMongo c)" by blast
    let ?s = "\<lparr>b_cr = c, b_held = None, b_api = u, b_db = d\<rparr>"
    obtain s' where s': "reconcile_mongo E ?s = (r, s')" "w' = b_api s'"
      using run get c by (auto simp: Mongo_Reconcile_def e_client split: prod.splits)
    have "objs w (KMongo, ns, n) = Some (OMongo c)" using get c by (auto dest: get_Ok)
    from stored[OF I this] have "isolated objs inv (objs u) ns n ?s" using u by (simp add: isolated_def apart_def)
    from keepsD[OF isolated_rounds(5) this s'(1)] k u s'(2) show ?thesis unfolding isolated_def apart_def by metis
  next
    case False
    then have "w' = u" using run get
      by (auto simp: Mongo_Reconcile_def e_client split: outcome.splits kobj.splits prod.splits)
    with u show ?thesis by simp
  qed
qed

end


interpretation plane: plane_round mem_client mem_lookup mem_inv plane_env
  by unfold_locales (simp add: plane_env_def sample_env_def sorts_pods_id)

section \<open>Properties\<close>

text \<open>
  C16: a round of the MongoDB controller, however it ends and whatever the database answers, changes in the
  cluster nothing but its own resource and the stateful sets, services, secrets and pods of its own
  namespace: the host ConfigMap, every other MongoDB and every object of another namespace are as before.
\<close>

theorem mongo_round_isolated:
  assumes "kube_status cli objs I" and "e_cli E = cli" and "sorts_pods (e_sort_pods E)" and "I w"
    and "Mongo_Reconcile E ns n (w, d) = (r, w', d')"
    and "k \<noteq> (KMongo, ns, n)" and "fst k \<in> {KSts, KService, KSecret, KPod} \<longrightarrow> fst (snd k) \<noteq> ns"
  shows "I w' \<and> objs w' k = objs w k"
proof -
  have "kube_api cli objs I" using assms(1) by (simp add: kube_status_def)
  then have loc: "plane_round cli objs I E"
    using assms(1-3) by (simp add: plane_round_def plane_round_axioms_def plane_status_def plane_api_def plane_api_axioms_def)
  have "k \<notin> plane_keys ns n" using assms(6,7) by (auto simp: plane_keys_def)
  with plane_round.round_isolated[OF loc assms(5,4)] show ?thesis .
qed

text \<open>The sample cluster with a stateful set of the same name in another namespace.\<close>

definition foreign_sts :: stateful_set where
  "foreign_sts = (plane_sts ''a'')\<lparr>ss_meta := (ss_meta (plane_sts ''a''))\<lparr>om_namespace := ''other''\<rparr>\<rparr>"

theorem mongo_round_isolated_witness:
  "\<exists>r w' d'. Mongo_Reconcile plane_env ''ns'' ''m'' (mem_of (OSts foreign_sts # plane_objects), plane_db) = (r, w', d') \<and>
    mem_lookup w' (KSts, ''other'', ''a'') = Some (OSts foreign_sts)"
proof -
  let ?w = "mem_of (OSts foreign_sts # plane_objects)"
  obtain r w' d' where run: "Mongo_Reconcile plane_env ''ns'' ''m'' (?w, plane_db) = (r, w', d')"
    using prod_cases3 by blast
  have env: "e_cli plane_env = mem_client" "sorts_pods (e_sort_pods plane_env)"
    by (simp_all add: plane_env_def sample_env_def sorts_pods_id)
  have inv: "mem_inv ?w" by code_simp
  have "mem_lookup ?w (KSts, ''other'', ''a'') = Some (OSts foreign_sts)"
    by (simp add: mem_lookup_def mem_of_def okey_of_def foreign_sts_def plane_sts_def sample_sts_def meta_of_def)
  with mongo_round_isolated[OF mem.kube_status_axioms env inv run, of "(KSts, ''other'', ''a'')"] run
  show ?thesis by auto
qed

end
