(* ===== verification/Cloud_Footprint.thy ===== *)
theory Cloud_Footprint
  imports Result_Frames Multi_Cloud_Controller
begin

text \<open>
  What a round of the MultiCloudMongoDB controller can change: its own resource, the objects it names
  after the resource, and the objects whose labels name it. Policies of the services are looked for in
  all namespaces, so of these also the ones of other namespaces.
\<close>

named_theorems cloud_intros \<open>rules that an operation of the control plane stays within its footprint\<close>

section \<open>The footprint\<close>

definition named_after :: "string \<Rightarrow> string \<Rightarrow> bool" where
  "named_after n v \<longleftrightarrow> v = n \<or> (\<exists>t. v = n @ ''-'' @ t)"

definition marked :: "string \<Rightarrow> kobj \<Rightarrow> bool" where
  "marked n x \<longleftrightarrow> list_ex (\<lambda>(k, v). named_after n v) (om_labels (ometa x))"

definition cloud_kinds :: "kind set" where
  "cloud_kinds = {KService, KConfigMap, KMongo, KPP, KOP}"

text \<open>\<open>f\<close> gives the objects at the start of the round.\<close>

definition cloud_keys :: "(okey \<Rightarrow> kobj option) \<Rightarrow> string \<Rightarrow> string \<Rightarrow> okey set" where
  "cloud_keys f ns n = {k. k = (KMultiCloud, ns, n) \<or>
     fst k \<in> cloud_kinds \<and>
       (fst (snd k) = ns \<and> (named_after n (snd (snd k)) \<or> fst k = KPP \<and> has_suffix (snd (snd k)) ''-custom-configmap-pp'') \<or>
        (fst (snd k) = ns \<or> fst k = KPP) \<and> (\<exists>x. f k = Some x \<and> marked n x))}"

lemma named_after_simps [simp]: "named_after n n" "named_after n (n @ CHR ''-'' # t)"
  by (simp_all add: named_after_def)

lemma cloud_keys_own [simp]: "(KMultiCloud, ns, n) \<in> cloud_keys f ns n"
  by (simp add: cloud_keys_def)

lemma cloud_keys_named:
  "kd \<in> cloud_kinds \<Longrightarrow> named_after n m \<Longrightarrow> (kd, ns, m) \<in> cloud_keys f ns n"
  by (simp add: cloud_keys_def)

lemma cloud_keys_marked:
  assumes "f (okey_of x) = Some x" "marked n x" "okind x \<in> cloud_kinds" "om_namespace (ometa x) = ns \<or> okind x = KPP"
  shows "okey_of x \<in> cloud_keys f ns n"
  using assms by (auto simp: cloud_keys_def okey_of_def)

text \<open>The selectors that name the resource select marked objects only.\<close>

lemma marked_selected: "selects sel (om_labels (ometa x)) \<Longrightarrow> map_of sel k = Some v \<Longrightarrow> named_after n v \<Longrightarrow> marked n x"
  by (fastforce simp: selects_def marked_def list_ex_iff list_all_iff dest: map_of_SomeD)

lemma marked_merged:
  "selects (MergeLabels [ls, [(k, v)]]) (om_labels (ometa x)) \<Longrightarrow> named_after n v \<Longrightarrow> marked n x"
  using marked_selected[of "MergeLabels [ls, [(k, v)]]" x k v n] MergeLabels_get[of ls k v k] by simp

lemma marked_base:
  "selects (BaseLabel ls n) (om_labels (ometa x)) \<Longrightarrow> marked n x"
  "selects (GenerateServicePPLabel ls (n @ ''-service-pp'')) (om_labels (ometa x)) \<Longrightarrow> marked n x"
  "selects (GenerateClusterVipLabel ls n) (om_labels (ometa x)) \<Longrightarrow> marked n x"
  "selects (GenerateInitLabel ls n) (om_labels (ometa x)) \<Longrightarrow> marked n x"
  "selects (GenerateArbiterServicePPLabel n) (om_labels (ometa x)) \<Longrightarrow> marked n x"
  "selects (GenerateCustomConfigMapPPLabel ls (n @ ''-custom-configmap-pp'')) (om_labels (ometa x)) \<Longrightarrow> marked n x"
proof -
  show "selects (GenerateArbiterServicePPLabel n) (om_labels (ometa x)) \<Longrightarrow> marked n x"
    using marked_selected[of "GenerateArbiterServicePPLabel n" x ArbiterKey n n]
    by (simp add: GenerateArbiterServicePPLabel_def)
qed (unfold BaseLabel_def GenerateServicePPLabel_def GenerateClusterVipLabel_def GenerateInitLabel_def
    GenerateCustomConfigMapPPLabel_def; erule marked_merged; simp)+

section \<open>The helpers of client.go\<close>

context kube_api
begin

text \<open>Deleting by a selector that only matches keys of \<open>K\<close> among the objects that \<open>K\<close> leaves alone.\<close>

lemma apart_delete_matching:
  assumes "\<And>z. in_scope kd ns opt z \<Longrightarrow> f (okey_of z) = Some z \<Longrightarrow> okey_of z \<in> K"
  shows "keeps (apart objs inv f K) (c_delete_all cli kd ns opt)"
proof (rule keepsI)
  fix w r w' assume w: "apart objs inv f K w" and run: "c_delete_all cli kd ns opt w = (r, w')"
  have "inv w'" using keepsD[OF keeps_inv(7) apartD(1)[OF w] run] .
  moreover have "objs w' k = f k" if k: "k \<notin> K" for k
  proof -
    have same: "objs w k = f k" using apartD(2)[OF w k] .
    have "\<not> (\<exists>z. objs w k = Some z \<and> in_scope kd ns opt z)"
      using assms same k stored[OF apartD(1)[OF w]] by metis
    with delete_all_frame[OF run apartD(1)[OF w], of k] same show ?thesis by auto
  qed
  ultimately show "apart objs inv f K w'" unfolding apart_def by blast
qed

lemma yields_IsExists [yields_intros]:
  "yields (apart objs inv f K) (IsExists cli k) (\<lambda>r. \<forall>x. r = Some x \<longrightarrow> okey_of x = k)"
  unfolding IsExists_def
  by (rule yields_bind[OF yields_attempt[OF yields_get]]) (auto simp: answers_def split: sum.splits intro: yields_basic)

lemma apart_set_rv [cloud_intros]:
  "okey_of x \<in> K \<Longrightarrow> keeps (apart objs inv f K) (UpsertObject cli (set_rv rv x))"
  "okey_of x \<in> K \<Longrightarrow> keeps (apart objs inv f K) (UpsertObject cli x)"
  unfolding UpsertObject_def by (intro keeps_bind apart_update keeps_basic; simp)+

lemma apart_create_ref [cloud_intros]:
  assumes "okey_of x \<in> K" shows "keeps (apart objs inv f K) (bindg (c_set_ref cli m x) (CreateObject cli))"
  unfolding CreateObject_def by (rule keeps_bind_yields[OF yields_set_ref]) (simp add: apart_create assms)

lemma apart_lookup:
  assumes "\<And>old. keeps (apart objs inv f K) (upd old)" "keeps (apart objs inv f K) new"
  shows "keeps (apart objs inv f K) (bindg (IsExists cli k) (\<lambda>r. case r of Some old \<Rightarrow> upd old | None \<Rightarrow> new))"
  by (rule keeps_bind[OF apart_getters(1)]) (auto simp: assms split: option.splits)

lemma apart_ensures [cloud_intros]:
  "okey_of x \<in> K \<Longrightarrow> keeps (apart objs inv f K) (Ensure cli cr x)"
  "okey_of (OConfigMap cm) \<in> K \<Longrightarrow> keeps (apart objs inv f K) (EnsureConfigMapUpdate cli cr cm)"
  "okey_of (OPP p) \<in> K \<Longrightarrow> keeps (apart objs inv f K) (UpsertPPEnsure cli cr p)"
  "okey_of (OOP q) \<in> K \<Longrightarrow> keeps (apart objs inv f K) (UpsertOpEnsure cli cr q)"
  "okey_of (OMongo g) \<in> K \<Longrightarrow> keeps (apart objs inv f K) (EnsureMongoWithoutSetRef cli g)"
  unfolding Ensure_def EnsureConfigMapUpdate_def UpsertPPEnsure_def UpsertOpEnsure_def EnsureMongoWithoutSetRef_def Let_def
  by (rule apart_lookup;
    auto simp del: set_rv_cases intro!: apart_set_rv apart_create_ref apart_composed split: kobj.splits option.splits)+

lemma apart_removals [cloud_intros]:
  "(kd, ns, m) \<in> K \<Longrightarrow> keeps (apart objs inv f K) (IsExistAndDeleted cli kd m ns)"
  "(KConfigMap, ns, m) \<in> K \<Longrightarrow> keeps (apart objs inv f K) (UpsertConfigMapDeleteArbiter cli m ns)"
  unfolding IsExistAndDeleted_def UpsertConfigMapDeleteArbiter_def IsExistsByName_eq
proof -
  assume K: "(kd, ns, m) \<in> K"
  show "keeps (apart objs inv f K) (bindg (IsExists cli (kd, ns, m)) (\<lambda>r. case r of Some x \<Rightarrow> DeleteObj cli x | None \<Rightarrow> ret ()))"
    by (rule keeps_bind_yields[OF yields_IsExists]) (auto simp: K split: option.splits intro: apart_composed)
next
  assume K: "(KConfigMap, ns, m) \<in> K"
  have key: "okey_of (OConfigMap (c\<lparr>cm_data := d\<rparr>)) = okey_of (OConfigMap c)" for c d by (simp add: okey_of_def)
  show "keeps (apart objs inv f K) (bindg (IsExists cli (KConfigMap, ns, m)) (\<lambda>r. case r of
      Some (OConfigMap cm) \<Rightarrow> if cm_data cm = [] then panic ''assignment to entry in nil map''
        else UpsertObject cli (OConfigMap (cm\<lparr>cm_data := AList.update ''arbiters'' '''' (cm_data cm)\<rparr>))
    | Some _ \<Rightarrow> panic ''interface conversion'' | None \<Rightarrow> ret ()))"
    by (rule keeps_bind_yields[OF yields_IsExists])
      (auto simp: K key split: option.splits kobj.splits intro!: apart_set_rv(2))
qed

end

section \<open>The cleaner and the clean-up\<close>

context kube_api
begin

lemma scoped_key:
  assumes "in_scope kd ns' opt x" "okey_of x \<notin> cloud_keys f ns n \<Longrightarrow> f (okey_of x) = Some x" "kd \<in> cloud_kinds"
    and "listed opt (ometa x) \<Longrightarrow> marked n x" "ns' = Some ns \<or> kd = KPP"
  shows "okey_of x \<in> cloud_keys f ns n"
  using assms cloud_keys_marked[of f x n ns] by (auto simp: in_scope_def split: option.splits)

lemma yields_listed [yields_intros]:
  "yields (apart objs inv f (cloud_keys f ns n)) (ListService cli ns (BaseLabel ls n))
     (\<lambda>ss. \<forall>s \<in> set ss. okey_of (OService s) \<in> cloud_keys f ns n)"
  "yields (apart objs inv f (cloud_keys f ns n)) (ListSvcPPByLabel cli (GenerateServicePPLabel ls (n @ ''-service-pp'')))
     (\<lambda>ps. \<forall>p \<in> set ps. okey_of (OPP p) \<in> cloud_keys f ns n)"
proof -
  show "yields (apart objs inv f (cloud_keys f ns n)) (ListService cli ns (BaseLabel ls n))
     (\<lambda>ss. \<forall>s \<in> set ss. okey_of (OService s) \<in> cloud_keys f ns n)"
    unfolding ListService_def
  proof (rule yields_bind[OF yields_list], rule yields_basic(1), rule ballI)
    fix xs s assume xs: "\<forall>x \<in> set xs. in_scope KService (Some ns) (MatchingLabels (BaseLabel ls n)) x \<and>
        (okey_of x \<notin> cloud_keys f ns n \<longrightarrow> f (okey_of x) = Some x)" and "s \<in> set (services_of xs)"
    then have "OService s \<in> set xs" by (force simp: services_of_def map_filter_def split: kobj.splits)
    with xs show "okey_of (OService s) \<in> cloud_keys f ns n"
      by (intro scoped_key[of KService "Some ns"]) (auto simp: cloud_kinds_def intro: marked_base)
  qed
  show "yields (apart objs inv f (cloud_keys f ns n)) (ListSvcPPByLabel cli (GenerateServicePPLabel ls (n @ ''-service-pp'')))
     (\<lambda>ps. \<forall>p \<in> set ps. okey_of (OPP p) \<in> cloud_keys f ns n)"
    unfolding ListSvcPPByLabel_def
  proof (rule yields_bind[OF yields_list], rule yields_basic(1), rule ballI)
    fix xs p assume xs: "\<forall>x \<in> set xs. in_scope KPP None (MatchingLabels (GenerateServicePPLabel ls (n @ ''-service-pp''))) x \<and>
        (okey_of x \<notin> cloud_keys f ns n \<longrightarrow> f (okey_of x) = Some x)" and "p \<in> set (policies_of xs)"
    then have "OPP p \<in> set xs" by (force simp: policies_of_def map_filter_def split: kobj.splits)
    with xs show "okey_of (OPP p) \<in> cloud_keys f ns n"
      by (intro scoped_key[of KPP None]) (auto simp: cloud_kinds_def intro: marked_base)
  qed
qed

lemma apart_cleaner [cloud_intros]:
  assumes "\<And>s. s \<in> set ss \<Longrightarrow> okey_of (OService s) \<in> K" "\<And>p. p \<in> set ps \<Longrightarrow> okey_of (OPP p) \<in> K"
  shows "keeps (apart objs inv f K) (ScaleDownCleaner cli rt ss cr ps)"
proof -
  have key: "okey_of (OPP (p\<lparr>pp_affinity := a\<rparr>)) = okey_of (OPP p)" for p a by (simp add: okey_of_def)
  have one: "keeps (apart objs inv f K) (clean_policy cli cr m p)" if "p \<in> set ps" for m p
    unfolding clean_policy_def Let_def using assms(2)[OF that]
    by (auto simp: key intro!: keeps_bind apart_composed cloud_intros split: option.splits)
  have ps: "keeps (apart objs inv f K) (clean_policies cli cr m ps)" for m
    unfolding clean_policies_def by (intro keeps_for_each one)
  have ss: "keeps (apart objs inv f K) (clean_services cli used ss)" for used
    unfolding clean_services_def using assms(1)
    by (intro keeps_for_each keeps_if keeps_basic apart_composed)
  show ?thesis
    unfolding ScaleDownCleaner_def by (intro keeps_bind keeps_basic) (auto intro!: keeps_bind ss ps split: prod.splits)
qed

lemma apart_label [cloud_intros]:
  assumes "kd \<in> cloud_kinds" "\<And>x. selects label (om_labels (ometa x)) \<Longrightarrow> marked n x"
  shows "keeps (apart objs inv f (cloud_keys f ns n)) (DeleteObjByLabel cli kd label ns)"
  unfolding DeleteObjByLabel_def
  by (rule apart_delete_matching) (rule scoped_key[where kd = kd], auto simp: assms)

lemma apart_cleanup:
  assumes "cr_ns cr = ns" "cr_name cr = n"
  shows "keeps (apart objs inv f (cloud_keys f ns n)) (deleteExternalResources cli cr)"
proof -
  have ignore: "keeps (apart objs inv f K) (ignore_not_found m)" if "keeps (apart objs inv f K) m" for K m
    unfolding ignore_not_found_def using that by (auto intro!: keeps_bind keeps_attempt split: sum.splits)
  show ?thesis unfolding deleteExternalResources_def Let_def assms
    by (intro keeps_bind ignore apart_label) (auto simp: cloud_kinds_def intro: marked_base)
qed

end

section \<open>The handlers\<close>

definition within ::
    "('w \<Rightarrow> okey \<Rightarrow> kobj option) \<Rightarrow> ('w \<Rightarrow> bool) \<Rightarrow> (okey \<Rightarrow> kobj option) \<Rightarrow> string \<Rightarrow> string \<Rightarrow> 'w hstate \<Rightarrow> bool" where
  "within objs I f ns n s \<longleftrightarrow> apart objs I f (cloud_keys f ns n) (h_world s) \<and>
     okey_of (OMultiCloud (h_cr s)) = (KMultiCloud, ns, n)"

lemma cloud_key: "okey_of (OMultiCloud c) = (KMultiCloud, ns, n) \<longleftrightarrow> cr_ns c = ns \<and> cr_name c = n"
  by (auto simp: okey_of_def cr_ns_def cr_name_def)

text \<open>Reading the resource first.\<close>

lemma within_cr:
  assumes "\<And>c. cr_ns c = ns \<Longrightarrow> cr_name c = n \<Longrightarrow> keeps (within objs I f ns n) (m c)"
  shows "keeps (within objs I f ns n) (bindg (gets h_cr) m)"
  by (rule keeps_bind_yields[OF yields_basic(4), where Q = "\<lambda>c. okey_of (OMultiCloud c) = (KMultiCloud, ns, n)"])
    (simp_all only: within_def cloud_key assms)

lemma keeps_on_state:
  "keeps J m \<Longrightarrow> keeps (\<lambda>p. J (fst p)) (on_state m)" "yields J m Q \<Longrightarrow> yields (\<lambda>p. J (fst p)) (on_state m) Q"
  unfolding on_state_def zoom_def by (auto simp: keeps_def yields_def split: prod.splits)

lemma keeps_report: "keeps (\<lambda>p. J (fst p)) (set_report rep)"
  unfolding set_report_def by (rule keeps_modify) auto

lemma keeps_reporting:
  "keeps J m \<Longrightarrow> keeps (\<lambda>p. J (fst p)) (reporting g m)" "yields J m Q \<Longrightarrow> yields (\<lambda>p. J (fst p)) (reporting g m) Q"
proof -
  show y: "yields (\<lambda>p. J (fst p)) (reporting g m) Q" if "yields J m Q" for Q
    unfolding reporting_def
    by (rule yields_bind[OF yields_attempt[OF keeps_on_state(2)[OF that]]])
      (auto simp: answers_def split: sum.splits intro!: yields_basic yields_bind[OF yields_any[OF keeps_report]])
  show "keeps J m \<Longrightarrow> keeps (\<lambda>p. J (fst p)) (reporting g m)"
    using yields_keeps[OF y[OF yields_any]] .
qed

lemma keeps_with_report:
  assumes "\<And>rep. keeps J (d rep)" "keeps (\<lambda>p. J (fst p)) m"
  shows "keeps J (with_report d rep m)"
proof (rule keepsI)
  fix s r t assume s: "J s" and run: "with_report d rep m s = (r, t)"
  obtain q u rep' where m: "m (s, rep) = (q, (u, rep'))" by (metis prod.exhaust)
  have u: "J u" using keepsD[OF assms(2) _ m] s by simp
  obtain q2 v where d: "d rep' u = (q2, v)" by fastforce
  have "J v" using keepsD[OF assms(1) u d] .
  moreover have "t = v" using run m d by (cases q2) (auto simp: with_report_def)
  ultimately show "J t" by simp
qed

lemma within_parts [cloud_intros]:
  "keeps (within objs I f ns n) need_sched" "keeps J (first_of xs)" "keeps J (deref p)"
  "keeps (within objs I f ns n) (set_status g)"
  unfolding need_sched_def first_of_def deref_def set_status_def
  by (auto intro!: keeps_bind keeps_modify simp: within_def cloud_key cr_ns_def cr_name_def split: option.splits list.splits)

lemma within_modify [cloud_intros]:
  "(\<And>s. h_cr (g s) = h_cr s \<and> h_world (g s) = h_world s) \<Longrightarrow> keeps (within objs I f ns n) (modify g)"
  by (rule keeps_modify) (simp add: within_def)

context kube_api
begin

lemma within_api [cloud_intros]:
  assumes "keeps (apart objs inv f (cloud_keys f ns n)) m" shows "keeps (within objs inv f ns n) (Handlers.api m)"
  by (rule keepsI) (auto simp: Handlers.api_def zoom_def within_def split: prod.splits dest: keepsD[OF assms])

lemma within_api_yields:
  assumes "yields (apart objs inv f (cloud_keys f ns n)) m Q" shows "yields (within objs inv f ns n) (Handlers.api m) Q"
proof (rule yieldsI)
  show "within objs inv f ns n s \<Longrightarrow> Handlers.api m s = (r, t) \<Longrightarrow> within objs inv f ns n t" for s r t
    using within_api[OF yields_keeps[OF assms]] by (rule keepsD)
  show "Q x" if "within objs inv f ns n s" "Handlers.api m s = (Ok x, t)" for s x t
    using that assms unfolding yields_def within_def Handlers.api_def zoom_def by (auto split: prod.splits)
qed

lemma within_record [cloud_intros]:
  "keeps (within objs inv f ns n) (set_condition cli rep)" "keeps (within objs inv f ns n) (record_condition cli rep)"
proof -
  show c: "keeps (within objs inv f ns n) (set_condition cli rep)"
    unfolding set_condition_def
    by (intro keeps_bind within_api apart_reads keeps_modify) (simp add: within_def cloud_key cr_ns_def cr_name_def)
  have "keeps (within objs inv f ns n) (bindg (attempt (Handlers.api (UpdateObjectStatus cli (OMultiCloud c)))) (\<lambda>r.
      case r of Inr (OMultiCloud c') \<Rightarrow> modify (\<lambda>s. s\<lparr>h_cr := c'\<rparr>) | _ \<Rightarrow> ret ()))"
    if "cr_ns c = ns" "cr_name c = n" for c
  proof (rule keeps_bind_yields[OF yields_attempt[OF within_api_yields]])
    have "okey_of (OMultiCloud c) = (KMultiCloud, ns, n)" using that by (simp add: cloud_key)
    then show "yields (apart objs inv f (cloud_keys f ns n)) (UpdateObjectStatus cli (OMultiCloud c))
        (\<lambda>y. okey_of y = (KMultiCloud, ns, n))"
      using yields_update(2)[of "OMultiCloud c" "cloud_keys f ns n"] by (simp add: UpdateObjectStatus_def)
  qed (auto simp: answers_def within_def split: sum.splits kobj.splits intro!: keeps_modify)
  then show "keeps (within objs inv f ns n) (record_condition cli rep)"
    unfolding record_condition_def by (intro keeps_bind[OF c] within_cr)
qed

end

text \<open>The names the handlers give.\<close>

lemma cloud_names [simp]:
  "named_after n (mongodb_name n i)" "named_after n (mongodb_name n i @ t)"
  by (auto simp: named_after_def mongodb_name_def sprintf_sd_def)

lemma suffix_end: "has_suffix (xs @ ys) ys"
  by (simp add: has_suffix_def)

lemma cloud_keys_custom: "(KPP, ns, m @ ''-custom-configmap-pp'') \<in> cloud_keys f ns n"
  using suffix_end[of m "''-custom-configmap-pp''"] by (simp add: cloud_keys_def cloud_kinds_def)

lemmas generated_keys =
  okey_of_def meta_of_def GenerateService_def GenerateServicePP_def GenerateConfigMap_def GenerateConfigMapPP_def
  GenerateMongoPP_def GenerateMongoOPWithPath_def GenerateMongoOPWithLabel_def vip_override_def cloud_kinds_def

lemma GenerateMongo_key: "GenerateMongo rt m ns ls cr = Ok g \<Longrightarrow> okey_of (OMongo g) = (KMongo, ns, m)"
  by (auto simp: GenerateMongo_def okey_of_def meta_of_def Let_def split: option.splits if_splits)

lemma keeps_next: "(\<And>h. next = Some h \<Longrightarrow> keeps J h) \<Longrightarrow> keeps J (run_next next)"
  unfolding run_next_def by (auto split: option.splits)

context kube_api
begin

lemma yields_GetConfigMap:
  "yields (apart objs inv f K) (GetConfigMap cli m ns) (\<lambda>c. okey_of (OConfigMap c) = (KConfigMap, ns, m))"
proof -
  have "(case x of OConfigMap s \<Rightarrow> Some s | _ \<Rightarrow> None) = Some a \<longleftrightarrow> x = OConfigMap a" for x a
    by (cases x) auto
  then have "yields (apart objs inv f K) (get_as cli (\<lambda>x. case x of OConfigMap s \<Rightarrow> Some s | _ \<Rightarrow> None) (KConfigMap, ns, m))
      (\<lambda>c. okey_of (OConfigMap c) = (KConfigMap, ns, m))"
    by (intro yields_weaken[OF yields_get_as]) auto
  then show ?thesis unfolding GetConfigMap_def
    by (rule yields_bind[OF yields_attempt]) (auto simp: answers_def intro: yields_basic split: sum.splits)
qed

lemma apart_lists [cloud_intros]:
  "keeps (apart objs inv f K) (ListClusterByLabel cli)" "keeps (apart objs inv f K) (ListSvcPPByLabel cli l)"
  "keeps (apart objs inv f K) (GetRBByName cli m ns)" "keeps (apart objs inv f K) (GetSvc cli ns m)"
  unfolding ListClusterByLabel_def ListSvcPPByLabel_def GetRBByName_def GetSvc_def
  by (intro keeps_bind keeps_basic frame_intros)+


lemma within_schedule:
  assumes "\<And>h. next = Some h \<Longrightarrow> keeps (within objs inv f ns n) h"
  shows "keeps (within objs inv f ns n) (GetScheduleStatusHandler cli rt next)"
  unfolding GetScheduleStatusHandler_def Let_def
  by (intro within_cr keeps_with_report within_record keeps_reporting(1) keeps_on_state(1) keeps_bind within_parts keeps_if
      keeps_basic keeps_next assms keeps_case_sum within_modify; simp)

lemma within_vip:
  assumes "\<And>h. next = Some h \<Longrightarrow> keeps (within objs inv f ns n) h"
  shows "keeps (within objs inv f ns n) (VIPAllocatorHandler cli next)"
  unfolding VIPAllocatorHandler_def
  by (intro keeps_bind within_parts within_modify within_api apart_lists keeps_next assms) simp_all

lemma within_clean: "keeps (\<lambda>p. within objs inv f ns n (fst p)) (scale_down_clean cli rt)"
proof -
  have J: "yields (\<lambda>p. within objs inv f ns n (fst p)) (on_state (gets h_cr)) (\<lambda>c. cr_ns c = ns \<and> cr_name c = n)"
    by (intro keeps_on_state(2) yields_basic(4)) (simp only: within_def cloud_key)
  show ?thesis unfolding scale_down_clean_def
    by (rule keeps_bind_yields[OF J], elim conjE, simp only:,
        rule keeps_bind_yields[OF keeps_reporting(2)[OF within_api_yields[OF yields_listed(1)]]],
        rule keeps_bind_yields[OF keeps_reporting(2)[OF within_api_yields[OF yields_listed(2)]]])
      (intro keeps_reporting within_api apart_cleaner; simp)
qed

lemma within_apply_service:
  assumes "cr_ns c = ns" "cr_name c = n"
  shows "keeps (apart objs inv f (cloud_keys f ns n)) (apply_service cli c plan i)"
  unfolding apply_service_def Let_def assms
  by (intro keeps_if keeps_basic keeps_bind apart_ensures) (auto simp: generated_keys intro!: cloud_keys_named)

lemma within_scale_up:
  assumes "\<And>h. next = Some h \<Longrightarrow> keeps (within objs inv f ns n) h"
  shows "keeps (within objs inv f ns n) (scale_up cli rt up next)"
  unfolding scale_up_def Let_def
  by (intro within_cr keeps_bind within_parts keeps_with_report within_record keeps_on_state within_api keeps_for_each
      within_apply_service keeps_next assms keeps_basic; simp)

lemma within_scale_down:
  assumes "\<And>h. next = Some h \<Longrightarrow> keeps (within objs inv f ns n) h"
  shows "keeps (within objs inv f ns n) (scale_down cli rt up down next)"
  unfolding scale_down_def
  by (intro within_cr keeps_bind within_parts keeps_with_report within_record keeps_basic keeps_if within_clean keeps_on_state
      keeps_case_option within_scale_up assms; simp)

lemma within_scale:
  assumes "\<And>h. next = Some h \<Longrightarrow> keeps (within objs inv f ns n) h"
  shows "keeps (within objs inv f ns n) (ClusterScaleHandler cli rt next)"
  unfolding ClusterScaleHandler_def Let_def
  by (intro keeps_bind within_parts within_modify within_cr keeps_attempt within_api apart_getters keeps_basic keeps_if
      keeps_case_sum within_scale_up within_scale_down assms; simp)

end

context kube_api
begin

lemma within_arbiter:
  assumes "\<And>h. next = Some h \<Longrightarrow> keeps (within objs inv f ns n) h"
  shows "keeps (within objs inv f ns n) (UpsertArbiterHandler cli next)"
proof -
  have on: "keeps (within objs inv f ns n) (arbiter_on cli c)" if "cr_ns c = ns" "cr_name c = n" for c
    unfolding arbiter_on_def Let_def that
    by (intro keeps_bind within_parts within_modify within_api apart_ensures)
      (auto simp: generated_keys intro!: cloud_keys_named)
  have off: "keeps (within objs inv f ns n) (arbiter_off cli c)" if "cr_ns c = ns" "cr_name c = n" for c
    unfolding arbiter_off_def Let_def that
    by (intro keeps_bind within_api apart_removals cloud_keys_named) (simp_all add: cloud_kinds_def)
  show ?thesis unfolding UpsertArbiterHandler_def
    by (intro within_cr keeps_bind keeps_if on off keeps_next[OF assms])
qed

lemma within_members:
  "keeps (within objs inv f ns n) (collect_members cli vips pps)" "keeps (within objs inv f ns n) (arbiter_member cli c vips)"
proof -
  have "keeps (within objs inv f ns n) (policy_members vips s cs)" for s cs
    by (induction cs) (auto intro!: keeps_bind within_parts within_modify)
  then show "keeps (within objs inv f ns n) (collect_members cli vips pps)"
    by (induction pps) (auto intro!: keeps_bind within_parts within_api apart_lists)
  show "keeps (within objs inv f ns n) (arbiter_member cli c vips)"
    unfolding arbiter_member_def Let_def
    by (intro keeps_bind within_parts within_modify within_api apart_lists keeps_basic; simp)
qed

lemma within_host_config:
  assumes "\<And>h. next = Some h \<Longrightarrow> keeps (within objs inv f ns n) h"
  shows "keeps (within objs inv f ns n) (HostConfigMapHandler cli next)"
proof -
  have key: "okey_of (OConfigMap (GenerateConfigMap (n @ ''-hostconf'') ns l hc)) \<in> cloud_keys f ns n"
    "okey_of (OPP (GenerateConfigMapPP (om_name (cm_meta (GenerateConfigMap (n @ ''-hostconf'') ns l hc)) @ ''-pp'')
      (om_namespace (cm_meta (GenerateConfigMap (n @ ''-hostconf'') ns l hc))) cm l2 cl)) \<in> cloud_keys f ns n" for l hc cm l2 cl
    by (auto simp: generated_keys intro!: cloud_keys_named)
  show ?thesis unfolding HostConfigMapHandler_def Let_def
    by (rule within_cr) (simp only:, intro keeps_bind within_members within_api apart_lists keeps_basic keeps_if
      apart_ensures key keeps_next[OF assms])
qed

lemma within_dependency:
  assumes "\<And>h. next = Some h \<Longrightarrow> keeps (within objs inv f ns n) h"
  shows "keeps (within objs inv f ns n) (MongoDependencyHandler cli next)"
proof -
  have dep: "keeps (within objs inv f ns n) (bindg (Handlers.api (GetConfigMap cli m ns)) (\<lambda>cm. bindg (gets h_active) (\<lambda>active.
      Handlers.api (UpsertPPEnsure cli c (GenerateConfigMapPP (om_name (cm_meta cm) @ ''-custom-configmap-pp'')
        (om_namespace (cm_meta cm)) cm (GenerateCustomConfigMapPPLabel (om_labels (cm_meta cm)) (n @ ''-custom-configmap-pp''))
        active)))))" for m c
    by (rule keeps_bind_yields[OF within_api_yields[OF yields_GetConfigMap]])
      (intro keeps_bind keeps_basic within_api apart_ensures, auto simp: generated_keys cloud_keys_custom)
  show ?thesis unfolding MongoDependencyHandler_def Let_def
    by (rule within_cr, rule keeps_bind[OF keeps_case_option keeps_next[OF assms]]) (simp_all only: keeps_basic dep)
qed

lemma within_mongo:
  assumes "\<And>h. next = Some h \<Longrightarrow> keeps (within objs inv f ns n) h"
  shows "keeps (within objs inv f ns n) (MongoHandler cli rt next)"
proof -
  have key: "okey_of (OOP (GenerateMongoOPWithPath (n @ ''-init'') ns cl l c path)) \<in> cloud_keys f ns n"
    "okey_of (OPP (GenerateMongoPP n ns l c sched active)) \<in> cloud_keys f ns n" for cl l c path sched active
    by (auto simp: generated_keys intro!: cloud_keys_named)
  have vip: "okey_of (OOP (vip_override c vips cl)) \<in> cloud_keys f ns n" if "cr_ns c = ns" "cr_name c = n" for c vips cl
    using that by (auto simp: generated_keys intro!: cloud_keys_named)
  have gen: "yields (within objs inv f ns n) (lift_outcome (GenerateMongo rt n ns l c)) (\<lambda>g. okey_of (OMongo g) = (KMongo, ns, n))"
    for l c by (rule yields_basic(5)) (rule GenerateMongo_key)
  show ?thesis unfolding MongoHandler_def Let_def
  proof (rule within_cr)
    fix c assume c: "cr_ns c = ns" "cr_name c = n"
    show "keeps (within objs inv f ns n) (bindg (lift_outcome (GenerateMongo rt (cr_name c) (cr_ns c)
        (BaseLabel (cr_labels c) (cr_name c)) c)) (\<lambda>mongoCR.
       andthen (Handlers.api (EnsureMongoWithoutSetRef cli mongoCR))
         (bindg need_sched (\<lambda>sched. bindg (first_of sched) (\<lambda>c0.
            andthen (Handlers.api (UpsertOpEnsure cli c (GenerateMongoOPWithPath (cr_name c @ ''-init'')
                      (cr_ns c) (cw_cluster c0) (GenerateInitLabel (cr_labels c) (cr_name c)) c ''/spec/rsInit'')))
              (bindg (gets (\<lambda>s. (h_active s, h_vips s))) (\<lambda>(active, vips).
                 andthen (Handlers.api (for_each active (\<lambda>cluster. UpsertOpEnsure cli c (vip_override c vips cluster))))
                   (andthen (Handlers.api (UpsertPPEnsure cli c (GenerateMongoPP (cr_name c) (cr_ns c)
                              (BaseLabel (cr_labels c) (cr_name c)) c sched active)))
                     (run_next next)))))))))" unfolding c
      by (rule keeps_bind_yields[OF gen])
        (auto intro!: keeps_bind within_parts within_api apart_ensures keeps_for_each key vip c keeps_next[OF assms] cloud_keys_named
          simp: cloud_kinds_def split: prod.splits)
  qed
qed

lemma within_status: "keeps (within objs inv f ns n) (StatusHandler cli rt)"
proof -
  have agg: "keeps (within objs inv f ns n) (aggregate_status rt items)" for items
    unfolding aggregate_status_def by (auto intro!: keeps_bind within_parts split: prod.splits)
  show ?thesis unfolding StatusHandler_def status_body_def Let_def
    by (intro keeps_with_report within_record keeps_bind keeps_on_state(1) keeps_reporting(1) keeps_basic keeps_if agg
        within_parts within_api apart_lists keeps_report within_modify; simp)
qed

lemma within_chain: "keeps (within objs inv f ns n) (BuildMultiCloudDBHandlerChain cli rt)"
  unfolding BuildMultiCloudDBHandlerChain_def
  by (rule within_schedule, (drule option.inject[THEN iffD1], erule subst)?)
    (auto intro!: within_vip within_scale within_arbiter within_host_config within_dependency within_mongo within_status)

end

context kube_api
begin

lemma Reconcile_footprint: "keeps (apart objs inv f (cloud_keys f ns n)) (Reconcile cli rt ns n)"
proof -
  let ?A = "apart objs inv f (cloud_keys f ns n)"
  have chain: "keeps ?A (run_chain cli rt c)" if "okey_of (OMultiCloud c) = (KMultiCloud, ns, n)" for c
  proof (rule keepsI)
    fix w r w' assume w: "?A w" and run: "run_chain cli rt c w = (r, w')"
    obtain q s where s: "BuildMultiCloudDBHandlerChain cli rt (initial_params c w) = (q, s)" by fastforce
    have "within objs inv f ns n (initial_params c w)" using w that by (simp add: within_def initial_params_def)
    from keepsD[OF within_chain this s] run s show "?A w'"
      by (cases q) (auto simp: run_chain_def within_def)
  qed
  have key: "okey_of (OMultiCloud (set_finalizers fs c)) = okey_of (OMultiCloud c)" for fs c
    by (simp add: set_finalizers_def okey_of_def)
  have upd: "yields ?A (UpdateObject cli (OMultiCloud (set_finalizers fs c))) (\<lambda>y. okey_of y = (KMultiCloud, ns, n))"
    if "okey_of (OMultiCloud c) = (KMultiCloud, ns, n)" for fs c
    using yields_update(1)[of "OMultiCloud (set_finalizers fs c)" "cloud_keys f ns n"] that
    by (simp add: UpdateObject_def key)
  have result: "keeps ?A (or_result m g)" if "yields ?A m Q" "\<And>x. Q x \<Longrightarrow> keeps ?A (g x)" for m g Q
    unfolding or_result_def
    by (rule keeps_bind_yields[OF yields_attempt[OF that(1)]]) (auto simp: that(2) split: sum.splits)
  have got: "(case x of OMultiCloud s \<Rightarrow> Some s | _ \<Rightarrow> None) = Some a \<longleftrightarrow> x = OMultiCloud a" for x a
    by (cases x) auto
  have get: "yields ?A (get_as cli (\<lambda>x. case x of OMultiCloud m \<Rightarrow> Some m | _ \<Rightarrow> None) (KMultiCloud, ns, n))
      (\<lambda>c. okey_of (OMultiCloud c) = (KMultiCloud, ns, n))"
    by (rule yields_weaken[OF yields_get_as]) (auto simp: got)
  have add: "keeps ?A (or_result (UpdateObject cli (OMultiCloud (set_finalizers fs c))) (\<lambda>x.
      case x of OMultiCloud c' \<Rightarrow> run_chain cli rt c' | _ \<Rightarrow> panic ''interface conversion''))"
    if "okey_of (OMultiCloud c) = (KMultiCloud, ns, n)" for fs c
    by (rule result[OF upd[OF that]]) (auto intro: chain split: kobj.splits)
  have drop: "keeps ?A (or_result (deleteExternalResources cli c) (\<lambda>_.
      or_result (UpdateObject cli (OMultiCloud (set_finalizers fs c))) (\<lambda>_. ret (None, None))))"
    if "okey_of (OMultiCloud c) = (KMultiCloud, ns, n)" for fs c
    by (rule result[OF yields_any[OF apart_cleanup]], use that in \<open>simp_all add: cloud_key\<close>)
      (rule result[OF upd], use that in \<open>simp_all add: cloud_key keeps_basic\<close>)
  show ?thesis unfolding Reconcile_def Let_def
    by (rule keeps_bind_yields[OF yields_attempt[OF get]])
      (auto simp: answers_def intro: chain add drop split: sum.splits)
qed

end

section \<open>Properties\<close>

text \<open>
  C17: a round of the MultiCloudMongoDB controller, however it ends, changes only its own resource, the
  services, ConfigMaps, MongoDBs and policies of its namespace that are named after it or whose labels
  name it, and the policies of custom ConfigMaps. A policy whose labels name it may also be of another
  namespace: the policies of the services are listed over all of them.
\<close>

theorem cloud_round_footprint:
  assumes "kube_api cli objs I" and "I w" and "Reconcile cli rt ns n w = (r, w')"
    and "k \<notin> cloud_keys (objs w) ns n"
  shows "I w' \<and> objs w' k = objs w k"
proof -
  have "apart objs I (objs w) (cloud_keys (objs w) ns n) w" using assms(2) by simp
  from keepsD[OF kube_api.Reconcile_footprint[OF assms(1)] this assms(3)]
  show ?thesis using apartD assms(4) by metis
qed

text \<open>Another MongoDB of the same namespace.\<close>

definition neighbour_mongo :: mongodb where
  "neighbour_mongo = ready_mongo\<lparr>mg_meta := (meta_of ''other'' ''ns'' [])\<lparr>om_rv := ''7''\<rparr>\<rparr>"

theorem cloud_round_footprint_witness:
  "\<exists>r w'. Reconcile mem_client sample_runtime ''ns'' ''m''
      (mem_of [stored_at ''3'' (OMultiCloud sample_cr), OMongo neighbour_mongo]) = (r, w') \<and>
    mem_lookup w' (KMongo, ''ns'', ''other'') = Some (OMongo neighbour_mongo)"
proof -
  let ?w = "mem_of [stored_at ''3'' (OMultiCloud sample_cr), OMongo neighbour_mongo]"
  let ?k = "(KMongo, ''ns'', ''other'')"
  obtain r w' where run: "Reconcile mem_client sample_runtime ''ns'' ''m'' ?w = (r, w')" by fastforce
  have inv: "mem_inv ?w" by code_simp
  have look: "mem_lookup ?w ?k = Some (OMongo neighbour_mongo)"
    by (simp add: mem_lookup_def mem_of_def okey_of_def neighbour_mongo_def stored_at_def set_rv_def sample_cr_def meta_of_def)
  have "?k \<notin> cloud_keys (mem_lookup ?w) ''ns'' ''m''"
    using look by (simp add: cloud_keys_def named_after_def marked_def neighbour_mongo_def meta_of_def)
  from cloud_round_footprint[OF mem.kube_api_axioms inv run this] look run show ?thesis by auto
qed

section \<open>The policies of a namesake\<close>

text \<open>
  The clean-up of a scale-down to the one service in use deletes also the policy of the third service of
  the MultiCloudMongoDB that has the same name in another namespace.
\<close>

definition service_policy :: "string \<Rightarrow> string \<Rightarrow> propagation_policy" where
  "service_policy ns svc = (sample_policy [''a''] [])
     \<lparr>pp_meta := (meta_of (svc @ ''-pp'') ns
        (GenerateServicePPLabel (GenerateServiceLabel [] ''m'' svc) ''m-service-pp''))\<lparr>om_rv := ''7''\<rparr>,
      pp_selectors := [service_selector svc]\<rparr>"

definition namesakes :: mem where
  "namesakes = mem_of [OService ((sample_service ''m-mongodb-0'' 1)
       \<lparr>svc_meta := (meta_of ''m-mongodb-0'' ''ns'' (BaseLabel [] ''m''))\<lparr>om_rv := ''7''\<rparr>\<rparr>),
     OPP (service_policy ''ns'' ''m-mongodb-0''), OPP (service_policy ''other'' ''m-mongodb-2'')]"

lemma foreign_policy_deleted:
  "let s = fst (snd (scale_down_clean mem_client sample_runtime
       ((sample_state namesakes)\<lparr>h_cr := with_result [sample_topology ''a'' [(''10.0.0.1:1'', ''PRIMARY'')]] sample_cr\<rparr>,
        ready_report)))
   in mem_lookup (h_world s) (KPP, ''other'', ''m-mongodb-2-pp'') = None \<and>
     mem_lookup (h_world s) (KPP, ''ns'', ''m-mongodb-0-pp'') = Some (OPP (service_policy ''ns'' ''m-mongodb-0'')) \<and>
     mem_lookup namesakes (KPP, ''other'', ''m-mongodb-2-pp'') = Some (OPP (service_policy ''other'' ''m-mongodb-2''))"
  by code_simp

section \<open>Owners after an upsert\<close>

text \<open>
  \<open>UpsertPPEnsure\<close> sets the owner only of a policy it creates; the update of a policy whose clusters changed
  writes the generated object, which has none, so the garbage collector no longer knows the policy. One
  without the base labels, such as the arbiter's, then outlives the clean-up of its instance.
\<close>

lemma upsert_drops_owner:
  "let owners = (\<lambda>w. map_option (om_owners \<circ> ometa) (mem_lookup w (KPP, ''ns'', ''p'')));
       w1 = snd (UpsertPPEnsure mem_client sample_cr (sample_policy [''a''] []) (mem_of []));
       w2 = snd (UpsertPPEnsure mem_client sample_cr (sample_policy [''a'', ''b''] []) w1)
   in (\<exists>x os. owners w1 = Some (x # os)) \<and> owners w2 = Some []"
proof -
  let ?owners = "\<lambda>w. map_option (om_owners \<circ> ometa) (mem_lookup w (KPP, ''ns'', ''p''))"
  let ?w1 = "snd (UpsertPPEnsure mem_client sample_cr (sample_policy [''a''] []) (mem_of []))"
  have "case ?owners ?w1 of Some (x # os) \<Rightarrow> True | _ \<Rightarrow> False" by code_simp
  moreover have "?owners (snd (UpsertPPEnsure mem_client sample_cr (sample_policy [''a'', ''b''] []) ?w1)) = Some []"
    by code_simp
  ultimately show ?thesis by (auto simp: Let_def split: option.splits list.splits)
qed

end
