(* ===== verification/Restart_Laws.thy ===== *)
theory Restart_Laws
  imports Plane_Frame
begin

text \<open>
  The restart of a replica set as a machine over \<open>status.restartState\<close>: which pods a call of \<open>Restart\<close>
  may delete in which state, when, and how the stored state moves.
\<close>

section \<open>The primary\<close>

text \<open>The address under which the replica set knows a pod: the virtual address and its service's node port.\<close>

definition pod_host :: "(okey \<Rightarrow> kobj option) \<Rightarrow> mongodb \<Rightarrow> pod \<Rightarrow> string option" where
  "pod_host f cr p = (case om_owners (po_meta p) of
     [] \<Rightarrow> None
   | n # _ \<Rightarrow> (case f (KService, cr_ns' cr, n) of
       Some (OService svc) \<Rightarrow> (case svc_ports svc of
           port # _ \<Rightarrow> Some (gm_get '''' (om_labels (mg_meta cr)) LabelKeyClusterVIP @ '':'' @
             itoa (sint (spo_node_port port)))
         | [] \<Rightarrow> None)
     | _ \<Rightarrow> None))"

lemma pod_host_cong:
  "(\<And>k. fst k = KService \<Longrightarrow> f k = g k) \<Longrightarrow> pod_host f cr p = pod_host g cr p"
  by (simp add: pod_host_def split: list.splits)

context plane_api
begin

lemma GetService_run:
  assumes "GetService cli ns n w = (Ok svc, w')"
  shows "objs w (KService, ns, n) = Some (OService svc)"
proof -
  from assms obtain x where "c_get cli (KService, ns, n) w = (Ok x, w')" "x = OService svc"
    by (auto simp: GetService_def get_as_def bindg_Ok_iff go_simps split: option.splits kobj.splits)
  then show ?thesis using get_Ok by blast
qed

lemma judge_run:
  assumes "judgePodIsPrimary E p primary s = (Ok b, s')"
  shows "\<exists>x. pod_host (objs (b_api s)) (b_cr s) p = Some x \<and> (b \<longleftrightarrow> x = primary)"
proof -
  obtain port s1 where port: "GetServiceNodePort E p s = (Ok port, s1)"
    and b: "b \<longleftrightarrow> gm_get '''' (om_labels (mg_meta (b_cr s1))) LabelKeyClusterVIP @ '':'' @ itoa (sint port) = primary"
    using assms unfolding judgePodIsPrimary_def attempt_case_Ok by (auto simp: bindg_Ok_iff go_simps)
  from port obtain n where n: "owner_of p s = (Ok n, s)" and
      rest: "bindg (api (GetService (e_cli E) (cr_ns' (b_cr s)) n)) (\<lambda>svc. case svc_ports svc of
       port # _ \<Rightarrow> ret (spo_node_port port) | [] \<Rightarrow> panic ''index out of range [0]'') s = (Ok port, s1)"
    by (cases "om_owners (po_meta p)") (auto simp: GetServiceNodePort_def owner_of_def bindg_Ok_iff go_simps)
  then obtain svc w where svc: "GetService cli (cr_ns' (b_cr s)) n (b_api s) = (Ok svc, w)" and
      ret: "(case svc_ports svc of port # _ \<Rightarrow> ret (spo_node_port port)
         | [] \<Rightarrow> panic ''index out of range [0]'') (s\<lparr>b_api := w\<rparr>) = (Ok port, s1)"
    by (auto simp: bindg_Ok_iff api_run e_client)
  from ret obtain q qs where "svc_ports svc = q # qs" "spo_node_port q = port" "b_cr s1 = b_cr s"
    by (cases "svc_ports svc") (auto simp: go_simps)
  moreover obtain ns where "om_owners (po_meta p) = n # ns"
    using n by (cases "om_owners (po_meta p)") (auto simp: owner_of_def go_simps)
  ultimately show ?thesis using GetService_run[OF svc] b by (simp add: pod_host_def)
qed

end

context plane_api
begin

text \<open>What follows a decision may use what the decision says of the pod's address.\<close>

lemma framed_judged:
  assumes K: "\<And>k. fst k = KService \<Longrightarrow> k \<notin> K"
    and body: "\<And>b x. pod_host f c p = Some x \<Longrightarrow> b = (x = primary) \<Longrightarrow> keeps (framed objs inv f K c h) (m b)"
  shows "keeps (framed objs inv f K c h) (bindg (judgePodIsPrimary E p primary) m)"
proof (rule keepsI)
  fix s r t assume s: "framed objs inv f K c h s" and run: "bindg (judgePodIsPrimary E p primary) m s = (r, t)"
  obtain q u where judge: "judgePodIsPrimary E p primary s = (q, u)" by fastforce
  then have u: "framed objs inv f K c h u" using keepsD[OF framed_queries(7) s] by blast
  show "framed objs inv f K c h t"
  proof (cases q)
    case (Ok b)
    with judge judge_run obtain x where "pod_host (objs (b_api s)) (b_cr s) p = Some x" "b \<longleftrightarrow> x = primary"
      by blast
    moreover have "pod_host (objs (b_api s)) (b_cr s) p = pod_host f c p"
      using s K by (auto simp: framed_def apart_def intro: pod_host_cong)
    ultimately have "keeps (framed objs inv f K c h) (m b)" using body by simp
    with u run judge Ok show ?thesis by (auto simp: go_simps dest: keepsD)
  qed (use run judge u in \<open>auto simp: go_simps\<close>)
qed

lemma framed_deletions:
  assumes K: "\<And>k. fst k = KService \<Longrightarrow> k \<notin> K"
  shows "(\<And>p. p \<in> set pods \<Longrightarrow> pod_host f c p \<noteq> Some primary \<Longrightarrow> okey_of (OPod p) \<in> K) \<Longrightarrow>
      keeps (framed objs inv f K c h) (delete_secondaries E primary pods)"
    and "(\<And>p. p \<in> set pods \<Longrightarrow> pod_host f c p = Some primary \<Longrightarrow> okey_of (OPod p) \<in> K) \<Longrightarrow>
      keeps (framed objs inv f K c h) (delete_primary E primary pods)"
  unfolding delete_secondaries_def delete_primary_def
  by (intro keeps_for_each framed_judged K; auto intro!: keeps_bind frame_intros)+

lemma list_pods_stored:
  assumes "inv (b_api s)" "\<And>ps. set (e_sort_pods E ps) = set ps" "list_pods E l fs s = (Ok pods, s')"
  shows "\<forall>p \<in> set pods. objs (b_api s) (okey_of (OPod p)) = Some (OPod p)"
proof -
  obtain xs w where "c_list cli KPod (Some (cr_ns' (b_cr s))) (MatchingLabels l) (b_api s) = (Ok xs, w)"
      and pods: "set pods \<subseteq> set (pods_of xs)"
    using assms(3) by (auto simp: list_pods_def base_ListPod_def ListPod_def bindg_Ok_iff go_simps api_run e_client
        assms(2) PodFilter_eq)
  with list_Ok[OF assms(1)] have "\<forall>x \<in> set xs. objs (b_api s) (okey_of x) = Some x" by auto
  with pods show ?thesis by (fastforce simp: pods_of_def List.map_filter_def split: kobj.splits)
qed

end


section \<open>One call of Restart\<close>

text \<open>What may be deleted in a restart state, and where the state goes next.\<close>

definition deletable :: "restart_state \<Rightarrow> string \<Rightarrow> string option \<Rightarrow> bool" where
  "deletable st primary host = (case st of
     RestartNone \<Rightarrow> host \<noteq> Some primary | RestartNotInProcess \<Rightarrow> host \<noteq> Some primary
   | RestartSecondaryDeleted \<Rightarrow> host = Some primary | _ \<Rightarrow> False)"

fun next_restart :: "restart_state \<Rightarrow> restart_state" where
  "next_restart RestartNone = RestartSecondaryDeleted"
| "next_restart RestartNotInProcess = RestartSecondaryDeleted"
| "next_restart RestartSecondaryDeleted = RestartPrimaryDeleted"
| "next_restart RestartPrimaryDeleted = RestartNotInProcess"
| "next_restart (OtherRestart t) = OtherRestart t"

text \<open>\<open>s2\<close> is reached from \<open>s1\<close> by at most the write of the next restart state.\<close>

definition wrote_restart :: "('w, 'm) benv \<Rightarrow> restart_state \<Rightarrow> ('w, 'm) bstate \<Rightarrow> ('w, 'm) bstate \<Rightarrow> bool" where
  "wrote_restart E st s1 s2 \<longleftrightarrow> s2 = s1 \<or> (\<exists>q. UpdateRestartState E st s1 = (q, s2))"

lemma finish_restart_cases:
  assumes "finish_restart E over work next s = (r, s')"
  obtains s1 q where "work s = (q, s1)" "wrote_restart E next s1 s'"
    "\<And>b e. r = Ok (b, e) \<Longrightarrow> b \<Longrightarrow> over"
proof -
  obtain q s1 where work: "work s = (q, s1)" by fastforce
  show ?thesis
  proof (cases q)
    case (Ok u)
    obtain q2 s2 where "UpdateRestartState E next s1 = (q2, s2)" by fastforce
    with assms work Ok have "s' = s2" "\<And>b e. r = Ok (b, e) \<Longrightarrow> b \<Longrightarrow> over"
      by (cases q2; auto simp: finish_restart_def bindg_def attempt_def ret_def)+
    with work \<open>UpdateRestartState E next s1 = (q2, s2)\<close> show ?thesis
      by (intro that) (auto simp: wrote_restart_def)
  next
    case (Err e)
    with assms work show ?thesis
      by (intro that[of q s1]) (auto simp: finish_restart_def bindg_def attempt_def ret_def wrote_restart_def)
  next
    case (Panic p)
    with assms work show ?thesis
      by (intro that[of q s1]) (auto simp: finish_restart_def bindg_def attempt_def wrote_restart_def)
  qed
qed

text \<open>The keys a call of \<open>Restart\<close> may touch before it writes the status.\<close>

definition restart_keys :: "(okey \<Rightarrow> kobj option) \<Rightarrow> mongodb \<Rightarrow> pod list \<Rightarrow> string \<Rightarrow> okey set" where
  "restart_keys f c pods primary = {k. fst k = KSts} \<union>
     {okey_of (OPod p) |p. p \<in> set pods \<and> deletable (mgt_restart (mg_status c)) primary (pod_host f c p)}"

lemma restart_keys_services: "fst k = KService \<Longrightarrow> k \<notin> restart_keys f c pods primary"
  by (auto simp: restart_keys_def okey_of_def)

context plane_api
begin

lemma restart_step_framed:
  assumes s: "framed objs inv f (restart_keys f c pods primary) c h s"
    and run: "restart_step E primary pods (mgt_restart (mg_status c)) s = (r, s')"
  obtains s1 where "framed objs inv f (restart_keys f c pods primary) c h s1"
    "wrote_restart E (next_restart (mgt_restart (mg_status c))) s1 s'"
    "\<And>b e. r = Ok (b, e) \<Longrightarrow> b \<Longrightarrow> mgt_restart (mg_status c) = RestartPrimaryDeleted"
proof -
  let ?K = "restart_keys f c pods primary" and ?st = "mgt_restart (mg_status c)"
  note reached = that
  have work: thesis
    if "finish_restart E over work nxt s = (r, s')" and frame: "keeps (framed objs inv f ?K c h) work"
      and nxt: "nxt = next_restart ?st" and over: "over \<Longrightarrow> ?st = RestartPrimaryDeleted" for over work nxt
    using \<open>finish_restart E over work nxt s = (r, s')\<close>
  proof (rule finish_restart_cases)
    fix s1 q assume "work s = (q, s1)" "wrote_restart E nxt s1 s'" "\<And>b e. r = Ok (b, e) \<Longrightarrow> b \<Longrightarrow> over"
    then show thesis using keepsD[OF frame s] nxt over by (intro reached[of s1]) auto
  qed
  have sec: "keeps (framed objs inv f ?K c h) (delete_secondaries E primary pods)"
    if "?st = RestartNone \<or> ?st = RestartNotInProcess"
    using that by (intro framed_deletions(1) restart_keys_services) (auto simp: restart_keys_def deletable_def)
  have prim: "keeps (framed objs inv f ?K c h) (delete_primary E primary pods)" if "?st = RestartSecondaryDeleted"
    using that by (intro framed_deletions(2) restart_keys_services) (auto simp: restart_keys_def deletable_def)
  show thesis
  proof (cases ?st)
    case (OtherRestart t)
    with run s show thesis by (intro reached[of s]) (auto simp: restart_step_def go_simps wrote_restart_def)
  qed (use run sec prim in \<open>auto simp: restart_step_def intro!: work\<close>)
qed

end


text \<open>The pods the call listed, and the primary in the status it was then given.\<close>

definition seen ::
    "('w, 'm) benv \<Rightarrow> ('w, 'm) bstate \<Rightarrow> pod list \<Rightarrow> string \<Rightarrow> bool" where
  "seen E s pods primary \<longleftrightarrow> (\<exists>t ms u. replset_pods E s = (Ok pods, t) \<and> GetMgoReplSetStatus E t = (Ok ms, u) \<and>
     primary = (case find (\<lambda>m. mb_state_str m = Primary) ms of None \<Rightarrow> '''' | Some m \<Rightarrow> mb_host m))"

lemma first_primary_find:
  "first_primary ms = (case find (\<lambda>m. mb_state_str m = Primary) ms of None \<Rightarrow> '''' | Some m \<Rightarrow> mb_host m)"
  by (induction ms) auto

lemma GetPrimaryPod_seen:
  assumes "replset_pods E s = (Ok pods, t)" "GetPrimaryPod E t = (Ok primary, u)"
  shows "seen E s pods primary"
  using assms by (auto simp: seen_def GetPrimaryPod_def bindg_Ok_iff go_simps first_primary_find)

context plane_api
begin

lemma Restart_cases:
  assumes I: "inv (b_api s)" and sort: "\<And>ps. set (e_sort_pods E ps) = set ps" and run: "Restart E s = (r, s')"
  obtains (nothing) "framed objs inv (objs (b_api s)) {} (b_cr s) (b_held s) s'" "\<And>b e. r = Ok (b, e) \<Longrightarrow> \<not> b"
  | (worked) pods primary s1 where "\<forall>p \<in> set pods. objs (b_api s) (okey_of (OPod p)) = Some (OPod p)"
      "CheckPodsReady (mgs_members (mg_spec (b_cr s))) pods = Ok ()" "seen E s pods primary"
      "framed objs inv (objs (b_api s)) (restart_keys (objs (b_api s)) (b_cr s) pods primary) (b_cr s) (b_held s) s1"
      "wrote_restart E (next_restart (mgt_restart (mg_status (b_cr s)))) s1 s'"
      "\<And>b e. r = Ok (b, e) \<Longrightarrow> b \<Longrightarrow> mgt_restart (mg_status (b_cr s)) = RestartPrimaryDeleted"
proof -
  let ?f = "objs (b_api s)" and ?c = "b_cr s" and ?h = "b_held s"
  let ?F = "\<lambda>K. framed objs inv ?f K ?c ?h"
  have s: "?F {} s" using I by simp
  obtain q s1 where list: "replset_pods E s = (q, s1)" by fastforce
  have s1: "?F {} s1" using keepsD[OF framed_queries(2) s list] .
  show ?thesis
  proof (cases q)
    case (Ok pods)
    have live: "\<forall>p \<in> set pods. ?f (okey_of (OPod p)) = Some (OPod p)"
    proof -
      obtain l where "list_pods E l [] s = (Ok pods, s1)"
        using list Ok by (auto simp: replset_pods_def bindg_Ok_iff go_simps)
      then show ?thesis by (rule list_pods_stored[OF I sort])
    qed
    show ?thesis
    proof (cases "CheckPodsReady (mgs_members (mg_spec ?c)) pods")
      case ready: (Ok u)
      obtain q2 s2 where prim: "GetPrimaryPod E s1 = (q2, s2)" by fastforce
      have s2: "?F {} s2" using keepsD[OF framed_queries(5) s1 prim] .
      show ?thesis
      proof (cases q2)
        case primary: (Ok primary)
        let ?K = "restart_keys ?f ?c pods primary"
        have rep: "seen E s pods primary" using GetPrimaryPod_seen list Ok prim primary by blast
        have s2K: "?F ?K s2" using s2 by (auto simp: framed_def apart_def)
        obtain q3 s3 where appl: "for_each pods (apply_resources E) s2 = (q3, s3)" by fastforce
        have "keeps (?F ?K) (for_each pods (apply_resources E))"
          by (intro keeps_for_each framed_apply(2)) (simp add: restart_keys_def)
        then have s3: "?F ?K s3" using s2K appl by (rule keepsD)
        show ?thesis
        proof (cases q3)
          case (Ok v)
          then have "restart_step E primary pods (mgt_restart (mg_status ?c)) s3 = (r, s')"
            using run list \<open>q = Ok pods\<close> s1 ready prim primary appl s3
            by (auto simp: Restart_def go_simps framed_def)
          then show ?thesis
          proof (rule restart_step_framed[OF s3])
            fix t assume "?F ?K t" "wrote_restart E (next_restart (mgt_restart (mg_status ?c))) t s'"
              "\<And>b e. r = Ok (b, e) \<Longrightarrow> b \<Longrightarrow> mgt_restart (mg_status ?c) = RestartPrimaryDeleted"
            with live ready rep show ?thesis by (intro worked[of pods primary t]) auto
          qed
        qed (rule worked[of pods primary s3];
          use run list \<open>q = Ok pods\<close> s1 ready prim primary appl s3 live rep in
            \<open>auto simp: Restart_def go_simps framed_def wrote_restart_def\<close>)+
      qed (rule nothing; use run list Ok s1 ready prim s2 in \<open>auto simp: Restart_def go_simps framed_def\<close>)+
    qed (rule nothing; use run list Ok s1 in \<open>auto simp: Restart_def go_simps framed_def\<close>)+
  qed (rule nothing; use run list s1 in \<open>auto simp: Restart_def go_simps framed_def\<close>)+
qed

end


context plane_status
begin

lemma wrote_restart_frame:
  assumes "inv (b_api s1)" "wrote_restart E st s1 s2"
  shows "inv (b_api s2) \<and>
    (\<forall>k. k \<noteq> okey_of (OMongo (b_cr s1)) \<longrightarrow> objs (b_api s2) k = objs (b_api s1) k) \<and>
    (\<forall>z z'. objs (b_api s1) (okey_of (OMongo (b_cr s1))) = Some (OMongo z) \<longrightarrow>
       objs (b_api s2) (okey_of (OMongo (b_cr s1))) = Some (OMongo z') \<longrightarrow>
       mgt_restart (mg_status z') \<in> {mgt_restart (mg_status z), st})"
proof (cases "s2 = s1")
  case False
  let ?t = "s1\<lparr>b_cr := (b_cr s1)\<lparr>mg_status := (mg_status (b_cr s1))\<lparr>mgt_restart := st\<rparr>\<rparr>\<rparr>"
  from False assms(2) obtain q where "WriteStatus E ?t = (q, s2)"
    by (auto simp: wrote_restart_def UpdateRestartState_def change_status_def go_simps bindg_def modify_def)
  then have run: "WriteStatus E ?t = (q, s2)" .
  have I: "inv (b_api ?t)" using assms(1) by simp
  show ?thesis
    by (rule WriteStatus_cases[OF I run]) (auto split: if_splits)
qed (use assms in auto)

lemma Restart_effect:
  assumes I: "inv (b_api s)" and sort: "sorts_pods (e_sort_pods E)" and run: "Restart E s = (r, s')"
  shows "(fst k = KPod \<and> objs (b_api s') k \<noteq> objs (b_api s) k \<longrightarrow>
      (\<exists>p pods primary. objs (b_api s) k = Some (OPod p) \<and> p \<in> set pods \<and>
        CheckPodsReady (mgs_members (mg_spec (b_cr s))) pods = Ok () \<and> seen E s pods primary \<and>
        deletable (mgt_restart (mg_status (b_cr s))) primary (pod_host (objs (b_api s)) (b_cr s) p))) \<and>
    (\<forall>z z'. objs (b_api s) (okey_of (OMongo (b_cr s))) = Some (OMongo z) \<longrightarrow>
       objs (b_api s') (okey_of (OMongo (b_cr s))) = Some (OMongo z') \<longrightarrow>
       mgt_restart (mg_status z') \<in> {mgt_restart (mg_status z), next_restart (mgt_restart (mg_status (b_cr s)))}) \<and>
    (\<forall>e. r = Ok (True, e) \<longrightarrow> mgt_restart (mg_status (b_cr s)) = RestartPrimaryDeleted)"
proof -
  have set: "set (e_sort_pods E ps) = set ps" for ps
    using sort by (metis mset_eq_setD sorts_pods_def)
  show ?thesis
  proof (rule Restart_cases[OF I set run])
    assume "framed objs inv (objs (b_api s)) {} (b_cr s) (b_held s) s'" and over: "\<And>b e. r = Ok (b, e) \<Longrightarrow> \<not> b"
    then have "objs (b_api s') = objs (b_api s)" by (auto simp: framed_def apart_def)
    with over[of True] show ?thesis by auto
  next
    fix pods primary s1
    assume worked: "\<forall>p \<in> set pods. objs (b_api s) (okey_of (OPod p)) = Some (OPod p)"
      "CheckPodsReady (mgs_members (mg_spec (b_cr s))) pods = Ok ()" "seen E s pods primary"
      "framed objs inv (objs (b_api s)) (restart_keys (objs (b_api s)) (b_cr s) pods primary) (b_cr s) (b_held s) s1"
      "wrote_restart E (next_restart (mgt_restart (mg_status (b_cr s)))) s1 s'"
      "\<And>b e. r = Ok (b, e) \<Longrightarrow> b \<Longrightarrow> mgt_restart (mg_status (b_cr s)) = RestartPrimaryDeleted"
    let ?k0 = "okey_of (OMongo (b_cr s))" and ?K = "restart_keys (objs (b_api s)) (b_cr s) pods primary"
    have s1: "inv (b_api s1)" "b_cr s1 = b_cr s" "\<forall>k. k \<notin> ?K \<longrightarrow> objs (b_api s1) k = objs (b_api s) k"
      using worked(4) by (auto simp: framed_def apart_def)
    note fr = wrote_restart_frame[OF s1(1) worked(5), unfolded s1(2)]
    have mongo: "?k0 \<notin> ?K" by (auto simp: restart_keys_def okey_of_def)
    have "\<exists>p. objs (b_api s) k = Some (OPod p) \<and> p \<in> set pods \<and>
        deletable (mgt_restart (mg_status (b_cr s))) primary (pod_host (objs (b_api s)) (b_cr s) p)"
      if k: "fst k = KPod" "objs (b_api s') k \<noteq> objs (b_api s) k"
    proof -
      have "k \<noteq> ?k0" using k(1) by (auto simp: okey_of_def)
      with fr s1(3) k(2) have "k \<in> ?K" by metis
      with k(1) worked(1) show ?thesis by (auto simp: restart_keys_def)
    qed
    with worked(1-3,6) fr s1(3) mongo show ?thesis by (simp, blast)
  qed
qed

end


section \<open>Properties\<close>

text \<open>
  C7: restarting never takes a pod down too early. Whatever the answers and however the call ends, a pod
  that \<open>Restart\<close> changed is one of the pods this call listed, of which at least as many were ready as the
  specification asks for, and the restart state allowed it: at the start of a restart only pods that are
  not the primary of the status this call was given next, after the secondaries only that primary,
  afterwards and in no other state any. The primary is the host of the first member in state PRIMARY, and
  a pod's host is the virtual address with the node port of its service.
\<close>

theorem restart_deletes_safely:
  assumes "kube_status cli objs I" and "e_cli E = cli" and "I (b_api s)" and "sorts_pods (e_sort_pods E)"
    and "Restart E s = (r, s')" and "fst k = KPod" and "objs (b_api s') k \<noteq> objs (b_api s) k"
  shows "\<exists>p pods t ms u primary. replset_pods E s = (Ok pods, t) \<and> p \<in> set pods \<and> objs (b_api s) k = Some (OPod p) \<and>
    CheckPodsReady (mgs_members (mg_spec (b_cr s))) pods = Ok () \<and> GetMgoReplSetStatus E t = (Ok ms, u) \<and>
    primary = (case find (\<lambda>m. mb_state_str m = Primary) ms of None \<Rightarrow> '''' | Some m \<Rightarrow> mb_host m) \<and>
    deletable (mgt_restart (mg_status (b_cr s))) primary (pod_host (objs (b_api s)) (b_cr s) p)"
proof -
  have "plane_status cli objs I E"
    using assms(1,2) by (simp add: plane_status_def plane_api_def plane_api_axioms_def kube_status_def)
  from plane_status.Restart_effect[OF this assms(3-5), of k] assms(6,7) show ?thesis unfolding seen_def by blast
qed

text \<open>The pod of the secondary is deleted; the primary it was compared with is the one the database reports.\<close>

theorem restart_deletes_safely_witness:
  "\<exists>s' p. Restart plane_env plane = (Ok (False, None), s') \<and>
    mem_lookup (b_api plane) (KPod, ''ns'', ''b-0'') = Some (OPod p) \<and>
    deletable RestartNone ''10.0.0.1:1'' (pod_host (mem_lookup (b_api plane)) plane_mongo p)"
proof -
  let ?k = "(KPod, ''ns'', ''b-0'')"
  have "fst (Restart plane_env plane) = Ok (False, None)" by code_simp
  then obtain s' where run: "Restart plane_env plane = (Ok (False, None), s')" by (metis prod.collapse)
  have env: "e_cli plane_env = mem_client" "sorts_pods (e_sort_pods plane_env)"
    by (simp_all add: plane_env_def sample_env_def sorts_pods_id)
  have inv: "mem_inv (b_api plane)" by code_simp
  have "map_option (\<lambda>x. om_deleting (ometa x)) (mem_lookup (b_api (snd (Restart plane_env plane))) ?k) = Some True"
    "map_option (\<lambda>x. om_deleting (ometa x)) (mem_lookup (b_api plane) ?k) = Some False"
    by code_simp+
  then have changed: "mem_lookup (b_api s') ?k \<noteq> mem_lookup (b_api plane) ?k" using run by auto
  have st: "b_cr plane = plane_mongo" "mgt_restart (mg_status plane_mongo) = RestartNone"
    by (simp_all add: plane_def sample_bstate_def plane_mongo_def ready_mongo_def sample_mongo_def
        empty_mongo_status_def)
  have report: "map_outcome (map (\<lambda>m. (mb_host m, mb_state_str m)))
      (fst (GetMgoReplSetStatus plane_env (snd (replset_pods plane_env plane)))) =
    Ok [(''10.0.0.1:1'', Primary), (''10.0.0.1:2'', Secondary)]" by code_simp
  have "fst ?k = KPod" by simp
  from restart_deletes_safely[OF mem.kube_status_axioms env(1) inv env(2) run this changed]
  obtain p pods t ms u where p: "replset_pods plane_env plane = (Ok pods, t)" "GetMgoReplSetStatus plane_env t = (Ok ms, u)"
      "mem_lookup (b_api plane) ?k = Some (OPod p)"
      "deletable RestartNone (case find (\<lambda>m. mb_state_str m = Primary) ms of None \<Rightarrow> '''' | Some m \<Rightarrow> mb_host m)
        (pod_host (mem_lookup (b_api plane)) plane_mongo p)"
    unfolding st by blast
  from report p(1,2) obtain m ms' where "ms = m # ms'" "mb_host m = ''10.0.0.1:1''" "mb_state_str m = Primary" by auto
  with p run show ?thesis by auto
qed

text \<open>
  C8: the restart state refines the cycle secondaries, primary, done: for a round that starts from the
  stored object, the restart state stored afterwards is the one before or the next of the cycle,
  so it moves at most one step per call, and
  \<open>Restart\<close> reports that it is over only in the round after the primary was deleted. A refused status
  write can only make a round be repeated.
\<close>

theorem restart_cycle:
  assumes "kube_status cli objs I" and "e_cli E = cli" and "I (b_api s)" and "sorts_pods (e_sort_pods E)"
    and "objs (b_api s) (okey_of (OMongo (b_cr s))) = Some (OMongo (b_cr s))" and "Restart E s = (r, s')"
    and "objs (b_api s') (okey_of (OMongo (b_cr s))) = Some (OMongo z)"
  shows "mgt_restart (mg_status z) \<in>
      {mgt_restart (mg_status (b_cr s)), next_restart (mgt_restart (mg_status (b_cr s)))} \<and>
    (\<forall>e. r = Ok (True, e) \<longrightarrow> mgt_restart (mg_status (b_cr s)) = RestartPrimaryDeleted)"
proof -
  have "plane_status cli objs I E"
    using assms(1,2) by (simp add: plane_status_def plane_api_def plane_api_axioms_def kube_status_def)
  from plane_status.Restart_effect[OF this assms(3,4,6)] assms(5,7) show ?thesis by blast
qed

theorem restart_cycle_witness:
  "\<exists>s' z. Restart plane_env plane = (Ok (False, None), s') \<and>
    mem_lookup (b_api s') (KMongo, ''ns'', ''m'') = Some (OMongo z) \<and>
    mgt_restart (mg_status z) \<in> {RestartNone, RestartSecondaryDeleted}"
proof -
  have "fst (Restart plane_env plane) = Ok (False, None)" by code_simp
  then obtain s' where run: "Restart plane_env plane = (Ok (False, None), s')" by (metis prod.collapse)
  have env: "e_cli plane_env = mem_client" "sorts_pods (e_sort_pods plane_env)"
    by (simp_all add: plane_env_def sample_env_def sorts_pods_id)
  have inv: "mem_inv (b_api plane)" by code_simp
  have key: "okey_of (OMongo (b_cr plane)) = (KMongo, ''ns'', ''m'')" by code_simp
  have here: "mem_lookup (b_api plane) (okey_of (OMongo (b_cr plane))) = Some (OMongo (b_cr plane))"
    by (simp add: mem_lookup_def plane_def sample_bstate_def mem_of_def plane_objects_def)
  have "map_option okind (mem_lookup (b_api (snd (Restart plane_env plane))) (KMongo, ''ns'', ''m'')) = Some KMongo"
    by code_simp
  then obtain z where z: "mem_lookup (b_api s') (okey_of (OMongo (b_cr plane))) = Some (OMongo z)"
    using run key by (auto; metis mongo_of_key okey_of_def fst_conv)
  have "mgt_restart (mg_status (b_cr plane)) = RestartNone"
    by (simp add: plane_def sample_bstate_def plane_mongo_def ready_mongo_def sample_mongo_def empty_mongo_status_def)
  with restart_cycle[OF mem.kube_status_axioms env(1) inv env(2) here run z] run z key show ?thesis by auto
qed


end
