(* ===== verification/Repair_Laws.thy ===== *)
theory Repair_Laws
  imports Plane_Samples
begin

text \<open>
  What the checks of member states and the repair of a replica set do: \<open>CheckMemberRole\<close> and
  \<open>CheckMemberStatus\<close> against one reference predicate, and \<open>RestoreReplSet\<close>, which compares pod names
  with reported hosts.
\<close>

section \<open>Frame rules for the database side\<close>

lemma keeps_api_db [keeps_intros]: "keeps (\<lambda>s. I (b_db s)) (api m)"
  by (rule keepsI) (auto simp: api_run)

lemma keeps_db_db [keeps_intros]: "keeps I m \<Longrightarrow> keeps (\<lambda>s. I (b_db s)) (db m)"
  by (rule keepsI) (auto simp: db_run dest: keepsD)

section \<open>Member states\<close>

text \<open>The state code a member in a role should report.\<close>

definition role_state :: "string \<Rightarrow> int option" where
  "role_state r = (if r = Primary then Some 1 else if r = Secondary then Some 2
     else if r = ArbiterStr then Some 7 else None)"

definition member_ok :: "member_status \<Rightarrow> bool" where
  "member_ok m \<longleftrightarrow> role_state (mb_state_str m) = Some (mb_state m)"

lemma check_roles_iff: "check_roles ms = None \<longleftrightarrow> list_all member_ok ms"
  by (induction ms) (auto simp: member_ok_def role_state_def)

lemma member_check_filters:
  "member_check ms us os =
     (us @ map mb_host (filter (\<lambda>m. \<not> member_ok m) ms),
      os @ map mb_host (filter (\<lambda>m. role_state (mb_state_str m) \<noteq> None) ms))"
  by (induction ms arbitrary: us os) (auto simp: member_ok_def role_state_def)

section \<open>Repair\<close>

text \<open>No pod is found under a name that none has: the list of pods to add again stays empty.\<close>

lemma remove_unknown_none:
  "(\<And>p. p \<in> set ps \<Longrightarrow> pod_name p \<noteq> u) \<Longrightarrow> remove_unknown E okNodeAddr ps u = ret []"
  by (induction ps) auto

lemma remove_all_unknown_none:
  "(\<And>p u. p \<in> set ps \<Longrightarrow> u \<in> set us \<Longrightarrow> pod_name p \<noteq> u) \<Longrightarrow> remove_all_unknown E okNodeAddr ps us = ret []"
  by (induction us) (auto simp: remove_unknown_none)

context replica_set
begin

lemma keeps_conf_connection:
  "keeps (\<lambda>w. conf w = c0) (Dial md addrs u p d)" "keeps (\<lambda>w. conf w = c0) (md_disconnect md c)"
  "keeps (\<lambda>w. conf w = c0) (CheckMemberStatus md c)"
proof -
  have run: "keeps (\<lambda>w. conf w = c0) (md_run md c ReplSetGetStatus)"
    using other_commands[of ReplSetGetStatus c] by (simp add: keeps_def)
  show "keeps (\<lambda>w. conf w = c0) (CheckMemberStatus md c)"
    unfolding CheckMemberStatus_def RunCommand_def
    by (rule keeps_bind[OF keeps_attempt[OF run]]) (auto split: sum.splits if_splits)
  have "keeps (\<lambda>w. conf w = c0) (md_connect md k)" for k
    using connections(1) by (simp add: keeps_def)
  then show "keeps (\<lambda>w. conf w = c0) (Dial md addrs u p d)"
    unfolding Dial_def Let_def by (intro keeps_bind keeps_attempt) (auto split: sum.splits)
  show "keeps (\<lambda>w. conf w = c0) (md_disconnect md c)"
    using connections(2) by (simp add: keeps_def)
qed

end

context replica_set
begin

lemma keeps_conf_client:
  assumes "e_md E = md"
  shows "keeps (\<lambda>s. conf (b_db s) = c0) (MongoClientWithOneNode E addrs)"
    "keeps (\<lambda>s. conf (b_db s) = c0) (MongoClient E addrs)"
    "keeps (\<lambda>s. conf (b_db s) = c0) (disconnect E c)"
  unfolding MongoClientWithOneNode_def MongoClient_def disconnect_def user_secret_def dial_as_def assms
  by (intro keeps_bind keeps_attempt keeps_api_db keeps_basic
      keeps_db_db[where I = "\<lambda>w. conf w = c0"] keeps_conf_connection |
    auto split: option.splits kobj.splits prod.splits
      intro!: keeps_db_db[where I = "\<lambda>w. conf w = c0"] keeps_conf_connection)+

lemma find_unknown_keeps:
  assumes "e_md E = md"
  shows "keeps (\<lambda>s. conf (b_db s) = c0) (find_unknown E addrs us os opened)"
proof (induction addrs arbitrary: us os opened)
  case (Cons a addrs)
  show ?case
    by (auto simp: assms intro!: keeps_bind keeps_attempt keeps_conf_client[OF assms] Cons.IH
        keeps_db_db[where I = "\<lambda>w. conf w = c0"] keeps_conf_connection(3) split: sum.splits option.splits)
qed auto

end

lemma CheckMemberStatus_run:
  assumes "CheckMemberStatus md c w = (Ok (err, us, os), w')"
  shows "us = [] \<and> os = [] \<or> (\<exists>r. md_run md c ReplSetGetStatus w = (Ok r, w') \<and> err = None \<and>
    member_check (rp_members r) [] [] = (us, os))"
proof -
  obtain q w1 where "md_run md c ReplSetGetStatus w = (q, w1)" by fastforce
  with assms show ?thesis
    by (cases q) (auto simp: CheckMemberStatus_def RunCommand_def bindg_def attempt_def ret_def split: if_splits)
qed

text \<open>The unknown nodes come from an answer of the database, or are those already known.\<close>

lemma find_unknown_hosts:
  assumes answer: "\<And>c w r w'. md_run (e_md E) c ReplSetGetStatus w = (Ok r, w') \<Longrightarrow>
      list_all (\<lambda>m. P (mb_host m)) (rp_members r)"
    and "find_unknown E addrs us os opened s = (Ok (us', os', opened'), s')" "list_all P us"
  shows "list_all P us'"
  using assms(2,3)
proof (induction addrs arbitrary: us os opened s)
  case Nil
  then show ?case by (simp add: go_simps)
next
  case (Cons a addrs)
  obtain q s1 where one: "attempt (MongoClientWithOneNode E [a]) s = (Ok q, s1)"
    using Cons.prems(1) by (auto simp: bindg_Ok_iff)
  show ?case
  proof (cases q)
    case (Inl e)
    with one Cons show ?thesis by (auto simp: go_simps)
  next
    case (Inr c)
    with one Cons.prems(1) obtain err us1 os1 s2 where
      check: "db (CheckMemberStatus (e_md E) c) s1 = (Ok (err, us1, os1), s2)" and
      rest: "(case err of None \<Rightarrow> ret (us1, os1, opened) | Some e \<Rightarrow> find_unknown E addrs us1 os1 (c # opened)) s2
        = (Ok (us', os', opened'), s')"
      by (auto simp: go_simps bindg_Ok_iff)
    have "list_all P us1"
    proof -
      from check obtain w where "CheckMemberStatus (e_md E) c (b_db s1) = (Ok (err, us1, os1), w)"
        by (auto simp: db_run)
      from CheckMemberStatus_run[OF this] answer show ?thesis by (fastforce simp: member_check_filters list_all_iff)
    qed
    with rest Cons.IH show ?thesis by (cases err) (auto simp: go_simps)
  qed
qed


section \<open>Properties\<close>

lemma RestoreReplSet_keeps:
  fixes E :: "('w, 'm) benv" and s :: "('w, 'm) bstate"
  assumes db: "replica_set (e_md E) conf"
    and answer: "\<And>c w r w'. md_run (e_md E) c ReplSetGetStatus w = (Ok r, w') \<Longrightarrow>
      list_all (\<lambda>m. CHR '':'' \<in> set (mb_host m)) (rp_members r)"
    and names: "list_all (\<lambda>p. CHR '':'' \<notin> set (pod_name p)) pods"
    and run: "RestoreReplSet E pods s = (r, s')"
  shows "conf (b_db s') = conf (b_db s)"
proof (cases "GetAvailablePod pods")
  case None
  with run show ?thesis by (simp add: RestoreReplSet_def go_simps)
next
  case (Some p)
  let ?I = "\<lambda>t :: ('w, 'm) bstate. conf (b_db t) = conf (b_db s)"
  let ?body = "\<lambda>addrs. bindg (find_unknown E addrs [] [] []) (\<lambda>(us, os, opened).
    with_defer (for_each opened (disconnect E))
      (if us \<noteq> [] then bindg (remove_all_unknown E os pods us) (\<lambda>ns. for_each ns (\<lambda>p. AddNodeToMember E os))
       else ret ()))"
  have addrs: "keeps ?I (member_addrs E)"
    unfolding member_addrs_def by (intro keeps_intros)
  have body: "keeps ?I (?body addrs)" for addrs
  proof (rule keepsI)
    fix t q u assume t: "?I t" and body: "?body addrs t = (q, u)"
    obtain f t1 where find: "find_unknown E addrs [] [] [] t = (f, t1)" by fastforce
    from replica_set.find_unknown_keeps[OF db refl] find t have t1: "?I t1" by (blast dest: keepsD)
    show "?I u"
    proof (cases f)
      case (Ok x)
      obtain us os opened where x: "x = (us, os, opened)" by (cases x)
      have "list_all (\<lambda>h. CHR '':'' \<in> set h) us"
        using find_unknown_hosts[OF answer] find Ok x by fastforce
      with names have none: "remove_all_unknown E os pods us = ret []"
        by (intro remove_all_unknown_none) (auto simp: list_all_iff)
      have "(if us \<noteq> [] then bindg (remove_all_unknown E os pods us) (\<lambda>ns. for_each ns (\<lambda>p. AddNodeToMember E os))
          else ret ()) = ret ()"
        unfolding none by simp
      with body find Ok x have "with_defer (for_each opened (disconnect E)) (ret ()) t1 = (q, u)"
        by (simp add: bindg_eqs)
      moreover have "keeps ?I (with_defer (for_each opened (disconnect E)) (ret ()))"
        by (intro keeps_intros replica_set.keeps_conf_client(3)[OF db refl])
      ultimately show ?thesis using t1 by (blast dest: keepsD)
    qed (use body find t1 in \<open>auto simp: go_simps\<close>)
  qed
  have "keeps ?I (RestoreReplSet E pods)"
    unfolding RestoreReplSet_def Some option.case by (rule keeps_bind[OF addrs body])
  with run show ?thesis by (blast dest: keepsD)
qed

text \<open>
  C25: the check that ends a reconciliation and the one that starts a repair agree: \<open>CheckMemberRole\<close>
  reports no error on an answer of the database exactly when \<open>CheckMemberStatus\<close> lists no unknown node,
  which is when every member is a primary, secondary or arbiter in state 1, 2 or 7. The nodes it lists as
  working are those with one of the three roles, whatever their state: a node can be in both lists.
\<close>

theorem member_checks_agree:
  "(check_roles ms = None) = (fst (member_check ms [] []) = []) \<and>
   (check_roles ms = None) = list_all member_ok ms \<and>
   member_check ms [] [] =
     (map mb_host (filter (\<lambda>m. \<not> member_ok m) ms),
      map mb_host (filter (\<lambda>m. role_state (mb_state_str m) \<noteq> None) ms))"
  by (auto simp: check_roles_iff member_check_filters list_all_iff filter_empty_conv)

text \<open>
  C26: the repair never changes the replica set: it looks for pods named like an unknown node, but the
  database reports hosts as address and port. As long as reported hosts contain a colon and pod names do
  not (an object name cannot), \<open>RestoreReplSet\<close> leaves the configuration in effect as it is, whatever
  nodes are reported as unknown and however it ends.
\<close>

theorem restore_never_reconfigures:
  assumes "replica_set (e_md E) conf"
    and "\<And>c w r w'. md_run (e_md E) c ReplSetGetStatus w = (Ok r, w') \<Longrightarrow>
      list_all (\<lambda>m. CHR '':'' \<in> set (mb_host m)) (rp_members r)"
    and "list_all (\<lambda>p. CHR '':'' \<notin> set (pod_name p)) pods"
    and "RestoreReplSet E pods s = (r, s')"
  shows "conf (b_db s') = conf (b_db s)"
  using assms by (rule RestoreReplSet_keeps)

text \<open>A database whose members report a fixed status: one secondary in the state of a primary.\<close>

definition odd_status :: "member_status list" where
  "odd_status = [\<lparr>mb_host = ''10.0.0.1:30001'', mb_state_str = Secondary, mb_syncing_to = [], mb_sync_source = [],
     mb_id = 0, mb_health = 1, mb_state = 1\<rparr>]"

definition odd_client :: "mongod mongo" where
  "odd_client = mongod_client\<lparr>md_run := (\<lambda>c cmd w. mongod_run c cmd (w\<lparr>mo_status := odd_status\<rparr>))\<rparr>"

lemma odd_client_run [simp]:
  "md_run odd_client c cmd w = md_run mongod_client c cmd (w\<lparr>mo_status := odd_status\<rparr>)"
  "md_connect odd_client = md_connect mongod_client" "md_disconnect odd_client = md_disconnect mongod_client"
  by (simp_all add: odd_client_def mongod_client_def)

interpretation odd: replica_set odd_client mo_conf
proof
  fix c w r w' assume "md_run odd_client c ReplSetGetConfig w = (Ok r, w')" "rp_ok r = 1"
  from mongod.get_config[OF this[unfolded odd_client_run]] show "rp_config r = mo_conf w" by simp
next
  fix c cfg f w r w' assume "md_run odd_client c (ReplSetReconfig cfg f) w = (Ok r, w')" "rp_ok r = 1"
  from mongod.reconfig[OF this[unfolded odd_client_run]] show "\<exists>v. mo_conf w' = Some (cfg\<lparr>rc_version := v\<rparr>)" .
next
  fix cmd c w assume "\<forall>cfg f. cmd \<noteq> ReplSetReconfig cfg f"
  from mongod.other_commands[OF this] show "mo_conf (snd (md_run odd_client c cmd w)) = mo_conf w" by simp
qed (simp_all add: mongod.connections)

theorem restore_never_reconfigures_witness:
  "\<exists>r s'. RestoreReplSet (plane_env\<lparr>e_md := odd_client\<rparr>) [plane_pod ''a'', plane_pod ''b''] plane = (r, s') \<and>
    r = Ok () \<and> map rm_host (case mo_conf (b_db s') of Some c \<Rightarrow> rc_members c | None \<Rightarrow> []) = [''10.0.0.1:1'']"
proof -
  let ?E = "plane_env\<lparr>e_md := odd_client\<rparr>" and ?ps = "[plane_pod ''a'', plane_pod ''b'']"
  have md: "e_md ?E = odd_client" by simp
  have "fst (RestoreReplSet ?E ?ps plane) = Ok ()" by code_simp
  then obtain s' where run: "RestoreReplSet ?E ?ps plane = (Ok (), s')" by (metis prod.collapse)
  have answer: "list_all (\<lambda>m. CHR '':'' \<in> set (mb_host m)) (rp_members r)"
    if "md_run odd_client c ReplSetGetStatus w = (Ok r, w')" for c w r w'
    using that by (auto simp: mongod_client_def mongod_run_def odd_status_def split: list.splits option.splits)
  have names: "list_all (\<lambda>p. CHR '':'' \<notin> set (pod_name p)) ?ps" by code_simp
  have "mo_conf (b_db s') = mo_conf (b_db plane)"
    using restore_never_reconfigures[where E = ?E, unfolded md, OF odd.replica_set_axioms answer names run] by simp
  with run show ?thesis
    by (simp add: plane_def sample_bstate_def plane_db_def sample_mongod_def sample_config_def plain_member_def
        new_member_def)
qed


end
