(* ===== verification/Member_Laws.thy ===== *)
theory Member_Laws
  imports Restart_Laws Sync_Laws Repair_Laws
begin

text \<open>
  Cluster and database together: that the address of a running pod ends up in the configuration of the
  replica set.
\<close>

section \<open>Members to add\<close>

lemma exist_loop_hosts: "rm_host ` set (exist_loop mx i add hosts) = rm_host ` set add - set hosts"
  by (induction add arbitrary: i) auto

lemma MemberExist_hosts:
  assumes "MemberExist src add = (exist, new)"
  shows "(exist \<longrightarrow> rm_host ` set add \<subseteq> rm_host ` set src) \<and> rm_host ` set new = rm_host ` set add - rm_host ` set src"
proof (cases "add = []")
  case False
  let ?new = "exist_loop (maxMemberId src) 1 add (map rm_host src)"
  have hosts: "rm_host ` set ?new = rm_host ` set add - rm_host ` set src" by (simp add: exist_loop_hosts)
  have "new = ?new" "exist \<longleftrightarrow> ?new = []"
    using assms False by (auto simp: MemberExist_def Let_def split: if_splits)
  moreover have "?new = [] \<Longrightarrow> rm_host ` set add \<subseteq> rm_host ` set src" using hosts by auto
  ultimately show ?thesis using hosts by simp
qed (use assms in \<open>auto simp: MemberExist_def\<close>)

text \<open>
  The first fifty lines name the host; \<open>i\<close> is the index of the first line. Blank lines name none.
\<close>

definition lines_name :: "nat \<Rightarrow> string list \<Rightarrow> string \<Rightarrow> bool" where
  "lines_name i ls host \<longleftrightarrow> (\<exists>j < length ls. i + j < MaxMembers \<and> ls ! j \<noteq> '''' \<and> host_of_line (ls ! j) = Ok host)"

lemma lines_name_simps [simp]:
  "\<not> lines_name i [] host"
  "lines_name i (l # ls) host \<longleftrightarrow> i < MaxMembers \<and> l \<noteq> '''' \<and> host_of_line l = Ok host \<or> lines_name (Suc i) ls host"
  unfolding lines_name_def by (auto simp: less_Suc_eq_0_disj)

lemma lines_name_bound: "MaxMembers \<le> i \<Longrightarrow> \<not> lines_name i ls host"
  by (auto simp: lines_name_def)

lemma find_member_hosts:
  "find_member i h b ls = Ok ms \<Longrightarrow> rm_host ` set ms = {x. x = h \<and> lines_name i ls h}"
proof (induction i h b ls rule: find_member.induct)
  case (2 i h b l ls)
  have "\<not> lines_name (Suc i) ls h" if "MaxMembers - 1 < i" using that lines_name_bound by (simp add: MaxMembers_def)
  with 2 show ?case
    by (auto simp: new_member_def parseMember_def MaxMembers_def split: if_splits outcome.splits prod.splits)
qed simp

text \<open>The host ConfigMap names the host, among the data members or, with an arbiter, among the arbiters.\<close>

definition names_host :: "config_map \<Rightarrow> bool \<Rightarrow> string \<Rightarrow> bool" where
  "names_host cm arbiter host \<longleftrightarrow> lines_name 0 (go_split ''\<newline>'' (gm_get '''' (cm_data cm) ''datas'')) host \<or>
     arbiter \<and> lines_name 0 (go_split ''\<newline>'' (gm_get '''' (cm_data cm) ''arbiters'')) host"

lemma ByNodePort_hosts:
  assumes "ConfigMapToMembersByNodePort cr cm port = Ok ms"
    and h: "h = gm_get '''' (om_labels (mg_meta cr)) LabelKeyClusterVIP @ '':'' @ itoa port"
  shows "rm_host ` set ms = {x. x = h \<and> names_host cm (mgs_arbiter (mg_spec cr)) h}"
proof -
  let ?ds = "go_split ''\<newline>'' (gm_get '''' (cm_data cm) ''datas'')" and ?arb = "gm_get '''' (cm_data cm) ''arbiters''"
  let ?as = "go_split ''\<newline>'' ?arb"
  have empty: "\<not> lines_name 0 (go_split ''\<newline>'' []) h" by (simp add: lines_name_def)
  from assms consider (data) "find_member 0 h False ?ds = Ok ms" "\<not> mgs_arbiter (mg_spec cr) \<or> ?arb = ''''"
    | (both) xs ys where "find_member 0 h False ?ds = Ok xs" "find_member 0 h True ?as = Ok ys" "ms = xs @ ys"
        "mgs_arbiter (mg_spec cr)"
    by (auto simp: ConfigMapToMembersByNodePort_def Let_def split: outcome.splits if_splits)
  then show ?thesis
  proof cases
    case data
    with empty have "names_host cm (mgs_arbiter (mg_spec cr)) h \<longleftrightarrow> lines_name 0 ?ds h" by (auto simp: names_host_def)
    with find_member_hosts[OF data(1)] show ?thesis by simp
  next
    case both
    have "rm_host ` set ms = rm_host ` set xs \<union> rm_host ` set ys" by (simp add: both(3) image_Un)
    also have "\<dots> = {x. x = h \<and> names_host cm (mgs_arbiter (mg_spec cr)) h}"
      unfolding find_member_hosts[OF both(1)] find_member_hosts[OF both(2)] names_host_def using both(4) by blast
    finally show ?thesis .
  qed
qed

section \<open>The data plane\<close>

locale data_plane = plane_api cli objs inv E + replica_set md conf
  for cli :: "'w client" and objs and inv and E :: "('w, 'm) benv" and md and conf +
  assumes database: "e_md E = md" and map_order: "iteration_order (e_order E)"
begin

lemma keeps_conf_api: "keeps (\<lambda>s. conf (b_db s) = c0) (api m)"
  by (rule keeps_api_db)

lemma member_config_stored:
  assumes "member_config E s = (Ok cm, t)"
  shows "objs (b_api s) (KConfigMap, cr_ns' (b_cr s), mgs_member_config_ref (mg_spec (b_cr s))) = Some (OConfigMap cm)"
proof -
  from assms obtain w where "GetConfigMap cli (mgs_member_config_ref (mg_spec (b_cr s))) (cr_ns' (b_cr s)) (b_api s) = (Ok cm, w)"
    by (auto simp: member_config_def bindg_Ok_iff go_simps api_run e_client)
  then obtain u where "get_as cli (\<lambda>x. case x of OConfigMap c \<Rightarrow> Some c | _ \<Rightarrow> None)
      (KConfigMap, cr_ns' (b_cr s), mgs_member_config_ref (mg_spec (b_cr s))) (b_api s) = (Ok cm, u)"
    unfolding GetConfigMap_def attempt_case_Ok by (auto simp: go_simps)
  then obtain x v where "c_get cli (KConfigMap, cr_ns' (b_cr s), mgs_member_config_ref (mg_spec (b_cr s))) (b_api s) = (Ok x, v)"
      "x = OConfigMap cm"
    by (auto simp: get_as_def bindg_Ok_iff go_simps split: option.splits kobj.splits)
  with get_Ok show ?thesis by blast
qed

end

interpretation plane: data_plane mem_client mem_lookup mem_inv plane_env mongod_client mo_conf
  by unfold_locales (simp_all add: plane_env_def sample_env_def)

text \<open>The same API objects, the same object in memory, the same configuration.\<close>

definition calm ::
    "('w \<Rightarrow> okey \<Rightarrow> kobj option) \<Rightarrow> ('w \<Rightarrow> bool) \<Rightarrow> ('m \<Rightarrow> rs_config option) \<Rightarrow> ('w, 'm) bstate \<Rightarrow> ('w, 'm) bstate \<Rightarrow> bool" where
  "calm objs I conf s t \<longleftrightarrow> I (b_api t) \<and> objs (b_api t) = objs (b_api s) \<and> b_cr t = b_cr s \<and>
     conf (b_db t) = conf (b_db s)"

lemma calm_trans: "calm objs I conf s t \<Longrightarrow> calm objs I conf t u \<Longrightarrow> calm objs I conf s u"
  by (simp add: calm_def)

lemma with_defer_Ok':
  assumes "with_defer d m s = (Ok x, s')"
  obtains u q where "m s = (Ok x, u)" "d u = (q, s')"
proof -
  obtain a u where m: "m s = (a, u)" by fastforce
  obtain b v where d: "d u = (b, v)" by fastforce
  from assms m d have "a = Ok x" "v = s'" by (cases b; simp add: with_defer_def)+
  with m d that show ?thesis by blast
qed

lemma with_client_Ok:
  assumes "with_client E m body s = (Ok x, s')"
  obtains c t u q where "m s = (Ok c, t)" "body c t = (Ok x, u)" "disconnect E c u = (q, s')"
proof -
  from assms obtain c t where "m s = (Ok c, t)" "with_defer (disconnect E c) (body c) t = (Ok x, s')"
    by (auto simp: with_client_def bindg_Ok_iff)
  with that show ?thesis by (elim with_defer_Ok') blast
qed

context data_plane
begin

abbreviation still :: "('w, 'm) bstate \<Rightarrow> ('w, 'm) bstate \<Rightarrow> bool" where
  "still \<equiv> calm objs inv conf"

lemma calm_run:
  assumes "\<And>f c h. keeps (framed objs inv f {} c h) m" "\<And>c0. keeps (\<lambda>s. conf (b_db s) = c0) m"
    and "m s = (r, t)" "inv (b_api s)"
  shows "still s t"
proof -
  have "framed objs inv (objs (b_api s)) {} (b_cr s) (b_held s) s" using assms(4) by simp
  from keepsD[OF assms(1) this assms(3)] keepsD[OF assms(2) refl assms(3)] show ?thesis
    by (auto simp: framed_def apart_def calm_def)
qed

lemma calm_parts:
  "member_addrs E s = (Ok addrs, t) \<Longrightarrow> inv (b_api s) \<Longrightarrow> still s t"
  "MongoClient E addrs s = (Ok c, t) \<Longrightarrow> inv (b_api s) \<Longrightarrow> still s t"
  "member_config E s = (Ok cm, t) \<Longrightarrow> inv (b_api s) \<Longrightarrow> still s t"
  "GetServiceNodePort E p s = (Ok port, t) \<Longrightarrow> inv (b_api s) \<Longrightarrow> still s t"
  "disconnect E c s = (q, t) \<Longrightarrow> inv (b_api s) \<Longrightarrow> still s t"
  by (erule calm_run[rotated 2], assumption,
      (intro frame_intros | simp add: disconnect_def; intro keeps_bind keeps_attempt keeps_basic frame_intros),
      (intro keeps_conf_client[OF database] |
        simp add: member_addrs_def member_config_def GetServiceNodePort_def owner_of_def;
        intro keeps_bind keeps_basic keeps_conf_api; auto split: list.splits))+

end


context data_plane
begin

text \<open>The address under which a pod is known, from its service's node port.\<close>

lemma node_port_host:
  assumes "GetServiceNodePort E p s = (Ok port, t)" "inv (b_api s)"
  shows "pod_host (objs (b_api s)) (b_cr s) p =
    Some (gm_get '''' (om_labels (mg_meta (b_cr s))) LabelKeyClusterVIP @ '':'' @ itoa (sint port))"
proof -
  let ?h = "gm_get '''' (om_labels (mg_meta (b_cr s))) LabelKeyClusterVIP @ '':'' @ itoa (sint port)"
  have "b_cr t = b_cr s" using calm_parts(4)[OF assms] by (simp add: calm_def)
  then have "judgePodIsPrimary E p ?h s = (Ok True, t)"
    using assms(1) by (simp add: judgePodIsPrimary_def go_simps)
  from judge_run[OF this] show ?thesis by auto
qed

lemma MongoEnsureMemberConfig_effect:
  assumes run: "MongoEnsureMemberConfig E p s = (Ok (), s')" and I: "inv (b_api s)"
    and role: "\<not> IsNotNeedReConfig (Some p)"
    and admin: "condition_true ConditionTypeUserClusterAdmin (pod_label p LabelKeyReplsetName) s"
  shows "\<exists>cm port ms. objs (b_api s) (KConfigMap, cr_ns' (b_cr s), mgs_member_config_ref (mg_spec (b_cr s))) =
        Some (OConfigMap cm) \<and>
      pod_host (objs (b_api s)) (b_cr s) p =
        Some (gm_get '''' (om_labels (mg_meta (b_cr s))) LabelKeyClusterVIP @ '':'' @ itoa port) \<and>
      ConfigMapToMembersByNodePort (b_cr s) cm port = Ok ms \<and>
      conf_hosts (conf (b_db s')) = conf_hosts (conf (b_db s)) \<union> rm_host ` set ms \<and>
      objs (b_api s') = objs (b_api s)"
proof -
  let ?add = "\<lambda>c. bindg (member_config E) (\<lambda>cm. bindg (GetServiceNodePort E p) (\<lambda>nodePort.
      bindg (gets b_cr) (\<lambda>cr. bindg (lift_outcome (ConfigMapToMembersByNodePort cr cm (sint nodePort))) (\<lambda>member.
        bindg (db (ReadConfig (e_md E) c)) (\<lambda>r. bindg (need_config r) (\<lambda>rsConfig.
          case MemberExist (rc_members rsConfig) member of (exist, addMember) \<Rightarrow>
            if \<not> exist then db (Client_AddMembers (e_md E) (e_order E) c addMember) else ret ()))))))"
  from run role admin obtain addrs s1 where addrs: "member_addrs E s = (Ok addrs, s1)"
      and client: "with_client E (MongoClient E addrs) ?add s1 = (Ok (), s')"
    by (auto simp: MongoEnsureMemberConfig_def bindg_Ok_iff go_simps)
  have s1: "still s s1" by (rule calm_parts(1)[OF addrs I])
  obtain c s2 s6 q where c: "MongoClient E addrs s1 = (Ok c, s2)" and add: "?add c s2 = (Ok (), s6)"
      and disc: "disconnect E c s6 = (q, s')"
    by (rule with_client_Ok[OF client])
  have s2: "still s s2" using calm_parts(2)[OF c] s1 by (auto simp: calm_def)
  from add obtain cm s3 port s4 where cm: "member_config E s2 = (Ok cm, s3)"
      and port: "GetServiceNodePort E p s3 = (Ok port, s4)"
      and rest: "bindg (gets b_cr) (\<lambda>cr. bindg (lift_outcome (ConfigMapToMembersByNodePort cr cm (sint port))) (\<lambda>member.
        bindg (db (ReadConfig (e_md E) c)) (\<lambda>r. bindg (need_config r) (\<lambda>rsConfig.
          case MemberExist (rc_members rsConfig) member of (exist, addMember) \<Rightarrow>
            if \<not> exist then db (Client_AddMembers (e_md E) (e_order E) c addMember) else ret ())))) s4 = (Ok (), s6)"
    by (auto simp: bindg_Ok_iff)
  have s3: "still s s3" using calm_parts(3)[OF cm] s2 by (auto simp: calm_def)
  have s4: "still s s4" using calm_parts(4)[OF port] s3 by (auto simp: calm_def)
  from rest obtain ms r s5 rs where ms: "ConfigMapToMembersByNodePort (b_cr s4) cm (sint port) = Ok ms"
      and read: "db (ReadConfig (e_md E) c) s4 = (Ok r, s5)" and rs: "r = Some rs"
      and last: "(case MemberExist (rc_members rs) ms of (exist, new) \<Rightarrow>
          if \<not> exist then db (Client_AddMembers (e_md E) (e_order E) c new) else ret ()) s5 = (Ok (), s6)"
    by (auto simp: bindg_Ok_iff go_simps need_config_def panic_def ret_def split: option.splits)
  from read obtain w where "ReadConfig md c (b_db s4) = (Ok r, w)" "s5 = s4\<lparr>b_db := w\<rparr>" by (auto simp: db_run database)
  with ReadConfig_run[of c "b_db s4" r w] have s5: "r = conf (b_db s)" "still s s5"
    using s4 by (auto simp: calm_def)
  obtain exist new where ex: "MemberExist (rc_members rs) ms = (exist, new)" by fastforce
  note hosts = MemberExist_hosts[OF ex]
  have old: "conf_hosts (conf (b_db s)) = rm_host ` set (rc_members rs)"
  proof -
    have "conf (b_db s) = Some rs" using s5(1) rs by simp
    then show ?thesis by (simp add: conf_hosts_def)
  qed
  have six: "conf_hosts (conf (b_db s6)) = conf_hosts (conf (b_db s)) \<union> rm_host ` set ms \<and>
      objs (b_api s6) = objs (b_api s) \<and> inv (b_api s6)"
  proof (cases exist)
    case True
    with last ex s5(2) have "still s s6" by (simp add: go_simps)
    with hosts True old show ?thesis by (auto simp: calm_def)
  next
    case False
    with last ex obtain u where add: "Client_AddMembers md (e_order E) c new (b_db s5) = (Ok (), u)"
        and s6: "s6 = s5\<lparr>b_db := u\<rparr>"
      by (auto simp: db_run database)
    from AddMembers_effect[OF map_order add] s5(2)
    have "conf_hosts (conf u) = conf_hosts (conf (b_db s)) \<union> rm_host ` set new" by (simp add: calm_def)
    with hosts s5(2) s6 old show ?thesis by (auto simp: calm_def)
  qed
  with calm_parts(5)[OF disc] have s': "conf_hosts (conf (b_db s')) = conf_hosts (conf (b_db s)) \<union> rm_host ` set ms"
      "objs (b_api s') = objs (b_api s)"
    by (auto simp: calm_def)
  show ?thesis
    using member_config_stored[OF cm] node_port_host[OF port] ms s' s2 s3 s4 by (auto simp: calm_def)
qed

end

section \<open>Properties\<close>

text \<open>
  C9: a running member joins: where the cluster administrator exists, \<open>MongoEnsureMemberConfig\<close> that ends
  without error leaves the replica set with exactly the hosts it had and the pod's host, the virtual
  address with the node port of its service, if the stored host ConfigMap names that host in its first
  fifty data lines (or, for an instance with an arbiter, arbiter lines). So a listed pod is a member
  afterwards, nothing is added for a pod the control plane did not list, nothing is removed, and no stored
  object changes.
\<close>

theorem ensure_member_joins:
  assumes "kube_api cli objs I" and "replica_set (e_md E) conf" and "e_cli E = cli" and "iteration_order (e_order E)"
    and "I (b_api s)" and "\<not> IsNotNeedReConfig (Some p)"
    and "condition_true ConditionTypeUserClusterAdmin (pod_label p LabelKeyReplsetName) s"
    and "MongoEnsureMemberConfig E p s = (Ok (), s')"
  shows "\<exists>cm port host. objs (b_api s) (KConfigMap, cr_ns' (b_cr s), mgs_member_config_ref (mg_spec (b_cr s))) =
      Some (OConfigMap cm) \<and>
    pod_host (objs (b_api s)) (b_cr s) p = Some host \<and>
    host = gm_get '''' (om_labels (mg_meta (b_cr s))) LabelKeyClusterVIP @ '':'' @ itoa port \<and>
    conf_hosts (conf (b_db s')) =
      (if names_host cm (mgs_arbiter (mg_spec (b_cr s))) host then insert host (conf_hosts (conf (b_db s)))
       else conf_hosts (conf (b_db s))) \<and>
    objs (b_api s') = objs (b_api s)"
proof -
  have "data_plane cli objs I E (e_md E) conf"
    using assms(1-4) by (simp add: data_plane_def data_plane_axioms_def plane_api_def plane_api_axioms_def)
  note effect = data_plane.MongoEnsureMemberConfig_effect[OF this assms(8,5-7)]
  then obtain cm port ms where
      *: "ConfigMapToMembersByNodePort (b_cr s) cm port = Ok ms"
      "pod_host (objs (b_api s)) (b_cr s) p =
        Some (gm_get '''' (om_labels (mg_meta (b_cr s))) LabelKeyClusterVIP @ '':'' @ itoa port)"
      "objs (b_api s) (KConfigMap, cr_ns' (b_cr s), mgs_member_config_ref (mg_spec (b_cr s))) = Some (OConfigMap cm)"
      "conf_hosts (conf (b_db s')) = conf_hosts (conf (b_db s)) \<union> rm_host ` set ms" "objs (b_api s') = objs (b_api s)"
    by blast
  with ByNodePort_hosts[OF *(1) refl] show ?thesis by (intro exI conjI) auto
qed

text \<open>The cluster administrator was created.\<close>

definition admin_plane :: "(mem, mongod) bstate" where
  "admin_plane = sample_bstate (plane_mongo\<lparr>mg_status := (mg_status plane_mongo)\<lparr>mgt_conditions :=
     [true_condition ConditionTypeUserClusterAdmin (pod_label (plane_pod ''b'') LabelKeyReplsetName)]\<rparr>\<rparr>)
     (mem_of plane_objects) plane_db"

theorem ensure_member_joins_witness:
  "\<exists>s'. MongoEnsureMemberConfig plane_env (plane_pod ''b'') admin_plane = (Ok (), s') \<and>
    conf_hosts (mo_conf (b_db admin_plane)) = {''10.0.0.1:1''} \<and>
    conf_hosts (mo_conf (b_db s')) = {''10.0.0.1:1'', ''10.0.0.1:2''}"
proof -
  have "fst (MongoEnsureMemberConfig plane_env (plane_pod ''b'') admin_plane) = Ok ()" by code_simp
  then obtain s' where run: "MongoEnsureMemberConfig plane_env (plane_pod ''b'') admin_plane = (Ok (), s')"
    by (metis prod.collapse)
  have env: "e_cli plane_env = mem_client" "e_md plane_env = mongod_client" "iteration_order (e_order plane_env)"
    by (simp_all add: plane_env_def sample_env_def)
  have inv: "mem_inv (b_api admin_plane)" by code_simp
  have role: "\<not> IsNotNeedReConfig (Some (plane_pod ''b''))" by code_simp
  have cond: "condition_true ConditionTypeUserClusterAdmin (pod_label (plane_pod ''b'') LabelKeyReplsetName) admin_plane"
    by code_simp
  have old: "conf_hosts (mo_conf (b_db admin_plane)) = {''10.0.0.1:1''}"
    by (simp add: admin_plane_def sample_bstate_def plane_db_def sample_mongod_def sample_config_def conf_hosts_def
        plain_member_def new_member_def)
  have db: "replica_set (e_md plane_env) mo_conf" using mongod.replica_set_axioms env(2) by simp
  have cr: "mgs_member_config_ref (mg_spec (b_cr admin_plane)) = ''m-hostconf''" "cr_ns' (b_cr admin_plane) = ''ns''"
    by code_simp+
  have "mem_lookup (b_api admin_plane) (KConfigMap, ''ns'', ''m-hostconf'') = Some (OConfigMap plane_cm)"
    by (simp add: mem_lookup_def admin_plane_def sample_bstate_def mem_of_def plane_objects_def okey_of_def plane_cm_def
        meta_of_def plane_mongo_def ready_mongo_def sample_mongo_def)
  moreover have "pod_host (mem_lookup (b_api admin_plane)) (b_cr admin_plane) (plane_pod ''b'') = Some ''10.0.0.1:2''"
    by code_simp
  moreover have "names_host plane_cm arb ''10.0.0.1:2''" for arb
  proof -
    have "1 < length (go_split ''\<newline>'' (gm_get '''' (cm_data plane_cm) ''datas'')) \<and>
      go_split ''\<newline>'' (gm_get '''' (cm_data plane_cm) ''datas'') ! 1 \<noteq> '''' \<and>
      host_of_line (go_split ''\<newline>'' (gm_get '''' (cm_data plane_cm) ''datas'') ! 1) = Ok ''10.0.0.1:2''"
      by code_simp
    then show ?thesis unfolding names_host_def lines_name_def by (intro disjI1 exI[of _ 1]) (simp add: MaxMembers_def)
  qed
  ultimately show ?thesis
    using ensure_member_joins[OF mem.kube_api_axioms db env(1,3) inv role cond run] run
    unfolding cr old by auto
qed

end
