(* ===== verification/Shell_Text.thy ===== *)
theory Shell_Text
  imports Mongo_Config
begin

text \<open>
  The texts that leave the program for another reader: the commands of \<open>mgo/script.go\<close>, which run under
  \<open>/bin/sh -c\<close> (\<open>k8s/exec.go\<close>), the URI of the metrics exporter, and the generated passwords of
  \<open>util/rand.go\<close> that go into both.
\<close>

section \<open>Generated keys\<close>

text \<open>\<open>base64.StdEncoding\<close>: three bytes are four digits, a shorter rest is padded.\<close>

definition base64_alphabet :: string where
  "base64_alphabet = ''ABCDEFGHIJKLMNOPQRSTUVWXYZabcdefghijklmnopqrstuvwxyz0123456789+/''"

definition base64_digits :: "nat \<Rightarrow> int \<Rightarrow> string" where
  "base64_digits k n = map (\<lambda>i. base64_alphabet ! nat (n div 64 ^ i mod 64)) (rev [4 - k..<4])"

fun base64_encode :: "8 word list \<Rightarrow> string" where
  "base64_encode [] = []"
| "base64_encode [a] = base64_digits 2 (uint a * 65536) @ ''==''"
| "base64_encode [a, b] = base64_digits 3 (uint a * 65536 + uint b * 256) @ ''=''"
| "base64_encode (a # b # c # bs) = base64_digits 4 (uint a * 65536 + uint b * 256 + uint c) @ base64_encode bs"

text \<open>\<open>random n\<close> is what \<open>rand.Read\<close> puts into a buffer of \<open>n\<close> bytes; its error gives the nil key.\<close>

definition GenerateKey :: "(nat \<Rightarrow> 8 word list option) \<Rightarrow> nat \<Rightarrow> string" where
  "GenerateKey random ln = (case random ln of None \<Rightarrow> [] | Some b \<Rightarrow> base64_encode b)"

lemma base64_digits_length [simp]: "k \<le> 4 \<Longrightarrow> length (base64_digits k n) = k"
  by (simp add: base64_digits_def)

lemma base64_digits_alphabet: "set (base64_digits k n) \<subseteq> set base64_alphabet"
proof -
  have "nat (n div 64 ^ i mod 64) < length base64_alphabet" for i
    using pos_mod_bound[of 64 "n div 64 ^ i"] by (simp add: base64_alphabet_def nat_less_iff)
  then show ?thesis by (auto simp: base64_digits_def)
qed

lemma base64_length: "length (base64_encode bs) = 4 * ((length bs + 2) div 3)"
proof (induction bs rule: base64_encode.induct)
  case (4 a b c bs)
  have "(length (a # b # c # bs) + 2) div 3 = (length bs + 2) div 3 + 1"
    using div_add_self2[of 3 "length bs + 2"] by (simp add: add.commute)
  with 4 show ?case by simp
qed auto

lemma base64_chars: "set (base64_encode bs) \<subseteq> set base64_alphabet \<union> {CHR ''=''}"
  by (induction bs rule: base64_encode.induct) (use base64_digits_alphabet in \<open>fastforce simp del: One_nat_def\<close>)+

section \<open>Words of a command\<close>

text \<open>
  What a POSIX shell makes of a command with single quotes: between two quotes every character stands for
  itself; outside, blanks separate words and only letters, digits and hyphens are considered (any other
  character may be special to the shell, and gives \<open>None\<close> here, as does an open quote at the end).
\<close>

definition plain_char :: "char \<Rightarrow> bool" where
  "plain_char c \<longleftrightarrow> c \<in> set ''abcdefghijklmnopqrstuvwxyzABCDEFGHIJKLMNOPQRSTUVWXYZ0123456789-''"

fun shell_words :: "bool \<Rightarrow> string option \<Rightarrow> string \<Rightarrow> string list option" where
  "shell_words True w [] = None"
| "shell_words False w [] = Some (case w of None \<Rightarrow> [] | Some v \<Rightarrow> [v])"
| "shell_words True w (c # cs) =
     (if c = CHR 0x27 then shell_words False w cs
      else shell_words True (Some (case w of None \<Rightarrow> [c] | Some v \<Rightarrow> v @ [c])) cs)"
| "shell_words False w (c # cs) =
     (if c = CHR 0x27 then shell_words True (Some (case w of None \<Rightarrow> [] | Some v \<Rightarrow> v)) cs
      else if c = CHR '' '' then
        map_option (\<lambda>ws. (case w of None \<Rightarrow> ws | Some v \<Rightarrow> v # ws)) (shell_words False None cs)
      else if plain_char c then shell_words False (Some (case w of None \<Rightarrow> [c] | Some v \<Rightarrow> v @ [c])) cs
      else None)"

lemma quoted_word:
  "CHR 0x27 \<notin> set s \<Longrightarrow> shell_words True (Some v) (s @ CHR 0x27 # cs) = shell_words False (Some (v @ s)) cs"
  by (induction s arbitrary: v) auto

lemma words_unquoted:
  "shell_words b w s = Some ws \<Longrightarrow> (\<forall>v. w = Some v \<longrightarrow> CHR 0x27 \<notin> set v) \<Longrightarrow> v \<in> set ws \<Longrightarrow> CHR 0x27 \<notin> set v"
proof (induction b w s arbitrary: ws rule: shell_words.induct)
  case (4 w c cs)
  then show ?case by (auto split: if_splits option.splits)
qed (auto split: if_splits option.splits)

lemma shell_with_auth:
  assumes "CHR 0x27 \<notin> set pw" and "CHR 0x27 \<notin> set js"
  shows "shell_words False None (MongoShellEvalWithAuth pw js) =
    Some [''mongo'', ''-u'', ''root'', ''-p'', pw, ''--eval'', js]"
proof -
  have js: "shell_words True (Some []) (js @ [CHR 0x27]) = Some [js]"
    using quoted_word[OF assms(2), of "[]" "[]"] by simp
  have "shell_words True (Some []) (pw @ CHR 0x27 # '' --eval '' @ CHR 0x27 # js @ [CHR 0x27]) =
      Some [pw, ''--eval'', js]"
    unfolding quoted_word[OF assms(1)] by (simp add: plain_char_def js)
  then show ?thesis by (simp add: MongoShellEvalWithAuth_def quote_def plain_char_def)
qed

lemma shell_no_auth:
  assumes "CHR 0x27 \<notin> set js"
  shows "shell_words False None (MongoShellEvalNoAuth js) = Some [''mongo'', ''--eval'', js]"
  using quoted_word[OF assms, of "[]" "[]"] by (simp add: MongoShellEvalNoAuth_def quote_def plain_char_def)

section \<open>Authority of a URI\<close>

text \<open>After the scheme \<open>mongodb://\<close> the authority ends at the next slash, question mark or hash sign.\<close>

definition uri_authority :: "string \<Rightarrow> string" where
  "uri_authority uri = takeWhile (\<lambda>c. c \<notin> set ''/?#'') (drop (length ''mongodb://'') uri)"

section \<open>Properties\<close>

text \<open>
  C36: the commands survive the shell exactly when the rule of \<open>script.go\<close> (no single quote in an argument)
  is kept: the words the shell passes to \<open>mongo\<close> are the options, the password and the script as given if
  and only if neither contains a quote; and the scripts contain one only if a text put into them does.
\<close>

theorem shell_words_exact:
  "(shell_words False None (MongoShellEvalWithAuth pw js) = Some [''mongo'', ''-u'', ''root'', ''-p'', pw, ''--eval'', js]
      \<longleftrightarrow> CHR 0x27 \<notin> set pw \<union> set js) \<and>
   (shell_words False None (MongoShellEvalNoAuth js) = Some [''mongo'', ''--eval'', js] \<longleftrightarrow> CHR 0x27 \<notin> set js) \<and>
   (CHR 0x27 \<in> set (RSIntitate rs ms) \<longleftrightarrow> CHR 0x27 \<in> set rs \<union> set ms) \<and>
   (CHR 0x27 \<in> set (RSReconfig rs ms) \<longleftrightarrow> CHR 0x27 \<in> set rs \<union> set ms) \<and>
   (CHR 0x27 \<in> set (CreateUserScript user secret) \<longleftrightarrow> CHR 0x27 \<in> set user \<union> set secret)"
proof -
  have none: "\<forall>v. None = Some v \<longrightarrow> CHR 0x27 \<notin> set v" for v :: string by simp
  have "CHR 0x27 \<notin> set pw \<union> set js"
    if "shell_words False None (MongoShellEvalWithAuth pw js) = Some [''mongo'', ''-u'', ''root'', ''-p'', pw, ''--eval'', js]"
    using words_unquoted[OF that, of pw] words_unquoted[OF that, of js] by simp
  moreover have "CHR 0x27 \<notin> set js"
    if "shell_words False None (MongoShellEvalNoAuth js) = Some [''mongo'', ''--eval'', js]"
    using words_unquoted[OF that, of js] by simp
  ultimately show ?thesis
    using shell_with_auth[of pw js] shell_no_auth[of js]
    by (auto simp: RSIntitate_def RSReconfig_def CreateUserScript_def dquote_def nl_def)
qed

text \<open>
  C37: a password generated by the defaulting webhook of MultiCloudMongoDB has the twelve characters of eight
  encoded bytes and reaches the database shell unchanged, whatever bytes the random source gives.
\<close>

theorem generated_password_quoted:
  assumes "random 8 = Some bytes" and "length bytes = 8" and "au_root_passwd (mcs_auth (mc_spec r)) = None"
    and "MultiCloud_Default parse (GenerateKey random 8) r = Ok r'" and "CHR 0x27 \<notin> set js"
  shows "\<exists>pw. au_root_passwd (mcs_auth (mc_spec r')) = Some pw \<and> length pw = 12 \<and>
    set pw \<subseteq> set base64_alphabet \<union> {CHR ''=''} \<and>
    shell_words False None (MongoShellEvalWithAuth pw js) = Some [''mongo'', ''-u'', ''root'', ''-p'', pw, ''--eval'', js]"
proof -
  let ?pw = "base64_encode bytes"
  have "au_root_passwd (mcs_auth (mc_spec r')) = Some ?pw"
    using assms(1,3,4) by (auto simp: MultiCloud_Default_def Let_def or_some_def GenerateKey_def split: outcome.splits)
  moreover have "CHR 0x27 \<notin> set base64_alphabet \<union> {CHR ''=''}" by (simp add: base64_alphabet_def)
  then have "CHR 0x27 \<notin> set ?pw" using base64_chars[of bytes] by blast
  ultimately show ?thesis
    using base64_length[of bytes] base64_chars[of bytes] shell_with_auth[OF _ assms(5), of ?pw] assms(2) by simp
qed

theorem generated_password_quoted_witness:
  "\<exists>r' pw. MultiCloud_Default sample_parse (GenerateKey (\<lambda>n. Some (replicate n 255)) 8)
      (sample_cr\<lparr>mc_spec := (mc_spec sample_cr)\<lparr>mcs_resource := default_resources,
         mcs_auth := \<lparr>au_root_passwd = None\<rparr>\<rparr>\<rparr>) = Ok r' \<and>
    au_root_passwd (mcs_auth (mc_spec r')) = Some pw \<and> length pw = 12"
proof -
  let ?r = "sample_cr\<lparr>mc_spec := (mc_spec sample_cr)\<lparr>mcs_resource := default_resources,
         mcs_auth := \<lparr>au_root_passwd = None\<rparr>\<rparr>\<rparr>"
  have bytes: "(\<lambda>n. Some (replicate n 255)) 8 = Some (replicate 8 (255 :: 8 word))" "length (replicate 8 (255 :: 8 word)) = 8"
    by simp_all
  have none: "au_root_passwd (mcs_auth (mc_spec ?r)) = None" by simp
  have "default_resources \<noteq> no_resources" by (simp add: default_resources_def no_resources_def cpu_memory_def)
  then obtain r' where run: "MultiCloud_Default sample_parse (GenerateKey (\<lambda>n. Some (replicate n 255)) 8) ?r = Ok r'"
    by (simp add: MultiCloud_Default_def default_mc_resource_def Let_def)
  from generated_password_quoted[OF bytes none run, of "[]"] run show ?thesis by auto
qed

text \<open>
  The URI of the metrics exporter names user, password and host as meant exactly when the root
  password has no slash, question mark or hash sign: it is not escaped. Generated passwords may contain a
  slash.
\<close>

theorem exporter_uri_authority:
  "(uri_authority (exporter_uri cr '''') =
      MongoClusterMonitor @ '':'' @ mgs_root_password (mg_spec cr) @ ''@127.0.0.1:27017''
    \<longleftrightarrow> set (mgs_root_password (mg_spec cr)) \<inter> set ''/?#'' = {}) \<and>
   (\<exists>bytes. length bytes = 8 \<and> CHR ''/'' \<in> set (GenerateKey (\<lambda>n. Some bytes) 8))"
proof -
  let ?pw = "mgs_root_password (mg_spec cr)"
  have port: "itoa DefaultPort = ''27017''" by code_simp
  have uri: "drop (length ''mongodb://'') (exporter_uri cr '''') =
      (MongoClusterMonitor @ '':'' @ ?pw @ ''@127.0.0.1:27017'') @ ''/?authSource=admin&connect=direct''"
    by (simp add: exporter_uri_def port)
  have "uri_authority (exporter_uri cr '''') = MongoClusterMonitor @ '':'' @ ?pw @ ''@127.0.0.1:27017''"
    if "set ?pw \<inter> set ''/?#'' = {}"
  proof -
    have "\<forall>c \<in> set (MongoClusterMonitor @ '':'' @ ?pw @ ''@127.0.0.1:27017''). c \<notin> set ''/?#''"
      using that by (auto simp: MongoClusterMonitor_def)
    then show ?thesis unfolding uri_authority_def uri by (subst takeWhile_append2) auto
  qed
  moreover have "set ?pw \<inter> set ''/?#'' = {}"
    if a: "uri_authority (exporter_uri cr '''') = MongoClusterMonitor @ '':'' @ ?pw @ ''@127.0.0.1:27017''"
  proof -
    have "set ?pw \<subseteq> set (uri_authority (exporter_uri cr ''''))" unfolding a by auto
    then show ?thesis unfolding uri_authority_def by (auto dest: set_takeWhileD)
  qed
  moreover have "CHR ''/'' \<in> set (GenerateKey (\<lambda>n. Some (replicate 8 255)) 8)" by code_simp
  then have "\<exists>bytes. length bytes = 8 \<and> CHR ''/'' \<in> set (GenerateKey (\<lambda>n. Some bytes) 8)"
    by (intro exI[of _ "replicate 8 255"]) simp
  ultimately show ?thesis by blast
qed

end
