(* ===== verification/Exec_Timeout.thy ===== *)
theory Exec_Timeout
  imports Api_Types
begin

text \<open>
  Calls with a time limit: \<open>TimeoutWrap\<close> of \<open>util/ctx.go\<close> runs a function in a goroutine that hands its
  result over an unbuffered channel, and \<open>ExecCmd\<close> of \<open>k8s/exec.go\<close> runs a remote command in it. The
  goroutine, the caller and the timer move on their own, so this is a step relation.
\<close>

section \<open>The machine\<close>

text \<open>The goroutine runs \<open>fn\<close>, offers the result on the channel, and ends once it was taken.\<close>

datatype 'r worker = Running | Offering 'r | Ended 'r

text \<open>The caller sits in the \<open>select\<close> until one of its cases is taken.\<close>

datatype 'r caller = Selecting | Returned 'r

record 'r wrap =
  wr_worker :: "'r worker"
  wr_caller :: "'r caller"
  wr_expired :: bool

definition wrap_start :: "'r wrap" where
  "wrap_start = \<lparr>wr_worker = Running, wr_caller = Selecting, wr_expired = False\<rparr>"

text \<open>
  \<open>results\<close> are the values \<open>fn\<close> may end with (it may also never end), \<open>late\<close> is the error of a time-out. A
  send on an unbuffered channel and its receive are one step.
\<close>

inductive wrap_step :: "'r set \<Rightarrow> 'r \<Rightarrow> 'r wrap \<Rightarrow> 'r wrap \<Rightarrow> bool" for results late where
  finish: "wr_worker s = Running \<Longrightarrow> r \<in> results \<Longrightarrow> wrap_step results late s (s\<lparr>wr_worker := Offering r\<rparr>)"
| fire: "\<not> wr_expired s \<Longrightarrow> wrap_step results late s (s\<lparr>wr_expired := True\<rparr>)"
| receive: "wr_worker s = Offering r \<Longrightarrow> wr_caller s = Selecting \<Longrightarrow>
    wrap_step results late s (s\<lparr>wr_worker := Ended r, wr_caller := Returned r\<rparr>)"
| expire: "wr_expired s \<Longrightarrow> wr_caller s = Selecting \<Longrightarrow> wrap_step results late s (s\<lparr>wr_caller := Returned late\<rparr>)"

inductive_cases wrap_stepE: "wrap_step results late s t"

abbreviation wrap_steps :: "'r set \<Rightarrow> 'r \<Rightarrow> 'r wrap \<Rightarrow> 'r wrap \<Rightarrow> bool" where
  "wrap_steps results late \<equiv> (wrap_step results late)\<^sup>*\<^sup>*"

section \<open>Remote commands\<close>

record exec_request =
  xr_namespace :: string
  xr_pod :: string
  xr_container :: string
  xr_command :: "string list"

definition pod_exec_request :: "pod \<Rightarrow> string \<Rightarrow> string \<Rightarrow> exec_request" where
  "pod_exec_request p containerName command = \<lparr>xr_namespace = om_namespace (po_meta p), xr_pod = om_name (po_meta p),
     xr_container = containerName, xr_command = [''/bin/sh'', ''-c'', command]\<rparr>"

text \<open>
  \<open>connect\<close> is the error of making the client set; \<open>stream\<close> is the wrapped call of \<open>execute\<close>: what the two
  buffers hold when it is over, and its error. The output is returned with the error.
\<close>

definition ExecCmd ::
    "gerror option \<Rightarrow> (exec_request \<Rightarrow> string \<times> string \<times> gerror option) \<Rightarrow> pod \<Rightarrow> string \<Rightarrow> string \<Rightarrow>
     string \<times> string \<times> gerror option" where
  "ExecCmd connect stream p containerName command = (case connect of
       Some e \<Rightarrow> ('''', '''', Some e)
     | None \<Rightarrow> (case stream (pod_exec_request p containerName command) of
         (outStr, errStr, err) \<Rightarrow> (outStr, errStr, map_option (\<lambda>e. Wrap e ''k8s exec err'') err)))"

section \<open>Lemmas\<close>

text \<open>The worker offers only results, and it has ended exactly when the caller took what it offered.\<close>

definition wrap_inv :: "'r set \<Rightarrow> 'r \<Rightarrow> 'r wrap \<Rightarrow> bool" where
  "wrap_inv results late s \<longleftrightarrow>
     (case wr_worker s of
        Running \<Rightarrow> wr_caller s = Selecting \<or> wr_caller s = Returned late \<and> wr_expired s
      | Offering r \<Rightarrow> r \<in> results \<and> (wr_caller s = Selecting \<or> wr_caller s = Returned late \<and> wr_expired s)
      | Ended r \<Rightarrow> r \<in> results \<and> wr_caller s = Returned r)"

lemma wrap_inv_start: "wrap_inv results late wrap_start"
  by (simp add: wrap_inv_def wrap_start_def)

lemma wrap_inv_step: "wrap_step results late s t \<Longrightarrow> wrap_inv results late s \<Longrightarrow> wrap_inv results late t"
  by (induction rule: wrap_step.induct) (auto simp: wrap_inv_def split: worker.splits)

lemma wrap_inv_steps: "wrap_steps results late s t \<Longrightarrow> wrap_inv results late s \<Longrightarrow> wrap_inv results late t"
  by (induction rule: rtranclp_induct) (auto intro: wrap_inv_step)

text \<open>A caller that returned takes nothing any more.\<close>

definition abandoned :: "'r wrap \<Rightarrow> bool" where
  "abandoned s \<longleftrightarrow> wr_caller s \<noteq> Selecting \<and> (\<forall>r. wr_worker s \<noteq> Ended r)"

lemma abandoned_step: "wrap_step results late s t \<Longrightarrow> abandoned s \<Longrightarrow> abandoned t"
  by (induction rule: wrap_step.induct) (auto simp: abandoned_def)

lemma abandoned_steps: "wrap_steps results late s t \<Longrightarrow> abandoned s \<Longrightarrow> abandoned t"
  by (induction rule: rtranclp_induct) (auto intro: abandoned_step)

text \<open>Work left: every step uses up one of at most four units, so there is no endless run.\<close>

fun worker_left :: "'r worker \<Rightarrow> nat" where
  "worker_left Running = 1" | "worker_left (Offering r) = 0" | "worker_left (Ended r) = 0"

definition wrap_left :: "'r wrap \<Rightarrow> nat" where
  "wrap_left s = worker_left (wr_worker s) + (if wr_expired s then 0 else 1) +
     (if wr_caller s = Selecting then 1 else 0)"

lemma wrap_left_step: "wrap_step results late s t \<Longrightarrow> wrap_left t < wrap_left s"
  by (induction rule: wrap_step.induct) (auto simp: wrap_left_def)

section \<open>Properties\<close>

text \<open>
  C38: \<open>TimeoutWrap\<close> always returns, within three steps of the machine and even if the function never ends:
  from every state it can reach every run is finite, and where it stops the caller has returned. What it
  returned is a result of the function or, once the timer has fired, the time-out error.
\<close>

theorem timeout_wrap_returns:
  assumes "wrap_steps results late wrap_start s"
  shows "wrap_left s \<le> 3 \<and> (\<forall>t. wrap_step results late s t \<longrightarrow> wrap_left t < wrap_left s) \<and>
    ((\<nexists>t. wrap_step results late s t) \<longrightarrow> wr_caller s \<noteq> Selecting) \<and>
    (\<forall>r. wr_caller s = Returned r \<longrightarrow> r \<in> results \<or> r = late \<and> wr_expired s)"
proof -
  have inv: "wrap_inv results late s" by (rule wrap_inv_steps[OF assms wrap_inv_start])
  have "worker_left (wr_worker s) \<le> 1" by (cases "wr_worker s") auto
  then have "wrap_left s \<le> 3" by (simp add: wrap_left_def)
  moreover have "wr_caller s \<noteq> Selecting" if "\<nexists>t. wrap_step results late s t"
  proof
    assume sel: "wr_caller s = Selecting"
    show False
    proof (cases "wr_expired s")
      case True
      from wrap_step.expire[OF this sel] that show False by metis
    next
      case False
      from wrap_step.fire[OF this] that show False by metis
    qed
  qed
  moreover have "r \<in> results \<or> r = late \<and> wr_expired s" if "wr_caller s = Returned r" for r
    using inv that by (auto simp: wrap_inv_def split: worker.splits)
  ultimately show ?thesis by (intro conjI allI impI wrap_left_step)
qed

text \<open>The function never ends, and the caller gets the time-out.\<close>

theorem timeout_wrap_returns_witness:
  "\<exists>s :: nat wrap. wrap_steps {} 7 wrap_start s \<and> wr_caller s = Returned 7 \<and> wrap_left s \<le> 3"
proof -
  let ?s1 = "wrap_start\<lparr>wr_expired := True\<rparr> :: nat wrap" and ?s2 = "wrap_start\<lparr>wr_expired := True, wr_caller := Returned 7\<rparr> :: nat wrap"
  have "wrap_step {} 7 wrap_start ?s1" by (rule wrap_step.fire) (simp add: wrap_start_def)
  moreover have "wrap_step {} 7 ?s1 ?s2" using wrap_step.expire[of ?s1 "{}" 7] by (simp add: wrap_start_def)
  ultimately have "wrap_steps {} 7 wrap_start ?s2" by simp
  with timeout_wrap_returns[OF this] show ?thesis by (intro exI[of _ ?s2]) simp
qed

text \<open>
  C39: a time-out leaves the goroutine behind: from a state in which the caller has returned before it took
  the goroutine's result, no step ever lets the goroutine end, since nobody receives from the channel.
\<close>

theorem timeout_leaks_goroutine:
  assumes "wrap_steps results late wrap_start s" and "wr_caller s \<noteq> Selecting" and "\<forall>r. wr_worker s \<noteq> Ended r"
    and "wrap_steps results late s t"
  shows "wr_caller t = Returned late \<and> (\<forall>r. wr_worker t \<noteq> Ended r) \<and>
    (wr_worker t = Running \<or> (\<exists>r \<in> results. wr_worker t = Offering r \<and> wr_expired t \<and> (\<nexists>u. wrap_step results late t u)))"
proof -
  have "abandoned s" using assms(2,3) by (simp add: abandoned_def)
  with assms(4) have t: "abandoned t" by (rule abandoned_steps)
  have inv: "wrap_inv results late t"
    by (rule wrap_inv_steps[OF assms(4) wrap_inv_steps[OF assms(1) wrap_inv_start]])
  have stuck: "\<nexists>u. wrap_step results late t u" if "wr_worker t = Offering r" for r
    using t inv that by (auto simp: abandoned_def wrap_inv_def elim!: wrap_stepE)
  show ?thesis
    using t inv stuck by (cases "wr_worker t") (auto simp: abandoned_def wrap_inv_def)
qed

theorem timeout_leaks_goroutine_witness:
  "\<exists>s :: nat wrap. wrap_steps {1} 7 wrap_start s \<and> wr_caller s = Returned 7 \<and> wr_worker s = Offering 1 \<and>
    (\<nexists>u. wrap_step {1} 7 s u)"
proof -
  let ?s1 = "wrap_start\<lparr>wr_expired := True\<rparr> :: nat wrap"
  let ?s2 = "wrap_start\<lparr>wr_expired := True, wr_caller := Returned 7\<rparr> :: nat wrap"
  let ?s3 = "wrap_start\<lparr>wr_expired := True, wr_caller := Returned 7, wr_worker := Offering 1\<rparr> :: nat wrap"
  have "wrap_step {1} 7 wrap_start ?s1" by (rule wrap_step.fire) (simp add: wrap_start_def)
  moreover have "wrap_step {1} 7 ?s1 ?s2" using wrap_step.expire[of ?s1 "{1}" 7] by (simp add: wrap_start_def)
  ultimately have s2: "wrap_steps {1} 7 wrap_start ?s2" by simp
  have "wrap_step {1} 7 ?s2 ?s3" using wrap_step.finish[of ?s2 1 "{1}" 7] by (simp add: wrap_start_def)
  then have s3: "wrap_steps {1} 7 ?s2 ?s3" by blast
  from timeout_leaks_goroutine[OF s2 _ _ s3] have "\<nexists>u. wrap_step {1} 7 ?s3 u" by (simp add: wrap_start_def)
  moreover have "wrap_steps {1} 7 wrap_start ?s3" using s2 s3 by simp
  ultimately show ?thesis by (intro exI[of _ ?s3]) (simp add: wrap_start_def)
qed

end
