(* ===== verification/Startup.thy ===== *)
theory Startup
  imports Webhooks
begin

text \<open>
  Starting the operator: \<open>main.go\<close>, the flags of \<open>pkg/config/config.go\<close> and the webhook settings of
  \<open>api/v1alpha1/const.go\<close>. The manager, the certificate rotator and the client configuration are
  libraries; the errors of their calls are the environment's. \<open>os.Exit(1)\<close> is an error of the process.
  Up to the goroutine \<open>main\<close> is one sequence; then it, the goroutine and the rotators move on their own, so
  the rest is a step relation.
\<close>

section \<open>Settings\<close>

record webhook_setting =
  wh_service_name :: string
  wh_secret_name :: string
  wh_cert_dir :: string
  wh_ca_name :: string
  wh_ca_organization :: string

definition MongoWebhookCertDir :: string where
  "MongoWebhookCertDir = ''/tmp/k8s-webhook-server/serving-certs''"

definition MultiCloudMongoWebhook :: webhook_setting where
  "MultiCloudMongoWebhook = \<lparr>wh_service_name = ''federation-mongo-manager-service'',
     wh_secret_name = ''federation-mongo-operator-webhook-cert'', wh_cert_dir = MongoWebhookCertDir,
     wh_ca_name = ''federation-mongo-operator-ca'', wh_ca_organization = ''federation-mongo-operator''\<rparr>"

definition MongoWebhook :: webhook_setting where
  "MongoWebhook = \<lparr>wh_service_name = ''mongo-manager'', wh_secret_name = ''mongo-operator-webhook-cert'',
     wh_cert_dir = MongoWebhookCertDir, wh_ca_name = ''mongo-operator-ca'', wh_ca_organization = ''mongo-operator''\<rparr>"

record config =
  cfg_workers :: int
  cfg_multi_cloud :: bool
  cfg_mongo :: bool

text \<open>
  The keys viper reads for the rest of the program: the images of both controllers and the context of the
  Karmada configuration, each with its default and the variable that overrides it.
\<close>

definition vip_settings :: "(string \<times> string \<times> string) list" where
  "vip_settings = [(''MongoImage'', ''fedstate.io/atsctoo/mongo:3.6'', ''MONGO_IMAGE''),
     (''ExporterImage'', ''fedstate.io/atsctoo/mongodb-exporter:0.32.0'', ''EXPORTER_IMAGE''),
     (''KarmadaCxt'', ''Karmada'', ''KARMADA_CONTEXT_NAME'')]"

text \<open>The flags of \<open>main\<close> and their defaults.\<close>

record start_flags =
  fl_metrics_address :: string
  fl_probe_address :: string
  fl_leader_election :: bool
  fl_kubeconfig :: string
  fl_cert_rotation :: bool

definition default_flags :: start_flags where
  "default_flags = \<lparr>fl_metrics_address = '':8080'', fl_probe_address = '':8081'', fl_leader_election = False,
     fl_kubeconfig = ''/etc/kubeconfig'', fl_cert_rotation = True\<rparr>"

text \<open>The flags of the configuration, without arguments.\<close>

definition default_config :: config where
  "default_config = \<lparr>cfg_workers = 1, cfg_multi_cloud = False, cfg_mongo = False\<rparr>"

section \<open>The process\<close>

datatype part = MultiCloudController | MultiCloudWebhookHandler | MongoController | MongoWebhookHandler

datatype webhook_kind = Validating | Mutating

record rotator =
  ro_namespace :: string
  ro_secret :: string
  ro_cert_dir :: string
  ro_ca_name :: string
  ro_ca_organization :: string
  ro_dns_name :: string
  ro_webhooks :: "(string \<times> webhook_kind) list"

text \<open>\<open>closed\<close> is the channel \<open>setupFinished\<close>.\<close>

record process =
  pr_closed :: bool
  pr_rotators :: "rotator list"
  pr_registered :: "part list"
  pr_serving :: bool

text \<open>
  The errors of the library calls; \<open>namespace_file\<close> is the content of the service account's file, or
  whether its absence is the error; \<open>certs_ready\<close> says which rotators get their certificates ready: a
  rotator then closes the channel it was given as \<open>IsReady\<close>, as the rotator's documentation has it.
\<close>

record startup_env =
  su_load_kubeconfig :: "gerror option"
  su_client_config :: "gerror option"
  su_in_cluster_config :: "gerror option"
  su_new_manager :: "gerror option"
  su_add_rotator :: "rotator \<Rightarrow> gerror option"
  su_register :: "part \<Rightarrow> gerror option"
  su_health_check :: "gerror option"
  su_ready_check :: "gerror option"
  su_start :: "gerror option"
  su_namespace_file :: "bool + string"
  su_certs_ready :: "rotator \<Rightarrow> bool"

definition exit_on :: "gerror option \<Rightarrow> ('s, unit) go" where
  "exit_on err = (case err of Some e \<Rightarrow> fail (NewErr ''exit status 1'') | None \<Rightarrow> ret ())"

definition trim_space :: "string \<Rightarrow> string" where
  "trim_space s = (let blank = (\<lambda>c. c \<in> {CHR '' '', CHR 0x09, CHR 0x0A, CHR 0x0B, CHR 0x0C, CHR 0x0D})
     in rev (dropWhile blank (rev (dropWhile blank s))))"

text \<open>Another error than a missing file leaves the bytes empty.\<close>

definition GetOperatorNamespace :: "startup_env \<Rightarrow> string" where
  "GetOperatorNamespace E = (case su_namespace_file E of
     Inl not_exist \<Rightarrow> if not_exist then ''operators'' else trim_space ''''
   | Inr content \<Rightarrow> trim_space content)"

definition close_setup :: "(process, unit) go" where
  "close_setup = bindg (gets pr_closed) (\<lambda>closed.
     if closed then panic ''close of closed channel'' else modify (\<lambda>p. p\<lparr>pr_closed := True\<rparr>))"

definition webhook_rotator :: "webhook_setting \<Rightarrow> string \<Rightarrow> rotator" where
  "webhook_rotator wh ns = \<lparr>ro_namespace = ns, ro_secret = wh_secret_name wh, ro_cert_dir = wh_cert_dir wh,
     ro_ca_name = wh_ca_name wh, ro_ca_organization = wh_ca_organization wh,
     ro_dns_name = wh_service_name wh @ ''.'' @ ns @ ''.svc'',
     ro_webhooks = [(ns @ ''-validating-webhook-configuration'', Validating),
                    (ns @ ''-mutating-webhook-configuration'', Mutating)]\<rparr>"

definition doWebhook :: "startup_env \<Rightarrow> webhook_setting \<Rightarrow> string \<Rightarrow> bool \<Rightarrow> (process, unit) go" where
  "doWebhook E wh ns enableCertRotation =
     (if enableCertRotation
      then (let r = webhook_rotator wh ns in case su_add_rotator E r of
              Some e \<Rightarrow> fail e
            | None \<Rightarrow> modify (\<lambda>p. p\<lparr>pr_rotators := pr_rotators p @ [r]\<rparr>))
      else close_setup)"

definition register_part :: "startup_env \<Rightarrow> part \<Rightarrow> (process, unit) go" where
  "register_part E x = andthen (exit_on (su_register E x)) (modify (\<lambda>p. p\<lparr>pr_registered := pr_registered p @ [x]\<rparr>))"

definition webhook_or_exit :: "startup_env \<Rightarrow> webhook_setting \<Rightarrow> bool \<Rightarrow> (process, unit) go" where
  "webhook_or_exit E wh rotation = bindg (attempt (doWebhook E wh (GetOperatorNamespace E) rotation)) (\<lambda>r. case r of
     Inl e \<Rightarrow> exit_on (Some e) | Inr _ \<Rightarrow> ret ())"

definition set_up :: "startup_env \<Rightarrow> config \<Rightarrow> bool \<Rightarrow> (process, unit) go" where
  "set_up E cfg rotation =
     andthen (if cfg_multi_cloud cfg
              then andthen (exit_on (su_load_kubeconfig E)) (exit_on (su_client_config E))
              else exit_on (su_in_cluster_config E))
    (andthen (exit_on (su_new_manager E))
    (andthen (if cfg_multi_cloud cfg then webhook_or_exit E MultiCloudMongoWebhook rotation else ret ())
             (if cfg_mongo cfg then webhook_or_exit E MongoWebhook rotation else ret ())))"

text \<open>Up to the point where the manager runs; \<open>mgr.Start\<close> only comes back to end the process.\<close>

definition serve :: "startup_env \<Rightarrow> (process, unit) go" where
  "serve E = andthen (exit_on (su_health_check E)) (andthen (exit_on (su_ready_check E))
    (modify (\<lambda>p. p\<lparr>pr_serving := True\<rparr>)))"

text \<open>What the goroutine behind \<open>setupFinished\<close> registers, in its order.\<close>

definition wanted_parts :: "config \<Rightarrow> part list" where
  "wanted_parts cfg = (if cfg_multi_cloud cfg then [MultiCloudController, MultiCloudWebhookHandler] else []) @
     (if cfg_mongo cfg then [MongoController, MongoWebhookHandler] else [])"

definition new_process :: process where
  "new_process = \<lparr>pr_closed = False, pr_rotators = [], pr_registered = [], pr_serving = False\<rparr>"

section \<open>The running program\<close>

datatype ending = Exited | Crashed string

text \<open>
  \<open>st_waiting\<close> are the rotators without certificates so far, \<open>st_todo\<close> is what the goroutine has still to
  register. A panic of one goroutine ends the process.
\<close>

record startup =
  st_process :: process
  st_waiting :: "rotator list"
  st_todo :: "part list"
  st_end :: "ending option"

definition perform :: "(process, unit) go \<Rightarrow> startup \<Rightarrow> startup" where
  "perform m s = (case m (st_process s) of
     (Ok _, p) \<Rightarrow> s\<lparr>st_process := p\<rparr>
   | (Err _, p) \<Rightarrow> s\<lparr>st_process := p, st_end := Some Exited\<rparr>
   | (Panic msg, p) \<Rightarrow> s\<lparr>st_process := p, st_end := Some (Crashed msg)\<rparr>)"

definition launched :: "startup_env \<Rightarrow> config \<Rightarrow> bool \<Rightarrow> startup" where
  "launched E cfg rotation =
     (let s = perform (set_up E cfg rotation)
            \<lparr>st_process = new_process, st_waiting = [], st_todo = wanted_parts cfg, st_end = None\<rparr>
      in s\<lparr>st_waiting := pr_rotators (st_process s)\<rparr>)"

text \<open>
  \<open>main\<close> goes on to serve, and ends when the manager returns an error; the rotators run once the manager
  does, and close the channel; the goroutine registers when the channel is closed.
\<close>

inductive startup_step :: "startup_env \<Rightarrow> startup \<Rightarrow> startup \<Rightarrow> bool" for E where
  start: "st_end s = None \<Longrightarrow> \<not> pr_serving (st_process s) \<Longrightarrow> startup_step E s (perform (serve E) s)"
| stop: "st_end s = None \<Longrightarrow> pr_serving (st_process s) \<Longrightarrow> su_start E \<noteq> None \<Longrightarrow>
    startup_step E s (s\<lparr>st_end := Some Exited\<rparr>)"
| ready: "st_end s = None \<Longrightarrow> pr_serving (st_process s) \<Longrightarrow> r \<in> set (st_waiting s) \<Longrightarrow> su_certs_ready E r \<Longrightarrow>
    startup_step E s (perform close_setup (s\<lparr>st_waiting := remove1 r (st_waiting s)\<rparr>))"
| register: "st_end s = None \<Longrightarrow> pr_closed (st_process s) \<Longrightarrow> st_todo s = x # xs \<Longrightarrow>
    startup_step E s (perform (register_part E x) (s\<lparr>st_todo := xs\<rparr>))"

inductive_cases startup_stepE: "startup_step E s t"

abbreviation startup_steps :: "startup_env \<Rightarrow> startup \<Rightarrow> startup \<Rightarrow> bool" where
  "startup_steps E \<equiv> (startup_step E)\<^sup>*\<^sup>*"

text \<open>The filter of the events the MultiCloudMongoDB controller sees.\<close>

definition watched :: "object_meta \<Rightarrow> bool" where
  "watched m \<longleftrightarrow> gm_has (om_annotations m) ''schedulerResult''"

section \<open>Lemmas\<close>

text \<open>No library call fails.\<close>

definition no_failure :: "startup_env \<Rightarrow> bool" where
  "no_failure E \<longleftrightarrow> su_load_kubeconfig E = None \<and> su_client_config E = None \<and> su_in_cluster_config E = None \<and>
     su_new_manager E = None \<and> (\<forall>r. su_add_rotator E r = None) \<and> (\<forall>x. su_register E x = None) \<and>
     su_health_check E = None \<and> su_ready_check E = None \<and> su_start E = None"

lemma admitted_update_watched: "MultiCloud_ValidateUpdate old r = Ok () \<Longrightarrow> watched (mc_meta r)"
  by (auto simp: MultiCloud_ValidateUpdate_def watched_def gm_get_def gm_has_def split: option.splits if_splits)

lemmas startup_simps = set_up_def serve_def register_part_def webhook_or_exit_def doWebhook_def close_setup_def
  exit_on_def new_process_def no_failure_def wanted_parts_def perform_def

text \<open>The number of webhooks.\<close>

abbreviation webhooks :: "config \<Rightarrow> nat" where
  "webhooks cfg \<equiv> of_bool (cfg_multi_cloud cfg) + of_bool (cfg_mongo cfg)"

text \<open>
  While the process runs, every webhook has closed the channel or has a rotator that has not, and the
  channel is closed at most once.
\<close>

definition startup_inv :: "config \<Rightarrow> bool \<Rightarrow> startup \<Rightarrow> bool" where
  "startup_inv cfg rotation s \<longleftrightarrow>
     (case st_end s of None \<Rightarrow> length (st_waiting s) + of_bool (pr_closed (st_process s)) = webhooks cfg
      | Some e \<Rightarrow> webhooks cfg = 2 \<and> e = Crashed ''close of closed channel'') \<and>
     pr_registered (st_process s) @ st_todo s = wanted_parts cfg \<and>
     (pr_registered (st_process s) \<noteq> [] \<longrightarrow> pr_closed (st_process s)) \<and> (\<not> rotation \<longrightarrow> st_waiting s = [])"

lemma launched_inv: "no_failure E \<Longrightarrow> startup_inv cfg rotation (launched E cfg rotation)"
  by (cases "cfg_multi_cloud cfg"; cases "cfg_mongo cfg"; cases rotation)
    (simp_all add: launched_def startup_simps startup_inv_def go_simps Let_def)

lemma step_inv:
  assumes "startup_step E s t" "no_failure E" "startup_inv cfg rotation s"
  shows "startup_inv cfg rotation t"
  using assms
proof (cases rule: startup_step.cases)
  case (ready r)
  then have "length (st_waiting s) > 0" by (cases "st_waiting s") auto
  with ready assms(3) show ?thesis
    by (auto simp: startup_inv_def startup_simps go_simps length_remove1 split: if_splits)
qed (auto simp: startup_inv_def startup_simps go_simps)

lemma steps_inv: "startup_steps E s t \<Longrightarrow> no_failure E \<Longrightarrow> startup_inv cfg rotation s \<Longrightarrow> startup_inv cfg rotation t"
  by (induction rule: rtranclp_induct) (blast intro: step_inv)+

text \<open>Every step uses something up, so every run comes to an end.\<close>

definition startup_left :: "startup \<Rightarrow> nat" where
  "startup_left s = (if st_end s = None then Suc (length (st_waiting s) + length (st_todo s) +
     of_bool (\<not> pr_serving (st_process s))) else 0)"

lemma perform_left:
  assumes "m (st_process s) = (r, p)"
  shows "st_end (perform m s) = (case r of Ok _ \<Rightarrow> st_end s | Err _ \<Rightarrow> Some Exited | Panic msg \<Rightarrow> Some (Crashed msg))"
    "st_process (perform m s) = p" "st_waiting (perform m s) = st_waiting s" "st_todo (perform m s) = st_todo s"
  using assms by (auto simp: perform_def split: outcome.splits)

lemma step_left:
  assumes "startup_step E s t"
  shows "startup_left t < startup_left s"
  using assms
proof (cases rule: startup_step.cases)
  case start
  then show ?thesis
    by (auto simp: startup_left_def perform_def serve_def exit_on_def go_simps split: option.splits)
next
  case (ready r)
  then have "length (remove1 r (st_waiting s)) < length (st_waiting s)"
    using length_pos_if_in_set[of r] by (simp add: length_remove1)
  with ready show ?thesis
    by (auto simp: startup_left_def perform_def close_setup_def go_simps)
next
  case (register x xs)
  then show ?thesis
    by (auto simp: startup_left_def perform_def register_part_def exit_on_def go_simps split: option.splits)
qed (auto simp: startup_left_def)

lemma settles: "\<exists>t. startup_steps E s t \<and> (\<forall>u. \<not> startup_step E t u)"
proof (induction "startup_left s" arbitrary: s rule: less_induct)
  case less
  show ?case
  proof (cases "\<exists>u. startup_step E s u")
    case True
    then obtain u where u: "startup_step E s u" by blast
    from less[OF step_left[OF u]] obtain t where "startup_steps E u t" "\<forall>v. \<not> startup_step E t v" by blast
    with u show ?thesis by (meson converse_rtranclp_into_rtranclp)
  qed blast
qed

lemma settled:
  assumes "\<forall>u. \<not> startup_step E s u" "st_end s = None" "startup_inv cfg rotation s"
  shows "pr_serving (st_process s) \<and> (\<forall>r \<in> set (st_waiting s). \<not> su_certs_ready E r) \<and>
    pr_registered (st_process s) = (if length (st_waiting s) < webhooks cfg then wanted_parts cfg else [])"
proof -
  have up: "pr_serving (st_process s)" using assms(1,2) startup_step.start by blast
  moreover have "\<forall>r \<in> set (st_waiting s). \<not> su_certs_ready E r" using assms(1,2) up startup_step.ready by blast
  moreover have "st_todo s = []" if "pr_closed (st_process s)"
    using assms(1,2) that startup_step.register by (cases "st_todo s") blast+
  ultimately show ?thesis using assms(2,3) by (cases "pr_closed (st_process s)") (auto simp: startup_inv_def)
qed

section \<open>Properties\<close>


definition good_env :: startup_env where
  "good_env = \<lparr>su_load_kubeconfig = None, su_client_config = None, su_in_cluster_config = None, su_new_manager = None,
     su_add_rotator = (\<lambda>_. None), su_register = (\<lambda>_. None), su_health_check = None, su_ready_check = None,
     su_start = None, su_namespace_file = Inr ''ns'', su_certs_ready = (\<lambda>_. True)\<rparr>"


end
