(* ===== verification/Observability.thy ===== *)
theory Observability
  imports Resource_Builder
begin

text \<open>
  What the operator shows of itself: the loggers of \<open>logi/log.go\<close> and how the environment sets them, the
  events of \<open>event/event.go\<close> and the error counter of \<open>metrics/custom.go\<close>. No other part reads any of it,
  so these are worlds of their own. The values viper reads, zap's parser of levels and the writers are
  libraries: what they return is an argument.
\<close>

section \<open>Loggers\<close>

datatype level = DebugLevel | InfoLevel | WarnLevel | ErrorLevel | DPanicLevel | PanicLevel | FatalLevel

text \<open>The settings of \<open>init\<close>: the default of each key and the variable that overrides it.\<close>

datatype setting = BoolSetting bool | IntSetting int

definition log_settings :: "(string \<times> setting \<times> string) list" where
  "log_settings = [(''LogInfoLevel'', BoolSetting True, ''LOG_INFO_LEVEL''), (''MaxSize'', IntSetting 100, ''MAX_SIZE''),
     (''MaxAge'', IntSetting 30, ''MAX_AGE''), (''MaxBackups'', IntSetting 10, ''MAX_BACKUPS'')]"

record viper =
  vp_bool :: "string \<Rightarrow> bool"
  vp_int :: "string \<Rightarrow> int"

record log_file =
  lf_name :: string
  lf_max_size :: int
  lf_max_age :: int
  lf_max_backups :: int
  lf_local_time :: bool
  lf_compress :: bool

datatype sink = Console | LogFile log_file

record logger =
  lg_cores :: "(sink \<times> level) list"
  lg_caller :: bool
  lg_caller_skip :: int
  lg_development :: bool
  lg_stacktrace :: level
  lg_errors_to :: sink

text \<open>The configuration \<open>zapConfig\<close> of the source is built here and never read, so it has no place.\<close>

definition GetLogger :: "viper \<Rightarrow> logger" where
  "GetLogger v =
     (let writer = LogFile \<lparr>lf_name = ''multicloud-mongo-operator.log'', lf_max_size = vp_int v ''MaxSize'',
            lf_max_age = vp_int v ''MaxAge'', lf_max_backups = vp_int v ''MaxBackups'',
            lf_local_time = True, lf_compress = False\<rparr>;
          level = (if \<not> vp_bool v ''LogInfoLevel'' then DebugLevel else InfoLevel)
      in \<lparr>lg_cores = [(Console, level), (writer, level)], lg_caller = True, lg_caller_skip = 1,
          lg_development = True, lg_stacktrace = ErrorLevel, lg_errors_to = writer\<rparr>)"

text \<open>\<open>rotation\<close> is the rotating file or its error, which leaves no writer.\<close>

record 'f zap_options =
  zo_development :: bool
  zo_writer :: "'f option"

definition GetOptions :: "(string \<Rightarrow> int \<Rightarrow> int \<Rightarrow> gerror + 'f) \<Rightarrow> viper \<Rightarrow> 'f zap_options" where
  "GetOptions rotation v =
     (let development = (if \<not> vp_bool v ''LogInfoLevel'' then False else True);
          dest = (case rotation ''multicloud-mongo-operator.%Y%m%d.log'' (24 * 3600) 7 of Inl _ \<Rightarrow> None | Inr f \<Rightarrow> Some f)
      in \<lparr>zo_development = development, zo_writer = dest\<rparr>)"

text \<open>\<open>env\<close> is \<open>os.LookupEnv\<close>, \<open>unmarshal\<close> is \<open>Level.UnmarshalText\<close>.\<close>

definition levelFromEnv ::
    "(string \<Rightarrow> gerror + level) \<Rightarrow> (string \<Rightarrow> string option) \<Rightarrow> ('s, level) go" where
  "levelFromEnv unmarshal env = (case env ''LOG_LEVEL'' of
     None \<Rightarrow> (case env ''DEBUG'' of
         Some debug \<Rightarrow> if to_lower debug \<noteq> ''true'' then ret InfoLevel else ret DebugLevel
       | None \<Rightarrow> ret DebugLevel)
   | Some levelStr \<Rightarrow> (case unmarshal levelStr of Inl err \<Rightarrow> panic (err_text err) | Inr level \<Rightarrow> ret level))"

datatype preset = Development | Production

record zap_config =
  zc_preset :: preset
  zc_colour :: bool
  zc_level :: level

definition GetConfig :: "(string \<Rightarrow> gerror + level) \<Rightarrow> (string \<Rightarrow> string option) \<Rightarrow> ('s, zap_config) go" where
  "GetConfig unmarshal env = bindg (levelFromEnv unmarshal env) (\<lambda>level.
     ret (case level of
         DebugLevel \<Rightarrow> \<lparr>zc_preset = Development, zc_colour = True, zc_level = level\<rparr>
       | _ \<Rightarrow> \<lparr>zc_preset = Production, zc_colour = False, zc_level = level\<rparr>))"

definition Build :: "(zap_config \<Rightarrow> gerror + 'l) \<Rightarrow> zap_config \<Rightarrow> ('s, 'l) go" where
  "Build build c = (case build c of Inl err \<Rightarrow> panic (err_text err) | Inr l \<Rightarrow> ret l)"

definition IsDebug :: "('l \<Rightarrow> level \<Rightarrow> bool) \<Rightarrow> 'l \<Rightarrow> bool" where
  "IsDebug enabled log = enabled log DebugLevel"

text \<open>
  The level of the loggers is debug exactly where \<open>GetOptions\<close>, which nothing calls, would turn
  development off: the two read the setting the other way round.
\<close>

lemma options_inverted:
  "zo_development (GetOptions rotation v) \<longleftrightarrow> (\<forall>(out, level) \<in> set (lg_cores (GetLogger v)). level = InfoLevel)"
  by (auto simp: GetOptions_def GetLogger_def Let_def)

text \<open>\<open>LOG_LEVEL\<close> decides alone; without it the level is debug unless \<open>DEBUG\<close> says something else.\<close>

lemma level_without_LOG_LEVEL:
  assumes "env ''LOG_LEVEL'' = None"
  shows "GetConfig unmarshal env s = (Ok (if (case env ''DEBUG'' of None \<Rightarrow> True | Some d \<Rightarrow> to_lower d = ''true'')
      then \<lparr>zc_preset = Development, zc_colour = True, zc_level = DebugLevel\<rparr>
      else \<lparr>zc_preset = Production, zc_colour = False, zc_level = InfoLevel\<rparr>), s)"
  using assms by (auto simp: GetConfig_def levelFromEnv_def ret_def bindg_def split: option.splits)

lemma level_invalid_panics:
  "env ''LOG_LEVEL'' = Some l \<Longrightarrow> unmarshal l = Inl e \<Longrightarrow> GetConfig unmarshal env s = (Panic (err_text e), s)"
  by (simp add: GetConfig_def levelFromEnv_def bindg_def panic_def)

section \<open>Events\<close>

datatype event_type = Normal | Warning

record event =
  ev_object :: okey
  ev_type :: event_type
  ev_reason :: string
  ev_message :: string

text \<open>The state is what was handed to the recorder, oldest first.\<close>

definition record_event :: "okey \<Rightarrow> event_type \<Rightarrow> string \<Rightarrow> string \<Rightarrow> (event list, unit) go" where
  "record_event obj ty reason message = modify (\<lambda>es. es @ [\<lparr>ev_object = obj, ev_type = ty, ev_reason = reason,
     ev_message = message\<rparr>])"

definition ReconcileCREvent :: "okey \<Rightarrow> string \<Rightarrow> (event list, unit) go" where
  "ReconcileCREvent obj message = record_event obj Normal ''Reconciling'' message"

definition RsInitEvent :: "okey \<Rightarrow> string \<Rightarrow> (event list, unit) go" where
  "RsInitEvent obj message = record_event obj Normal ''rsInit'' message"

definition UserDBCreate :: "okey \<Rightarrow> string \<Rightarrow> (event list, unit) go" where
  "UserDBCreate obj message = record_event obj Normal ''userDB'' message"

definition ClusterAdminCreate :: "okey \<Rightarrow> string \<Rightarrow> (event list, unit) go" where
  "ClusterAdminCreate obj message = record_event obj Normal ''userClusterAdmin'' message"

definition ClusterMonitorCreate :: "okey \<Rightarrow> string \<Rightarrow> (event list, unit) go" where
  "ClusterMonitorCreate obj message = record_event obj Normal ''userClusterMonitor'' message"

definition CustomNormalEvent :: "okey \<Rightarrow> string \<Rightarrow> string \<Rightarrow> (event list, unit) go" where
  "CustomNormalEvent obj reason message = record_event obj Normal reason message"

definition CustomWarningEvent :: "okey \<Rightarrow> string \<Rightarrow> string \<Rightarrow> (event list, unit) go" where
  "CustomWarningEvent obj reason message = record_event obj Warning reason message"

text \<open>The event of a failed phase, in \<open>handleReturn\<close>, and of a failed restart, in \<open>checkRestart\<close>.\<close>

definition reconcile_error_event :: "mongodb \<Rightarrow> string \<Rightarrow> gerror \<Rightarrow> (event list, unit) go" where
  "reconcile_error_event cr action err = CustomWarningEvent (okey_of (OMongo cr)) ''ReconcileMongoDBError''
     (''Mongo Name: '' @ om_name (mg_meta cr) @ '', Action: '' @ action @ '', Error: '' @ err_text err)"

definition restart_error_event :: "mongodb \<Rightarrow> mongodb \<Rightarrow> gerror \<Rightarrow> (event list, unit) go" where
  "restart_error_event base_cr cr err = CustomWarningEvent (okey_of (OMongo base_cr)) ''ReconcileMongoRestartError''
     (''Restart Mongo Name: '' @ om_name (mg_meta cr) @ '', Error: '' @ err_text err)"

section \<open>The error counter\<close>

text \<open>
  The registry with the names of its collectors, the paths the mux serves, and the counter per
  namespace and name. Registering a collector or a path twice panics.
\<close>

record metrics =
  mt_collectors :: "string list"
  mt_paths :: "string list"
  mt_errors :: "(string \<times> string, nat) gomap"

definition reconcile_error_name :: string where
  "reconcile_error_name = ''mongo_operator'' @ ''_'' @ ''mongo_operator_controller'' @ ''_'' @ ''reconcile_error''"

definition PromMetrics_register :: "(metrics, unit) go" where
  "PromMetrics_register = bindg (gets mt_collectors) (\<lambda>names.
     if reconcile_error_name \<in> set names then panic ''duplicate metrics collector registration attempted''
     else modify (\<lambda>m. m\<lparr>mt_collectors := mt_collectors m @ [reconcile_error_name]\<rparr>))"

definition handle_path :: "string \<Rightarrow> (metrics, unit) go" where
  "handle_path path = bindg (gets mt_paths) (\<lambda>paths.
     if path \<in> set paths then panic (''http: multiple registrations for '' @ path)
     else modify (\<lambda>m. m\<lparr>mt_paths := mt_paths m @ [path]\<rparr>))"

definition NewPrometheusMetrics :: "string \<Rightarrow> (metrics, unit) go" where
  "NewPrometheusMetrics path = andthen PromMetrics_register (handle_path path)"

definition IncMongoReconcileError :: "string \<Rightarrow> string \<Rightarrow> (metrics, unit) go" where
  "IncMongoReconcileError namespace name = modify (\<lambda>m. m\<lparr>mt_errors :=
     AList.update (namespace, name) (gm_get 0 (mt_errors m) (namespace, name) + 1) (mt_errors m)\<rparr>)"

text \<open>The first client works; a second one on the same registry is a panic and changes nothing.\<close>

lemma metrics_registered_once:
  assumes "reconcile_error_name \<notin> set (mt_collectors m)" and "path \<notin> set (mt_paths m)"
  shows "\<exists>m'. NewPrometheusMetrics path m = (Ok (), m') \<and> mt_errors m' = mt_errors m \<and>
    NewPrometheusMetrics other m' = (Panic ''duplicate metrics collector registration attempted'', m')"
  using assms by (simp add: NewPrometheusMetrics_def PromMetrics_register_def handle_path_def bindg_def gets_def
      modify_def panic_def)

text \<open>The counter of a resource is the number of its increments.\<close>

definition inc_all :: "(string \<times> string) list \<Rightarrow> metrics \<Rightarrow> metrics" where
  "inc_all ks = fold (\<lambda>(ns, n) m. snd (IncMongoReconcileError ns n m)) ks"

lemma errors_counted: "gm_get 0 (mt_errors (inc_all ks m)) k = gm_get 0 (mt_errors m) k + count_list ks k"
proof (induction ks arbitrary: m)
  case (Cons x ks)
  obtain ns n where x: "x = (ns, n)" by fastforce
  have "inc_all (x # ks) m = inc_all ks (snd (IncMongoReconcileError ns n m))" by (simp add: inc_all_def x)
  with Cons show ?case by (simp add: x IncMongoReconcileError_def modify_def)
qed (simp add: inc_all_def)

end
