(* ===== verification/Uncalled.thy ===== *)
theory Uncalled
  imports Go_Prelude
begin

text \<open>
  Helpers that nothing in the program calls, but for a test: \<open>updateCluster\<close> of \<open>k8s/client.go\<close> and
  \<open>AddRandSuffix\<close> of \<open>util/rand.go\<close>.
\<close>

section \<open>Clusters that serve an index\<close>

definition serve_entry :: "int \<Rightarrow> string \<Rightarrow> string \<Rightarrow> (int, string list) gomap \<Rightarrow> (int, string list) gomap" where
  "serve_entry i cluster serviceCluster result =
     (if cluster = serviceCluster then if \<not> gm_has result i then AList.update i [cluster] result else result
      else result)"

definition serve_services ::
    "int \<Rightarrow> string \<Rightarrow> (string, string list) gomap \<Rightarrow> (int, string list) gomap \<Rightarrow> (int, string list) gomap" where
  "serve_services i cluster services = fold (\<lambda>(_, serviceClusters). fold (serve_entry i cluster) serviceClusters) services"

text \<open>
  \<open>range_ids\<close> is the order of the outer range, \<open>range_services i j\<close> that of the range over the services for
  the cluster at position \<open>j\<close> of index \<open>i\<close>: every such range picks an order of its own.
\<close>

definition updateCluster ::
    "((int \<times> string list) list \<Rightarrow> (int \<times> string list) list) \<Rightarrow>
     (int \<Rightarrow> nat \<Rightarrow> (string \<times> string list) list \<Rightarrow> (string \<times> string list) list) \<Rightarrow>
     (int, string list) gomap \<Rightarrow> (string, string list) gomap \<Rightarrow> (int, string list) gomap" where
  "updateCluster range_ids range_services upsertCluster serviceNameWithCluster =
     fold (\<lambda>(i, clusters). fold (\<lambda>(j, cluster). serve_services i cluster (range_services i j serviceNameWithCluster))
             (enumerate 0 clusters))
       (range_ids upsertCluster) []"

definition served :: "(string, string list) gomap \<Rightarrow> string \<Rightarrow> bool" where
  "served services cluster \<longleftrightarrow> (\<exists>(_, cs) \<in> set services. cluster \<in> set cs)"

lemma serve_entries_lookup:
  "map_of (fold (serve_entry i c) cs r) =
     (if c \<in> set cs \<and> map_of r i = None then (map_of r)(i \<mapsto> [c]) else map_of r)"
  by (induction cs arbitrary: r) (auto simp: serve_entry_def gm_has_def update_conv')

lemma serve_services_lookup:
  "map_of (serve_services i c services r) =
     (if served services c \<and> map_of r i = None then (map_of r)(i \<mapsto> [c]) else map_of r)"
  unfolding serve_services_def
proof (induction services arbitrary: r)
  case (Cons x services)
  then show ?case by (auto simp: serve_entries_lookup served_def split: prod.splits)
qed (simp add: served_def)

text \<open>Which cluster an index gets, with the lookups in any order.\<close>

lemma serve_clusters_lookup:
  assumes "\<And>j. served (f j) = served services"
  shows "map_of (fold (\<lambda>(j, c). serve_services i c (f j)) (enumerate n cs) r) =
    (if map_of r i = None then (case find (served services) cs of None \<Rightarrow> map_of r | Some c \<Rightarrow> (map_of r)(i \<mapsto> [c]))
     else map_of r)"
  by (induction cs arbitrary: n r) (auto simp: serve_services_lookup assms split: option.splits)

lemma served_order: "iteration_order p \<Longrightarrow> served (p services) = served services"
  by (simp add: served_def fun_eq_iff iteration_order_set)

text \<open>
  Each index gets the first of its clusters that serves some service, alone; an index without one is
  left out. The orders of the ranges do not matter.
\<close>

lemma updateCluster_spec:
  assumes "wf_gomap upsert" and ids: "iteration_order range_ids" and "\<And>i j. iteration_order (range_services i j)"
  shows "map_of (updateCluster range_ids range_services upsert services) i =
    Option.bind (map_of upsert i) (\<lambda>cs. map_option (\<lambda>c. [c]) (find (served services) cs))"
proof -
  let ?step = "\<lambda>(i, cs). fold (\<lambda>(j, c). serve_services i c (range_services i j services)) (enumerate 0 cs)"
  have all: "map_of (fold ?step xs r) i = (case map_of r i of Some z \<Rightarrow> Some z
      | None \<Rightarrow> Option.bind (map_of xs i) (\<lambda>cs. map_option (\<lambda>c. [c]) (find (served services) cs)))"
    if "distinct (map fst xs)" for xs :: "(int \<times> string list) list" and r
    using that
  proof (induction xs arbitrary: r)
    case (Cons x xs)
    obtain k cs where x: "x = (k, cs)" by fastforce
    have "map_of xs k = None" using Cons.prems by (simp add: x map_of_eq_None_iff)
    with Cons show ?case
      by (auto simp: x serve_clusters_lookup[OF served_order[OF assms(3)]] split: option.splits)
  qed (simp split: option.splits)
  have perm: "mset (range_ids upsert) = mset upsert" using ids by (simp add: iteration_order_def)
  have "distinct (map fst (range_ids upsert))"
    using assms(1) perm unfolding wf_gomap_def by (metis mset_eq_imp_distinct_iff mset_map)
  moreover have "map_of (range_ids upsert) = map_of upsert"
    using calculation assms(1) perm unfolding wf_gomap_def by (metis map_of_inject_set set_mset_mset)
  ultimately show ?thesis using all[of "range_ids upsert" "[]"] by (simp add: updateCluster_def)
qed

section \<open>Names with a random suffix\<close>

definition RANDOM_SUFFIX_LEN :: nat where
  "RANDOM_SUFFIX_LEN = 10"

definition MAX_NAME_LEN :: nat where
  "MAX_NAME_LEN = 63 - RANDOM_SUFFIX_LEN - 1"

text \<open>\<open>random n\<close> is the string of \<open>n\<close> characters that the Kubernetes utility returns.\<close>

definition AddRandSuffix :: "(nat \<Rightarrow> string) \<Rightarrow> string \<Rightarrow> string" where
  "AddRandSuffix random name =
     (let suffix = random RANDOM_SUFFIX_LEN;
          name = (if length name > MAX_NAME_LEN then take MAX_NAME_LEN name else name)
      in name @ ''-'' @ suffix)"

text \<open>The result is a valid length for a Kubernetes name, and a name that is short enough is not cut.\<close>

lemma AddRandSuffix_length:
  assumes "length (random RANDOM_SUFFIX_LEN) = RANDOM_SUFFIX_LEN"
  shows "length (AddRandSuffix random name) \<le> 63"
    and "length name \<le> 52 \<Longrightarrow> AddRandSuffix random name = name @ ''-'' @ random RANDOM_SUFFIX_LEN"
  using assms by (auto simp: AddRandSuffix_def Let_def MAX_NAME_LEN_def RANDOM_SUFFIX_LEN_def)

end
