(* ===== verification/Spec2Isabelle.thy ===== *)
theory Spec2Isabelle
  imports Composition Isolation_Laws Cloud_Footprint Member_Laws Shell_Text Exec_Timeout Startup
    Observability Uncalled
begin

text \<open>
  A verification library for fedstate, the operator that runs MongoDB replica sets across the member
  clusters of a Karmada federation (Go, module github.com/fedstate/fedstate).

  \<^bold>\<open>The program.\<close> One binary holds two controllers. On the control plane the MultiCloudMongoDB controller
  (\<open>controllers/multicloudmongodb_controller.go\<close>) runs a chain of handlers
  (\<open>pkg/controller/multicloudmongodb/core.go\<close>): it reads the scheduler's result from an annotation, plans
  how many members each cluster gets, writes services, a host ConfigMap and a MongoDB resource with the
  Karmada policies that bring them to the clusters, and collects the status the clusters report. On each
  member cluster the MongoDB controller (\<open>controllers/mongodb_controller.go\<close>, \<open>pkg/controller/mongodb\<close>) turns
  the MongoDB resource, the services and the host ConfigMap into one stateful set per service, initiates
  the replica set, adds and removes its members, creates the users, restarts the pods when resources
  change and repairs the set after a failure. Admission webhooks default and validate both resources.

  \<^bold>\<open>How it is modelled.\<close> Structs are records, tagged unions datatypes, \<open>int32\<close> fields words of 32 bits read
  with \<open>sint\<close>, \<open>int\<close> values of the 64-bit program are integers (their counts are lengths of lists and
  numbers of members, far from the bound), strings byte strings. A Go map is an association list with
  distinct keys; where the program ranges over one, the order is a parameter. A nil and an empty slice are
  one value, except where the program tells them apart. A function that may fail is
  \<open>('s, 'a) go = 's \<Rightarrow> 'a outcome \<times> 's\<close> with \<open>Ok\<close>, \<open>Err\<close> for a non-nil error and \<open>Panic\<close> for a nil dereference, an
  index out of range or an explicit panic; \<open>attempt\<close> catches an error for the caller that handles it, and
  \<open>with_defer\<close> runs a deferred call. Logging, events, metrics, contexts and sleeps have no step in the
  controllers, as nothing in the program reads their effect.

  \<^bold>\<open>What is a parameter.\<close> The API server (record \<open>client\<close>, laws in the locale \<open>kube_api\<close>: what is documented of
  get, list, create, update, status update, delete and owner references; any call may fail), the
  database and its driver (record \<open>mongo\<close>, locale \<open>replica_set\<close>), remote execution (\<open>md_exec\<close>, whose answers are
  arbitrary), JSON decoding, hashing, quantity parsing, sorting of equal elements, map orders and random
  bytes (records \<open>runtime\<close> and \<open>benv\<close>), the manager and the certificate rotators, each of which closes the
  channel it is given once its certificates are ready (record \<open>startup_env\<close>). Both locales are interpreted
  on servers in memory (\<open>Mem_Server\<close>, \<open>Mongo_Driver\<close>), so their laws hold of something, and the witnesses run
  on those. A reconciliation is
  sequential and its worlds change only through its own calls: another writer shows up as a failing call
  (a conflict), not between two calls of a proof.

  \<^bold>\<open>Shared.\<close> \<open>Go_Prelude\<close> (outcomes, combinators, the frame predicate \<open>keeps\<close> and its rules), \<open>Go_Strings\<close>
  (split, suffixes, decimal numbers, formats), \<open>Api_Types\<close> (the resources of \<open>api/v1alpha1\<close>, the Kubernetes
  and Karmada objects, their keys), \<open>Samples\<close> and \<open>Plane_Samples\<close> (concrete states of the witnesses).

  \<^bold>\<open>Control plane.\<close>
  \<^item> \<open>Labels\<close> (\<open>k8s/label.go\<close>, \<open>core/label.go\<close>): which selectors the generated label sets satisfy.
  \<^item> \<open>Conditions\<close> (\<open>condition.go\<close>, \<open>core/status.go\<close>): two instances of one contract, \<open>condition_store\<close>.
  \<^item> \<open>Kube_Client\<close>, \<open>Client_Laws\<close> (\<open>k8s/client.go\<close>, parts of \<open>k8s/obj.go\<close> and \<open>karmada/obj.go\<close>): the ensure and
    upsert helpers; Ensure never overwrites, the upserts reach the given object.
  \<^item> \<open>Generators\<close> (\<open>k8s/obj.go\<close>, \<open>karmada/obj.go\<close>): services, ConfigMap, MongoDB, policies.
  \<^item> \<open>Scale_Plan\<close>, \<open>Scale_Down\<close> (\<open>ClusterScaleHandler\<close>, \<open>ScaleDownCleaner\<close>): which clusters grow and shrink,
    which index each new service gets, what the cleaner may delete; the host configuration round trip.
  \<^item> \<open>Handlers\<close>, \<open>Handler_Laws\<close> (\<open>core.go\<close>): the chain, its early ends, conditions and the collected status.
  \<^item> \<open>Multi_Cloud_Controller\<close>: reconciliation with finalizer, clean-up and requeue.
  \<^item> \<open>Cloud_Footprint\<close>: what a whole round can change: the objects named after its resource or labelled with
    its name. The labels do not hold the namespace, so this takes in policies of namesakes elsewhere.

  \<^bold>\<open>Data plane.\<close> The state \<open>bstate\<close> has the resource the base works on (\<open>b_cr\<close>), the one the reconciler still
  holds after \<open>refreshCR\<close> repointed the former (\<open>b_held\<close>), and the two worlds.
  \<^item> \<open>Replset_Members\<close> (\<open>mgo/member.go\<close>, \<open>core/replset_member.go\<close>, \<open>core/configmap.go\<close>): merging, removing and
    reading member lists.
  \<^item> \<open>Pod_Util\<close> (\<open>core/pod_util.go\<close>, \<open>core/pod.go\<close>), \<open>Resource_Builder\<close> (\<open>core/resource_builder.go\<close>),
    \<open>Webhooks\<close> (both webhooks, and histories of admitted updates).
  \<^item> \<open>Mongo_Driver\<close> (\<open>mgo/mongo.go\<close>): adding and removing members refines union and difference on hosts.
  \<^item> \<open>Mongo_Base\<close> (\<open>core/base.go\<close>, \<open>ensure.go\<close>, \<open>status.go\<close>, \<open>revision.go\<close>), \<open>Mongo_Config\<close> (\<open>mongo_config.go\<close>,
    \<open>mongo_user.go\<close>, \<open>mgo/script.go\<close>), \<open>Mongo_Sync\<close> (\<open>sync.go\<close>), \<open>Mongo_Replica\<close> (\<open>mode/replica\<close>),
    \<open>Mongo_Controller\<close>: every operation from the reconciler down.
  \<^item> \<open>Plane_Frame\<close>: which stored objects an operation can touch (locale \<open>plane_api\<close>, rules \<open>frame_intros\<close>).
    On it rest \<open>Restart_Laws\<close> (the restart machine: pods deleted and states passed), \<open>Sync_Laws\<close> (shrinking: exactly
    which objects go),
    \<open>Growth_Laws\<close> (growing, secrets), \<open>Reconcile_Laws\<close> (requeue), \<open>Deletion_Laws\<close> (rounds of a deletion, as an
    inductive relation), \<open>Repair_Laws\<close> (health checks and repair), \<open>Member_Laws\<close> (joining the replica
    set) and \<open>Isolation_Laws\<close> (what a whole round can change, from the reconciler down: its own resource, and
    stateful sets, services, secrets and pods of its namespace).
  \<^item> \<open>Result_Frames\<close>: frames that also speak of the answer (\<open>yields\<close>), so that what a call may touch can depend
    on what an earlier list or lookup returned. \<open>Isolation_Laws\<close> and \<open>Cloud_Footprint\<close> rest on it.

  \<^bold>\<open>Between them.\<close> \<open>Composition\<close> follows a generated MongoDB, the planned services and the metrics services
  from one controller to the other. \<open>Shell_Text\<close> has the texts other programs read: commands under a shell,
  the exporter URI, generated passwords. \<open>Exec_Timeout\<close> has the time limit of remote commands as a step
  relation. \<open>Startup\<close> has \<open>main.go\<close>: one sequence up to the point where the goroutine and the certificate
  rotators run beside it, and a step relation from there. \<open>Observability\<close> has loggers, events and the error counter, and \<open>Uncalled\<close> the
  helpers without a caller that are more than a library call.

  \<^bold>\<open>Bounds.\<close> Loops over lists are structural; the naming loop of the scale handler has a measure. \<open>wait.Poll\<close>
  has the fuel \<open>e_polls\<close>, the number of times its condition is asked before the library gives up: a finite
  number in the program too (interval and time-out are constants), and no theorem depends on it.
  Identifiers of members are unbounded integers.

  \<^bold>\<open>Not modelled.\<close> Generated code (\<open>zz_generated.deepcopy.go\<close>: a copy of a value is the value), scheme
  registration, test suites; writers and encoders of logs, the metrics server; what viper makes of the
  environment (its answers are arguments); where in a round events are recorded and the counter is increased; \<open>execute\<close> and \<open>GetConfig\<close> of \<open>k8s/exec.go\<close>, which only call libraries; which objects a
  controller watches beside its own (\<open>SetupWithManager\<close>), but for the annotation filter in \<open>Startup\<close>.
  \<open>GetJob\<close> of \<open>k8s/client.go\<close> and \<open>DeleteObj\<close> of \<open>karmada/obj.go\<close>, one library call each, have no caller and
  are left out. Data races, such as the one between \<open>ExecCmd\<close> and its goroutine,
  are not in the value semantics used here.
\<close>

end
